(* ===== verification/Prelude.thy ===== *)
theory Prelude
  imports Main "HOL-Library.Sublist"
begin

text \<open>
  The vocabulary shared by every component: the exceptions the Python code can meet, the effect
  type of a Python statement, sequencing and loops, and the two judgements the component proofs
  are phrased in (a statement keeps a state predicate; a statement always returns).

  A Python statement that runs in a state of type \<open>'s\<close> and yields a value of type \<open>'a\<close> is a
  function \<open>'s \<Rightarrow> ('a res \<times> 's) option\<close>: \<open>Some (Ret x, t)\<close> is a normal end, \<open>Some (Exc e, t)\<close>
  an exception that left the effects of \<open>t\<close> behind, and \<open>None\<close> a statement that never returns
  (an endless loop, or a read that blocks forever).
\<close>

section \<open>Exceptions and outcomes\<close>

text \<open>
  The exception classes that the modelled statements raise, with the message where the code
  (or the documented library message) fixes it. \<open>BinasciiError\<close> is \<open>binascii.Error\<close>.
\<close>

datatype exn =
    ValueError string
  | BinasciiError string
  | KeyError string
  | IndexError
  | EOFError
  | OSError string
  | FileNotFoundError string
  | BrokenPipeError
  | TimeoutExpired
  | SystemExit

datatype 'a res = Ret 'a | Exc exn

type_synonym ('s, 'a) py = "'s \<Rightarrow> ('a res \<times> 's) option"

section \<open>Statements and their composition\<close>

definition ret :: "'a \<Rightarrow> ('s, 'a) py" where
  "ret x = (\<lambda>s. Some (Ret x, s))"

definition raise :: "exn \<Rightarrow> ('s, 'a) py" where
  "raise e = (\<lambda>s. Some (Exc e, s))"

definition bnd :: "('s, 'a) py \<Rightarrow> ('a \<Rightarrow> ('s, 'b) py) \<Rightarrow> ('s, 'b) py" where
  "bnd m k = (\<lambda>s. Option.bind (m s) (\<lambda>(r, t).
     case r of Ret x \<Rightarrow> k x t | Exc e \<Rightarrow> Some (Exc e, t)))"

definition andthen :: "('s, 'a) py \<Rightarrow> ('s, 'b) py \<Rightarrow> ('s, 'b) py" where
  "andthen m k = bnd m (\<lambda>_. k)"

definition gets :: "('s \<Rightarrow> 'a) \<Rightarrow> ('s, 'a) py" where
  "gets f = (\<lambda>s. Some (Ret (f s), s))"

definition modify :: "('s \<Rightarrow> 's) \<Rightarrow> ('s, unit) py" where
  "modify f = (\<lambda>s. Some (Ret (), f s))"

text \<open>The statement \<open>try: m except FileNotFoundError: h\<close> and its kin: \<open>h\<close> selects by the exception.\<close>

definition try_except :: "('s, 'a) py \<Rightarrow> (exn \<Rightarrow> ('s, 'a) py option) \<Rightarrow> ('s, 'a) py" where
  "try_except m h = (\<lambda>s. Option.bind (m s) (\<lambda>(r, t).
     case r of Ret x \<Rightarrow> Some (Ret x, t)
             | Exc e \<Rightarrow> (case h e of None \<Rightarrow> Some (Exc e, t) | Some k \<Rightarrow> k t)))"

text \<open>A value or an exception computed by a pure library call.\<close>

definition lift_res :: "exn + 'a \<Rightarrow> ('s, 'a) py" where
  "lift_res r = (case r of Inl e \<Rightarrow> raise e | Inr x \<Rightarrow> ret x)"

text \<open>\<open>for x in xs: body(x)\<close>, and the loop \<open>for _ in range(n): body\<close>.\<close>

fun for_each :: "'x list \<Rightarrow> ('x \<Rightarrow> ('s, unit) py) \<Rightarrow> ('s, unit) py" where
  "for_each [] body = ret ()"
| "for_each (x # xs) body = andthen (body x) (for_each xs body)"

definition for_range :: "nat \<Rightarrow> ('s, unit) py \<Rightarrow> ('s, unit) py" where
  "for_range n body = for_each [0..<n] (\<lambda>_. body)"

text \<open>
  A loop that carries a variable \<open>a\<close>, assigned by its body; and the operator \<open>b and m\<close>, which
  runs \<open>m\<close> only when \<open>b\<close> is true.
\<close>

fun fold_each :: "'x list \<Rightarrow> ('x \<Rightarrow> 'a \<Rightarrow> ('s, 'a) py) \<Rightarrow> 'a \<Rightarrow> ('s, 'a) py" where
  "fold_each [] body a = ret a"
| "fold_each (x # xs) body a = bnd (body x a) (fold_each xs body)"

definition and_also :: "bool \<Rightarrow> ('s, bool) py \<Rightarrow> ('s, bool) py" where
  "and_also b m = (if b then m else ret False)"

text \<open>\<open>[f(x) for x in xs]\<close>.\<close>

fun map_each :: "('x \<Rightarrow> ('s, 'y) py) \<Rightarrow> 'x list \<Rightarrow> ('s, 'y list) py" where
  "map_each f [] = ret []"
| "map_each f (x # xs) = bnd (f x) (\<lambda>y. bnd (map_each f xs) (\<lambda>ys. ret (y # ys)))"

text \<open>\<open>d[k]\<close> on a dict whose values the caller reads.\<close>

definition dict_get :: "(string \<rightharpoonup> 'v) \<Rightarrow> string \<Rightarrow> ('s, 'v) py" where
  "dict_get d k = (case d k of None \<Rightarrow> raise (KeyError k) | Some v \<Rightarrow> ret v)"

text \<open>\<open>xs[i]\<close> for a non-negative index.\<close>

definition list_get :: "'v list \<Rightarrow> nat \<Rightarrow> ('s, 'v) py" where
  "list_get xs i = (if i < length xs then ret (xs ! i) else raise IndexError)"

section \<open>Equations for evaluation and proof\<close>

named_theorems py_eqs \<open>equations that run a statement\<close>

lemma ret_app [py_eqs]: "ret x s = Some (Ret x, s)"
  by (simp add: ret_def)

lemma raise_app [py_eqs]: "raise e s = Some (Exc e, s)"
  by (simp add: raise_def)

lemma gets_app [py_eqs]: "gets f s = Some (Ret (f s), s)"
  by (simp add: gets_def)

lemma modify_app [py_eqs]: "modify f s = Some (Ret (), f s)"
  by (simp add: modify_def)

lemma bnd_app [py_eqs]:
  "bnd m k s = (case m s of None \<Rightarrow> None
     | Some (Ret x, t) \<Rightarrow> k x t | Some (Exc e, t) \<Rightarrow> Some (Exc e, t))"
  by (auto simp: bnd_def split: option.splits res.splits)

lemma andthen_app [py_eqs]:
  "andthen m k s = (case m s of None \<Rightarrow> None
     | Some (Ret x, t) \<Rightarrow> k t | Some (Exc e, t) \<Rightarrow> Some (Exc e, t))"
  by (simp add: andthen_def bnd_app)

lemma lift_res_simps [simp]:
  "lift_res (Inr x) = ret x" "lift_res (Inl e) = raise e"
  by (simp_all add: lift_res_def)

lemma bnd_ret [simp]: "bnd (ret x) k = k x"
  by (rule ext) (simp add: py_eqs)

lemma bnd_raise [simp]: "bnd (raise e) k = raise e"
  by (rule ext) (simp add: py_eqs)

lemma andthen_ret [simp]: "andthen (ret x) k = k"
  by (simp add: andthen_def)

lemma andthen_raise [simp]: "andthen (raise e) k = raise e"
  by (simp add: andthen_def)

lemma bnd_assoc: "bnd (bnd m f) g = bnd m (\<lambda>x. bnd (f x) g)"
  by (rule ext) (auto simp: py_eqs split: option.splits res.splits prod.splits)

lemma bnd_Ret_iff:
  "bnd m k s = Some (Ret y, u) \<longleftrightarrow> (\<exists>x t. m s = Some (Ret x, t) \<and> k x t = Some (Ret y, u))"
  by (auto simp: py_eqs split: option.splits res.splits)

lemma andthen_Ret_iff:
  "andthen m k s = Some (Ret y, u) \<longleftrightarrow> (\<exists>x t. m s = Some (Ret x, t) \<and> k t = Some (Ret y, u))"
  by (simp add: andthen_def bnd_Ret_iff)

lemma bndE:
  assumes "bnd m k s = Some (r, t)"
  obtains (Ret) x u where "m s = Some (Ret x, u)" and "k x u = Some (r, t)"
  | (Exc) e where "m s = Some (Exc e, t)" and "r = Exc e"
  using assms by (auto simp: py_eqs split: option.splits res.splits)

lemma try_except_app [py_eqs]:
  "try_except m h s = (case m s of None \<Rightarrow> None | Some (Ret x, t) \<Rightarrow> Some (Ret x, t)
     | Some (Exc e, t) \<Rightarrow> (case h e of None \<Rightarrow> Some (Exc e, t) | Some k \<Rightarrow> k t))"
  by (auto simp: try_except_def split: option.splits res.splits)

lemma try_exceptE:
  assumes "try_except m h s = Some (r, t)"
  obtains (Ret) x where "m s = Some (Ret x, t)" and "r = Ret x"
  | (Pass) e where "m s = Some (Exc e, t)" and "h e = None" and "r = Exc e"
  | (Handle) e k u where "m s = Some (Exc e, u)" and "h e = Some k" and "k u = Some (r, t)"
  using assms by (auto simp: py_eqs split: option.splits res.splits)

lemma for_each_append:
  "for_each (xs @ ys) body = andthen (for_each xs body) (for_each ys body)"
  by (induction xs) (auto simp: andthen_def bnd_assoc)

lemma for_range_0 [simp]: "for_range 0 body = ret ()"
  by (simp add: for_range_def)

lemma for_each_const:
  "for_each xs (\<lambda>_. body) = for_each ys (\<lambda>_. body)" if "length xs = length ys"
  using that by (induction xs ys rule: list_induct2) auto

lemma for_range_Suc: "for_range (Suc n) body = andthen body (for_range n body)"
proof -
  have "for_range (Suc n) body = for_each (0 # [0..<n]) (\<lambda>_. body)"
    unfolding for_range_def by (rule for_each_const) simp
  then show ?thesis by (simp add: for_range_def)
qed

text \<open>Sequencing is monotone, so \<open>partial_function (option)\<close> accepts recursive calls under it.\<close>

lemma bnd_mono [partial_function_mono]:
  assumes "\<And>s. mono_option (\<lambda>f. m f s)" and "\<And>x s. mono_option (\<lambda>f. k f x s)"
  shows "mono_option (\<lambda>f. bnd (m f) (k f) s)"
  unfolding bnd_def
proof (rule bind_mono [OF assms(1)])
  fix y
  show "mono_option (\<lambda>f. (\<lambda>(r, t). case r of Ret x \<Rightarrow> k f x t | Exc e \<Rightarrow> Some (Exc e, t)) y)"
    by (cases y; cases "fst y") (auto intro: assms(2) option.const_mono)
qed

lemma andthen_mono [partial_function_mono]:
  assumes "\<And>s. mono_option (\<lambda>f. m f s)" and "\<And>s. mono_option (\<lambda>f. k f s)"
  shows "mono_option (\<lambda>f. andthen (m f) (k f) s)"
  unfolding andthen_def by (rule bnd_mono) (rule assms)+

lemma if_app_mono [partial_function_mono]:
  assumes "mono_option (\<lambda>f. m f s)" and "mono_option (\<lambda>f. k f s)"
  shows "mono_option (\<lambda>f. (if b then m f else k f) s)"
  using assms by (cases b) simp_all

section \<open>Statements that keep a predicate\<close>

text \<open>
  \<open>keeps I m\<close>: whatever way \<open>m\<close> ends, normally or by an exception, it leaves a state where \<open>I\<close>
  holds if it started in one. The rules decompose a statement along its syntax.
\<close>

definition keeps :: "('s \<Rightarrow> bool) \<Rightarrow> ('s, 'a) py \<Rightarrow> bool" where
  "keeps I m \<longleftrightarrow> (\<forall>s r t. I s \<longrightarrow> m s = Some (r, t) \<longrightarrow> I t)"

named_theorems keeps_rules \<open>introduction rules for \<open>keeps\<close>\<close>

lemma keepsI: "(\<And>s r t. I s \<Longrightarrow> m s = Some (r, t) \<Longrightarrow> I t) \<Longrightarrow> keeps I m"
  by (auto simp: keeps_def)

lemma keepsD: "keeps I m \<Longrightarrow> I s \<Longrightarrow> m s = Some (r, t) \<Longrightarrow> I t"
  by (auto simp: keeps_def)

lemma keeps_ret [keeps_rules]: "keeps I (ret x)"
  by (auto simp: keeps_def py_eqs)

lemma keeps_raise [keeps_rules]: "keeps I (raise e)"
  by (auto simp: keeps_def py_eqs)

lemma keeps_gets [keeps_rules]: "keeps I (gets f)"
  by (auto simp: keeps_def py_eqs)

lemma keeps_modify: "(\<And>s. I s \<Longrightarrow> I (f s)) \<Longrightarrow> keeps I (modify f)"
  by (auto simp: keeps_def py_eqs)

lemma keeps_bnd [keeps_rules]: "keeps I m \<Longrightarrow> (\<And>x. keeps I (k x)) \<Longrightarrow> keeps I (bnd m k)"
  by (rule keepsI) (erule bndE; blast dest: keepsD)

text \<open>The same with what the first statement can yield.\<close>

lemma keeps_bnd_yield:
  "keeps I m \<Longrightarrow> (\<And>s x t. m s = Some (Ret x, t) \<Longrightarrow> keeps I (k x)) \<Longrightarrow> keeps I (bnd m k)"
  by (rule keepsI) (erule bndE; blast dest: keepsD)

lemma keeps_andthen [keeps_rules]: "keeps I m \<Longrightarrow> keeps I k \<Longrightarrow> keeps I (andthen m k)"
  by (simp add: andthen_def keeps_bnd)

lemma keeps_if [keeps_rules]:
  "(b \<Longrightarrow> keeps I m) \<Longrightarrow> (\<not> b \<Longrightarrow> keeps I k) \<Longrightarrow> keeps I (if b then m else k)"
  by simp

lemma keeps_lift_res [keeps_rules]: "keeps I (lift_res r)"
  by (simp add: lift_res_def keeps_rules split: sum.splits)

lemma keeps_dict_get [keeps_rules]: "keeps I (dict_get d k)"
  by (simp add: dict_get_def keeps_rules split: option.splits)

lemma keeps_list_get [keeps_rules]: "keeps I (list_get xs i)"
  by (simp add: list_get_def keeps_rules)

lemma keeps_for_each [keeps_rules]:
  "(\<And>x. x \<in> set xs \<Longrightarrow> keeps I (body x)) \<Longrightarrow> keeps I (for_each xs body)"
  by (induction xs) (auto intro!: keeps_rules)

lemma keeps_fold_each [keeps_rules]:
  "(\<And>x a. x \<in> set xs \<Longrightarrow> keeps I (body x a)) \<Longrightarrow> keeps I (fold_each xs body a)"
  by (induction xs arbitrary: a) (auto intro!: keeps_rules)

lemma keeps_and_also [keeps_rules]: "keeps I m \<Longrightarrow> keeps I (and_also b m)"
  by (simp add: and_also_def keeps_rules)

lemma keeps_map_each [keeps_rules]:
  "(\<And>x. x \<in> set xs \<Longrightarrow> keeps I (f x)) \<Longrightarrow> keeps I (map_each f xs)"
  by (induction xs) (auto intro!: keeps_rules)

lemma keeps_for_range [keeps_rules]: "keeps I body \<Longrightarrow> keeps I (for_range n body)"
  by (simp add: for_range_def keeps_rules)

lemma keeps_try_except [keeps_rules]:
  "keeps I m \<Longrightarrow> (\<And>e k. h e = Some k \<Longrightarrow> keeps I k) \<Longrightarrow> keeps I (try_except m h)"
  by (rule keepsI) (erule try_exceptE; blast dest: keepsD)

section \<open>Statements that return\<close>

text \<open>\<open>returns m\<close>: from every state, \<open>m\<close> ends, normally or by an exception.\<close>

definition returns :: "('s, 'a) py \<Rightarrow> bool" where
  "returns m \<longleftrightarrow> (\<forall>s. \<exists>r t. m s = Some (r, t))"

lemma returnsD: "returns m \<Longrightarrow> \<exists>r t. m s = Some (r, t)"
  by (simp add: returns_def)

named_theorems returns_rules \<open>introduction rules for \<open>returns\<close>\<close>

lemma returns_ret [returns_rules]: "returns (ret x)"
  by (simp add: returns_def py_eqs)

lemma returns_raise [returns_rules]: "returns (raise e)"
  by (simp add: returns_def py_eqs)

lemma returns_gets [returns_rules]: "returns (gets f)"
  by (simp add: returns_def py_eqs)

lemma returns_modify [returns_rules]: "returns (modify f)"
  by (simp add: returns_def py_eqs)

lemma returns_bnd [returns_rules]:
  assumes "returns m" and "\<And>x. returns (k x)"
  shows "returns (bnd m k)"
  unfolding returns_def
proof
  fix s
  obtain r t where "m s = Some (r, t)" using returnsD [OF assms(1)] by blast
  then show "\<exists>r t. bnd m k s = Some (r, t)"
    using returnsD [OF assms(2)] by (cases r) (simp_all add: py_eqs)
qed

lemma returns_andthen [returns_rules]: "returns m \<Longrightarrow> returns k \<Longrightarrow> returns (andthen m k)"
  by (simp add: andthen_def returns_bnd)

lemma returns_if [returns_rules]:
  "(b \<Longrightarrow> returns m) \<Longrightarrow> (\<not> b \<Longrightarrow> returns k) \<Longrightarrow> returns (if b then m else k)"
  by simp

lemma returns_lift_res [returns_rules]: "returns (lift_res r)"
  by (simp add: lift_res_def returns_rules split: sum.splits)

lemma returns_dict_get [returns_rules]: "returns (dict_get d k)"
  by (simp add: dict_get_def returns_rules split: option.splits)

lemma returns_list_get [returns_rules]: "returns (list_get xs i)"
  by (simp add: list_get_def returns_rules)

lemma returns_for_each [returns_rules]:
  "(\<And>x. x \<in> set xs \<Longrightarrow> returns (body x)) \<Longrightarrow> returns (for_each xs body)"
  by (induction xs) (auto intro!: returns_rules)

lemma returns_fold_each [returns_rules]:
  "(\<And>x a. x \<in> set xs \<Longrightarrow> returns (body x a)) \<Longrightarrow> returns (fold_each xs body a)"
  by (induction xs arbitrary: a) (auto intro!: returns_rules)

lemma returns_and_also [returns_rules]: "returns m \<Longrightarrow> returns (and_also b m)"
  by (simp add: and_also_def returns_rules)

lemma returns_map_each [returns_rules]:
  "(\<And>x. x \<in> set xs \<Longrightarrow> returns (f x)) \<Longrightarrow> returns (map_each f xs)"
  by (induction xs) (auto intro!: returns_rules)

lemma returns_for_range [returns_rules]: "returns body \<Longrightarrow> returns (for_range n body)"
  by (simp add: for_range_def returns_rules)

lemma returns_try_except [returns_rules]:
  assumes "returns m" and "\<And>e k. h e = Some k \<Longrightarrow> returns k"
  shows "returns (try_except m h)"
  unfolding returns_def
proof
  fix s
  obtain r t where "m s = Some (r, t)" using returnsD [OF assms(1)] by blast
  then show "\<exists>r t. try_except m h s = Some (r, t)"
    using returnsD [OF assms(2)] by (cases r) (auto simp: py_eqs split: option.splits)
qed

section \<open>Interfaces\<close>

text \<open>A reversible encoding: what one side writes, the other side reads back.\<close>

locale codec =
  fixes enc :: "'a \<Rightarrow> 'b"
    and dec :: "'b \<Rightarrow> 'a option"
  assumes dec_enc: "dec (enc x) = Some x"
begin

lemma enc_inj: "inj enc"
  by (rule injI) (metis dec_enc option.inject)

lemma enc_eq_iff: "enc x = enc y \<longleftrightarrow> x = y"
  using enc_inj by (auto dest: injD)

end

end
