(* ===== verification/Py_Str.thy ===== *)
theory Py_Str
  imports Prelude
begin

text \<open>
  The part of Python's \<open>str\<close> and \<open>int\<close> that the code uses, over strings as lists of code points
  below 256: \<open>str(n)\<close>, \<open>int(s)\<close>, \<open>s.startswith(p)\<close>, \<open>p in s\<close>, \<open>s.rstrip()\<close>, \<open>s.split()\<close> and
  \<open>sep.join(xs)\<close>. The lemmas give each operation its meaning: \<open>int\<close> undoes \<open>str\<close>, \<open>in\<close> is the
  substring relation, \<open>split\<close> undoes joining words by blanks.
\<close>

section \<open>Decimal numerals\<close>

definition digit_char :: "nat \<Rightarrow> char" where
  "digit_char d = char_of (48 + d)"

fun str_nat :: "nat \<Rightarrow> string" where
  "str_nat n = (if n < 10 then [digit_char n] else str_nat (n div 10) @ [digit_char (n mod 10)])"

declare str_nat.simps [simp del]

definition str_int :: "int \<Rightarrow> string" where
  "str_int i = (if i < 0 then CHR ''-'' # str_nat (nat (- i)) else str_nat (nat i))"

definition digit_val :: "char \<Rightarrow> nat option" where
  "digit_val c = (let n = of_char c :: nat in if 48 \<le> n \<and> n \<le> 57 then Some (n - 48) else None)"

text \<open>
  \<open>int(s)\<close>: blanks around the numeral are ignored, one sign is allowed, and single underscores
  may stand between two digits. The error value carries the fixed part of the message.
\<close>

definition int_space :: "char \<Rightarrow> bool" where
  "int_space c = (let n = of_char c :: nat in (9 \<le> n \<and> n \<le> 13) \<or> n = 32 \<or> n = 133 \<or> n = 160)"

definition strip_by :: "(char \<Rightarrow> bool) \<Rightarrow> string \<Rightarrow> string" where
  "strip_by p s = rev (dropWhile p (rev (dropWhile p s)))"

fun more_digits :: "nat \<Rightarrow> string \<Rightarrow> nat option" where
  "more_digits acc [] = Some acc"
| "more_digits acc (c # cs) =
     (if c = CHR ''_''
      then (case cs of [] \<Rightarrow> None
            | d # ds \<Rightarrow> (case digit_val d of None \<Rightarrow> None
                        | Some v \<Rightarrow> more_digits (10 * acc + v) ds))
      else (case digit_val c of None \<Rightarrow> None | Some v \<Rightarrow> more_digits (10 * acc + v) cs))"

definition digits :: "string \<Rightarrow> nat option" where
  "digits s = (case s of [] \<Rightarrow> None
     | c # cs \<Rightarrow> (case digit_val c of None \<Rightarrow> None | Some v \<Rightarrow> more_digits v cs))"

definition int_literal :: "string \<Rightarrow> int option" where
  "int_literal s = (case s of
       CHR ''-'' # cs \<Rightarrow> map_option (\<lambda>n. - int n) (digits cs)
     | CHR ''+'' # cs \<Rightarrow> map_option int (digits cs)
     | _ \<Rightarrow> map_option int (digits s))"

definition py_int :: "string \<Rightarrow> exn + int" where
  "py_int s = (case int_literal (strip_by int_space s) of
       Some i \<Rightarrow> Inr i
     | None \<Rightarrow> Inl (ValueError ''invalid literal for int() with base 10''))"

section \<open>Searching and splitting\<close>

definition is_space :: "char \<Rightarrow> bool" where
  "is_space c = (let n = of_char c :: nat in
     (9 \<le> n \<and> n \<le> 13) \<or> (28 \<le> n \<and> n \<le> 32) \<or> n = 133 \<or> n = 160)"

definition startswith :: "string \<Rightarrow> string \<Rightarrow> bool" where
  "startswith s p = (take (length p) s = p)"

fun contains :: "string \<Rightarrow> string \<Rightarrow> bool" where
  "contains p [] = (p = [])"
| "contains p (c # s) = (startswith (c # s) p \<or> contains p s)"

definition rstrip :: "string \<Rightarrow> string" where
  "rstrip s = rev (dropWhile is_space (rev s))"

function split_ws :: "string \<Rightarrow> string list" where
  "split_ws s = (case dropWhile is_space s of [] \<Rightarrow> []
     | c # t \<Rightarrow> takeWhile (\<lambda>x. \<not> is_space x) (c # t) #
               split_ws (dropWhile (\<lambda>x. \<not> is_space x) (c # t)))"
  by pat_completeness auto
termination
proof (relation "measure length")
  fix s c t
  assume eq: "dropWhile is_space s = c # t"
  have "\<not> is_space c" using eq by (simp add: dropWhile_eq_Cons_conv)
  then have "length (dropWhile (\<lambda>x. \<not> is_space x) (c # t)) < length (c # t)"
    by (simp add: le_imp_less_Suc length_dropWhile_le)
  also have "length (c # t) \<le> length s"
    using eq length_dropWhile_le [of is_space s] by simp
  finally show "(dropWhile (\<lambda>x. \<not> is_space x) (c # t), s) \<in> measure length" by simp
qed simp

declare split_ws.simps [simp del]

definition join :: "string \<Rightarrow> string list \<Rightarrow> string" where
  "join sep xs = (case xs of [] \<Rightarrow> [] | y # ys \<Rightarrow> concat (y # map (\<lambda>z. sep @ z) ys))"

abbreviation newline :: string where
  "newline \<equiv> [CHR 0x0A]"

section \<open>\<open>int\<close> undoes \<open>str\<close>\<close>

lemma of_char_digit: "d < 10 \<Longrightarrow> (of_char (digit_char d) :: nat) = 48 + d"
  by (simp add: digit_char_def)

lemma digit_val_digit [simp]: "d < 10 \<Longrightarrow> digit_val (digit_char d) = Some d"
  by (simp add: digit_val_def of_char_digit)

lemma digit_char_neq: "d < 10 \<Longrightarrow> (of_char c :: nat) \<notin> {48..57} \<Longrightarrow> digit_char d \<noteq> c"
  using of_char_digit [of d] by auto

lemma more_digits_snoc:
  "more_digits acc s = Some m \<Longrightarrow> d < 10 \<Longrightarrow> more_digits acc (s @ [digit_char d]) = Some (10 * m + d)"
proof (induction acc s rule: more_digits.induct)
  case (1 acc)
  then show ?case by (simp add: digit_char_neq)
next
  case (2 acc c cs)
  then show ?case by (auto split: if_splits list.splits option.splits)
qed

lemma str_nat_nonempty [simp]: "str_nat n \<noteq> []"
  by (subst str_nat.simps) simp

lemma digits_snoc:
  "digits s = Some m \<Longrightarrow> d < 10 \<Longrightarrow> digits (s @ [digit_char d]) = Some (10 * m + d)"
  by (auto simp: digits_def more_digits_snoc split: list.splits option.splits)

lemma digits_str_nat [simp]: "digits (str_nat n) = Some n"
proof (induction n rule: str_nat.induct)
  case (1 n)
  show ?case
  proof (cases "n < 10")
    case True
    then show ?thesis by (subst str_nat.simps) (simp add: digits_def)
  next
    case False
    with 1 have "digits (str_nat (n div 10) @ [digit_char (n mod 10)]) = Some (10 * (n div 10) + n mod 10)"
      by (intro digits_snoc) auto
    with False show ?thesis by (subst str_nat.simps) simp
  qed
qed

lemma str_nat_chars: "c \<in> set (str_nat n) \<Longrightarrow> \<exists>d<10. c = digit_char d"
proof (induction n rule: str_nat.induct)
  case (1 n)
  then show ?case
    by (cases "n < 10") (auto simp: str_nat.simps [of n] intro: exI [of _ "n mod 10"])
qed

lemma str_nat_not_space: "c \<in> set (str_nat n) \<Longrightarrow> \<not> int_space c \<and> \<not> is_space c"
  by (drule str_nat_chars) (auto simp: int_space_def is_space_def of_char_digit Let_def)

lemma dropWhile_none: "(\<And>x. x \<in> set xs \<Longrightarrow> \<not> p x) \<Longrightarrow> dropWhile p xs = xs"
  by (cases xs) auto

lemma str_int_not_space: "c \<in> set (str_int i) \<Longrightarrow> \<not> int_space c \<and> \<not> is_space c"
  by (auto simp: str_int_def str_nat_not_space split: if_splits)
     (auto simp: int_space_def is_space_def)

lemma strip_str_int [simp]: "strip_by int_space (str_int i) = str_int i"
proof -
  have "dropWhile int_space (str_int i) = str_int i"
    by (rule dropWhile_none) (simp add: str_int_not_space)
  moreover have "dropWhile int_space (rev (str_int i)) = rev (str_int i)"
    by (rule dropWhile_none) (simp add: str_int_not_space)
  ultimately show ?thesis by (simp add: strip_by_def)
qed

lemma hd_str_nat: "str_nat n = c # cs \<Longrightarrow> c \<noteq> CHR ''-'' \<and> c \<noteq> CHR ''+''"
  using str_nat_chars [of c n] by (auto simp: digit_char_neq)

lemma int_literal_str_int: "int_literal (str_int i) = Some i"
proof (cases "i < 0")
  case True
  then show ?thesis by (simp add: str_int_def int_literal_def)
next
  case False
  obtain c cs where c: "str_nat (nat i) = c # cs"
    by (cases "str_nat (nat i)") auto
  then have "int_literal (c # cs) = map_option int (digits (c # cs))"
    using hd_str_nat [OF c] by (auto simp: int_literal_def split: char.splits bool.splits)
  with c False show ?thesis
    by (metis digits_str_nat int_nat_eq not_less option.simps(9) str_int_def)
qed

lemma py_int_str_int [simp]: "py_int (str_int i) = Inr i"
  by (simp add: py_int_def int_literal_str_int)

definition int_of_str :: "string \<Rightarrow> int option" where
  "int_of_str s = (case py_int s of Inl _ \<Rightarrow> None | Inr i \<Rightarrow> Some i)"

interpretation str_codec: codec str_int int_of_str
  by unfold_locales (simp add: int_of_str_def)

lemma str_int_eq_iff [simp]: "str_int i = str_int j \<longleftrightarrow> i = j"
  by (rule str_codec.enc_eq_iff)

section \<open>Searching and splitting have their usual meaning\<close>

lemma startswith_iff: "startswith s p \<longleftrightarrow> (\<exists>t. s = p @ t)"
  unfolding startswith_def by (metis append_eq_conv_conj append_take_drop_id)

lemma startswith_append [simp]: "startswith (p @ t) p"
  by (auto simp: startswith_iff)

lemma contains_iff: "contains p s \<longleftrightarrow> (\<exists>a b. s = a @ p @ b)"
proof (induction p s rule: contains.induct)
  case (2 p c s)
  have "(\<exists>a b. c # s = a @ p @ b) \<longleftrightarrow> (\<exists>b. c # s = p @ b) \<or> (\<exists>a b. s = a @ p @ b)"
    by (metis append_Cons append_Nil list.exhaust list.inject)
  with 2 show ?case by (simp add: startswith_iff)
qed simp

lemma contains_middle [simp]: "contains p (a @ p @ b)"
  by (auto simp: contains_iff)

lemma contains_trans: "contains p q \<Longrightarrow> contains q s \<Longrightarrow> contains p s"
  by (auto simp: contains_iff) (metis append.assoc)

lemma contains_length: "contains p s \<Longrightarrow> length p \<le> length s"
  by (auto simp: contains_iff)

lemma rstrip_word_newline: "s = [] \<or> \<not> is_space (last s) \<Longrightarrow> rstrip (s @ newline) = s"
  by (cases s rule: rev_cases) (auto simp: rstrip_def is_space_def)

lemma rstrip_word: "s = [] \<or> \<not> is_space (last s) \<Longrightarrow> rstrip s = s"
  by (cases s rule: rev_cases) (auto simp: rstrip_def)

text \<open>A word is what \<open>split\<close> yields: not empty, and free of blanks.\<close>

definition word_str :: "string \<Rightarrow> bool" where
  "word_str w \<longleftrightarrow> w \<noteq> [] \<and> (\<forall>c \<in> set w. \<not> is_space c)"

lemma split_ws_Nil [simp]: "split_ws [] = []"
  by (subst split_ws.simps) simp

lemma split_ws_space: "is_space c \<Longrightarrow> split_ws (c # s) = split_ws s"
  by (subst (1 2) split_ws.simps) simp

lemma split_ws_word:
  assumes "word_str w" and "s = [] \<or> is_space (hd s)"
  shows "split_ws (w @ s) = w # split_ws s"
proof -
  from assms(1) obtain c t where w: "w = c # t" by (cases w) (auto simp: word_str_def)
  with assms(1) have "dropWhile is_space (w @ s) = w @ s" by (simp add: word_str_def)
  moreover have "takeWhile (\<lambda>x. \<not> is_space x) (w @ s) = w"
    using assms by (cases s) (auto simp: word_str_def takeWhile_append2)
  moreover have "dropWhile (\<lambda>x. \<not> is_space x) (w @ s) = s"
    using assms by (cases s) (auto simp: word_str_def)
  ultimately show ?thesis using w by (subst split_ws.simps) simp
qed

lemma split_ws_tail:
  assumes "is_space c" and "\<forall>w \<in> set vs. word_str w"
  shows "split_ws (concat (map ((#) c) vs) @ newline) = vs"
    and "is_space (hd (concat (map ((#) c) vs) @ newline))"
proof -
  have hd: "is_space (hd (concat (map ((#) c) us) @ newline))" for us
    using assms(1) by (cases us) (auto simp: is_space_def)
  show "split_ws (concat (map ((#) c) vs) @ newline) = vs"
    using assms(2)
  proof (induction vs)
    case Nil
    show ?case by (subst split_ws.simps) (simp add: is_space_def)
  next
    case (Cons v vs)
    with hd [of vs] assms(1) show ?case by (simp add: split_ws_space split_ws_word)
  qed
  show "is_space (hd (concat (map ((#) c) vs) @ newline))" by (rule hd)
qed

lemma split_ws_join:
  assumes "\<forall>w \<in> set ws. word_str w" and "is_space c"
  shows "split_ws (join [c] ws @ newline) = ws"
proof (cases ws)
  case Nil
  then show ?thesis using split_ws_tail(1) [OF assms(2), of "[]"] by (simp add: join_def)
next
  case (Cons v vs)
  have "(@) [c] = (#) c" by (rule ext) simp
  moreover from assms(1) Cons have "\<forall>w \<in> set vs. word_str w" by simp
  ultimately show ?thesis
    using Cons assms split_ws_tail [OF assms(2), of vs] by (simp add: join_def split_ws_word)
qed

lemma split_ws_words: "w \<in> set (split_ws s) \<Longrightarrow> word_str w"
proof (induction s rule: split_ws.induct)
  case (1 s)
  show ?case
  proof (cases "dropWhile is_space s")
    case Nil
    with "1.prems" show ?thesis by (subst (asm) split_ws.simps) simp
  next
    case (Cons c t)
    then have "\<not> is_space c" by (simp add: dropWhile_eq_Cons_conv)
    then have "word_str (takeWhile (\<lambda>x. \<not> is_space x) (c # t))"
      by (auto simp: word_str_def dest: set_takeWhileD)
    with Cons "1.prems" "1.IH" [OF Cons] show ?thesis
      by (subst (asm) split_ws.simps) auto
  qed
qed

end
