(* ===== verification/Base64.thy ===== *)
theory Base64
  imports Py_Str
begin

text \<open>
  \<open>base64.standard_b64decode\<close>, the decoder every payload of the UDP client goes through, as the
  standard library computes it: a text with a character beyond ASCII is refused; characters
  outside the alphabet are skipped; a complete padding ends the input; a quad that is left
  incomplete is an error. Bytes are \<open>char\<close>s. \<open>b64encode\<close> is the encoder of RFC 4648, the reference
  the decoder is proved to invert.
\<close>

section \<open>The alphabet\<close>

definition b64_value :: "char \<Rightarrow> nat option" where
  "b64_value c = (let n = of_char c :: nat in
     if 65 \<le> n \<and> n \<le> 90 then Some (n - 65)
     else if 97 \<le> n \<and> n \<le> 122 then Some (n - 71)
     else if 48 \<le> n \<and> n \<le> 57 then Some (n + 4)
     else if n = 43 then Some 62
     else if n = 47 then Some 63
     else None)"

definition b64_char :: "nat \<Rightarrow> char" where
  "b64_char v = char_of
     (if v < 26 then 65 + v else if v < 52 then 71 + v else if v < 62 then v - 4
      else if v = 62 then 43 else 47)"

section \<open>The decoder\<close>

text \<open>
  The scanner of \<open>binascii.a2b_base64\<close>: \<open>q\<close> is the position in the current quad, \<open>l\<close> the bits
  left over from the last character, \<open>pads\<close> the padding characters seen since the last data
  character, and \<open>out\<close> the bytes so far, in reverse.
\<close>

fun a2b :: "nat \<Rightarrow> nat \<Rightarrow> nat \<Rightarrow> string \<Rightarrow> string \<Rightarrow> exn + string" where
  "a2b q l pads out [] =
     (if q = 0 then Inr (rev out)
      else if q = 1 then Inl (BinasciiError ''Invalid base64-encoded string'')
      else Inl (BinasciiError ''Incorrect padding''))"
| "a2b q l pads out (c # cs) =
     (if c = CHR ''=''
      then (if 2 \<le> q
            then (if 4 \<le> q + pads + 1 then Inr (rev out) else a2b q l (pads + 1) out cs)
            else a2b q l pads out cs)
      else case b64_value c of
             None \<Rightarrow> a2b q l pads out cs
           | Some v \<Rightarrow>
               (if q = 0 then a2b 1 v 0 out cs
                else if q = 1 then a2b 2 (v mod 16) 0 (char_of (4 * l + v div 16) # out) cs
                else if q = 2 then a2b 3 (v mod 4) 0 (char_of (16 * l + v div 4) # out) cs
                else a2b 0 0 0 (char_of (64 * l + v) # out) cs))"

definition is_ascii :: "char \<Rightarrow> bool" where
  "is_ascii c = ((of_char c :: nat) < 128)"

definition standard_b64decode :: "string \<Rightarrow> exn + string" where
  "standard_b64decode s =
     (if list_all is_ascii s then a2b 0 0 0 [] s
      else Inl (ValueError ''string argument should contain only ASCII characters''))"

section \<open>The reference encoder\<close>

fun b64encode :: "string \<Rightarrow> string" where
  "b64encode [] = []"
| "b64encode [a] =
     (let x = of_char a :: nat in
      [b64_char (x div 4), b64_char (x mod 4 * 16), CHR ''='', CHR ''=''])"
| "b64encode [a, b] =
     (let x = of_char a :: nat; y = of_char b :: nat in
      [b64_char (x div 4), b64_char (x mod 4 * 16 + y div 16), b64_char (y mod 16 * 4), CHR ''=''])"
| "b64encode (a # b # c # rest) =
     (let x = of_char a :: nat; y = of_char b :: nat; z = of_char c :: nat in
      b64_char (x div 4) # b64_char (x mod 4 * 16 + y div 16) #
      b64_char (y mod 16 * 4 + z div 64) # b64_char (z mod 64) # b64encode rest)"

section \<open>Decoding undoes encoding\<close>

lemma of_char_b64_char:
  "v < 64 \<Longrightarrow> (of_char (b64_char v) :: nat) =
     (if v < 26 then 65 + v else if v < 52 then 71 + v else if v < 62 then v - 4
      else if v = 62 then 43 else 47)"
  by (simp add: b64_char_def)

lemma b64_value_char [simp]: "v < 64 \<Longrightarrow> b64_value (b64_char v) = Some v"
  by (auto simp: b64_value_def of_char_b64_char Let_def)

lemma b64_char_not_pad [simp]: "v < 64 \<Longrightarrow> b64_char v \<noteq> CHR ''=''"
  using of_char_b64_char [of v] by (auto split: if_splits)

lemma b64_char_ascii [simp]: "v < 64 \<Longrightarrow> is_ascii (b64_char v)"
  by (auto simp: is_ascii_def of_char_b64_char)

lemma of_char_lt [simp]: "of_char (a :: char) < (256::nat)"
  by (rule nat_of_char_less_256)

lemma fields:
  fixes a b k :: nat
  assumes "b < k"
  shows "(a * k + b) div k = a" and "(a * k + b) mod k = b"
  using assms by simp_all

lemma sextets:
  fixes x y z :: nat
  assumes "x < 256" and "y < 256" and "z < 256"
  shows "x div 4 < 64" and "x mod 4 * 16 + y div 16 < 64"
    and "y mod 16 * 4 + z div 64 < 64" and "z mod 64 < 64"
proof -
  have "x mod 4 \<le> 3" "y div 16 < 16" "y mod 16 \<le> 15" "z div 64 < 4" using assms by auto
  then show "x mod 4 * 16 + y div 16 < 64" "y mod 16 * 4 + z div 64 < 64" by linarith+
qed (use assms in auto)

lemma octets:
  fixes x y z :: nat
  assumes "x < 256" and "y < 256" and "z < 256"
  shows "4 * (x div 4) + (x mod 4 * 16 + y div 16) div 16 = x"
    and "16 * ((x mod 4 * 16 + y div 16) mod 16) + (y mod 16 * 4 + z div 64) div 4 = y"
    and "64 * ((y mod 16 * 4 + z div 64) mod 4) + z mod 64 = z"
proof -
  have "y div 16 < 16" "z div 64 < 4" using assms by auto
  then show "4 * (x div 4) + (x mod 4 * 16 + y div 16) div 16 = x"
    "16 * ((x mod 4 * 16 + y div 16) mod 16) + (y mod 16 * 4 + z div 64) div 4 = y"
    "64 * ((y mod 16 * 4 + z div 64) mod 4) + z mod 64 = z"
    by (simp_all only: fields mult_div_mod_eq)
qed

lemma a2b_quad:
  "t < 64 \<Longrightarrow> u < 64 \<Longrightarrow> v < 64 \<Longrightarrow> w < 64 \<Longrightarrow>
    a2b 0 l p out (b64_char t # b64_char u # b64_char v # b64_char w # cs) =
    a2b 0 0 0 (char_of (64 * (v mod 4) + w) # char_of (16 * (u mod 16) + v div 4) #
      char_of (4 * t + u div 16) # out) cs"
  by simp

lemma a2b_triple:
  fixes x y z :: nat
  assumes "x < 256" and "y < 256" and "z < 256"
  shows "a2b 0 l p out (b64_char (x div 4) # b64_char (x mod 4 * 16 + y div 16) #
      b64_char (y mod 16 * 4 + z div 64) # b64_char (z mod 64) # cs) =
    a2b 0 0 0 (char_of z # char_of y # char_of x # out) cs"
  using sextets [OF assms] octets [OF assms] by (simp only: a2b_quad)

lemma a2b_encode: "a2b 0 l p out (b64encode bs) = Inr (rev out @ bs)"
proof (induction bs arbitrary: l p out rule: b64encode.induct)
  case (2 a)
  show ?case
    using sextets [of "of_char a" 0 0] octets [of "of_char a" 0 0] by (simp add: Let_def)
next
  case (3 a b)
  show ?case
    using sextets [of "of_char a" "of_char b" 0] octets [of "of_char a" "of_char b" 0]
    by (simp add: Let_def)
next
  case (4 a b c rest)
  then show ?case by (simp only: b64encode.simps Let_def a2b_triple of_char_lt) simp
qed simp

lemma is_ascii_pad [simp]: "is_ascii (CHR ''='')"
  by (simp add: is_ascii_def)

lemma b64encode_ascii: "list_all is_ascii (b64encode bs)"
proof (induction bs rule: b64encode.induct)
  case (2 a)
  show ?case using sextets [of "of_char a" 0 0] by (simp add: Let_def)
next
  case (3 a b)
  show ?case using sextets [of "of_char a" "of_char b" 0] by (simp add: Let_def)
next
  case (4 a b c rest)
  then show ?case
    using sextets [of "of_char a" "of_char b" "of_char c"] by (simp add: Let_def)
qed simp

lemma standard_b64decode_encode [simp]: "standard_b64decode (b64encode bs) = Inr bs"
  by (simp add: standard_b64decode_def b64encode_ascii a2b_encode)

definition b64decode_opt :: "string \<Rightarrow> string option" where
  "b64decode_opt s = (case standard_b64decode s of Inl _ \<Rightarrow> None | Inr bs \<Rightarrow> Some bs)"

interpretation base64_codec: codec b64encode b64decode_opt
  by unfold_locales (simp add: b64decode_opt_def)

text \<open>What a decoding yields never exceeds three bytes for four characters.\<close>

lemma a2b_length:
  "a2b q l p out s = Inr bs \<Longrightarrow> q \<le> 3 \<Longrightarrow>
     4 * length bs \<le> 4 * length out + 3 * length s + (if q = 0 then 0 else 4 - q)"
  by (induction q l p out s arbitrary: bs rule: a2b.induct)
     (force split: if_splits option.splits)+

end
