(* ===== verification/Unpriv_Port.thy ===== *)
theory Unpriv_Port
  imports Py_Str
begin

text \<open>
  \<open>utils/unpriv_port.py\<close>: the argument type of the two port options of the UDP client, and the
  placeholder its help shows. A type function gets the argument's text and either yields the
  value or raises \<open>ValueError\<close>.
\<close>

definition MIN_VALUE :: int where
  "MIN_VALUE = 1024"

definition MAX_VALUE :: int where
  "MAX_VALUE = 65535"

definition unprivileged_port_type :: "string \<Rightarrow> int \<Rightarrow> int \<Rightarrow> exn + int" where
  "unprivileged_port_type value min_value max_value =
     (case py_int value of
        Inl _ \<Rightarrow> Inl (ValueError ''The port should be an integer.'')
      | Inr int_value \<Rightarrow>
          if int_value \<ge> min_value \<and> int_value \<le> max_value then Inr int_value
          else Inl (ValueError (''The port should be between '' @ str_int min_value @
                 '' and '' @ str_int max_value)))"

text \<open>The call with the default arguments, as \<open>argparse\<close> makes it.\<close>

definition unprivileged_port :: "string \<Rightarrow> exn + int" where
  "unprivileged_port value = unprivileged_port_type value 1024 MAX_VALUE"

definition get_unprivileged_port_meta :: "string \<Rightarrow> int \<Rightarrow> int \<Rightarrow> string" where
  "get_unprivileged_port_meta var_name min_value max_value =
     ''('' @ str_int min_value @ ''-'' @ str_int max_value @ '')''"

section \<open>Which texts are ports\<close>

lemma unprivileged_port_Inr_iff:
  "unprivileged_port s = Inr p \<longleftrightarrow> py_int s = Inr p \<and> 1024 \<le> p \<and> p \<le> 65535"
  by (auto simp: unprivileged_port_def unprivileged_port_type_def MAX_VALUE_def split: sum.splits)

lemma unprivileged_port_range: "unprivileged_port s = Inr p \<Longrightarrow> 1024 \<le> p \<and> p < 2 ^ 16"
  by (simp add: unprivileged_port_Inr_iff)

lemma unprivileged_port_str:
  "1024 \<le> p \<Longrightarrow> p \<le> 65535 \<Longrightarrow> unprivileged_port (str_int p) = Inr p"
  by (simp add: unprivileged_port_Inr_iff)

lemma port_texts: "str_int 1024 = ''1024''" "str_int 65535 = ''65535''"
  by (simp_all add: str_int_def str_nat.simps digit_char_def char_of_def bit_0)

text \<open>
  C36. The port type accepts exactly the texts that \<open>int\<close> reads as a number from 1024 to 65535, a
  number's own decimal text among them, and refuses every other text with one of its two messages.
\<close>

theorem unprivileged_port_spec:
  "(unprivileged_port s = Inr p \<longleftrightarrow> py_int s = Inr p \<and> p \<in> {1024..65535}) \<and>
   (unprivileged_port (str_int q) = (if q \<in> {1024..65535} then Inr q
      else Inl (ValueError ''The port should be between 1024 and 65535''))) \<and>
   (unprivileged_port s = Inl e \<longleftrightarrow> e = ValueError
      (if isl (py_int s) then ''The port should be an integer.''
       else ''The port should be between 1024 and 65535'') \<and> py_int s \<notin> Inr ` {1024..65535})"
  by (auto simp: unprivileged_port_def unprivileged_port_type_def MAX_VALUE_def port_texts
      split: sum.splits)

end
