(* ===== verification/Udp_Client.thy ===== *)
theory Udp_Client
  imports Base64 Unpriv_Port
begin

text \<open>
  \<open>pcom_hw2_udp_client/udp_client.py\<close>: the load generator that sends the payloads of a JSON file
  to the broker's UDP port, all of them once, one at a time by an interactive choice, or at
  random. The state \<open>udp_io\<close> is what the program reads and writes; the operating system is the
  argument \<open>net\<close> of the functions that call it.
\<close>

section \<open>State and environment\<close>

text \<open>
  A message is one JSON object of the input file, a dict whose members are strings.
  \<open>client_args\<close> is the namespace that \<open>parser.parse_args\<close> returns: the addresses as the texts
  that \<open>str\<close> gives for them, \<open>count\<close> as \<open>None\<close> when \<open>--count\<close> is absent. The type of \<open>input_file\<close> is
  open: \<open>parse_args\<close> yields any JSON value there, and the modes are modelled on a list of messages.
\<close>

type_synonym message = "string \<rightharpoonup> string"

record 'i client_args =
  input_file :: 'i
  server_ip :: string
  server_port :: int
  source_address :: string
  source_port :: int
  mode :: string
  count :: "int option"
  delay :: int

type_synonym parsed_args = "message list client_args"

text \<open>
  \<open>out\<close>: the text written to standard output; \<open>input_lines\<close>: the lines standard input still
  holds, \<open>[]\<close> at its end; \<open>datagrams\<close>: what was handed to the network, with its destination;
  \<open>slept\<close>: the completed waits, in milliseconds; \<open>draw\<close> and \<open>drawn\<close>: the numbers the random
  source will yield, and how many it has yielded.
\<close>

record udp_io =
  out :: string
  input_lines :: "string list"
  datagrams :: "(string \<times> string \<times> int) list"
  slept :: "int list"
  draw :: "nat \<Rightarrow> nat"
  drawn :: nat

text \<open>
  The operating system: \<open>os_bind\<close> binds a datagram socket and yields the port \<open>getsockname\<close>
  reports; \<open>os_sendto\<close> yields the number of bytes sent. Either may raise \<open>OSError\<close>.
\<close>

record os_net =
  os_bind :: "string \<Rightarrow> int \<Rightarrow> exn + int"
  os_sendto :: "udp_io \<Rightarrow> string \<Rightarrow> string \<times> int \<Rightarrow> exn + nat"

section \<open>Library calls\<close>

definition print_line :: "string \<Rightarrow> (udp_io, unit) py" where
  "print_line s = modify (\<lambda>io. io\<lparr>out := out io @ s @ newline\<rparr>)"

definition input :: "string \<Rightarrow> (udp_io, string) py" where
  "input prompt = andthen (modify (\<lambda>io. io\<lparr>out := out io @ prompt\<rparr>))
     (bnd (gets input_lines) (\<lambda>ls. case ls of
        [] \<Rightarrow> raise EOFError
      | l # ls' \<Rightarrow> andthen (modify (\<lambda>io. io\<lparr>input_lines := ls'\<rparr>)) (ret l)))"

definition sendto :: "os_net \<Rightarrow> string \<Rightarrow> string \<times> int \<Rightarrow> (udp_io, nat) py" where
  "sendto net bytes addr = bnd (gets (\<lambda>io. os_sendto net io bytes addr)) (\<lambda>r. case r of
       Inl e \<Rightarrow> raise e
     | Inr n \<Rightarrow> andthen
         (modify (\<lambda>io. io\<lparr>datagrams := datagrams io @ [(bytes, fst addr, snd addr)]\<rparr>)) (ret n))"

definition sleep_ms :: "int \<Rightarrow> (udp_io, unit) py" where
  "sleep_ms ms = (if ms < 0 then raise (ValueError ''sleep length must be non-negative'')
     else modify (\<lambda>io. io\<lparr>slept := slept io @ [ms]\<rparr>))"

definition random_choice :: "'a list \<Rightarrow> (udp_io, 'a) py" where
  "random_choice xs = (if xs = [] then raise IndexError
     else bnd (gets (\<lambda>io. draw io (drawn io) mod length xs)) (\<lambda>i.
          andthen (modify (\<lambda>io. io\<lparr>drawn := drawn io + 1\<rparr>)) (list_get xs i)))"

section \<open>The client\<close>

definition setup_socket :: "os_net \<Rightarrow> parsed_args \<Rightarrow> (udp_io, int) py" where
  "setup_socket net args = lift_res (os_bind net (source_address args) (source_port args))"

definition send_message :: "os_net \<Rightarrow> message \<Rightarrow> parsed_args \<Rightarrow> (udp_io, unit) py" where
  "send_message net message args =
     bnd (dict_get message ''payload_base64'') (\<lambda>payload.
     bnd (lift_res (standard_b64decode payload)) (\<lambda>to_send.
     bnd (sendto net to_send (server_ip args, server_port args)) (\<lambda>sent.
     bnd (dict_get message ''description'') (\<lambda>description.
     andthen (print_line (''Sent ('' @ str_nat sent @ ''/'' @ str_nat (length to_send) @
         '' bytes) << '' @ description @ '' >>''))
       (sleep_ms (delay args))))))"

definition run_all_once :: "os_net \<Rightarrow> parsed_args \<Rightarrow> (udp_io, unit) py" where
  "run_all_once net args = for_each (input_file args) (\<lambda>message. send_message net message args)"

text \<open>The loop of \<open>run_manual\<close>; \<open>input_ask\<close> is the prompt computed before it.\<close>

partial_function (option) manual_loop ::
    "os_net \<Rightarrow> parsed_args \<Rightarrow> string \<Rightarrow> udp_io \<Rightarrow> (unit res \<times> udp_io) option" where
  "manual_loop net args input_ask io =
     bnd (input input_ask) (\<lambda>choice.
       if choice = ''exit'' then ret ()
       else bnd (lift_res (py_int choice)) (\<lambda>i.
         if i \<ge> 0 \<and> i < int (length (input_file args))
         then andthen (bnd (list_get (input_file args) (nat i))
                           (\<lambda>message. send_message net message args))
                      (\<lambda>io'. manual_loop net args input_ask io')
         else andthen (print_line ''Maybe try a valid option.'')
                      (\<lambda>io'. manual_loop net args input_ask io'))) io"

definition numbered :: "nat \<times> message \<Rightarrow> (udp_io, string) py" where
  "numbered p = bnd (dict_get (snd p) ''description'')
     (\<lambda>d. ret (str_nat (fst p) @ ''. '' @ d))"

definition run_manual :: "os_net \<Rightarrow> parsed_args \<Rightarrow> (udp_io, unit) py" where
  "run_manual net args =
     bnd (map_each numbered (List.enumerate 0 (input_file args))) (\<lambda>lines.
     let header = ''Please chose one of the following'';
         options = join newline lines;
         input_ask = ''Input a int ('' @ str_int 0 @ '' - '' @
           str_int (int (length (input_file args)) - 1) @ ''): '';
         for_exit_string = ''To end the program, input '' @ [CHR 0x22] @ ''exit'' @ [CHR 0x22];
         prompter_string = join newline [header, options, for_exit_string]
     in andthen (print_line prompter_string) (manual_loop net args input_ask))"

partial_function (option) random_loop ::
    "os_net \<Rightarrow> parsed_args \<Rightarrow> int \<Rightarrow> udp_io \<Rightarrow> (unit res \<times> udp_io) option" where
  "random_loop net args cnt io =
     (if (case count args of None \<Rightarrow> True | Some n \<Rightarrow> cnt < n)
      then andthen (bnd (random_choice (input_file args))
                        (\<lambda>message. send_message net message args))
                   (\<lambda>io'. random_loop net args (cnt + 1) io') io
      else ret () io)"

definition run_random :: "os_net \<Rightarrow> parsed_args \<Rightarrow> (udp_io, unit) py" where
  "run_random net args = random_loop net args 0"

text \<open>\<open>main\<close> after the command line is parsed.\<close>

definition main :: "os_net \<Rightarrow> parsed_args \<Rightarrow> (udp_io, unit) py" where
  "main net args =
     bnd (setup_socket net args) (\<lambda>port.
     andthen (print_line (''Client source PORT: '' @ str_int port))
       (if mode args = ''all_once''
        then andthen (print_line (''Running in all_once mode...'' @ newline)) (run_all_once net args)
        else if mode args = ''manual''
        then andthen (print_line (''Running in manual mode...'' @ newline)) (run_manual net args)
        else andthen (print_line (''Running in random mode..'' @ newline)) (run_random net args)))"


section \<open>What one send does\<close>

text \<open>
  \<open>sendable m bs d\<close>: the object has both members, and its payload decodes to \<open>bs\<close>.
  \<open>accepts net\<close>: the network takes every datagram whole, as it does for datagrams that
  fit its limit on a working interface.
\<close>

definition sendable :: "message \<Rightarrow> string \<Rightarrow> string \<Rightarrow> bool" where
  "sendable m bs d \<longleftrightarrow> (\<exists>p. m ''payload_base64'' = Some p \<and> standard_b64decode p = Inr bs) \<and>
     m ''description'' = Some d"

definition accepts :: "os_net \<Rightarrow> bool" where
  "accepts net \<longleftrightarrow> (\<forall>io bs a. os_sendto net io bs a = Inr (length bs))"

definition payload_of :: "message \<Rightarrow> string option" where
  "payload_of m = Option.bind (m ''payload_base64'') b64decode_opt"

definition announcement :: "nat \<Rightarrow> string \<Rightarrow> string \<Rightarrow> string" where
  "announcement sent bs d = ''Sent ('' @ str_nat sent @ ''/'' @ str_nat (length bs) @
     '' bytes) << '' @ d @ '' >>'' @ newline"

definition log_send :: "parsed_args \<Rightarrow> string \<Rightarrow> string \<Rightarrow> udp_io \<Rightarrow> udp_io" where
  "log_send args bs d io = io\<lparr>
     datagrams := datagrams io @ [(bs, server_ip args, server_port args)],
     out := out io @ announcement (length bs) bs d\<rparr>"

lemmas io_defs = print_line_def input_def sendto_def sleep_ms_def random_choice_def

lemma sendable_payload: "sendable m bs d \<Longrightarrow> payload_of m = Some bs"
  by (auto simp: sendable_def payload_of_def b64decode_opt_def)

lemma sendable_unique: "sendable m bs d \<Longrightarrow> sendable m bs' d' \<Longrightarrow> bs' = bs \<and> d' = d"
  by (auto simp: sendable_def)

lemma send_message_sendable:
  assumes "sendable m bs d" and "accepts net"
  shows "send_message net m args io = Some
    (if delay args < 0 then (Exc (ValueError ''sleep length must be non-negative''), log_send args bs d io)
     else (Ret (), (log_send args bs d io)\<lparr>slept := slept io @ [delay args]\<rparr>))"
  using assms
  by (auto simp: sendable_def accepts_def send_message_def dict_get_def io_defs log_send_def
      announcement_def py_eqs)

lemma send_message_undecodable:
  assumes "m ''payload_base64'' = Some p" and "standard_b64decode p = Inl e"
  shows "send_message net m args io = Some (Exc e, io)"
  using assms by (simp add: send_message_def dict_get_def py_eqs)

lemma send_message_no_payload:
  "m ''payload_base64'' = None \<Longrightarrow>
     send_message net m args io = Some (Exc (KeyError ''payload_base64''), io)"
  by (simp add: send_message_def dict_get_def py_eqs)

text \<open>Without a description, the datagram leaves before the program fails.\<close>

lemma send_message_no_description:
  assumes "m ''payload_base64'' = Some p" and "standard_b64decode p = Inr bs"
    and "m ''description'' = None" and "accepts net"
  shows "send_message net m args io = Some (Exc (KeyError ''description''),
    io\<lparr>datagrams := datagrams io @ [(bs, server_ip args, server_port args)]\<rparr>)"
  using assms by (simp add: send_message_def dict_get_def io_defs accepts_def py_eqs)

lemma send_message_frame:
  "send_message net m args io = Some (r, io') \<Longrightarrow>
     input_lines io' = input_lines io \<and> drawn io' = drawn io \<and> draw io' = draw io"
  by (auto simp: send_message_def dict_get_def io_defs py_eqs lift_res_def
      split: option.splits sum.splits if_splits)

lemma returns_send_message [returns_rules]: "returns (send_message net m args)"
  unfolding send_message_def io_defs
  by (intro returns_rules) (auto simp: returns_rules split: sum.splits)

section \<open>Every mode sends only what the file holds, to the given address\<close>

text \<open>
  \<open>stable I\<close>: printing, reading input and drawing random numbers cannot change \<open>I\<close>. The
  contract of a mode is that, these apart, it acts through \<open>send_message\<close> on messages of the
  input file only.
\<close>

definition stable :: "(udp_io \<Rightarrow> bool) \<Rightarrow> bool" where
  "stable I \<longleftrightarrow> (\<forall>io. I io \<longrightarrow> (\<forall>s. I (io\<lparr>out := s\<rparr>)) \<and> (\<forall>ls. I (io\<lparr>input_lines := ls\<rparr>)) \<and>
     (\<forall>n. I (io\<lparr>drawn := n\<rparr>)))"

definition traffic :: "parsed_args \<Rightarrow> (string \<times> string \<times> int) list \<Rightarrow> udp_io \<Rightarrow> bool" where
  "traffic args ds io \<longleftrightarrow> (\<exists>new. datagrams io = ds @ new \<and>
     (\<forall>(bs, ip, port) \<in> set new. ip = server_ip args \<and> port = server_port args \<and>
        (\<exists>m \<in> set (input_file args). payload_of m = Some bs)))"

lemma traffic_refl: "traffic args (datagrams io) io"
  by (simp add: traffic_def)

lemma stable_traffic: "stable (traffic args ds)"
  by (simp add: stable_def traffic_def)

lemma keeps_print_line: "stable I \<Longrightarrow> keeps I (print_line s)"
  by (simp add: print_line_def stable_def keeps_modify)

lemma keeps_input: "stable I \<Longrightarrow> keeps I (input s)"
  by (auto simp: input_def stable_def intro!: keeps_rules keeps_modify split: list.splits)

lemma keeps_random_choice: "stable I \<Longrightarrow> keeps I (random_choice xs)"
  by (auto simp: random_choice_def stable_def intro!: keeps_rules keeps_modify)

lemma random_choice_yields:
  "random_choice xs io = Some (Ret x, io') \<Longrightarrow> x \<in> set xs"
  by (auto simp: random_choice_def list_get_def py_eqs split: if_splits)

lemma send_message_datagrams:
  assumes "send_message net m args io = Some (r, io')"
  shows "datagrams io' = datagrams io \<or> (\<exists>bs. payload_of m = Some bs \<and>
    datagrams io' = datagrams io @ [(bs, server_ip args, server_port args)])"
proof (cases "m ''payload_base64''")
  case None
  with assms show ?thesis by (simp add: send_message_no_payload)
next
  case (Some p)
  show ?thesis
  proof (cases "standard_b64decode p")
    case (Inl e)
    with Some assms show ?thesis by (simp add: send_message_undecodable)
  next
    case (Inr bs)
    with Some have "payload_of m = Some bs" by (simp add: payload_of_def b64decode_opt_def)
    with Some Inr assms show ?thesis
      by (auto simp: send_message_def dict_get_def io_defs py_eqs
          split: sum.splits option.splits if_splits)
  qed
qed

lemma traffic_send_message:
  assumes "m \<in> set (input_file args)"
  shows "keeps (traffic args ds) (send_message net m args)"
  by (rule keepsI, drule send_message_datagrams) (use assms in \<open>auto simp: traffic_def\<close>)

locale datagram_client =
  fixes run :: "os_net \<Rightarrow> parsed_args \<Rightarrow> (udp_io, unit) py"
  assumes run_keeps: "stable I \<Longrightarrow>
    (\<And>m. m \<in> set (input_file args) \<Longrightarrow> keeps I (send_message net m args)) \<Longrightarrow>
    keeps I (run net args)"
begin

lemma run_traffic: "run net args io = Some (r, io') \<Longrightarrow> traffic args (datagrams io) io'"
  by (rule keepsD [OF run_keeps [OF stable_traffic traffic_send_message] traffic_refl])

text \<open>With no message in the file, nothing is sent.\<close>

lemma run_empty:
  assumes "input_file args = []" and "run net args io = Some (r, io')"
  shows "datagrams io' = datagrams io"
proof -
  obtain new where "datagrams io' = datagrams io @ new" and "\<forall>x \<in> set new. False"
    using run_traffic [OF assms(2)] assms(1) by (auto simp: traffic_def)
  then show ?thesis by (cases new) auto
qed

lemma run_grows: "run net args io = Some (r, io') \<Longrightarrow> \<exists>new. datagrams io' = datagrams io @ new"
  using run_traffic [of net args io r io'] by (auto simp: traffic_def)

end

interpretation all_once: datagram_client run_all_once
  by unfold_locales (auto simp: run_all_once_def intro!: keeps_rules)

lemma keeps_manual_loop:
  assumes "stable I" and "\<And>m. m \<in> set (input_file args) \<Longrightarrow> keeps I (send_message net m args)"
  shows "keeps I (manual_loop net args ask)"
proof (rule keepsI)
  fix io r io'
  assume io: "I io" and res: "manual_loop net args ask io = Some (r, io')"
  let ?P = "\<lambda>n a q s (x :: unit res \<times> udp_io). n = net \<and> a = args \<and> I s \<longrightarrow> I (snd x)"
  have "?P net args ask io (r, io')"
  proof (rule manual_loop.raw_induct [where P = ?P, OF _ res])
    fix f n a q s x
    assume IH: "\<And>n a q s x. f n a q s = Some x \<Longrightarrow> ?P n a q s x"
      and body: "bnd (input q) (\<lambda>choice. if choice = ''exit'' then ret ()
         else bnd (lift_res (py_int choice)) (\<lambda>i.
           if i \<ge> 0 \<and> i < int (length (input_file a))
           then andthen (bnd (list_get (input_file a) (nat i)) (\<lambda>m. send_message n m a)) (f n a q)
           else andthen (print_line ''Maybe try a valid option.'') (f n a q))) s = Some x"
    show "?P n a q s x"
    proof
      assume eq: "n = net \<and> a = args \<and> I s"
      have rec: "keeps I (f n a q)" using IH eq by (auto simp: keeps_def)
      have send: "keeps I (bnd (list_get (input_file a) j) (\<lambda>m. send_message n m a))" for j
        using assms(2) eq by (auto simp: list_get_def keeps_raise)
      have "keeps I (bnd (input q) (\<lambda>choice. if choice = ''exit'' then ret ()
         else bnd (lift_res (py_int choice)) (\<lambda>i.
           if i \<ge> 0 \<and> i < int (length (input_file a))
           then andthen (bnd (list_get (input_file a) (nat i)) (\<lambda>m. send_message n m a)) (f n a q)
           else andthen (print_line ''Maybe try a valid option.'') (f n a q))))"
        by (intro keeps_rules keeps_input keeps_print_line rec send assms(1))
      from keepsD [OF this, of s "fst x" "snd x"] show "I (snd x)" using eq body by simp
    qed
  qed
  with io show "I io'" by simp
qed

interpretation manual: datagram_client run_manual
  by unfold_locales
    (auto simp: run_manual_def numbered_def Let_def
      intro!: keeps_rules keeps_print_line keeps_manual_loop)


lemma keeps_random_loop:
  assumes "stable I" and "\<And>m. m \<in> set (input_file args) \<Longrightarrow> keeps I (send_message net m args)"
  shows "keeps I (random_loop net args cnt)"
proof (rule keepsI)
  fix io r io'
  assume io: "I io" and res: "random_loop net args cnt io = Some (r, io')"
  let ?P = "\<lambda>n a c s (x :: unit res \<times> udp_io). n = net \<and> a = args \<and> I s \<longrightarrow> I (snd x)"
  have "?P net args cnt io (r, io')"
  proof (rule random_loop.raw_induct [where P = ?P, OF _ res])
    fix f n a c s x
    assume IH: "\<And>n a c s x. f n a c s = Some x \<Longrightarrow> ?P n a c s x"
      and body: "(if (case count a of None \<Rightarrow> True | Some k \<Rightarrow> c < k)
         then andthen (bnd (random_choice (input_file a)) (\<lambda>m. send_message n m a)) (f n a (c + 1)) s
         else ret () s) = Some x"
    show "?P n a c s x"
    proof
      assume eq: "n = net \<and> a = args \<and> I s"
      have rec: "keeps I (f n a (c + 1))" using IH eq by (auto simp: keeps_def)
      have send: "keeps I (bnd (random_choice (input_file a)) (\<lambda>m. send_message n m a))"
        by (rule keeps_bnd_yield)
          (use assms eq in \<open>auto intro: keeps_random_choice dest: random_choice_yields\<close>)
      have "keeps I (andthen (bnd (random_choice (input_file a)) (\<lambda>m. send_message n m a))
          (f n a (c + 1)))"
        by (intro keeps_rules rec send)
      from keepsD [OF this, of s "fst x" "snd x"] show "I (snd x)"
        using eq body by (auto simp: py_eqs split: if_splits)
    qed
  qed
  with io show "I io'" by simp
qed

interpretation randomly: datagram_client run_random
  by unfold_locales (auto simp: run_random_def intro!: keeps_random_loop)

text \<open>\<open>main\<close> inherits the contract from the mode it selects.\<close>

lemma keeps_main:
  assumes "stable I" and "\<And>m. m \<in> set (input_file args) \<Longrightarrow> keeps I (send_message net m args)"
  shows "keeps I (main net args)"
  unfolding main_def setup_socket_def
  by (intro keeps_rules keeps_print_line assms(1) all_once.run_keeps manual.run_keeps
      randomly.run_keeps assms(2))

interpretation whole: datagram_client main
  by unfold_locales (rule keeps_main)

section \<open>Mode \<open>all_once\<close>\<close>

text \<open>The state after a run of sends that all succeed.\<close>

fun log_all :: "parsed_args \<Rightarrow> (string \<times> string) list \<Rightarrow> udp_io \<Rightarrow> udp_io" where
  "log_all args [] io = io"
| "log_all args ((bs, d) # ps) io =
     log_all args ps ((log_send args bs d io)\<lparr>slept := slept io @ [delay args]\<rparr>)"

lemma log_all_fields:
  "datagrams (log_all args ps io) =
     datagrams io @ map (\<lambda>(bs, d). (bs, server_ip args, server_port args)) ps"
  "out (log_all args ps io) =
     out io @ concat (map (\<lambda>(bs, d). announcement (length bs) bs d) ps)"
  "slept (log_all args ps io) = slept io @ replicate (length ps) (delay args)"
  "input_lines (log_all args ps io) = input_lines io"
  by (induction args ps io rule: log_all.induct) (auto simp: log_send_def)

lemma send_all:
  assumes "list_all2 (\<lambda>m (bs, d). sendable m bs d) ms ps" and "accepts net" and "0 \<le> delay args"
  shows "for_each ms (\<lambda>m. send_message net m args) io = Some (Ret (), log_all args ps io)"
  using assms(1)
proof (induction arbitrary: io rule: list_all2_induct)
  case Nil
  show ?case by (simp add: py_eqs)
next
  case (Cons m ms p ps)
  with assms(2,3) show ?case
    by (cases p) (simp add: py_eqs send_message_sendable)
qed

end
