(* ===== verification/Udp_Modes.thy ===== *)
theory Udp_Modes
  imports Udp_Client
begin

text \<open>
  What the three modes of \<open>udp_client.py\<close> do: which datagrams leave, what is printed, when the
  loops end and which errors stop them.
\<close>

section \<open>Mode \<open>all_once\<close>\<close>

text \<open>
  C18. In the default mode every message of the input file is sent exactly once, in file order, to
  the server's address, each announced by one line and followed by one wait, and the program then
  ends normally, provided the objects are well formed, the network takes the datagrams and the
  delay is not negative.
\<close>

theorem all_once_sends_file:
  assumes "list_all2 (\<lambda>m (bs, d). sendable m bs d) (input_file args) ps"
    and "accepts net" and "0 \<le> delay args"
  shows "\<exists>io'. run_all_once net args io = Some (Ret (), io') \<and>
    datagrams io' = datagrams io @ map (\<lambda>(bs, d). (bs, server_ip args, server_port args)) ps \<and>
    out io' = out io @ concat (map (\<lambda>(bs, d). announcement (length bs) bs d) ps) \<and>
    slept io' = slept io @ replicate (length ps) (delay args)"
  using send_all [OF assms] by (simp add: run_all_once_def log_all_fields)

text \<open>
  C34. A message whose payload does not decode stops the default mode with the decoder's error:
  the messages before it have been sent, the ones after it have not.
\<close>

theorem all_once_stops_at_bad_payload:
  assumes "input_file args = ms @ m # rest"
    and "list_all2 (\<lambda>m (bs, d). sendable m bs d) ms ps"
    and "m ''payload_base64'' = Some p" and "standard_b64decode p = Inl e"
    and "accepts net" and "0 \<le> delay args"
  shows "\<exists>io'. run_all_once net args io = Some (Exc e, io') \<and>
    datagrams io' = datagrams io @ map (\<lambda>(bs, d). (bs, server_ip args, server_port args)) ps"
proof -
  have "run_all_once net args io = Some (Exc e, log_all args ps io)"
    using send_all [OF assms(2,5,6)] assms(1)
      send_message_undecodable [of m p e net args, OF assms(3,4)]
    by (simp add: run_all_once_def for_each_append py_eqs)
  then show ?thesis by (simp add: log_all_fields)
qed

text \<open>
  C35. A negative \<open>--delay\<close>, which the argument parser accepts, is noticed only by the wait after
  the first message: that message is sent and announced, and then the program fails.
\<close>

theorem negative_delay_fails_after_first:
  assumes "input_file args = m # rest" and "sendable m bs d" and "accepts net" and "delay args < 0"
  shows "run_all_once net args io = Some
    (Exc (ValueError ''sleep length must be non-negative''), log_send args bs d io)"
  using assms by (simp add: run_all_once_def send_message_sendable py_eqs)

section \<open>Mode \<open>random\<close>\<close>

text \<open>The messages the random source picks, from its \<open>k\<close>-th number on.\<close>

definition picks :: "parsed_args \<Rightarrow> udp_io \<Rightarrow> nat \<Rightarrow> message list" where
  "picks args io n = map (\<lambda>i. input_file args ! (draw io (drawn io + i) mod length (input_file args))) [0..<n]"

lemma random_choice_pick:
  assumes "xs \<noteq> []"
  shows "random_choice xs io =
    Some (Ret (xs ! (draw io (drawn io) mod length xs)), io\<lparr>drawn := drawn io + 1\<rparr>)"
  using assms by (simp add: random_choice_def list_get_def py_eqs)

definition all_sendable :: "parsed_args \<Rightarrow> bool" where
  "all_sendable args \<longleftrightarrow> (\<forall>m \<in> set (input_file args). \<exists>bs d. sendable m bs d)"

text \<open>One turn of the random loop: one number drawn, one message of the file sent.\<close>

lemma random_turn:
  assumes "all_sendable args" and "input_file args \<noteq> []" and "accepts net" and "0 \<le> delay args"
  obtains io' where
    "bnd (random_choice (input_file args)) (\<lambda>m. send_message net m args) io = Some (Ret (), io')"
    and "drawn io' = drawn io + 1" and "draw io' = draw io"
    and "map Some (map fst (datagrams io')) =
      map Some (map fst (datagrams io)) @ map payload_of (picks args io 1)"
proof -
  let ?i = "draw io (drawn io) mod length (input_file args)"
  let ?m = "input_file args ! ?i"
  from assms(2) have "?m \<in> set (input_file args)" by simp
  with assms(1) obtain bs d where s: "sendable ?m bs d" by (auto simp: all_sendable_def)
  let ?io = "(log_send args bs d (io\<lparr>drawn := drawn io + 1\<rparr>))\<lparr>slept := slept io @ [delay args]\<rparr>"
  show ?thesis
  proof (rule that [of ?io])
    show "bnd (random_choice (input_file args)) (\<lambda>m. send_message net m args) io = Some (Ret (), ?io)"
      using assms s by (simp add: random_choice_pick send_message_sendable py_eqs)
  qed (use sendable_payload [OF s] in \<open>simp_all add: log_send_def picks_def\<close>)
qed

lemma picks_Suc:
  assumes "drawn io' = drawn io + 1" and "draw io' = draw io"
  shows "picks args io (Suc n) = picks args io 1 @ picks args io' n"
proof -
  have "[0..<Suc n] = 0 # map Suc [0..<n]" by (simp add: map_Suc_upt upt_conv_Cons)
  with assms show ?thesis by (simp add: picks_def)
qed

lemma random_loop_counted:
  assumes "all_sendable args" and "input_file args \<noteq> []" and "accepts net" and "0 \<le> delay args"
    and "count args = Some n"
  shows "\<exists>io'. random_loop net args cnt io = Some (Ret (), io') \<and>
    map Some (map fst (datagrams io')) =
      map Some (map fst (datagrams io)) @ map payload_of (picks args io (nat (n - cnt)))"
proof (induction "nat (n - cnt)" arbitrary: cnt io)
  case 0
  then show ?case
    using assms(5) by (subst random_loop.simps) (simp add: py_eqs picks_def)
next
  case (Suc k)
  obtain io1 where turn:
    "bnd (random_choice (input_file args)) (\<lambda>m. send_message net m args) io = Some (Ret (), io1)"
    and io1: "drawn io1 = drawn io + 1" "draw io1 = draw io"
    "map Some (map fst (datagrams io1)) =
      map Some (map fst (datagrams io)) @ map payload_of (picks args io 1)"
    using random_turn [OF assms(1-4)] by blast
  have "k = nat (n - (cnt + 1))" using Suc.hyps(2) by simp
  then obtain io' where rest: "random_loop net args (cnt + 1) io1 = Some (Ret (), io')"
    "map Some (map fst (datagrams io')) =
      map Some (map fst (datagrams io1)) @ map payload_of (picks args io1 k)"
    using Suc.hyps(1) by blast
  have "random_loop net args cnt io = Some (Ret (), io')"
    using assms(5) Suc.hyps(2) turn rest(1)
    by (subst random_loop.simps) (simp add: py_eqs)
  moreover have "map payload_of (picks args io 1) @ map payload_of (picks args io1 k) =
      map payload_of (picks args io (nat (n - cnt)))"
    using picks_Suc [OF io1(1,2), of args k] Suc.hyps(2) by simp
  ultimately show ?case using io1(3) rest(2) by (metis append.assoc)
qed

text \<open>
  C28. With \<open>--count n\<close>, mode \<open>random\<close> ends after exactly \<open>n\<close> datagrams (none for a count of zero
  or less), the payloads being those of the messages the random source picked, in order.
\<close>

theorem random_count_sends_n:
  assumes "all_sendable args" and "input_file args \<noteq> []" and "accepts net" and "0 \<le> delay args"
    and "count args = Some n"
  shows "\<exists>io'. run_random net args io = Some (Ret (), io') \<and>
    length (datagrams io') = length (datagrams io) + nat n \<and>
    map Some (map fst (datagrams io')) =
      map Some (map fst (datagrams io)) @ map payload_of (picks args io (nat n))"
proof -
  obtain io' where io': "random_loop net args 0 io = Some (Ret (), io')"
    "map Some (map fst (datagrams io')) =
      map Some (map fst (datagrams io)) @ map payload_of (picks args io (nat n))"
    using random_loop_counted [OF assms, of 0 io] by auto
  have "length (datagrams io') = length (datagrams io) + nat n"
    using arg_cong [OF io'(2), of length] by (simp add: picks_def)
  with io' show ?thesis by (auto simp: run_random_def)
qed

text \<open>
  C29. Without \<open>--count\<close>, mode \<open>random\<close> never ends of itself: on well-formed messages and a network
  that takes them, the loop does not return.
\<close>

theorem random_without_count_never_ends:
  assumes "all_sendable args" and "input_file args \<noteq> []" and "accepts net" and "0 \<le> delay args"
    and "count args = None"
  shows "run_random net args io = None"
proof (rule ccontr)
  assume "run_random net args io \<noteq> None"
  then obtain x where res: "random_loop net args 0 io = Some x" by (auto simp: run_random_def)
  let ?P = "\<lambda>n a (c :: int) (s :: udp_io) (x :: unit res \<times> udp_io). n = net \<and> a = args \<longrightarrow> False"
  have "?P net args 0 io x"
  proof (rule random_loop.raw_induct [where P = ?P, OF _ res])
    fix f n a c s x
    assume IH: "\<And>n a c s x. f n a c s = Some x \<Longrightarrow> ?P n a c s x"
      and body: "(if (case count a of None \<Rightarrow> True | Some k \<Rightarrow> c < k)
         then andthen (bnd (random_choice (input_file a)) (\<lambda>m. send_message n m a)) (f n a (c + 1)) s
         else ret () s) = Some x"
    show "?P n a c s x"
    proof
      assume eq: "n = net \<and> a = args"
      obtain s' where
        "bnd (random_choice (input_file a)) (\<lambda>m. send_message n m a) s = Some (Ret (), s')"
        using random_turn [OF assms(1-4), of s] eq by blast
      with body eq assms(5) have "f n a (c + 1) s' = Some x" by (simp add: py_eqs)
      with IH eq show False by blast
    qed
  qed
  then show False by simp
qed

section \<open>Mode \<open>manual\<close>\<close>

lemma manual_turn:
  "input_lines io = l # ls \<Longrightarrow> input ask io =
     Some (Ret l, io\<lparr>out := out io @ ask, input_lines := ls\<rparr>)"
  by (simp add: input_def py_eqs)

lemma manual_eof:
  "input_lines io = [] \<Longrightarrow> manual_loop net args ask io = Some (Exc EOFError, io\<lparr>out := out io @ ask\<rparr>)"
  by (subst manual_loop.simps) (simp add: input_def py_eqs)

lemma manual_exit:
  "input_lines io = ''exit'' # ls \<Longrightarrow>
     manual_loop net args ask io = Some (Ret (), io\<lparr>out := out io @ ask, input_lines := ls\<rparr>)"
  by (subst manual_loop.simps) (simp add: manual_turn py_eqs)

lemma manual_not_a_number:
  "input_lines io = l # ls \<Longrightarrow> l \<noteq> ''exit'' \<Longrightarrow> py_int l = Inl e \<Longrightarrow>
     manual_loop net args ask io = Some (Exc e, io\<lparr>out := out io @ ask, input_lines := ls\<rparr>)"
  by (subst manual_loop.simps) (simp add: manual_turn py_eqs)

lemma manual_out_of_range:
  "input_lines io = l # ls \<Longrightarrow> l \<noteq> ''exit'' \<Longrightarrow> py_int l = Inr i \<Longrightarrow>
     \<not> (0 \<le> i \<and> i < int (length (input_file args))) \<Longrightarrow>
     manual_loop net args ask io = manual_loop net args ask
       (io\<lparr>input_lines := ls, out := out io @ ask @ ''Maybe try a valid option.'' @ newline\<rparr>)"
  by (subst manual_loop.simps) (auto simp: manual_turn print_line_def py_eqs)

lemma manual_choice:
  "input_lines io = l # ls \<Longrightarrow> l \<noteq> ''exit'' \<Longrightarrow> py_int l = Inr (int k) \<Longrightarrow>
     k < length (input_file args) \<Longrightarrow>
     manual_loop net args ask io =
       andthen (send_message net (input_file args ! k) args) (manual_loop net args ask)
         (io\<lparr>out := out io @ ask, input_lines := ls\<rparr>)"
  by (subst manual_loop.simps) (simp add: manual_turn list_get_def py_eqs)

lemma manual_loop_returns: "\<exists>r io'. manual_loop net args ask io = Some (r, io')"
proof (induction "input_lines io" arbitrary: io)
  case Nil
  then show ?case by (simp add: manual_eof)
next
  case (Cons l ls)
  note line = Cons.hyps(2) [symmetric]
  show ?case
  proof (cases "l = ''exit''")
    case True
    with line show ?thesis by (simp add: manual_exit)
  next
    case False
    show ?thesis
    proof (cases "py_int l")
      case (Inl e)
      with line False show ?thesis by (simp add: manual_not_a_number)
    next
      case (Inr i)
      show ?thesis
      proof (cases "0 \<le> i \<and> i < int (length (input_file args))")
        case out: False
        show ?thesis
          by (subst manual_out_of_range [OF line False Inr out]) (rule Cons.hyps(1), simp)
      next
        case True
        let ?io = "io\<lparr>out := out io @ ask, input_lines := ls\<rparr>"
        obtain r io1 where send: "send_message net (input_file args ! nat i) args ?io = Some (r, io1)"
          using returnsD [OF returns_send_message] by blast
        have "ls = input_lines io1" using send_message_frame [OF send] by simp
        then have "\<exists>r io'. manual_loop net args ask io1 = Some (r, io')" by (rule Cons.hyps(1))
        with True Inr send show ?thesis
          by (subst manual_choice [OF line False, of "nat i"]) (auto simp: py_eqs split: res.split)
      qed
    qed
  qed
qed

text \<open>
  C26. Mode \<open>manual\<close> always ends: whatever finite text standard input holds and whatever the network
  answers, the loop returns, normally or by an exception.
\<close>

theorem manual_always_ends: "\<exists>r io'. run_manual net args io = Some (r, io')"
proof -
  have "returns (run_manual net args)"
    unfolding run_manual_def Let_def numbered_def print_line_def
    by (intro returns_rules) (simp add: returns_def manual_loop_returns)
  then show ?thesis by (rule returnsD)
qed

text \<open>A session of numbers, each naming a message: the test driver's way to use the mode.\<close>

lemma manual_session:
  assumes "accepts net" and "0 \<le> delay args"
    and "list_all2 (\<lambda>l i. l \<noteq> ''exit'' \<and> py_int l = Inr (int i) \<and> i < length (input_file args)) ls is"
    and "list_all2 (\<lambda>i (bs, d). sendable (input_file args ! i) bs d) is ps"
    and "input_lines io = ls @ ''exit'' # rest"
  shows "\<exists>io'. manual_loop net args ask io = Some (Ret (), io') \<and> input_lines io' = rest \<and>
    datagrams io' = datagrams io @ map (\<lambda>(bs, d). (bs, server_ip args, server_port args)) ps"
  using assms(3-5)
proof (induction ls "is" arbitrary: io ps rule: list_all2_induct)
  case Nil
  then show ?case by (simp add: manual_exit)
next
  case (Cons l ls i "is")
  from Cons.prems(1) obtain bs d qs where ps: "ps = (bs, d) # qs"
    and s: "sendable (input_file args ! i) bs d"
    and qs: "list_all2 (\<lambda>i (bs, d). sendable (input_file args ! i) bs d) is qs"
    by (auto simp: list_all2_Cons1)
  let ?io = "io\<lparr>out := out io @ ask, input_lines := ls @ ''exit'' # rest\<rparr>"
  let ?io1 = "(log_send args bs d ?io)\<lparr>slept := slept io @ [delay args]\<rparr>"
  have "input_lines ?io1 = ls @ ''exit'' # rest" by (simp add: log_send_def)
  from Cons.IH [OF qs this] obtain io' where
    io': "manual_loop net args ask ?io1 = Some (Ret (), io')" "input_lines io' = rest"
    "datagrams io' = datagrams ?io1 @ map (\<lambda>(bs, d). (bs, server_ip args, server_port args)) qs"
    by blast
  have "manual_loop net args ask io = manual_loop net args ask ?io1"
    using Cons.hyps Cons.prems(2) send_message_sendable [OF s assms(1)] assms(2)
    by (simp add: manual_choice py_eqs)
  with io' ps show ?case by (auto simp: log_send_def)
qed

lemma map_each_numbered:
  "list_all2 (\<lambda>m d. m ''description'' = Some d) ms ds \<Longrightarrow>
     map_each numbered (List.enumerate n ms) io =
       Some (Ret (map (\<lambda>(i, d). str_nat i @ ''. '' @ d) (List.enumerate n ds)), io)"
  by (induction arbitrary: n rule: list_all2_induct) (simp_all add: numbered_def dict_get_def py_eqs)

text \<open>
  C27. In mode \<open>manual\<close>, a session of message numbers ended by \<open>exit\<close> sends exactly the named
  messages, in the order of the numbers, then ends normally and leaves the rest of the input unread.
\<close>

theorem manual_sends_choices:
  assumes "accepts net" and "0 \<le> delay args"
    and "list_all2 (\<lambda>m d. m ''description'' = Some d) (input_file args) ds"
    and "list_all2 (\<lambda>l i. l \<noteq> ''exit'' \<and> py_int l = Inr (int i) \<and> i < length (input_file args)) ls is"
    and "list_all2 (\<lambda>i (bs, d). sendable (input_file args ! i) bs d) is ps"
    and "input_lines io = ls @ ''exit'' # rest"
  shows "\<exists>io'. run_manual net args io = Some (Ret (), io') \<and> input_lines io' = rest \<and>
    datagrams io' = datagrams io @ map (\<lambda>(bs, d). (bs, server_ip args, server_port args)) ps"
proof -
  have io: "\<exists>io'. manual_loop net args ask io1 = Some (Ret (), io') \<and> input_lines io' = rest \<and>
      datagrams io' = datagrams io @ map (\<lambda>(bs, d). (bs, server_ip args, server_port args)) ps"
    if "input_lines io1 = input_lines io" "datagrams io1 = datagrams io" for io1 ask
    using manual_session [OF assms(1,2,4,5), of io1 rest ask] that assms(6) by simp
  show ?thesis
    unfolding run_manual_def Let_def
    by (simp add: py_eqs map_each_numbered [OF assms(3)] print_line_def io)
qed

end
