(* ===== verification/Topics.thy ===== *)
theory Topics
  imports Py_Str
begin

text \<open>
  The \<open>Topic\<close> class of \<open>test.py\<close>: what a message says about a topic, the text a subscriber is
  expected to show for it, and the two tables of topics the tests go through.
\<close>

record Topic =
  topic_name :: string
  category :: string
  topic_value :: string

definition mk_topic :: "string \<Rightarrow> string \<Rightarrow> string \<Rightarrow> Topic" where
  "mk_topic name cat val = \<lparr>topic_name = name, category = cat, topic_value = val\<rparr>"

definition topic_print :: "Topic \<Rightarrow> string" where
  "topic_print t = topic_name t @ '' - '' @ category t @ '' - '' @ topic_value t"

definition plain_topics :: "Topic list" where
  "plain_topics =
    [mk_topic ''a_non_negative_int'' ''INT'' ''10'',
     mk_topic ''a_negative_int'' ''INT'' ''-10'',
     mk_topic ''a_larger_value'' ''INT'' ''1234567890'',
     mk_topic ''a_large_negative_value'' ''INT'' ''-1234567890'',
     mk_topic ''abcdefghijklmnopqrstuvwxyzabcdefghijklmnopqrstuvwx'' ''INT'' ''10'',
     mk_topic ''that_is_small_short_real'' ''SHORT_REAL'' ''2.30'',
     mk_topic ''that_is_big_short_real'' ''SHORT_REAL'' ''655.05'',
     mk_topic ''that_is_integer_short_real'' ''SHORT_REAL'' ''17'',
     mk_topic ''float_seventeen'' ''FLOAT'' ''17'',
     mk_topic ''float_minus_seventeen'' ''FLOAT'' ''-17'',
     mk_topic ''a_strange_float'' ''FLOAT'' ''1234.4321'',
     mk_topic ''a_negative_strange_float'' ''FLOAT'' ''-1234.4321'',
     mk_topic ''a_subunitary_float'' ''FLOAT'' ''0.042'',
     mk_topic ''a_negative_subunitary_float'' ''FLOAT'' ''-0.042'',
     mk_topic ''ana_string_announce'' ''STRING'' ''Ana are mere'',
     mk_topic ''huge_string'' ''STRING'' ''abcdefghijklmnopqrstuvwxyz'']"

definition wildcard_topics :: "Topic list" where
  "wildcard_topics =
    [mk_topic ''upb/precis/elevator/1/people'' ''INT'' ''5'',
     mk_topic ''upb/precis/elevator/1/floor'' ''INT'' ''4'',
     mk_topic ''upb/precis/elevator/2/people'' ''INT'' ''0'',
     mk_topic ''upb/precis/elevator/2/floor'' ''INT'' ''0'',
     mk_topic ''upb/precis/100/temperature'' ''SHORT_REAL'' ''24.30'',
     mk_topic ''upb/precis/100/humidity'' ''SHORT_REAL'' ''29.87'',
     mk_topic ''upb/ec/100/temperature'' ''SHORT_REAL'' ''21.30'',
     mk_topic ''upb/ec/100/humidity'' ''SHORT_REAL'' ''26.11'',
     mk_topic ''upb/ec/100/pressure'' ''FLOAT'' ''1013.2512'',
     mk_topic ''upb/precis/100/pressure'' ''FLOAT'' ''1043.1249'',
     mk_topic ''upb/precis/100/schedule/monday/8'' ''STRING'' ''Protocoale De Comunicatie'',
     mk_topic ''upb/ec/100/schedule/tuesday/12'' ''STRING'' ''Protocoale De Comunicatie'',
     mk_topic ''upb/precis/100/schedule/monday/8'' ''STRING'' ''Protocoale De Comunicatie'',
     mk_topic ''upb/ec/100/schedule/tuesday/12'' ''STRING'' ''Protocoale De Comunicatie'']"

definition generate_topics :: "bool \<Rightarrow> Topic list" where
  "generate_topics use_wildcard = (if \<not> use_wildcard then plain_topics else wildcard_topics)"

lemmas topics_defs = generate_topics_def plain_topics_def wildcard_topics_def mk_topic_def

lemma length_topics: "length (generate_topics False) = 16" "length (generate_topics True) = 14"
  by (simp_all add: topics_defs)

text \<open>Every topic name fits the 50 bytes a datagram has for it.\<close>

lemma topic_names_fit: "t \<in> set (generate_topics b) \<Longrightarrow> length (topic_name t) \<le> 50"
  by (cases b) (auto simp: topics_defs)

lemma plain_topics_distinct: "distinct (map topic_name plain_topics)"
  by (simp add: topics_defs)

end
