(* ===== verification/Datagrams.thy ===== *)
theory Datagrams
  imports Py_Str
begin

text \<open>
  The format of a datagram, the interface between the load generator and the broker: a topic in
  fifty bytes, filled with null bytes, a type code, and a content that depends on the type. Bytes are
  characters, numbers in network order.
\<close>

text \<open>A topic name in its field of fifty bytes, and a datagram's four fields.\<close>

definition NUL :: char where "NUL = CHR 0x00"

definition pad50 :: "string \<Rightarrow> string" where
  "pad50 name = name @ replicate (50 - length name) NUL"

definition datagram :: "string \<Rightarrow> nat \<Rightarrow> string \<Rightarrow> string" where
  "datagram name code content = pad50 name @ [char_of code] @ content"

definition int_payload :: "string \<Rightarrow> nat \<Rightarrow> nat \<Rightarrow> string" where
  "int_payload name sign n = datagram name 0 (map char_of [sign, n div 16777216 mod 256,
     n div 65536 mod 256, n div 256 mod 256, n mod 256])"

definition short_real_payload :: "string \<Rightarrow> nat \<Rightarrow> string" where
  "short_real_payload name n = datagram name 1 (map char_of [n div 256 mod 256, n mod 256])"

definition float_payload :: "string \<Rightarrow> nat \<Rightarrow> nat \<Rightarrow> nat \<Rightarrow> string" where
  "float_payload name sign n e = datagram name 2 (map char_of [sign, n div 16777216 mod 256,
     n div 65536 mod 256, n div 256 mod 256, n mod 256, e])"

definition string_payload :: "string \<Rightarrow> string \<Rightarrow> string" where
  "string_payload name s = datagram name 3 s"

lemmas payload_defs = int_payload_def short_real_payload_def float_payload_def string_payload_def
  datagram_def pad50_def NUL_def

lemma char_of_small: "char_of (n :: nat) = Char (odd n) (odd (n div 2)) (odd (n div 4)) (odd (n div 8))
    (odd (n div 16)) (odd (n div 32)) (odd (n div 64)) (odd (n div 128))"
  by (simp add: char_of_def bit_iff_odd)

text \<open>Names that a datagram can carry and a C string can hold.\<close>

definition name_ok :: "string \<Rightarrow> bool" where
  "name_ok name \<longleftrightarrow> length name \<le> 50 \<and> NUL \<notin> set name"

lemma length_pad50: "length name \<le> 50 \<Longrightarrow> length (pad50 name) = 50"
  by (simp add: pad50_def)

end
