(* ===== verification/Samples.thy ===== *)
theory Samples
  imports Udp_Modes Topics Datagrams
begin

text \<open>
  The two JSON files the checker feeds to the UDP client, \<open>sample_payloads.json\<close> and
  \<open>sample_wildcard_payloads.json\<close>, as message lists, and what their payloads decode to. The text
  of the last plain payload is written with its repetition made explicit.
\<close>

definition mk_message :: "string \<Rightarrow> string \<Rightarrow> message" where
  "mk_message d p = [''description'' \<mapsto> d, ''payload_base64'' \<mapsto> p]"

section \<open>The files\<close>

definition huge_period :: string where
  "huge_period =
      ''YWJjZGVmZ2hpamtsbW5vcHFyc3R1dnd4eXphYmNkZWZnaGlqa2xtbm9wcXJzdHV2d3h5emFiY2RlZmdoaWpr'' @
      ''bG1ub3BxcnN0dXZ3eHl6''"

definition huge_text :: string where
  "huge_text =
      ''aHVnZV9zdHJpbmcAAAAAAAAAAAAAAAAAAAAAAAAAAAAAAAAAAAAAAAAAAAAAAAAAAAAD'' @
      concat (replicate 19 huge_period) @ ''YWJjZGVmZ2hpamtsbW5vcHFy''"

definition sample_items :: "(string \<times> string) list" where
  "sample_items =
    [(''topic {a_non_negative_int} - type {INT} - value{10}'',
       ''YV9ub25fbmVnYXRpdmVfaW50AAAAAAAAAAAAAAAAAAAAAAAAAAAAAAAAAAAAAAAAAAAAAAAAAAo=''),
     (''topic {a_negative_int} - type {INT} - value{-10}'',
       ''YV9uZWdhdGl2ZV9pbnQAAAAAAAAAAAAAAAAAAAAAAAAAAAAAAAAAAAAAAAAAAAAAAAAAAQAAAAo=''),
     (''topic {a_larger_value} - type {INT} - value{1234567890}'',
       ''YV9sYXJnZXJfdmFsdWUAAAAAAAAAAAAAAAAAAAAAAAAAAAAAAAAAAAAAAAAAAAAAAAAAAEmWAtI=''),
     (''topic {a_large_negative_value} - type {INT} - value{-1234567890}'',
       ''YV9sYXJnZV9uZWdhdGl2ZV92YWx1ZQAAAAAAAAAAAAAAAAAAAAAAAAAAAAAAAAAAAAAAAUmWAtI=''),
     (''topic {<50 chars of abc...>} - type {INT} - value{10}'',
       ''YWJjZGVmZ2hpamtsbW5vcHFyc3R1dnd4eXphYmNkZWZnaGlqa2xtbm9wcXJzdHV2d3gAAAAAAAo=''),
     (''topic {that_is_small_short_real} - type {SHORT_REAL} - value{2.30}'',
       ''dGhhdF9pc19zbWFsbF9zaG9ydF9yZWFsAAAAAAAAAAAAAAAAAAAAAAAAAAAAAAAAAAABAOY=''),
     (''topic {that_is_big_short_real} - type {SHORT_REAL} - value{655.05}'',
       ''dGhhdF9pc19iaWdfc2hvcnRfcmVhbAAAAAAAAAAAAAAAAAAAAAAAAAAAAAAAAAAAAAAB/+E=''),
     (''topic {that_is_integer_short_real} - type {SHORT_REAL} - value{17 / 17.00}'',
       ''dGhhdF9pc19pbnRlZ2VyX3Nob3J0X3JlYWwAAAAAAAAAAAAAAAAAAAAAAAAAAAAAAAABBqQ=''),
     (''topic {float_seventeen} - type {FLOAT} - value{17}'',
       ''ZmxvYXRfc2V2ZW50ZWVuAAAAAAAAAAAAAAAAAAAAAAAAAAAAAAAAAAAAAAAAAAAAAAACAAAAABEA''),
     (''topic {float_minus_seventeen} - type {FLOAT} - value{-17}'',
       ''ZmxvYXRfbWludXNfc2V2ZW50ZWVuAAAAAAAAAAAAAAAAAAAAAAAAAAAAAAAAAAAAAAACAQAAABEA''),
     (''topic {a_strange_float} - type {FLOAT} - value{1234.4321}'',
       ''YV9zdHJhbmdlX2Zsb2F0AAAAAAAAAAAAAAAAAAAAAAAAAAAAAAAAAAAAAAAAAAAAAAACAAC8XAEE''),
     (''topic {a_negative_strange_float} - type {FLOAT} - value{-1234.4321}'',
       ''YV9uZWdhdGl2ZV9zdHJhbmdlX2Zsb2F0AAAAAAAAAAAAAAAAAAAAAAAAAAAAAAAAAAACAQC8XAEE''),
     (''topic {a_subunitary_float} - type {FLOAT} - value{0.042}'',
       ''YV9zdWJ1bml0YXJ5X2Zsb2F0AAAAAAAAAAAAAAAAAAAAAAAAAAAAAAAAAAAAAAAAAAACAAAAACoD''),
     (''topic {a_negative_subunitary_float} - type {FLOAT} - value{-0.042}'',
       ''YV9uZWdhdGl2ZV9zdWJ1bml0YXJ5X2Zsb2F0AAAAAAAAAAAAAAAAAAAAAAAAAAAAAAACAQAAACoD''),
     (''topic {ana_string_announce} - type {STRING} - value{Ana are mere}'',
       ''YW5hX3N0cmluZ19hbm5vdW5jZQAAAAAAAAAAAAAAAAAAAAAAAAAAAAAAAAAAAAAAAAADQW5hIGFyZSBtZXJl''),
     (''topic {huge_string} - type {STRING} - value{<1500 chars of '' @ [CHR 0x22] @ ''abc...'' @ [CHR 0x22] @ ''>}'',
       huge_text)]"

definition sample_payloads :: "message list" where
  "sample_payloads = map (\<lambda>(d, p). mk_message d p) sample_items"

definition sample_wildcard_items :: "(string \<times> string) list" where
  "sample_wildcard_items =
    [(''topic {upb/precis/elevator/1/people} - type {INT} - value{5}'',
       ''dXBiL3ByZWNpcy9lbGV2YXRvci8xL3Blb3BsZQAAAAAAAAAAAAAAAAAAAAAAAAAAAAAAAAAAAAU=''),
     (''topic {upb/precis/elevator/1/floor} - type {INT} - value{4}'',
       ''dXBiL3ByZWNpcy9lbGV2YXRvci8xL2Zsb29yAAAAAAAAAAAAAAAAAAAAAAAAAAAAAAAAAAAAAAQ=''),
     (''topic {upb/precis/elevator/2/people} - type {INT} - value{0}'',
       ''dXBiL3ByZWNpcy9lbGV2YXRvci8yL3Blb3BsZQAAAAAAAAAAAAAAAAAAAAAAAAAAAAAAAQAAAAA=''),
     (''topic {upb/precis/elevator/2/floor} - type {INT} - value{0}'',
       ''dXBiL3ByZWNpcy9lbGV2YXRvci8yL2Zsb29yAAAAAAAAAAAAAAAAAAAAAAAAAAAAAAAAAQAAAAA=''),
     (''topic {upb/precis/100/temperature} - type {SHORT_REAL} - value{24.30}'',
       ''dXBiL3ByZWNpcy8xMDAvdGVtcGVyYXR1cmUAAAAAAAAAAAAAAAAAAAAAAAAAAAAAAAABCX4=''),
     (''topic {upb/precis/100/humidity} - type {SHORT_REAL} - value{29.87}'',
       ''dXBiL3ByZWNpcy8xMDAvaHVtaWRpdHkAAAAAAAAAAAAAAAAAAAAAAAAAAAAAAAAAAAABC6s=''),
     (''topic {upb/ec/100/temperature} - type {SHORT_REAL} - value{21.30}'',
       ''dXBiL2VjLzEwMC90ZW1wZXJhdHVyZQAAAAAAAAAAAAAAAAAAAAAAAAAAAAAAAAAAAAABCFI=''),
     (''topic {upb/ec/100/humidity} - type {SHORT_REAL} - value{26.11}'',
       ''dXBiL2VjLzEwMC9odW1pZGl0eQAAAAAAAAAAAAAAAAAAAAAAAAAAAAAAAAAAAAAAAAABCjM=''),
     (''topic {upb/ec/100/pressure} - type {FLOAT} - value{1013.2512}'',
       ''dXBiL2VjLzEwMC9wcmVzc3VyZQAAAAAAAAAAAAAAAAAAAAAAAAAAAAAAAAAAAAAAAAACAACanCAE''),
     (''topic {upb/precis/100/pressure} - type {FLOAT} - value{1043.1249}'',
       ''dXBiL3ByZWNpcy8xMDAvcHJlc3N1cmUAAAAAAAAAAAAAAAAAAAAAAAAAAAAAAAAAAAACAACfKxEE''),
     (''topic {upb/precis/100/schedule/monday/8} - type {STRING} - value{Protocoale De Comunicatie}'',
       ''dXBiL3ByZWNpcy8xMDAvc2NoZWR1bGUvbW9uZGF5LzgAAAAAAAAAAAAAAAAAAAAAAAADUHJvdG9jb2FsZSBEZSBDb211bmljYXRpZQA=''),
     (''topic {upb/ec/100/schedule/tuesday/12} - type {STRING} - value{Protocoale De Comunicatie}'',
       ''dXBiL2VjLzEwMC9zY2hlZHVsZS90dWVzZGF5LzEyAAAAAAAAAAAAAAAAAAAAAAAAAAADUHJvdG9jb2FsZSBEZSBDb211bmljYXRpZQA=''),
     (''topic {upb/precis/100/schedule/monday/8} - type {STRING} - value{Protocoale De Comunicatie}'',
       ''dXBiL3ByZWNpcy8xMDAvc2NoZWR1bGUvbW9uZGF5LzgAAAAAAAAAAAAAAAAAAAAAAAADUHJvdG9jb2FsZSBEZSBDb211bmljYXRpZQA=''),
     (''topic {upb/ec/100/schedule/tuesday/12} - type {STRING} - value{Protocoale De Comunicatie}'',
       ''dXBiL2VjLzEwMC9zY2hlZHVsZS90dWVzZGF5LzEyAAAAAAAAAAAAAAAAAAAAAAAAAAADUHJvdG9jb2FsZSBEZSBDb211bmljYXRpZQA='')]"

definition sample_wildcard_payloads :: "message list" where
  "sample_wildcard_payloads = map (\<lambda>(d, p). mk_message d p) sample_wildcard_items"

section \<open>Their payloads\<close>

definition alphabet :: string where "alphabet = ''abcdefghijklmnopqrstuvwxyz''"

definition plain_datagrams :: "string list" where
  "plain_datagrams =
    [int_payload ''a_non_negative_int'' 0 10,
     int_payload ''a_negative_int'' 1 10,
     int_payload ''a_larger_value'' 0 1234567890,
     int_payload ''a_large_negative_value'' 1 1234567890,
     int_payload ''abcdefghijklmnopqrstuvwxyzabcdefghijklmnopqrstuvwx'' 0 10,
     short_real_payload ''that_is_small_short_real'' 230,
     short_real_payload ''that_is_big_short_real'' 65505,
     short_real_payload ''that_is_integer_short_real'' 1700,
     float_payload ''float_seventeen'' 0 17 0,
     float_payload ''float_minus_seventeen'' 1 17 0,
     float_payload ''a_strange_float'' 0 12344321 4,
     float_payload ''a_negative_strange_float'' 1 12344321 4,
     float_payload ''a_subunitary_float'' 0 42 3,
     float_payload ''a_negative_subunitary_float'' 1 42 3,
     string_payload ''ana_string_announce'' ''Ana are mere'',
     string_payload ''huge_string'' (concat (replicate 57 alphabet) @ ''abcdefghijklmnopqr'')]"

definition wildcard_datagrams :: "string list" where
  "wildcard_datagrams =
    [int_payload ''upb/precis/elevator/1/people'' 0 5,
     int_payload ''upb/precis/elevator/1/floor'' 0 4,
     int_payload ''upb/precis/elevator/2/people'' 1 0,
     int_payload ''upb/precis/elevator/2/floor'' 1 0,
     short_real_payload ''upb/precis/100/temperature'' 2430,
     short_real_payload ''upb/precis/100/humidity'' 2987,
     short_real_payload ''upb/ec/100/temperature'' 2130,
     short_real_payload ''upb/ec/100/humidity'' 2611,
     float_payload ''upb/ec/100/pressure'' 0 10132512 4,
     float_payload ''upb/precis/100/pressure'' 0 10431249 4,
     string_payload ''upb/precis/100/schedule/monday/8'' (''Protocoale De Comunicatie'' @ [NUL]),
     string_payload ''upb/ec/100/schedule/tuesday/12'' (''Protocoale De Comunicatie'' @ [NUL]),
     string_payload ''upb/precis/100/schedule/monday/8'' (''Protocoale De Comunicatie'' @ [NUL]),
     string_payload ''upb/ec/100/schedule/tuesday/12'' (''Protocoale De Comunicatie'' @ [NUL])]"

section \<open>Decoding the files\<close>

lemma payload_of_mk: "payload_of (mk_message d p) = b64decode_opt p"
  by (simp add: payload_of_def mk_message_def)

lemma description_mk: "mk_message d p ''description'' = Some d"
  by (simp add: mk_message_def)

text \<open>Encodings of whole triples of bytes can be joined.\<close>

lemma b64encode_append:
  "length bs mod 3 = 0 \<Longrightarrow> b64encode (bs @ cs) = b64encode bs @ b64encode cs"
  by (induction bs rule: b64encode.induct) (auto simp: Let_def mod_Suc split: if_splits)

lemma b64encode_repeat:
  "length bs mod 3 = 0 \<Longrightarrow>
     b64encode (concat (replicate n bs) @ cs) = concat (replicate n (b64encode bs)) @ b64encode cs"
  by (induction n) (simp_all add: b64encode_append)

lemma decode_plain_int:
  "b64decode_opt ''YV9ub25fbmVnYXRpdmVfaW50AAAAAAAAAAAAAAAAAAAAAAAAAAAAAAAAAAAAAAAAAAAAAAAAAAo='' =
     Some (''a_non_negative_int'' @ replicate 32 (CHR 0x00) @
       [CHR 0x00, CHR 0x00, CHR 0x00, CHR 0x00, CHR 0x00, CHR 0x0A])"
  "b64decode_opt ''YV9uZWdhdGl2ZV9pbnQAAAAAAAAAAAAAAAAAAAAAAAAAAAAAAAAAAAAAAAAAAAAAAAAAAQAAAAo='' =
     Some (''a_negative_int'' @ replicate 36 (CHR 0x00) @
       [CHR 0x00, CHR 0x01, CHR 0x00, CHR 0x00, CHR 0x00, CHR 0x0A])"
  "b64decode_opt ''YV9sYXJnZXJfdmFsdWUAAAAAAAAAAAAAAAAAAAAAAAAAAAAAAAAAAAAAAAAAAAAAAAAAAEmWAtI='' =
     Some (''a_larger_value'' @ replicate 36 (CHR 0x00) @
       [CHR 0x00, CHR 0x00] @ ''I'' @ [CHR 0x96, CHR 0x02, CHR 0xD2])"
  "b64decode_opt ''YV9sYXJnZV9uZWdhdGl2ZV92YWx1ZQAAAAAAAAAAAAAAAAAAAAAAAAAAAAAAAAAAAAAAAUmWAtI='' =
     Some (''a_large_negative_value'' @ replicate 28 (CHR 0x00) @
       [CHR 0x00, CHR 0x01] @ ''I'' @ [CHR 0x96, CHR 0x02, CHR 0xD2])"
  "b64decode_opt ''YWJjZGVmZ2hpamtsbW5vcHFyc3R1dnd4eXphYmNkZWZnaGlqa2xtbm9wcXJzdHV2d3gAAAAAAAo='' =
     Some (''abcdefghijklmnopqrstuvwxyzabcdefghijklmnopqrstuvwx'' @ replicate 0 (CHR 0x00) @
       [CHR 0x00, CHR 0x00, CHR 0x00, CHR 0x00, CHR 0x00, CHR 0x0A])"
  by code_simp+

lemma decode_plain_short_real:
  "b64decode_opt ''dGhhdF9pc19zbWFsbF9zaG9ydF9yZWFsAAAAAAAAAAAAAAAAAAAAAAAAAAAAAAAAAAABAOY='' =
     Some (''that_is_small_short_real'' @ replicate 26 (CHR 0x00) @
       [CHR 0x01, CHR 0x00, CHR 0xE6])"
  "b64decode_opt ''dGhhdF9pc19iaWdfc2hvcnRfcmVhbAAAAAAAAAAAAAAAAAAAAAAAAAAAAAAAAAAAAAAB/+E='' =
     Some (''that_is_big_short_real'' @ replicate 28 (CHR 0x00) @
       [CHR 0x01, CHR 0xFF, CHR 0xE1])"
  "b64decode_opt ''dGhhdF9pc19pbnRlZ2VyX3Nob3J0X3JlYWwAAAAAAAAAAAAAAAAAAAAAAAAAAAAAAAABBqQ='' =
     Some (''that_is_integer_short_real'' @ replicate 24 (CHR 0x00) @
       [CHR 0x01, CHR 0x06, CHR 0xA4])"
  by code_simp+

lemma decode_plain_float:
  "b64decode_opt ''ZmxvYXRfc2V2ZW50ZWVuAAAAAAAAAAAAAAAAAAAAAAAAAAAAAAAAAAAAAAAAAAAAAAACAAAAABEA'' =
     Some (''float_seventeen'' @ replicate 35 (CHR 0x00) @
       [CHR 0x02, CHR 0x00, CHR 0x00, CHR 0x00, CHR 0x00, CHR 0x11, CHR 0x00])"
  "b64decode_opt ''ZmxvYXRfbWludXNfc2V2ZW50ZWVuAAAAAAAAAAAAAAAAAAAAAAAAAAAAAAAAAAAAAAACAQAAABEA'' =
     Some (''float_minus_seventeen'' @ replicate 29 (CHR 0x00) @
       [CHR 0x02, CHR 0x01, CHR 0x00, CHR 0x00, CHR 0x00, CHR 0x11, CHR 0x00])"
  "b64decode_opt ''YV9zdHJhbmdlX2Zsb2F0AAAAAAAAAAAAAAAAAAAAAAAAAAAAAAAAAAAAAAAAAAAAAAACAAC8XAEE'' =
     Some (''a_strange_float'' @ replicate 35 (CHR 0x00) @
       [CHR 0x02, CHR 0x00, CHR 0x00, CHR 0xBC, CHR 0x5C, CHR 0x01, CHR 0x04])"
  "b64decode_opt ''YV9uZWdhdGl2ZV9zdHJhbmdlX2Zsb2F0AAAAAAAAAAAAAAAAAAAAAAAAAAAAAAAAAAACAQC8XAEE'' =
     Some (''a_negative_strange_float'' @ replicate 26 (CHR 0x00) @
       [CHR 0x02, CHR 0x01, CHR 0x00, CHR 0xBC, CHR 0x5C, CHR 0x01, CHR 0x04])"
  "b64decode_opt ''YV9zdWJ1bml0YXJ5X2Zsb2F0AAAAAAAAAAAAAAAAAAAAAAAAAAAAAAAAAAAAAAAAAAACAAAAACoD'' =
     Some (''a_subunitary_float'' @ replicate 32 (CHR 0x00) @
       [CHR 0x02, CHR 0x00, CHR 0x00, CHR 0x00, CHR 0x00] @ ''*'' @ [CHR 0x03])"
  "b64decode_opt ''YV9uZWdhdGl2ZV9zdWJ1bml0YXJ5X2Zsb2F0AAAAAAAAAAAAAAAAAAAAAAAAAAAAAAACAQAAACoD'' =
     Some (''a_negative_subunitary_float'' @ replicate 23 (CHR 0x00) @
       [CHR 0x02, CHR 0x01, CHR 0x00, CHR 0x00, CHR 0x00] @ ''*'' @ [CHR 0x03])"
  by code_simp+

lemma decode_plain_string:
  "b64decode_opt ''YW5hX3N0cmluZ19hbm5vdW5jZQAAAAAAAAAAAAAAAAAAAAAAAAAAAAAAAAAAAAAAAAADQW5hIGFyZSBtZXJl'' =
     Some (''ana_string_announce'' @ replicate 31 (CHR 0x00) @
       [CHR 0x03] @ ''Ana are mere'')"
  by code_simp+

lemma decode_wild_int:
  "b64decode_opt ''dXBiL3ByZWNpcy9lbGV2YXRvci8xL3Blb3BsZQAAAAAAAAAAAAAAAAAAAAAAAAAAAAAAAAAAAAU='' =
     Some (''upb/precis/elevator/1/people'' @ replicate 22 (CHR 0x00) @
       [CHR 0x00, CHR 0x00, CHR 0x00, CHR 0x00, CHR 0x00, CHR 0x05])"
  "b64decode_opt ''dXBiL3ByZWNpcy9lbGV2YXRvci8xL2Zsb29yAAAAAAAAAAAAAAAAAAAAAAAAAAAAAAAAAAAAAAQ='' =
     Some (''upb/precis/elevator/1/floor'' @ replicate 23 (CHR 0x00) @
       [CHR 0x00, CHR 0x00, CHR 0x00, CHR 0x00, CHR 0x00, CHR 0x04])"
  "b64decode_opt ''dXBiL3ByZWNpcy9lbGV2YXRvci8yL3Blb3BsZQAAAAAAAAAAAAAAAAAAAAAAAAAAAAAAAQAAAAA='' =
     Some (''upb/precis/elevator/2/people'' @ replicate 22 (CHR 0x00) @
       [CHR 0x00, CHR 0x01, CHR 0x00, CHR 0x00, CHR 0x00, CHR 0x00])"
  "b64decode_opt ''dXBiL3ByZWNpcy9lbGV2YXRvci8yL2Zsb29yAAAAAAAAAAAAAAAAAAAAAAAAAAAAAAAAAQAAAAA='' =
     Some (''upb/precis/elevator/2/floor'' @ replicate 23 (CHR 0x00) @
       [CHR 0x00, CHR 0x01, CHR 0x00, CHR 0x00, CHR 0x00, CHR 0x00])"
  by code_simp+

lemma decode_wild_short_real:
  "b64decode_opt ''dXBiL3ByZWNpcy8xMDAvdGVtcGVyYXR1cmUAAAAAAAAAAAAAAAAAAAAAAAAAAAAAAAABCX4='' =
     Some (''upb/precis/100/temperature'' @ replicate 24 (CHR 0x00) @
       [CHR 0x01, CHR 0x09] @ ''~'')"
  "b64decode_opt ''dXBiL3ByZWNpcy8xMDAvaHVtaWRpdHkAAAAAAAAAAAAAAAAAAAAAAAAAAAAAAAAAAAABC6s='' =
     Some (''upb/precis/100/humidity'' @ replicate 27 (CHR 0x00) @
       [CHR 0x01, CHR 0x0B, CHR 0xAB])"
  "b64decode_opt ''dXBiL2VjLzEwMC90ZW1wZXJhdHVyZQAAAAAAAAAAAAAAAAAAAAAAAAAAAAAAAAAAAAABCFI='' =
     Some (''upb/ec/100/temperature'' @ replicate 28 (CHR 0x00) @
       [CHR 0x01, CHR 0x08] @ ''R'')"
  "b64decode_opt ''dXBiL2VjLzEwMC9odW1pZGl0eQAAAAAAAAAAAAAAAAAAAAAAAAAAAAAAAAAAAAAAAAABCjM='' =
     Some (''upb/ec/100/humidity'' @ replicate 31 (CHR 0x00) @
       [CHR 0x01, CHR 0x0A] @ ''3'')"
  by code_simp+

lemma decode_wild_float:
  "b64decode_opt ''dXBiL2VjLzEwMC9wcmVzc3VyZQAAAAAAAAAAAAAAAAAAAAAAAAAAAAAAAAAAAAAAAAACAACanCAE'' =
     Some (''upb/ec/100/pressure'' @ replicate 31 (CHR 0x00) @
       [CHR 0x02, CHR 0x00, CHR 0x00, CHR 0x9A, CHR 0x9C] @ '' '' @ [CHR 0x04])"
  "b64decode_opt ''dXBiL3ByZWNpcy8xMDAvcHJlc3N1cmUAAAAAAAAAAAAAAAAAAAAAAAAAAAAAAAAAAAACAACfKxEE'' =
     Some (''upb/precis/100/pressure'' @ replicate 27 (CHR 0x00) @
       [CHR 0x02, CHR 0x00, CHR 0x00, CHR 0x9F] @ ''+'' @ [CHR 0x11, CHR 0x04])"
  by code_simp+

lemma decode_wild_string:
  "b64decode_opt ''dXBiL3ByZWNpcy8xMDAvc2NoZWR1bGUvbW9uZGF5LzgAAAAAAAAAAAAAAAAAAAAAAAADUHJvdG9jb2FsZSBEZSBDb211bmljYXRpZQA='' =
     Some (''upb/precis/100/schedule/monday/8'' @ replicate 18 (CHR 0x00) @
       [CHR 0x03] @ ''Protocoale De Comunicatie'' @ [CHR 0x00])"
  "b64decode_opt ''dXBiL2VjLzEwMC9zY2hlZHVsZS90dWVzZGF5LzEyAAAAAAAAAAAAAAAAAAAAAAAAAAADUHJvdG9jb2FsZSBEZSBDb211bmljYXRpZQA='' =
     Some (''upb/ec/100/schedule/tuesday/12'' @ replicate 20 (CHR 0x00) @
       [CHR 0x03] @ ''Protocoale De Comunicatie'' @ [CHR 0x00])"
  by code_simp+

lemma concat_replicate_triple:
  "concat (replicate (3 * n) s) = concat (replicate n (s @ s @ s))"
  by (induction n) (simp_all add: numeral_3_eq_3)

lemma decode_huge: "b64decode_opt huge_text =
    Some (string_payload ''huge_string'' (concat (replicate 57 alphabet) @ ''abcdefghijklmnopqr''))"
  (is "_ = Some ?bs")
proof -
  let ?three = "alphabet @ alphabet @ alphabet"
  have split: "?bs = (pad50 ''huge_string'' @ [CHR 0x03]) @
      (concat (replicate 19 ?three) @ ''abcdefghijklmnopqr'')"
    using concat_replicate_triple [of 19 alphabet]
    by (simp add: string_payload_def datagram_def char_of_small)
  have head: "b64encode (pad50 ''huge_string'' @ [CHR 0x03]) =
      ''aHVnZV9zdHJpbmcAAAAAAAAAAAAAAAAAAAAAAAAAAAAAAAAAAAAAAAAAAAAAAAAAAAAD''"
    by code_simp
  have period: "b64encode ?three = huge_period"
    by code_simp
  have rest: "b64encode ''abcdefghijklmnopqr'' = ''YWJjZGVmZ2hpamtsbW5vcHFy''"
    by code_simp
  have "b64encode ?bs = huge_text"
    unfolding split
    by (subst b64encode_append, simp add: pad50_def, subst b64encode_repeat, simp add: alphabet_def)
      (simp only: head period rest huge_text_def append_assoc)
  then show ?thesis using base64_codec.dec_enc [of ?bs] by simp
qed

lemmas decodings =
  decode_plain_int decode_plain_short_real decode_plain_float
  decode_plain_string decode_wild_int decode_wild_short_real
  decode_wild_float decode_wild_string decode_huge

lemma sample_payloads_decode: "map payload_of sample_payloads = map Some plain_datagrams"
  by (simp only: sample_payloads_def sample_items_def plain_datagrams_def list.map prod.case payload_of_mk decodings)
    (simp add: payload_defs char_of_small)

lemma sample_wildcard_payloads_decode:
  "map payload_of sample_wildcard_payloads = map Some wildcard_datagrams"
  by (simp only: sample_wildcard_payloads_def sample_wildcard_items_def wildcard_datagrams_def list.map prod.case
      payload_of_mk decodings)
    (simp add: payload_defs char_of_small)

end
