(* ===== verification/Udp_Props.thy ===== *)
theory Udp_Props
  imports Samples
begin

text \<open>
  Properties of the whole program \<open>udp_client.py\<close>, from the parsed command line on, and of the
  files it is used with.
\<close>

text \<open>
  C1. Whatever the mode, the input and the network do: every datagram the program hands to the
  network goes to the server's address and port, and carries the decoded payload of an object of the
  input file; nothing that was sent before is changed.
\<close>

theorem main_sends_only_the_file:
  assumes "main net args io = Some (r, io')"
  shows "\<exists>new. datagrams io' = datagrams io @ new \<and>
    (\<forall>(bs, ip, port) \<in> set new. ip = server_ip args \<and> port = server_port args \<and>
      (\<exists>m \<in> set (input_file args). \<exists>p. m ''payload_base64'' = Some p \<and> standard_b64decode p = Inr bs))"
proof -
  have payload: "payload_of m = Some bs \<longleftrightarrow>
      (\<exists>p. m ''payload_base64'' = Some p \<and> standard_b64decode p = Inr bs)" for m bs
    by (auto simp: payload_of_def b64decode_opt_def split: sum.splits Option.bind_splits)
  show ?thesis
    using whole.run_traffic [OF assms] by (simp add: traffic_def payload)
qed

section \<open>The lines printed\<close>

definition line_count :: "string \<Rightarrow> nat" where
  "line_count s = length (filter (\<lambda>c. c = CHR 0x0A) s)"

lemma line_count_append [simp]: "line_count (s @ t) = line_count s + line_count t"
  by (simp add: line_count_def)

lemma line_count_simps [simp]:
  "line_count [] = 0" "line_count (c # s) = (if c = CHR 0x0A then Suc (line_count s) else line_count s)"
  by (simp_all add: line_count_def)

lemma line_count_digits: "line_count (str_nat n) = 0"
  by (auto simp: line_count_def filter_empty_conv dest!: str_nat_not_space) (simp add: is_space_def)

lemma line_count_int: "line_count (str_int i) = 0"
  by (simp add: str_int_def line_count_digits)

lemma line_count_newline: "line_count newline = 1"
  by simp

lemma line_count_announcement: "line_count d = 0 \<Longrightarrow> line_count (announcement n bs d) = 1"
  by (simp add: announcement_def line_count_digits line_count_newline)

lemma main_all_once:
  assumes "mode args = ''all_once''" and "os_bind net (source_address args) (source_port args) = Inr port"
    and "list_all2 (\<lambda>m (bs, d). sendable m bs d \<and> line_count d = 0) (input_file args) ps"
    and "accepts net" and "0 \<le> delay args"
  obtains io' new where "main net args io = Some (Ret (), io')" and "out io' = out io @ new"
    and "line_count new = length (input_file args) + 3"
    and "datagrams io' = datagrams io @ map (\<lambda>bs. (bs, server_ip args, server_port args)) (map fst ps)"
proof -
  have send: "list_all2 (\<lambda>m (bs, d). sendable m bs d) (input_file args) ps"
    using assms(3) by (rule list_all2_mono) auto
  have lines: "line_count (concat (map (\<lambda>(bs, d). announcement (length bs) bs d) ps)) = length ps"
    using assms(3)
    by (induction rule: list_all2_induct) (auto simp: line_count_announcement)
  let ?head = "''Client source PORT: '' @ str_int port @ newline @
    ''Running in all_once mode...'' @ newline @ newline"
  let ?new = "?head @ concat (map (\<lambda>(bs, d). announcement (length bs) bs d) ps)"
  let ?io = "io\<lparr>out := out io @ ?head\<rparr>"
  have "main net args io = run_all_once net args ?io"
    using assms(1,2) by (simp add: main_def setup_socket_def print_line_def py_eqs)
  then have "main net args io = Some (Ret (), log_all args ps ?io)"
    using send_all [OF send assms(4,5), of ?io] by (simp add: run_all_once_def)
  moreover have "out (log_all args ps ?io) = out io @ ?new"
    by (simp add: log_all_fields)
  moreover have "line_count ?new = length (input_file args) + 3"
    using lines list_all2_lengthD [OF assms(3)] by (simp add: line_count_newline line_count_int)
  moreover have "datagrams (log_all args ps ?io) =
      datagrams io @ map (\<lambda>bs. (bs, server_ip args, server_port args)) (map fst ps)"
    by (simp add: log_all_fields case_prod_beta)
  ultimately show ?thesis by (rule that)
qed

text \<open>
  In mode \<open>all_once\<close> the program prints three lines and one more per message, when no description
  contains a line break, and ends: the checker, which reads exactly nineteen lines of it before it ends
  it, gets all the lines for a file of sixteen messages.
\<close>

lemma all_once_prints_lines:
  assumes "mode args = ''all_once''" and "os_bind net (source_address args) (source_port args) = Inr port"
    and "list_all2 (\<lambda>m (bs, d). sendable m bs d \<and> line_count d = 0) (input_file args) ps"
    and "accepts net" and "0 \<le> delay args"
  shows "\<exists>io' new. main net args io = Some (Ret (), io') \<and> out io' = out io @ new \<and>
    line_count new = length (input_file args) + 3"
  using main_all_once [OF assms, of io] by metis

lemma sample_descriptions:
  "\<forall>m \<in> set sample_payloads. \<exists>d. m ''description'' = Some d \<and> line_count d = 0"
  "\<forall>m \<in> set sample_wildcard_payloads. \<exists>d. m ''description'' = Some d \<and> line_count d = 0"
  by (simp_all add: sample_payloads_def sample_wildcard_payloads_def sample_items_def sample_wildcard_items_def description_mk)

lemma sample_sendable:
  assumes "map payload_of ms = map Some bss"
    and "\<forall>m \<in> set ms. \<exists>d. m ''description'' = Some d \<and> line_count d = 0"
  obtains ps where "list_all2 (\<lambda>m (bs, d). sendable m bs d \<and> line_count d = 0) ms ps"
    and "map fst ps = bss"
proof -
  let ?ps = "zip bss (map (\<lambda>m. the (m ''description'')) ms)"
  have len: "length ms = length bss" using assms(1) by (metis length_map)
  have "list_all2 (\<lambda>m (bs, d). sendable m bs d \<and> line_count d = 0) ms ?ps"
  proof (rule list_all2I)
    show "length ms = length ?ps" using len by simp
    show "\<forall>x \<in> set (zip ms ?ps). case x of (m, bs, d) \<Rightarrow> sendable m bs d \<and> line_count d = 0"
    proof clarify
      fix m bs d assume "(m, bs, d) \<in> set (zip ms ?ps)"
      then obtain i where i: "i < length ms" "m = ms ! i" "bs = bss ! i" "d = the (m ''description'')"
        using len by (auto simp: in_set_zip)
      have "payload_of m = Some bs" using assms(1) i len by (metis nth_map)
      moreover have "m \<in> set ms" using i(1,2) by simp
      with assms(2) obtain d' where "m ''description'' = Some d'" "line_count d' = 0" by blast
      ultimately show "sendable m bs d \<and> line_count d = 0"
        using i(4) by (auto simp: sendable_def payload_of_def b64decode_opt_def
            split: sum.splits Option.bind_splits)
    qed
  qed
  moreover have "map fst ?ps = bss" using len by simp
  ultimately show ?thesis by (rule that)
qed

lemma run_on_samples:
  assumes "mode args = ''all_once''" and "os_bind net (source_address args) (source_port args) = Inr port"
    and "accepts net" and "0 \<le> delay args"
    and "input_file args = (if w then sample_wildcard_payloads else sample_payloads)"
  shows "\<exists>io' new. main net args io = Some (Ret (), io') \<and> out io' = out io @ new \<and>
    line_count new = (if w then 17 else 19) \<and>
    datagrams io' = datagrams io @ map (\<lambda>bs. (bs, server_ip args, server_port args))
      (if w then wildcard_datagrams else plain_datagrams)"
proof -
  let ?bss = "if w then wildcard_datagrams else plain_datagrams"
  have "map payload_of (input_file args) = map Some ?bss"
    and "\<forall>m \<in> set (input_file args). \<exists>d. m ''description'' = Some d \<and> line_count d = 0"
    using sample_payloads_decode sample_wildcard_payloads_decode sample_descriptions
    unfolding assms(5) by (simp_all split: if_splits)
  then obtain ps where ps: "list_all2 (\<lambda>m (bs, d). sendable m bs d \<and> line_count d = 0) (input_file args) ps"
    and bss: "map fst ps = ?bss" by (rule sample_sendable)
  have len: "length (input_file args) + 3 = (if w then 17 else 19)"
    unfolding assms(5) by (simp add: sample_payloads_def sample_wildcard_payloads_def sample_items_def sample_wildcard_items_def)
  show ?thesis
    using main_all_once [OF assms(1,2) ps assms(3,4), of io] unfolding len bss by metis
qed

text \<open>
  C17. Run on \<open>sample_payloads.json\<close>, the default mode sends the sixteen datagrams of the plain
  topics in order and prints the nineteen lines the checker reads; run on
  \<open>sample_wildcard_payloads.json\<close>, the fourteen datagrams of the wildcard topics.
\<close>

theorem sample_run:
  assumes "mode args = ''all_once''" and "os_bind net (source_address args) (source_port args) = Inr port"
    and "accepts net" and "0 \<le> delay args"
    and "input_file args = (if w then sample_wildcard_payloads else sample_payloads)"
  shows "\<exists>io' new. main net args io = Some (Ret (), io') \<and> out io' = out io @ new \<and>
    line_count new = (if w then 17 else 19) \<and>
    datagrams io' = datagrams io @ map (\<lambda>bs. (bs, server_ip args, server_port args))
      (if w then wildcard_datagrams else plain_datagrams)"
  by (rule run_on_samples [OF assms])

section \<open>Any payload can be sent\<close>

text \<open>
  C33. Every byte string can be put into an input file: an object whose payload is its base64 text
  is sent as exactly these bytes, to the server's address.
\<close>

theorem encoded_payload_is_sent:
  "accepts net \<Longrightarrow> send_message net (mk_message d (b64encode bs)) args io = Some
    (if delay args < 0 then Exc (ValueError ''sleep length must be non-negative'') else Ret (),
     io\<lparr>datagrams := datagrams io @ [(bs, server_ip args, server_port args)],
        out := out io @ ''Sent ('' @ str_nat (length bs) @ ''/'' @ str_nat (length bs) @
          '' bytes) << '' @ d @ '' >>'' @ newline,
        slept := (if delay args < 0 then slept io else slept io @ [delay args])\<rparr>)"
  using send_message_sendable [of "mk_message d (b64encode bs)" bs d net args io]
  by (simp add: sendable_def mk_message_def log_send_def announcement_def)

end
