(* ===== verification/Udp_Examples.thy ===== *)
theory Udp_Examples
  imports Udp_Props
begin

text \<open>
  The properties with hypotheses at concrete inputs: a network that accepts every datagram, small
  input files, and the checker's own.
\<close>

definition good_net :: os_net where
  "good_net = \<lparr>os_bind = \<lambda>a p. Inr 40000, os_sendto = \<lambda>io bs a. Inr (length bs)\<rparr>"

definition io0 :: udp_io where
  "io0 = \<lparr>out = [], input_lines = [''1'', ''7'', ''0'', ''exit'', ''more''], datagrams = [], slept = [],
     draw = (\<lambda>n. 3 * n + 1), drawn = 0\<rparr>"

definition hi :: message where "hi = mk_message ''greeting'' ''aGk=''"
definition yo :: message where "yo = mk_message ''answer'' ''eW8=''"
definition broken :: message where "broken = mk_message ''broken'' ''aGk''"

definition args0 :: "message list \<Rightarrow> string \<Rightarrow> int option \<Rightarrow> int \<Rightarrow> parsed_args" where
  "args0 ms m n d = \<lparr>input_file = ms, server_ip = ''127.0.0.1'', server_port = 12345,
     source_address = ''0.0.0.0'', source_port = 0, mode = m, count = n, delay = d\<rparr>"

lemma good_net: "accepts good_net" "os_bind good_net a p = Inr 40000"
  by (simp_all add: good_net_def accepts_def)

lemma args0_fields:
  "input_file (args0 ms m n d) = ms" "server_ip (args0 ms m n d) = ''127.0.0.1''"
  "server_port (args0 ms m n d) = 12345" "mode (args0 ms m n d) = m" "count (args0 ms m n d) = n"
  "delay (args0 ms m n d) = d"
  by (simp_all add: args0_def)

lemma decode_examples: "standard_b64decode ''aGk='' = Inr ''hi''" "standard_b64decode ''eW8='' = Inr ''yo''"
  "standard_b64decode ''aGk'' = Inl (BinasciiError ''Incorrect padding'')"
  by code_simp+

lemma examples_described: "hi ''description'' = Some ''greeting''" "yo ''description'' = Some ''answer''"
  by (simp_all add: hi_def yo_def mk_message_def)

lemma examples_sendable: "sendable hi ''hi'' ''greeting''" "sendable yo ''yo'' ''answer''"
  by (simp_all add: sendable_def hi_def yo_def mk_message_def decode_examples)

theorem all_once_sends_file_witness:
  "\<exists>io'. run_all_once good_net (args0 [hi, yo] ''all_once'' None 0) io0 = Some (Ret (), io') \<and>
    datagrams io' = [(''hi'', ''127.0.0.1'', 12345), (''yo'', ''127.0.0.1'', 12345)]"
  using all_once_sends_file [of "args0 [hi, yo] ''all_once'' None 0"
      "[(''hi'', ''greeting''), (''yo'', ''answer'')]" good_net io0]
  by (auto simp: args0_fields examples_sendable good_net io0_def)

theorem all_once_stops_at_bad_payload_witness:
  "\<exists>io'. run_all_once good_net (args0 [hi, broken, yo] ''all_once'' None 0) io0 =
      Some (Exc (BinasciiError ''Incorrect padding''), io') \<and>
    datagrams io' = [(''hi'', ''127.0.0.1'', 12345)]"
  using all_once_stops_at_bad_payload [of "args0 [hi, broken, yo] ''all_once'' None 0" "[hi]" broken "[yo]"
      "[(''hi'', ''greeting'')]" "''aGk''" "BinasciiError ''Incorrect padding''" good_net io0]
  by (auto simp: args0_fields examples_sendable good_net io0_def broken_def mk_message_def decode_examples)

theorem negative_delay_fails_after_first_witness:
  "\<exists>io'. run_all_once good_net (args0 [hi, yo] ''all_once'' None (-1)) io0 =
      Some (Exc (ValueError ''sleep length must be non-negative''), io') \<and>
    datagrams io' = [(''hi'', ''127.0.0.1'', 12345)]"
  using negative_delay_fails_after_first [of "args0 [hi, yo] ''all_once'' None (-1)" hi "[yo]" "''hi''"
      "''greeting''" good_net io0]
  by (simp add: args0_fields examples_sendable good_net io0_def log_send_def)

lemma examples_all_sendable: "all_sendable (args0 [hi, yo] m n d)"
  using examples_sendable by (auto simp: all_sendable_def args0_fields)

theorem random_count_sends_n_witness:
  "\<exists>io'. run_random good_net (args0 [hi, yo] ''random'' (Some 3) 0) io0 = Some (Ret (), io') \<and>
    length (datagrams io') = 3"
  using random_count_sends_n [OF examples_all_sendable, of "''random''" "Some 3" 0 good_net 3 io0]
  by (auto simp: args0_fields good_net io0_def)

theorem random_without_count_never_ends_witness:
  "run_random good_net (args0 [hi, yo] ''random'' None 0) io0 = None"
  using random_without_count_never_ends [OF examples_all_sendable, of "''random''" None 0 good_net io0]
  by (simp add: args0_fields good_net)

lemma choice_texts: "py_int ''1'' = Inr 1" "py_int ''0'' = Inr 0"
  by code_simp+

theorem manual_sends_choices_witness:
  "\<exists>io'. run_manual good_net (args0 [hi, yo] ''manual'' None 0)
      (io0\<lparr>input_lines := [''1'', ''0'', ''exit'', ''more'']\<rparr>) = Some (Ret (), io') \<and>
    input_lines io' = [''more''] \<and>
    datagrams io' = [(''yo'', ''127.0.0.1'', 12345), (''hi'', ''127.0.0.1'', 12345)]"
  using manual_sends_choices [of good_net "args0 [hi, yo] ''manual'' None 0" "[''greeting'', ''answer'']"
      "[''1'', ''0'']" "[1, 0]" "[(''yo'', ''answer''), (''hi'', ''greeting'')]"
      "io0\<lparr>input_lines := [''1'', ''0'', ''exit'', ''more'']\<rparr>" "[''more'']"]
  by (simp add: args0_fields good_net io0_def examples_sendable choice_texts examples_described)

theorem main_sends_only_the_file_witness:
  "\<exists>r io'. main good_net (args0 [hi, yo] ''manual'' None 0) io0 = Some (r, io') \<and>
    (\<forall>(bs, ip, port) \<in> set (datagrams io'). ip = ''127.0.0.1'' \<and> port = 12345)"
proof -
  have "returns (run_manual good_net (args0 [hi, yo] ''manual'' None 0))"
    unfolding run_manual_def Let_def numbered_def print_line_def
    by (intro returns_rules) (simp add: returns_def manual_loop_returns)
  then have ends: "returns (main good_net (args0 [hi, yo] ''manual'' None 0))"
    unfolding main_def setup_socket_def print_line_def
    by (intro returns_rules) (simp_all add: args0_fields)
  then obtain r io' where run: "main good_net (args0 [hi, yo] ''manual'' None 0) io0 = Some (r, io')"
    using returnsD [OF ends] by blast
  have "\<forall>(bs, ip, port) \<in> set (datagrams io'). ip = ''127.0.0.1'' \<and> port = 12345"
    using main_sends_only_the_file [OF run]
    by (auto simp: args0_fields io0_def)
  with run show ?thesis by blast
qed

lemma all_once_prints_lines_example:
  "\<exists>io' new. main good_net (args0 [hi, yo] ''all_once'' None 0) io0 = Some (Ret (), io') \<and>
    out io' = new \<and> line_count new = 5"
  using all_once_prints_lines [of "args0 [hi, yo] ''all_once'' None 0" good_net 40000
      "[(''hi'', ''greeting''), (''yo'', ''answer'')]" io0]
  by (simp add: args0_fields good_net io0_def examples_sendable)

theorem sample_run_witness:
  "\<exists>io' new. main good_net (args0 sample_payloads ''all_once'' None 0) io0 = Some (Ret (), io') \<and>
    out io' = new \<and> line_count new = 19 \<and> map fst (datagrams io') = plain_datagrams"
  using sample_run [of "args0 sample_payloads ''all_once'' None 0" good_net 40000 False io0]
  by (auto simp: args0_fields good_net io0_def comp_def)

theorem encoded_payload_is_sent_witness:
  "\<exists>io'. send_message good_net (mk_message ''d'' (b64encode ''any bytes'')) (args0 [] ''all_once'' None 5) io0 =
    Some (Ret (), io') \<and> datagrams io' = [(''any bytes'', ''127.0.0.1'', 12345)] \<and> slept io' = [5]"
  using encoded_payload_is_sent [OF good_net(1), of "''d''" "''any bytes''" "args0 [] ''all_once'' None 5" io0]
  by (simp add: args0_fields io0_def)

end
