(* ===== verification/Json.thy ===== *)
theory Json
  imports Py_Str
begin

text \<open>
  \<open>json.load\<close>, which \<open>udp_client.py\<close> reads its input file with: a parser of JSON text over code
  points below 256. Numbers keep their text. The recursion is bounded by fuel, of which the length
  of the text gives enough.
\<close>

section \<open>Values and errors\<close>

datatype json =
    JNull
  | JBool bool
  | JNum string
  | JStr string
  | JArr "json list"
  | JObj "(string \<times> json) list"

text \<open>\<open>Wide_char\<close>: an escape for a code point that is not below 256, outside the model.\<close>

datatype json_err = Decode_error | Wide_char | No_fuel

definition quote :: char where "quote = CHR 0x22"
definition backslash :: char where "backslash = CHR 0x5C"

text \<open>Apply a function to the value of a result, the rest of the text stays.\<close>

definition rmap :: "('a \<Rightarrow> 'b) \<Rightarrow> json_err + 'a \<times> string \<Rightarrow> json_err + 'b \<times> string" where
  "rmap f r = (case r of Inl e \<Rightarrow> Inl e | Inr (x, s) \<Rightarrow> Inr (f x, s))"

lemma rmap_simps [simp]: "rmap f (Inl e) = Inl e" "rmap f (Inr (x, s)) = Inr (f x, s)"
  by (simp_all add: rmap_def)

section \<open>Tokens\<close>

definition json_space :: "char \<Rightarrow> bool" where
  "json_space c \<longleftrightarrow> c \<in> set [CHR '' '', CHR 0x09, CHR 0x0A, CHR 0x0D]"

definition skip_ws :: "string \<Rightarrow> string" where
  "skip_ws s = dropWhile json_space s"

definition hex_val :: "char \<Rightarrow> nat option" where
  "hex_val c = (let n = of_char c :: nat in
     if 48 \<le> n \<and> n \<le> 57 then Some (n - 48)
     else if 97 \<le> n \<and> n \<le> 102 then Some (n - 87)
     else if 65 \<le> n \<and> n \<le> 70 then Some (n - 55) else None)"

definition hex4 :: "string \<Rightarrow> nat option" where
  "hex4 s = (case map hex_val (take 4 s) of
     [Some a, Some b, Some c, Some d] \<Rightarrow> Some (4096 * a + 256 * b + 16 * c + d) | _ \<Rightarrow> None)"

definition simple_escape :: "char \<Rightarrow> char option" where
  "simple_escape c = map_of
     [(quote, quote), (backslash, backslash), (CHR ''/'', CHR ''/''), (CHR ''b'', CHR 0x08),
      (CHR ''f'', CHR 0x0C), (CHR ''n'', CHR 0x0A), (CHR ''r'', CHR 0x0D), (CHR ''t'', CHR 0x09)] c"

text \<open>The rest of a string, behind its opening quote.\<close>

function scan_string :: "string \<Rightarrow> json_err + string \<times> string" where
  "scan_string s = (case s of [] \<Rightarrow> Inl Decode_error
     | c # t \<Rightarrow>
       if c = quote then Inr ([], t)
       else if c = backslash
       then (case t of [] \<Rightarrow> Inl Decode_error
             | e # u \<Rightarrow>
               if e = CHR ''u''
               then (case hex4 u of None \<Rightarrow> Inl Decode_error
                     | Some n \<Rightarrow> if n < 256 then rmap (Cons (char_of n)) (scan_string (drop 4 u))
                                else Inl Wide_char)
               else (case simple_escape e of None \<Rightarrow> Inl Decode_error
                     | Some x \<Rightarrow> rmap (Cons x) (scan_string u)))
       else if (of_char c :: nat) < 32 then Inl Decode_error
       else rmap (Cons c) (scan_string t))"
  by pat_completeness auto
termination by (relation "measure length") auto

declare scan_string.simps [simp del]

definition is_digit :: "char \<Rightarrow> bool" where
  "is_digit c \<longleftrightarrow> digit_val c \<noteq> None"

text \<open>The optional part of a number that starts with one of \<open>cs\<close> and goes on with digits.\<close>

definition scan_digits :: "string \<Rightarrow> string \<times> string" where
  "scan_digits s = (takeWhile is_digit s, dropWhile is_digit s)"

definition scan_integer :: "string \<Rightarrow> string \<times> string" where
  "scan_integer s = (if s \<noteq> [] \<and> hd s = CHR ''0'' then (''0'', tl s) else scan_digits s)"

definition scan_fraction :: "string \<Rightarrow> string \<times> string" where
  "scan_fraction s = (if s \<noteq> [] \<and> hd s = CHR ''.'' \<and> fst (scan_digits (tl s)) \<noteq> []
     then (CHR ''.'' # fst (scan_digits (tl s)), snd (scan_digits (tl s))) else ([], s))"

definition scan_exponent :: "string \<Rightarrow> string \<times> string" where
  "scan_exponent s = (if s \<noteq> [] \<and> hd s \<in> set ''eE''
     then (let sg = (if tl s \<noteq> [] \<and> hd (tl s) \<in> set ''+-'' then [hd (tl s)] else []);
               ds = scan_digits (drop (length sg) (tl s))
           in if fst ds \<noteq> [] then (hd s # sg @ fst ds, snd ds) else ([], s))
     else ([], s))"

definition scan_number :: "string \<Rightarrow> json_err + json \<times> string" where
  "scan_number s =
     (let sg = (if s \<noteq> [] \<and> hd s = CHR ''-'' then ''-'' else []);
          s1 = drop (length sg) s;
          ip = scan_integer s1;
          fr = scan_fraction (snd ip);
          ex = scan_exponent (snd fr)
      in if fst ip = [] then Inl Decode_error
         else Inr (JNum (sg @ fst ip @ fst fr @ fst ex), snd ex))"

definition literals :: "(string \<times> json) list" where
  "literals = [(''null'', JNull), (''true'', JBool True), (''false'', JBool False),
     (''NaN'', JNum ''NaN''), (''Infinity'', JNum ''Infinity''), (''-Infinity'', JNum ''-Infinity'')]"

definition scan_literal :: "string \<Rightarrow> json_err + json \<times> string" where
  "scan_literal s = (case List.find (\<lambda>(w, v). startswith s w) literals of
       Some (w, v) \<Rightarrow> Inr (v, drop (length w) s)
     | None \<Rightarrow> scan_number s)"

section \<open>Values\<close>

text \<open>The key of a member, its colon and the blanks around it.\<close>

definition scan_key :: "string \<Rightarrow> json_err + string \<times> string" where
  "scan_key s = (case s of [] \<Rightarrow> Inl Decode_error
     | q # t \<Rightarrow> if q \<noteq> quote then Inl Decode_error
       else (case scan_string t of Inl e \<Rightarrow> Inl e
        | Inr (k, t1) \<Rightarrow> (case skip_ws t1 of [] \<Rightarrow> Inl Decode_error
           | c # t2 \<Rightarrow> if c = CHR '':'' then Inr (k, skip_ws t2) else Inl Decode_error)))"

text \<open>
  What follows the opening bracket: the closing one, or items read by \<open>items\<close>. What follows an item:
  the closing bracket, or a comma and further items.
\<close>

definition opened :: "char \<Rightarrow> string \<Rightarrow> ('a list \<Rightarrow> json) \<Rightarrow> (string \<Rightarrow> json_err + 'a list \<times> string) \<Rightarrow>
    json_err + json \<times> string" where
  "opened close t make items = (case skip_ws t of [] \<Rightarrow> Inl Decode_error
     | c # u \<Rightarrow> if c = close then Inr (make [], u) else rmap make (items (c # u)))"

definition next_item :: "char \<Rightarrow> string \<Rightarrow> 'a \<Rightarrow> (string \<Rightarrow> json_err + 'a list \<times> string) \<Rightarrow>
    json_err + 'a list \<times> string" where
  "next_item close t x items = (case skip_ws t of [] \<Rightarrow> Inl Decode_error
     | c # u \<Rightarrow> if c = close then Inr ([x], u)
         else if c = CHR '','' then rmap (Cons x) (items (skip_ws u)) else Inl Decode_error)"

text \<open>
  A value; the elements of an array from the first value on; the members of an object from the
  first key on.
\<close>

fun parse_value :: "nat \<Rightarrow> string \<Rightarrow> json_err + json \<times> string"
  and parse_elems :: "nat \<Rightarrow> string \<Rightarrow> json_err + json list \<times> string"
  and parse_members :: "nat \<Rightarrow> string \<Rightarrow> json_err + (string \<times> json) list \<times> string" where
  "parse_value 0 s = Inl No_fuel"
| "parse_value (Suc n) s = (case s of [] \<Rightarrow> Inl Decode_error
     | c # t \<Rightarrow>
       if c = quote then rmap JStr (scan_string t)
       else if c = CHR ''['' then opened (CHR '']'') t JArr (\<lambda>u. parse_elems n u)
       else if c = CHR ''{'' then opened (CHR ''}'') t JObj (\<lambda>u. parse_members n u)
       else scan_literal s)"
| "parse_elems 0 s = Inl No_fuel"
| "parse_elems (Suc n) s = (case parse_value n s of Inl e \<Rightarrow> Inl e
     | Inr (v, t) \<Rightarrow> next_item (CHR '']'') t v (\<lambda>u. parse_elems n u))"
| "parse_members 0 s = Inl No_fuel"
| "parse_members (Suc n) s = (case scan_key s of Inl e \<Rightarrow> Inl e
     | Inr (k, t) \<Rightarrow> (case parse_value n t of Inl e \<Rightarrow> Inl e
        | Inr (v, u) \<Rightarrow> next_item (CHR ''}'') u (k, v) (\<lambda>u. parse_members n u)))"

definition json_loads :: "string \<Rightarrow> json_err + json" where
  "json_loads s = (case parse_value (2 * length s + 2) (skip_ws s) of Inl e \<Rightarrow> Inl e
     | Inr (v, t) \<Rightarrow> if skip_ws t = [] then Inr v else Inl Decode_error)"

section \<open>The fuel is enough\<close>

text \<open>A result that is no lack of fuel, and whose rest is shorter than \<open>m\<close>.\<close>

definition shrinks :: "nat \<Rightarrow> json_err + 'a \<times> string \<Rightarrow> bool" where
  "shrinks m r \<longleftrightarrow> (case r of Inl e \<Rightarrow> e \<noteq> No_fuel | Inr (x, t) \<Rightarrow> length t < m)"

lemma shrinks_simps [simp]:
  "shrinks m (Inl Decode_error)" "shrinks m (Inl Wide_char)"
  "shrinks m (Inr (x, t)) \<longleftrightarrow> length t < m" "shrinks m (rmap f r) \<longleftrightarrow> shrinks m r"
  by (simp_all add: shrinks_def rmap_def split: sum.splits)

lemma shrinks_mono: "shrinks m r \<Longrightarrow> m \<le> k \<Longrightarrow> shrinks k r"
  by (auto simp: shrinks_def split: sum.splits)

lemma shrinks_then:
  assumes "shrinks m r" and "\<And>x t. r = Inr (x, t) \<Longrightarrow> length t < m \<Longrightarrow> shrinks k (f x t)"
  shows "shrinks k (case r of Inl e \<Rightarrow> Inl e | Inr (x, t) \<Rightarrow> f x t)"
  using assms by (auto simp: shrinks_def split: sum.splits)

lemma skip_ws_length: "length (skip_ws s) \<le> length s"
  by (simp add: skip_ws_def length_dropWhile_le)

lemma scan_string_shrinks: "shrinks (length s) (scan_string s)"
proof (induction s rule: scan_string.induct)
  case (1 s)
  show ?case
  proof (cases s)
    case (Cons c t)
    have rec: "shrinks (length s) (scan_string t)"
      if "c \<noteq> quote" "c \<noteq> backslash" "\<not> (of_char c :: nat) < 32"
      by (rule shrinks_mono [OF "1.IH"(3) [OF Cons that]]) (simp add: Cons)
    have esc: "shrinks (length s) (scan_string u)"
      if "c \<noteq> quote" "c = backslash" "t = e # u" "e \<noteq> CHR ''u''" "simple_escape e = Some x" for e u x
      by (rule shrinks_mono [OF "1.IH"(2) [OF Cons that]]) (simp add: Cons that)
    have hex: "shrinks (length s) (scan_string (drop 4 u))"
      if "c \<noteq> quote" "c = backslash" "t = e # u" "e = CHR ''u''" "hex4 u = Some n" "n < 256" for e u n
      by (rule shrinks_mono [OF "1.IH"(1) [OF Cons that]]) (simp add: Cons that)
    show ?thesis
      using rec esc hex by (subst scan_string.simps) (auto simp: Cons split: list.splits option.splits)
  qed (simp add: scan_string.simps)
qed

lemma scan_digits_length: "length (snd (scan_digits s)) + length (fst (scan_digits s)) = length s"
  by (simp add: scan_digits_def) (metis add.commute length_append takeWhile_dropWhile_id)

lemma scan_integer_length: "length (snd (scan_integer s)) + length (fst (scan_integer s)) = length s"
  using scan_digits_length [of s] by (cases s) (auto simp: scan_integer_def)

lemma scan_fraction_length: "length (snd (scan_fraction s)) \<le> length s"
  using scan_digits_length [of "tl s"] by (cases s) (auto simp: scan_fraction_def)

lemma scan_digits_rest: "length (snd (scan_digits s)) \<le> length s"
  using scan_digits_length [of s] by simp

lemma scan_exponent_length: "length (snd (scan_exponent s)) \<le> length s"
proof (cases s)
  case (Cons c t)
  have "length (snd (scan_digits (drop k t))) \<le> Suc (length t)" for k
    using scan_digits_rest [of "drop k t"] by simp
  then show ?thesis unfolding scan_exponent_def Let_def by (simp only: Cons list.sel) simp
qed (simp add: scan_exponent_def)

lemma scan_number_shrinks: "shrinks (length s) (scan_number s)"
proof -
  let ?s1 = "drop (length (if s \<noteq> [] \<and> hd s = CHR ''-'' then ''-'' else [])) s"
  let ?t = "snd (scan_exponent (snd (scan_fraction (snd (scan_integer ?s1)))))"
  have "length ?t < length s" if "fst (scan_integer ?s1) \<noteq> []"
  proof -
    have "length ?t \<le> length (snd (scan_integer ?s1))"
      by (rule le_trans [OF scan_exponent_length scan_fraction_length])
    also have "\<dots> < length ?s1" using scan_integer_length [of ?s1] that by (cases "fst (scan_integer ?s1)") auto
    also have "\<dots> \<le> length s" by simp
    finally show ?thesis .
  qed
  then show ?thesis by (simp add: scan_number_def Let_def)
qed

lemma scan_literal_shrinks: "shrinks (length s) (scan_literal s)"
proof (cases "List.find (\<lambda>(w, v). startswith s w) literals")
  case None
  with scan_number_shrinks show ?thesis by (simp add: scan_literal_def)
next
  case (Some wv)
  obtain w v where wv: "wv = (w, v)" by (cases wv)
  have "w \<noteq> []" "startswith s w"
    using Some by (auto simp: wv literals_def split: if_splits)
  with Some show ?thesis by (auto simp: scan_literal_def wv startswith_iff)
qed

lemma scan_key_shrinks: "shrinks (length s) (scan_key s)"
proof (cases s)
  case (Cons q t)
  have "shrinks (length s) (case scan_string t of Inl e \<Rightarrow> Inl e
      | Inr (k, t1) \<Rightarrow> (case skip_ws t1 of [] \<Rightarrow> Inl Decode_error
         | c # t2 \<Rightarrow> if c = CHR '':'' then Inr (k, skip_ws t2) else Inl Decode_error))"
  proof (rule shrinks_then [OF scan_string_shrinks])
    fix k and t1 :: string
    assume "length t1 < length t"
    moreover have "length (skip_ws t2) < length t1" if "skip_ws t1 = c # t2" for c t2
      using skip_ws_length [of t1] skip_ws_length [of t2] that by simp
    ultimately show "shrinks (length s) (case skip_ws t1 of [] \<Rightarrow> Inl Decode_error
         | c # t2 \<Rightarrow> if c = CHR '':'' then Inr (k, skip_ws t2) else Inl Decode_error)"
      by (auto simp: Cons split: list.split)
  qed
  then show ?thesis by (simp add: Cons scan_key_def)
qed (simp add: scan_key_def)

lemma opened_shrinks:
  assumes "\<And>u. length u \<le> length t \<Longrightarrow> shrinks (length u) (items u)"
  shows "shrinks (Suc (length t)) (opened close t make items)"
  using shrinks_mono [OF assms [of "skip_ws t"]] skip_ws_length [of t]
  by (auto simp: opened_def split: list.split)

lemma next_item_shrinks:
  assumes "\<And>u. length u < length t \<Longrightarrow> shrinks (length u) (items u)" and "length t \<le> m"
  shows "shrinks m (next_item close t x items)"
proof (cases "skip_ws t")
  case (Cons c u)
  then have "length (skip_ws u) < length t" "length u < m"
    using skip_ws_length [of t] skip_ws_length [of u] assms(2) by simp_all
  then show ?thesis
    using shrinks_mono [OF assms(1), of "skip_ws u" m] assms(2) by (simp add: next_item_def Cons)
qed (simp add: next_item_def)

lemma parse_shrinks:
  "2 * length s + 1 \<le> n \<Longrightarrow> shrinks (length s) (parse_value n s)"
  "2 * length s + 2 \<le> n \<Longrightarrow> shrinks (length s) (parse_elems n s)"
  "2 * length s + 2 \<le> n \<Longrightarrow> shrinks (length s) (parse_members n s)"
proof (induction n arbitrary: s)
  case (Suc n)
  {
    case 1
    show ?case
    proof (cases s)
      case (Cons c t)
      have "shrinks (length s) (scan_string t)"
        by (rule shrinks_mono [OF scan_string_shrinks]) (simp add: Cons)
      moreover have "shrinks (length s) (opened (CHR '']'') t JArr (parse_elems n))"
        using opened_shrinks [OF Suc.IH(2)] 1 by (simp add: Cons)
      moreover have "shrinks (length s) (opened (CHR ''}'') t JObj (parse_members n))"
        using opened_shrinks [OF Suc.IH(3)] 1 by (simp add: Cons)
      ultimately show ?thesis using scan_literal_shrinks [of s] by (simp add: Cons)
    qed simp
  next
    case 2
    have "shrinks (length s) (parse_value n s)" using Suc.IH(1) [of s] 2 by simp
    then show ?case
      unfolding parse_elems.simps by (rule shrinks_then, intro next_item_shrinks Suc.IH) (use 2 in auto)
  next
    case 3
    show ?case
      unfolding parse_members.simps
    proof (rule shrinks_then [OF scan_key_shrinks])
      fix k and t :: string
      assume t: "length t < length s"
      then have "shrinks (length t) (parse_value n t)" using Suc.IH(1) [of t] 3 by simp
      then show "shrinks (length s) (case parse_value n t of Inl e \<Rightarrow> Inl e
          | Inr (v, u) \<Rightarrow> next_item (CHR ''}'') u (k, v) (parse_members n))"
        by (rule shrinks_then, intro next_item_shrinks Suc.IH) (use 3 t in auto)
    qed
  }
qed simp_all

lemma json_loads_fuel: "json_loads s \<noteq> Inl No_fuel"
proof -
  have "shrinks (length (skip_ws s)) (parse_value (2 * length s + 2) (skip_ws s))"
    using skip_ws_length [of s] by (intro parse_shrinks) simp
  then show ?thesis by (auto simp: json_loads_def shrinks_def split: sum.splits)
qed

end
