(* ===== verification/Input_File.thy ===== *)
theory Input_File
  imports Json Udp_Client
begin

text \<open>
  Input files: the messages a JSON value stands for, and the text of a file with a list of messages,
  in the layout of the sample files, which \<open>json.load\<close> reads back.
\<close>

section \<open>Messages\<close>

text \<open>
  An object whose members are strings; of two members with the same name the last one counts.
  \<open>None\<close>: the value is something else, and the program fails later, when it uses it.
\<close>

definition text_of :: "json \<Rightarrow> string option" where
  "text_of v = (case v of JStr s \<Rightarrow> Some s | _ \<Rightarrow> None)"

definition message_of :: "json \<Rightarrow> message option" where
  "message_of v = (case v of
     JObj ms \<Rightarrow> if list_all (\<lambda>(k, v). text_of v \<noteq> None) ms
       then Some (\<lambda>k. Option.bind (map_of (rev ms) k) text_of) else None
   | _ \<Rightarrow> None)"

definition messages_of :: "json \<Rightarrow> message list option" where
  "messages_of v = (case v of
     JArr vs \<Rightarrow> if list_all (\<lambda>v. message_of v \<noteq> None) vs then Some (map (the \<circ> message_of) vs) else None
   | _ \<Rightarrow> None)"

section \<open>The layout of the files\<close>

definition json_escape :: "char \<Rightarrow> string" where
  "json_escape c = (if c = quote \<or> c = backslash then [backslash, c] else [c])"

definition json_str :: "string \<Rightarrow> string" where
  "json_str s = quote # concat (map json_escape s) @ [quote]"

definition member_text :: "string \<Rightarrow> string \<Rightarrow> string \<Rightarrow> string" where
  "member_text gap k v = json_str k @ '':'' @ gap @ json_str v"

definition object_text :: "string \<Rightarrow> string \<Rightarrow> string \<times> string \<Rightarrow> string" where
  "object_text ind gap x = ''{'' @ newline @ ind @ member_text gap ''description'' (fst x) @ '','' @ newline @
     ind @ member_text gap ''payload_base64'' (snd x) @ newline @ ''}''"

definition file_text :: "string \<Rightarrow> string \<Rightarrow> (string \<times> string) list \<Rightarrow> string" where
  "file_text ind gap xs = ''['' @ join '', '' (map (object_text ind gap) xs) @ '']''"

section \<open>Reading back\<close>

definition printable :: "string \<Rightarrow> bool" where
  "printable s \<longleftrightarrow> list_all (\<lambda>c. 32 \<le> (of_char c :: nat)) s"

lemma scan_string_str: "printable s \<Longrightarrow> scan_string (concat (map json_escape s) @ quote # t) = Inr (s, t)"
proof (induction s)
  case Nil
  show ?case by (simp add: scan_string.simps)
next
  case (Cons c s)
  have "simple_escape quote = Some quote" "simple_escape backslash = Some backslash"
    by (simp_all add: simple_escape_def quote_def backslash_def)
  moreover have "backslash \<noteq> quote" "quote \<noteq> CHR ''u''" "backslash \<noteq> CHR ''u''"
    by (simp_all add: quote_def backslash_def)
  ultimately show ?case
    using Cons by (subst scan_string.simps) (auto simp: json_escape_def [of c] printable_def)
qed

lemma skip_ws_blank: "list_all json_space w \<Longrightarrow> skip_ws (w @ s) = skip_ws s"
  by (simp add: skip_ws_def list_all_iff)

lemma skip_ws_stop: "\<not> json_space c \<Longrightarrow> skip_ws (c # s) = c # s"
  by (simp add: skip_ws_def)

lemma no_blanks: "\<not> json_space quote" "\<not> json_space (CHR '':'')" "\<not> json_space (CHR '','')" "\<not> json_space (CHR ''}'')"
  "\<not> json_space (CHR ''{'')" "\<not> json_space (CHR '']'')" "\<not> json_space (CHR ''['')" "json_space (CHR 0x0A)" "json_space (CHR '' '')"
  by (simp_all add: json_space_def quote_def)

lemma skip_ws_simps:
  "skip_ws (CHR 0x0A # s) = skip_ws s" "skip_ws (CHR '' '' # s) = skip_ws s"
  using no_blanks(8,9) by (simp_all add: skip_ws_def)

lemma skip_ws_str: "skip_ws (json_str s @ t) = json_str s @ t"
  by (simp add: json_str_def skip_ws_stop no_blanks)

lemma parse_str: "printable s \<Longrightarrow> parse_value (Suc n) (json_str s @ t) = Inr (JStr s, t)"
  by (simp add: json_str_def scan_string_str)

lemma scan_key_member:
  assumes "printable k" and "list_all json_space gap"
  shows "scan_key (member_text gap k v @ t) = Inr (k, json_str v @ t)"
proof -
  have "skip_ws (gap @ json_str v @ t) = json_str v @ t"
    by (simp only: skip_ws_blank [OF assms(2)] skip_ws_str)
  then show ?thesis
    using assms(1)
    by (simp add: scan_key_def member_text_def json_str_def scan_string_str skip_ws_stop no_blanks)
qed

lemma opened_item:
  "skip_ws t = u \<Longrightarrow> u \<noteq> [] \<Longrightarrow> hd u \<noteq> close \<Longrightarrow> opened close t g f = rmap g (f u)"
  by (cases u) (auto simp: opened_def)

definition item_ok :: "string \<times> string \<Rightarrow> bool" where
  "item_ok x \<longleftrightarrow> printable (fst x) \<and> printable (snd x)"

definition object_of :: "string \<times> string \<Rightarrow> json" where
  "object_of x = JObj [(''description'', JStr (fst x)), (''payload_base64'', JStr (snd x))]"

lemma keys_printable: "printable ''description''" "printable ''payload_base64''"
  by (simp_all add: printable_def)

lemma parse_object:
  assumes "list_all json_space ind" and "list_all json_space gap" and "item_ok x"
  shows "parse_value (Suc (Suc (Suc (Suc n)))) (object_text ind gap x @ t) = Inr (object_of x, t)"
proof -
  have p: "printable (fst x)" "printable (snd x)" using assms(3) by (simp_all add: item_ok_def)
  have skip: "skip_ws (ind @ member_text gap k v @ s) = member_text gap k v @ s" for k v s
    unfolding member_text_def append_assoc by (simp only: skip_ws_blank [OF assms(1)] skip_ws_str)
  have last: "next_item (CHR ''}'') (newline @ ''}'' @ t) y f = Inr ([y], t)" for y and f :: "string \<Rightarrow> json_err + (string \<times> json) list \<times> string"
    by (simp add: next_item_def skip_ws_simps skip_ws_stop no_blanks)
  have second: "parse_members (Suc (Suc m)) (member_text gap ''payload_base64'' (snd x) @ newline @ ''}'' @ t) =
      Inr ([(''payload_base64'', JStr (snd x))], t)" for m
    using last by (simp add: scan_key_member [OF keys_printable(2) assms(2)] parse_str p del: parse_value.simps)
  let ?rest = "member_text gap ''payload_base64'' (snd x) @ newline @ ''}'' @ t"
  let ?M = "member_text gap ''description'' (fst x) @ '','' @ newline @ ind @ ?rest"
  have members: "parse_members (Suc (Suc (Suc n))) ?M =
      Inr ([(''description'', JStr (fst x)), (''payload_base64'', JStr (snd x))], t)"
    by (simp add: scan_key_member [OF keys_printable(1) assms(2)] parse_str p next_item_def skip_ws_stop
        no_blanks skip_ws_simps skip second [simplified] del: parse_value.simps)
  have obj: "object_text ind gap x @ t = CHR ''{'' # newline @ ind @ ?M" by (simp add: object_text_def)
  have ws: "skip_ws (newline @ ind @ ?M) = ?M" by (simp add: skip_ws_simps skip)
  have "opened (CHR ''}'') (newline @ ind @ ?M) JObj (parse_members (Suc (Suc (Suc n)))) =
      rmap JObj (parse_members (Suc (Suc (Suc n))) ?M)"
    by (rule opened_item [OF ws]) (simp_all add: member_text_def json_str_def quote_def)
  then show ?thesis
    unfolding obj members by (simp add: quote_def object_of_def)
qed

lemma join_Cons: "join sep (x # y # xs) = x @ sep @ join sep (y # xs)"
  by (simp add: join_def)

lemma parse_objects:
  assumes "list_all json_space ind" and "list_all json_space gap"
  shows "xs \<noteq> [] \<Longrightarrow> list_all item_ok xs \<Longrightarrow> length xs + 4 \<le> n \<Longrightarrow>
    parse_elems n (join '', '' (map (object_text ind gap) xs) @ '']'' @ t) = Inr (map object_of xs, t)"
proof (induction xs arbitrary: n)
  case (Cons x xs)
  obtain m where n: "n = Suc (Suc (Suc (Suc (Suc m))))"
    using Cons.prems(3) le_Suc_ex [of 5 n] by (auto simp: numeral_eq_Suc)
  have x: "item_ok x" using Cons.prems(2) by simp
  note obj = parse_object [OF assms x]
  show ?case
  proof (cases xs)
    case Nil
    then show ?thesis
      using obj [of m "CHR '']'' # t"]
      by (simp add: n join_def next_item_def skip_ws_stop no_blanks del: parse_value.simps)
  next
    case (Cons y ys)
    let ?rest = "join '', '' (map (object_text ind gap) xs) @ '']'' @ t"
    have IH: "parse_elems (Suc (Suc (Suc (Suc m)))) ?rest = Inr (map object_of xs, t)"
      by (rule Cons.IH) (use Cons.prems n \<open>xs = y # ys\<close> in simp_all)
    have stop: "skip_ws ?rest = ?rest"
      by (simp add: Cons join_def object_text_def skip_ws_stop no_blanks)
    have item: "next_item (CHR '']'') ('', '' @ ?rest) (object_of x) (parse_elems (Suc (Suc (Suc (Suc m))))) =
        Inr (object_of x # map object_of xs, t)"
      using IH stop by (simp add: next_item_def skip_ws_stop skip_ws_simps no_blanks del: parse_elems.simps)
    have whole: "join '', '' (map (object_text ind gap) (x # xs)) @ '']'' @ t =
        object_text ind gap x @ '', '' @ ?rest"
      by (simp add: Cons join_Cons)
    show ?thesis
      unfolding whole n parse_elems.simps(2) obj sum.case prod.case item by simp
  qed
qed simp

lemma objects_length: "length xs \<le> length (join '', '' (map (object_text ind gap) xs))"
proof (induction xs)
  case (Cons x xs)
  then show ?case by (cases xs) (auto simp: join_def object_text_def)
qed simp

text \<open>A file in this layout holds its list of objects.\<close>

lemma json_loads_file:
  assumes "list_all json_space ind" and "list_all json_space gap" and "list_all item_ok xs"
  shows "json_loads (file_text ind gap xs) = Inr (JArr (map object_of xs))"
proof -
  let ?body = "join '', '' (map (object_text ind gap) xs) @ '']''"
  have whole: "file_text ind gap xs = CHR ''['' # ?body" by (simp add: file_text_def)
  have "parse_value (2 * length (file_text ind gap xs) + 2) (file_text ind gap xs) = Inr (JArr (map object_of xs), [])"
  proof (cases xs)
    case Nil
    have "file_text ind gap [] = ''[]''" by (simp add: file_text_def join_def)
    then show ?thesis
      by (simp add: Nil eval_nat_numeral opened_def skip_ws_stop no_blanks quote_def)
  next
    case (Cons x ys)
    let ?n = "2 * length ?body + 3"
    have fuel: "2 * length (file_text ind gap xs) + 2 = Suc ?n" by (simp add: whole)
    have elems: "parse_elems ?n ?body = Inr (map object_of xs, [])"
      using parse_objects [OF assms(1,2) _ assms(3), of ?n "[]"] objects_length [of xs ind gap]
      by (simp add: Cons)
    have "skip_ws ?body = ?body" "?body \<noteq> []" "hd ?body \<noteq> CHR '']''"
      by (simp_all add: Cons join_def object_text_def skip_ws_stop no_blanks)
    then have "opened (CHR '']'') ?body JArr (parse_elems ?n) = rmap JArr (parse_elems ?n ?body)"
      by (rule opened_item)
    moreover have "CHR ''['' \<noteq> quote" by (simp add: quote_def)
    ultimately have "parse_value (Suc ?n) (CHR ''['' # ?body) = Inr (JArr (map object_of xs), [])"
      unfolding parse_value.simps list.case elems by (simp only: if_False if_True rmap_simps simp_thms)
    then show ?thesis unfolding fuel by (simp only: whole)
  qed
  then show ?thesis by (simp add: json_loads_def whole skip_ws_stop no_blanks) (simp add: skip_ws_def)
qed

end
