(* ===== verification/Cli.thy ===== *)
theory Cli
  imports Input_File
begin

text \<open>
  The command line of \<open>udp_client.py\<close>: the parser that \<open>setup_parser\<close> declares, what \<open>argparse\<close> does
  with a list of arguments, and the program from its arguments on. What an error or \<open>--help\<close> prints
  is kept as a value, not as text.
\<close>

section \<open>Declarations\<close>

text \<open>The functions given as \<open>type\<close>; \<open>Json_file\<close> is the one that calls \<open>read_json_file\<close>.\<close>

datatype arg_type = Json_file | Ip_address | Unprivileged_port | Str_type | Int_type

datatype default_value = No_default | Text_default string | Int_default int

text \<open>One \<open>add_argument\<close>: an option when it has \<open>flags\<close>, positional and required otherwise.\<close>

record arg_decl =
  flags :: "string list"
  dest :: string
  arg_typ :: arg_type
  dflt :: default_value
  metavar :: "string option"
  choices :: "string list option"
  help_text :: string

record parser_decl =
  description :: string
  arg_groups :: "(string \<times> arg_decl list) list"

text \<open>\<open>textwrap.dedent\<close>: the blanks that all lines with other characters start with are taken off.\<close>

fun split_on :: "char \<Rightarrow> string \<Rightarrow> string list" where
  "split_on d [] = [[]]"
| "split_on d (c # s) = (if c = d then [] # split_on d s
     else (let ws = split_on d s in (c # hd ws) # tl ws))"

definition blank :: "char \<Rightarrow> bool" where
  "blank c \<longleftrightarrow> c = CHR '' '' \<or> c = CHR 0x09"

fun common_start :: "string \<Rightarrow> string \<Rightarrow> string" where
  "common_start (c # s) (d # t) = (if c = d then c # common_start s t else [])"
| "common_start _ _ = []"

definition dedent :: "string \<Rightarrow> string" where
  "dedent s = (let ls = split_on (CHR 0x0A) s;
       starts = map (takeWhile blank) (filter (\<lambda>l. \<not> list_all blank l) ls);
       margin = (case starts of [] \<Rightarrow> [] | m # ms \<Rightarrow> fold common_start ms m)
     in join newline (map (\<lambda>l. if list_all blank l then [] else drop (length margin) l) ls))"

definition get_mode_help :: string where
  "get_mode_help = dedent
     (''Specifies the mode used for the load generator as following:'' @ newline @
      ''* all_once - send each payload in the list once'' @ newline @
      ''* manual - let you choose which message to send next'' @ newline @
      ''* random - continuously send random payloads from the list'')"

definition plain_arg :: "string list \<Rightarrow> string \<Rightarrow> arg_type \<Rightarrow> default_value \<Rightarrow> string \<Rightarrow> arg_decl" where
  "plain_arg fl d t v h = \<lparr>flags = fl, dest = d, arg_typ = t, dflt = v, metavar = None, choices = None,
     help_text = h\<rparr>"

definition input_file_arg :: arg_decl where
  "input_file_arg = (plain_arg [''--input_file''] ''input_file'' Json_file (Text_default ''sample_payloads.json'')
     ''JSON file to read payloads from (default: sample_payloads.json)'')\<lparr>metavar := Some ''FILE''\<rparr>"

definition server_ip_arg :: arg_decl where
  "server_ip_arg = plain_arg [] ''server_ip'' Ip_address No_default ''Server IP''"

definition server_port_arg :: arg_decl where
  "server_port_arg = plain_arg [] ''server_port'' Unprivileged_port No_default ''Server Port''"

definition source_address_arg :: arg_decl where
  "source_address_arg = plain_arg [''--source-address''] ''source_address'' Ip_address (Text_default ''0.0.0.0'')
     ''IP Address to be bind by UDP client (default: unspecified)''"

definition source_port_arg :: arg_decl where
  "source_port_arg = (plain_arg [''--source-port''] ''source_port'' Unprivileged_port (Int_default 0)
     ''UDP port to be used as source for this client (default: random port)'')
     \<lparr>metavar := Some (get_unprivileged_port_meta ''source-port'' MIN_VALUE MAX_VALUE)\<rparr>"

definition mode_arg :: arg_decl where
  "mode_arg = (plain_arg [''--mode''] ''mode'' Str_type (Text_default ''all_once'') get_mode_help)
     \<lparr>choices := Some [''all_once'', ''manual'', ''random'']\<rparr>"

definition count_arg :: arg_decl where
  "count_arg = plain_arg [''--count''] ''count'' Int_type No_default
     ''Number of packets to be send (only used for when mode is random, default: infinity)''"

definition delay_arg :: arg_decl where
  "delay_arg = plain_arg [''--delay''] ''delay'' Int_type (Int_default 0)
     ''Wait time (in ms) between two messages (default: 0)''"

definition setup_parser :: parser_decl where
  "setup_parser = \<lparr>description = ''UDP Client for Communication Protocols (2023-2024) Homework #2'',
     arg_groups =
      [(''Input'', [input_file_arg]),
       (''Server Address & Port (required)'', [server_ip_arg, server_port_arg]),
       (''Source Address'', [source_address_arg, source_port_arg]),
       (''Workload changing parameters'', [mode_arg]),
       (''Load characteristics'', [count_arg, delay_arg])]\<rparr>"

definition all_args :: "parser_decl \<Rightarrow> arg_decl list" where
  "all_args p = concat (map snd (arg_groups p))"

section \<open>Conversions\<close>

text \<open>
  The files, as \<open>os.path.exists\<close> and \<open>open\<close> with \<open>read\<close> see them, and the canonical text of an IPv6
  address, which \<open>ipaddress\<close> computes.
\<close>

datatype file_state = Absent | Unreadable exn | Readable string

record cmd_env =
  file_at :: "string \<Rightarrow> file_state"
  ip6_text :: "string \<Rightarrow> string option"

datatype usage_error =
    File_missing string
  | Invalid_value arg_decl string
  | Invalid_choice arg_decl string
  | Expected_argument arg_decl
  | Ignored_explicit string
  | Ambiguous string "string list"
  | Required "string list"
  | Unrecognized "string list"

text \<open>
  How \<open>parse_args\<close> can end without a namespace: an error message and status 2, the help and status 0,
  an exception, or something outside the model (the bare argument \<open>--\<close>, letters after \<open>-h\<close>, escapes
  above code point 255 in the input file).
\<close>

datatype stop = Usage usage_error | Help_shown | Crashed exn | Outside

datatype arg_value = No_value | Text_value string | Int_value int | Json_value json

text \<open>A type function raises \<open>ValueError\<close> (\<open>None\<close>), stops the program, or yields a value.\<close>

type_synonym conversion = "stop + arg_value option"

definition octet_ok :: "string \<Rightarrow> bool" where
  "octet_ok s \<longleftrightarrow> s \<noteq> [] \<and> length s \<le> 3 \<and> list_all is_digit s \<and> (hd s = CHR ''0'' \<longrightarrow> length s = 1) \<and>
     (case digits s of None \<Rightarrow> False | Some n \<Rightarrow> n \<le> 255)"

definition ipv4_ok :: "string \<Rightarrow> bool" where
  "ipv4_ok s \<longleftrightarrow> length (split_on (CHR ''.'') s) = 4 \<and> list_all octet_ok (split_on (CHR ''.'') s)"

definition ip_address :: "cmd_env \<Rightarrow> string \<Rightarrow> string option" where
  "ip_address env s = (if ipv4_ok s then Some s else ip6_text env s)"

definition read_json_file :: "cmd_env \<Rightarrow> string \<Rightarrow> conversion" where
  "read_json_file env arg = (case file_at env arg of
       Absent \<Rightarrow> Inl (Usage (File_missing arg))
     | Unreadable e \<Rightarrow> (case e of ValueError _ \<Rightarrow> Inr None | _ \<Rightarrow> Inl (Crashed e))
     | Readable s \<Rightarrow> (case json_loads s of
         Inl Decode_error \<Rightarrow> Inr None
       | Inl _ \<Rightarrow> Inl Outside
       | Inr v \<Rightarrow> Inr (Some (Json_value v))))"

fun convert :: "cmd_env \<Rightarrow> arg_type \<Rightarrow> string \<Rightarrow> conversion" where
  "convert env Json_file s = read_json_file env s"
| "convert env Ip_address s = Inr (map_option Text_value (ip_address env s))"
| "convert env Unprivileged_port s = Inr (case unprivileged_port s of Inl _ \<Rightarrow> None | Inr p \<Rightarrow> Some (Int_value p))"
| "convert env Str_type s = Inr (Some (Text_value s))"
| "convert env Int_type s = Inr (case py_int s of Inl _ \<Rightarrow> None | Inr i \<Rightarrow> Some (Int_value i))"

text \<open>\<open>_get_value\<close>, and with \<open>_check_value\<close> for a value from the command line.\<close>

definition get_value :: "cmd_env \<Rightarrow> arg_decl \<Rightarrow> string \<Rightarrow> stop + arg_value" where
  "get_value env d s = (case convert env (arg_typ d) s of
       Inl e \<Rightarrow> Inl e | Inr None \<Rightarrow> Inl (Usage (Invalid_value d s)) | Inr (Some v) \<Rightarrow> Inr v)"

definition checked_value :: "cmd_env \<Rightarrow> arg_decl \<Rightarrow> string \<Rightarrow> stop + arg_value" where
  "checked_value env d s = (case get_value env d s of
       Inl e \<Rightarrow> Inl e
     | Inr v \<Rightarrow> (case choices d of
         Some cs \<Rightarrow> (case v of
             Text_value t \<Rightarrow> if t \<in> set cs then Inr v else Inl (Usage (Invalid_choice d s))
           | _ \<Rightarrow> Inl (Usage (Invalid_choice d s)))
       | None \<Rightarrow> Inr v))"

section \<open>Kinds of arguments\<close>

datatype token =
    Positional string
  | Option_token arg_decl "string option"
  | Help_token "string option"
  | Unknown_option string

definition negative_number :: "string \<Rightarrow> bool" where
  "negative_number s = (let t = (if s \<noteq> [] \<and> last s = CHR 0x0A then butlast s else s);
       body = tl t; whole = takeWhile is_digit body; rest = dropWhile is_digit body
     in t \<noteq> [] \<and> hd t = CHR ''-'' \<and>
        ((whole \<noteq> [] \<and> rest = []) \<or>
         (rest \<noteq> [] \<and> hd rest = CHR ''.'' \<and> tl rest \<noteq> [] \<and> list_all is_digit (tl rest))))"

text \<open>The long options by name, the help option among them, in the order of declaration.\<close>

definition option_table :: "arg_decl list \<Rightarrow> (string \<times> arg_decl option) list" where
  "option_table ds = (''--help'', None) # concat (map (\<lambda>d. map (\<lambda>f. (f, Some d)) (flags d)) ds)"

definition option_for :: "arg_decl option \<Rightarrow> string option \<Rightarrow> token" where
  "option_for a e = (case a of None \<Rightarrow> Help_token e | Some d \<Rightarrow> Option_token d e)"

definition before_equals :: "string \<Rightarrow> string" where
  "before_equals s = takeWhile (\<lambda>c. c \<noteq> CHR ''='') s"

definition after_equals :: "string \<Rightarrow> string option" where
  "after_equals s = (case dropWhile (\<lambda>c. c \<noteq> CHR ''='') s of [] \<Rightarrow> None | c # t \<Rightarrow> Some t)"

text \<open>\<open>_parse_optional\<close>: options may be abbreviated, and what looks like a negative number is no option.\<close>

definition parse_optional :: "arg_decl list \<Rightarrow> string \<Rightarrow> stop + token" where
  "parse_optional ds s =
     (let table = option_table ds in
      if s = ''--'' then Inl Outside
      else if s = [] \<or> hd s \<noteq> CHR ''-'' then Inr (Positional s)
      else if s = ''-h'' then Inr (Help_token None)
      else if length s = 1 then Inr (Positional s)
      else if before_equals s = ''-h'' then Inr (Help_token (after_equals s))
      else if take 2 s = ''-h'' then Inl Outside
      else case map_of table (before_equals s) of
          Some a \<Rightarrow> Inr (option_for a (after_equals s))
        | None \<Rightarrow>
            let found = (if hd (tl s) = CHR ''-''
                         then filter (\<lambda>(f, a). startswith f (before_equals s)) table else [])
            in case found of
                 [(f, a)] \<Rightarrow> Inr (option_for a (after_equals s))
               | _ # _ # _ \<Rightarrow> Inl (Usage (Ambiguous s (map fst found)))
               | [] \<Rightarrow> if negative_number s \<or> CHR '' '' \<in> set s then Inr (Positional s)
                       else Inr (Unknown_option s))"

fun tokens :: "arg_decl list \<Rightarrow> string list \<Rightarrow> stop + token list" where
  "tokens ds [] = Inr []"
| "tokens ds (s # ss) = (case parse_optional ds s of Inl e \<Rightarrow> Inl e
     | Inr t \<Rightarrow> (case tokens ds ss of Inl e \<Rightarrow> Inl e | Inr ts \<Rightarrow> Inr (t # ts)))"

section \<open>The namespace\<close>

text \<open>
  \<open>seen\<close>: the values given on the command line, the last one of an option counting; \<open>left\<close>: the
  positional arguments still to come; \<open>extras\<close>: what no argument took.
\<close>

record pstate =
  seen :: "string \<rightharpoonup> arg_value"
  left :: "arg_decl list"
  extras :: "string list"

definition take_action :: "cmd_env \<Rightarrow> arg_decl \<Rightarrow> string \<Rightarrow> pstate \<Rightarrow> stop + pstate" where
  "take_action env d s st = (case checked_value env d s of
     Inl e \<Rightarrow> Inl e | Inr v \<Rightarrow> Inr (st\<lparr>seen := (seen st)(dest d \<mapsto> v)\<rparr>))"

fun consume :: "cmd_env \<Rightarrow> token list \<Rightarrow> pstate \<Rightarrow> stop + pstate" where
  "consume env [] st = Inr st"
| "consume env (Positional s # ts) st = (case left st of
       [] \<Rightarrow> consume env ts (st\<lparr>extras := extras st @ [s]\<rparr>)
     | d # ds \<Rightarrow> (case take_action env d s (st\<lparr>left := ds\<rparr>) of Inl e \<Rightarrow> Inl e | Inr st' \<Rightarrow> consume env ts st'))"
| "consume env (Option_token d (Some s) # ts) st = (case take_action env d s st of
       Inl e \<Rightarrow> Inl e | Inr st' \<Rightarrow> consume env ts st')"
| "consume env (Option_token d None # Positional s # ts) st = (case take_action env d s st of
       Inl e \<Rightarrow> Inl e | Inr st' \<Rightarrow> consume env ts st')"
| "consume env (Option_token d None # ts) st = Inl (Usage (Expected_argument d))"
| "consume env (Help_token None # ts) st = Inl Help_shown"
| "consume env (Help_token (Some s) # ts) st = Inl (Usage (Ignored_explicit s))"
| "consume env (Unknown_option s # ts) st = consume env ts (st\<lparr>extras := extras st @ [s]\<rparr>)"

text \<open>Arguments not given: text defaults are converted, in order, other defaults taken as they are.\<close>

definition default_of :: "cmd_env \<Rightarrow> arg_decl \<Rightarrow> stop + arg_value" where
  "default_of env d = (case dflt d of
       No_default \<Rightarrow> Inr No_value | Int_default i \<Rightarrow> Inr (Int_value i) | Text_default s \<Rightarrow> get_value env d s)"

fun complete :: "cmd_env \<Rightarrow> arg_decl list \<Rightarrow> (string \<rightharpoonup> arg_value) \<Rightarrow> stop + (string \<rightharpoonup> arg_value)" where
  "complete env [] ns = Inr ns"
| "complete env (d # ds) ns =
     (if dest d \<in> dom ns \<or> flags d = [] then complete env ds ns
      else (case default_of env d of Inl e \<Rightarrow> Inl e | Inr v \<Rightarrow> complete env ds (ns(dest d \<mapsto> v))))"

definition parse_known :: "cmd_env \<Rightarrow> arg_decl list \<Rightarrow> string list \<Rightarrow> stop + (string \<rightharpoonup> arg_value)" where
  "parse_known env ds argv = (case tokens ds argv of Inl e \<Rightarrow> Inl e
     | Inr ts \<Rightarrow> (case consume env ts \<lparr>seen = Map.empty, left = filter (\<lambda>d. flags d = []) ds, extras = []\<rparr> of
         Inl e \<Rightarrow> Inl e
       | Inr st \<Rightarrow> (case complete env ds (seen st) of
           Inl e \<Rightarrow> Inl e
         | Inr ns \<Rightarrow>
             if left st \<noteq> [] then Inl (Usage (Required (map dest (left st))))
             else if extras st \<noteq> [] then Inl (Usage (Unrecognized (extras st)))
             else Inr ns)))"

text \<open>The fields of the namespace that the program reads; a namespace of another shape does not arise.\<close>

definition text_at :: "(string \<rightharpoonup> arg_value) \<Rightarrow> string \<Rightarrow> string" where
  "text_at ns k = (case ns k of Some (Text_value s) \<Rightarrow> s | _ \<Rightarrow> [])"

definition int_at :: "(string \<rightharpoonup> arg_value) \<Rightarrow> string \<Rightarrow> int" where
  "int_at ns k = (case ns k of Some (Int_value i) \<Rightarrow> i | _ \<Rightarrow> 0)"

definition namespace :: "(string \<rightharpoonup> arg_value) \<Rightarrow> json client_args" where
  "namespace ns = \<lparr>
     input_file = (case ns ''input_file'' of Some (Json_value v) \<Rightarrow> v | _ \<Rightarrow> JNull),
     server_ip = text_at ns ''server_ip'', server_port = int_at ns ''server_port'',
     source_address = text_at ns ''source_address'', source_port = int_at ns ''source_port'',
     mode = text_at ns ''mode'',
     count = (case ns ''count'' of Some (Int_value i) \<Rightarrow> Some i | _ \<Rightarrow> None),
     delay = int_at ns ''delay''\<rparr>"

definition parse_args :: "cmd_env \<Rightarrow> string list \<Rightarrow> stop + json client_args" where
  "parse_args env argv = (case parse_known env (all_args setup_parser) argv of
     Inl e \<Rightarrow> Inl e | Inr ns \<Rightarrow> Inr (namespace ns))"

section \<open>The program\<close>

text \<open>
  \<open>json.load\<close> accepts any JSON value, and the modes fail on the first item that is no object of
  strings. The run is modelled when the value is a list of objects of strings.
\<close>

datatype program_run = Stopped stop | Ran "(unit res \<times> udp_io) option" | Other_input json

definition with_messages :: "message list \<Rightarrow> json client_args \<Rightarrow> parsed_args" where
  "with_messages ms a = \<lparr>input_file = ms, server_ip = server_ip a, server_port = server_port a,
     source_address = source_address a, source_port = source_port a, mode = mode a, count = count a, delay = delay a\<rparr>"

definition udp_client :: "cmd_env \<Rightarrow> os_net \<Rightarrow> string list \<Rightarrow> udp_io \<Rightarrow> program_run" where
  "udp_client env net argv io = (case parse_args env argv of
     Inl e \<Rightarrow> Stopped e
   | Inr a \<Rightarrow> (case messages_of (input_file a) of
       None \<Rightarrow> Other_input (input_file a) | Some ms \<Rightarrow> Ran (main net (with_messages ms a) io)))"

end
