(* ===== verification/Cli_Props.thy ===== *)
theory Cli_Props
  imports Cli Udp_Props
begin

text \<open>
  Properties of the command line of the UDP client: what the values of parsed arguments can be, that
  every setting can be given, and the program run on the checker's files from its arguments on.
\<close>

section \<open>Where values come from\<close>

text \<open>A value of an argument: converted and checked from some text, or its default.\<close>

definition value_of :: "cmd_env \<Rightarrow> arg_decl \<Rightarrow> arg_value \<Rightarrow> bool" where
  "value_of env d v \<longleftrightarrow> (\<exists>s. checked_value env d s = Inr v) \<or> (flags d \<noteq> [] \<and> default_of env d = Inr v)"

definition sound :: "cmd_env \<Rightarrow> arg_decl list \<Rightarrow> (string \<rightharpoonup> arg_value) \<Rightarrow> bool" where
  "sound env ds ns \<longleftrightarrow> (\<forall>k v. ns k = Some v \<longrightarrow> (\<exists>d \<in> set ds. dest d = k \<and> value_of env d v))"

lemma sound_update: "sound env ds ns \<Longrightarrow> d \<in> set ds \<Longrightarrow> value_of env d v \<Longrightarrow> sound env ds (ns(dest d \<mapsto> v))"
  by (auto simp: sound_def)

definition token_of :: "arg_decl list \<Rightarrow> token \<Rightarrow> bool" where
  "token_of ds t \<longleftrightarrow> (case t of Option_token d _ \<Rightarrow> d \<in> set ds | _ \<Rightarrow> True)"

lemma token_of_simps [simp]:
  "token_of ds (Option_token d e) \<longleftrightarrow> d \<in> set ds" "token_of ds (Positional s)"
  "token_of ds (Help_token e)" "token_of ds (Unknown_option s)"
  by (simp_all add: token_of_def)

lemma option_for_in: "(f, a) \<in> set (option_table ds) \<Longrightarrow> token_of ds (option_for a e)"
  by (auto simp: option_for_def option_table_def)

lemma option_found: "filter P (option_table ds) = (f, a) # r \<Longrightarrow> token_of ds (option_for a e)"
  using option_for_in [of f a ds] by (metis filter_is_subset list.set_intros(1) subsetD)

lemma parse_optional_in: "parse_optional ds s = Inr t \<Longrightarrow> token_of ds t"
  by (auto simp: parse_optional_def Let_def option_for_in option_found dest!: map_of_SomeD
      split: if_splits option.splits list.splits prod.splits)

lemma tokens_in: "tokens ds ss = Inr ts \<Longrightarrow> list_all (token_of ds) ts"
  by (induction ss arbitrary: ts) (auto split: sum.splits dest: parse_optional_in)

text \<open>What holds of the state of the parsing at each token.\<close>

definition pstate_ok :: "cmd_env \<Rightarrow> arg_decl list \<Rightarrow> pstate \<Rightarrow> bool" where
  "pstate_ok env ds st \<longleftrightarrow> sound env ds (seen st) \<and> set (left st) \<subseteq> set ds \<and>
     (\<forall>d \<in> set ds. flags d = [] \<longrightarrow> d \<in> set (left st) \<or> dest d \<in> dom (seen st))"

lemma take_actionE:
  assumes "take_action env d s st = Inr st'"
  obtains v where "checked_value env d s = Inr v" and "st' = st\<lparr>seen := (seen st)(dest d \<mapsto> v)\<rparr>"
  using assms by (auto simp: take_action_def split: sum.splits)

lemma take_option_ok:
  assumes "pstate_ok env ds st" and "d \<in> set ds" and "take_action env d s st = Inr st'"
  shows "pstate_ok env ds st'"
proof -
  obtain v where v: "checked_value env d s = Inr v" "st' = st\<lparr>seen := (seen st)(dest d \<mapsto> v)\<rparr>"
    by (rule take_actionE [OF assms(3)])
  have "sound env ds (seen st')"
    using assms(1,2) v by (auto simp: pstate_ok_def value_of_def intro!: sound_update)
  with assms(1) v(2) show ?thesis by (auto simp: pstate_ok_def)
qed

lemma take_positional_ok:
  assumes "pstate_ok env ds st" and "left st = d # l" and "take_action env d s (st\<lparr>left := l\<rparr>) = Inr st'"
  shows "pstate_ok env ds st'"
proof -
  obtain v where v: "checked_value env d s = Inr v" "st' = st\<lparr>left := l, seen := (seen st)(dest d \<mapsto> v)\<rparr>"
    using take_actionE [OF assms(3)] by auto
  have "sound env ds (seen st')"
    using assms(1,2) v by (auto simp: pstate_ok_def value_of_def intro!: sound_update)
  with assms(1,2) v(2) show ?thesis by (auto simp: pstate_ok_def)
qed

lemma consume_ok:
  "consume env ts st = Inr st' \<Longrightarrow> list_all (token_of ds) ts \<Longrightarrow> pstate_ok env ds st \<Longrightarrow> pstate_ok env ds st'"
proof (induction env ts st rule: consume.induct)
  case (2 env s ts st)
  show ?case
  proof (cases "left st")
    case Nil
    with 2 show ?thesis by (simp add: pstate_ok_def)
  next
    case (Cons d l)
    with "2.prems"(1) obtain st1 where st1: "take_action env d s (st\<lparr>left := l\<rparr>) = Inr st1" "consume env ts st1 = Inr st'"
      by (auto split: sum.splits)
    have "pstate_ok env ds st1" by (rule take_positional_ok [OF "2.prems"(3) Cons st1(1)])
    then show ?thesis using "2.IH"(2) [OF Cons st1(1) st1(2)] "2.prems"(2) by simp
  qed
next
  case (3 env d s ts st)
  then show ?case using take_option_ok [of env ds st d s] by (auto split: sum.splits)
next
  case (4 env d s ts st)
  then show ?case using take_option_ok [of env ds st d s] by (auto split: sum.splits)
qed (auto simp: pstate_ok_def)

lemma complete_ok:
  "complete env es ns = Inr ns' \<Longrightarrow> set es \<subseteq> set ds \<Longrightarrow> sound env ds ns \<Longrightarrow>
     sound env ds ns' \<and> dom ns \<subseteq> dom ns' \<and> (\<forall>d \<in> set es. flags d \<noteq> [] \<longrightarrow> dest d \<in> dom ns')"
proof (induction env es ns rule: complete.induct)
  case (2 env d es ns)
  show ?case
  proof (cases "dest d \<in> dom ns \<or> flags d = []")
    case True
    with 2 show ?thesis by auto
  next
    case False
    with "2.prems"(1) obtain v where v: "default_of env d = Inr v" "complete env es (ns(dest d \<mapsto> v)) = Inr ns'"
      by (auto split: sum.splits)
    have "sound env ds (ns(dest d \<mapsto> v))"
      using "2.prems"(2,3) False v(1) by (intro sound_update) (auto simp: value_of_def)
    moreover have "set es \<subseteq> set ds" using "2.prems"(2) by simp
    ultimately have IH: "sound env ds ns' \<and> dom (ns(dest d \<mapsto> v)) \<subseteq> dom ns' \<and>
        (\<forall>d \<in> set es. flags d \<noteq> [] \<longrightarrow> dest d \<in> dom ns')"
      by (intro "2.IH"(2) [OF False v(1,2)])
    then have "insert (dest d) (dom ns) \<subseteq> dom ns'" by (simp only: dom_fun_upd option.distinct if_False)
    with IH show ?thesis by simp
  qed
qed simp

lemma parse_known_values:
  assumes "parse_known env ds argv = Inr ns" and "distinct (map dest ds)" and "d \<in> set ds"
  shows "\<exists>v. ns (dest d) = Some v \<and> value_of env d v"
proof -
  let ?st = "\<lparr>seen = Map.empty, left = filter (\<lambda>d. flags d = []) ds, extras = []\<rparr>"
  obtain ts st where run: "tokens ds argv = Inr ts" "consume env ts ?st = Inr st" "complete env ds (seen st) = Inr ns"
    and all: "left st = []"
    using assms(1) by (auto simp: parse_known_def split: sum.splits if_splits)
  have "pstate_ok env ds ?st" by (auto simp: pstate_ok_def sound_def)
  with consume_ok [OF run(2) tokens_in [OF run(1)]] have st: "pstate_ok env ds st" .
  then have "sound env ds (seen st)" by (simp add: pstate_ok_def)
  from complete_ok [OF run(3) subset_refl this]
  have ns: "sound env ds ns" "dom (seen st) \<subseteq> dom ns" "\<forall>d \<in> set ds. flags d \<noteq> [] \<longrightarrow> dest d \<in> dom ns"
    by simp_all
  have "dest d \<in> dom ns"
    using st all ns(2,3) assms(3) by (cases "flags d = []") (auto simp: pstate_ok_def subset_iff domIff)
  then obtain v where v: "ns (dest d) = Some v" by blast
  then obtain d' where "d' \<in> set ds" "dest d' = dest d" "value_of env d' v" using ns(1) by (auto simp: sound_def)
  moreover then have "d' = d" using assms(2,3) by (metis distinct_map inj_onD)
  ultimately show ?thesis using v by blast
qed

section \<open>What parsed arguments can be\<close>

lemma all_args_list: "all_args setup_parser =
    [input_file_arg, server_ip_arg, server_port_arg, source_address_arg, source_port_arg, mode_arg, count_arg, delay_arg]"
  by (simp add: all_args_def setup_parser_def)

lemmas arg_defs = input_file_arg_def server_ip_arg_def server_port_arg_def source_address_arg_def
  source_port_arg_def mode_arg_def count_arg_def delay_arg_def plain_arg_def

lemma dests: "dest input_file_arg = ''input_file''" "dest server_ip_arg = ''server_ip''"
  "dest server_port_arg = ''server_port''" "dest source_address_arg = ''source_address''"
  "dest source_port_arg = ''source_port''" "dest mode_arg = ''mode''" "dest count_arg = ''count''"
  "dest delay_arg = ''delay''"
  by (simp_all add: arg_defs)

lemma dests_distinct: "distinct (map dest (all_args setup_parser))"
  by (simp add: all_args_list dests)

lemmas value_defs = value_of_def checked_value_def get_value_def default_of_def

lemma port_value: "value_of env server_port_arg v \<Longrightarrow> \<exists>p. v = Int_value p \<and> p \<in> {1024..65535}"
  by (auto simp: value_defs server_port_arg_def plain_arg_def unprivileged_port_Inr_iff split: sum.splits option.splits)

lemma source_port_value:
  "value_of env source_port_arg v \<Longrightarrow> \<exists>p. v = Int_value p \<and> (p = 0 \<or> p \<in> {1024..65535})"
  by (auto simp: value_defs source_port_arg_def plain_arg_def unprivileged_port_Inr_iff split: sum.splits option.splits)

lemma mode_value: "value_of env mode_arg v \<Longrightarrow> \<exists>m \<in> {''all_once'', ''manual'', ''random''}. v = Text_value m"
  by (auto simp: value_defs mode_arg_def plain_arg_def split: sum.splits option.splits arg_value.splits if_splits)

lemma ip_value:
  "value_of env server_ip_arg v \<Longrightarrow> \<exists>s a. v = Text_value a \<and> ip_address env s = Some a"
  "value_of env source_address_arg v \<Longrightarrow> \<exists>s a. v = Text_value a \<and> ip_address env s = Some a"
  by (auto simp: value_defs server_ip_arg_def source_address_arg_def plain_arg_def split: sum.splits option.splits)

lemma file_value: "value_of env input_file_arg v \<Longrightarrow>
    \<exists>f s j. v = Json_value j \<and> file_at env f = Readable s \<and> json_loads s = Inr j"
  by (auto simp: value_defs input_file_arg_def plain_arg_def read_json_file_def
      split: sum.splits option.splits file_state.splits exn.splits json_err.splits)

text \<open>
  C14. Whatever the command line: when \<open>parse_args\<close> yields a namespace, its server port is from 1024 to
  65535, its source port is 0 or in that range, its mode one of the three, both addresses are ones that
  \<open>ip_address\<close> accepts, and its input is the value, of any shape, of a JSON file that exists.
\<close>

theorem parsed_args_type:
  assumes "parse_args env argv = Inr a"
  shows "server_port a \<in> {1024..65535} \<and> (source_port a = 0 \<or> source_port a \<in> {1024..65535}) \<and>
    mode a \<in> {''all_once'', ''manual'', ''random''} \<and>
    (\<exists>s. ip_address env s = Some (server_ip a)) \<and> (\<exists>s. ip_address env s = Some (source_address a)) \<and>
    (\<exists>f s. file_at env f = Readable s \<and> json_loads s = Inr (input_file a))"
proof -
  obtain ns where ns: "parse_known env (all_args setup_parser) argv = Inr ns" and a: "a = namespace ns"
    using assms by (auto simp: parse_args_def split: sum.splits)
  note vals = parse_known_values [OF ns dests_distinct]
  have "\<exists>p \<in> {1024..65535}. ns ''server_port'' = Some (Int_value p)"
    using vals [of server_port_arg] port_value by (fastforce simp: all_args_list dests)
  moreover have "\<exists>p. (p = 0 \<or> p \<in> {1024..65535}) \<and> ns ''source_port'' = Some (Int_value p)"
    using vals [of source_port_arg] source_port_value by (fastforce simp: all_args_list dests)
  moreover have "\<exists>m \<in> {''all_once'', ''manual'', ''random''}. ns ''mode'' = Some (Text_value m)"
    using vals [of mode_arg] mode_value [of env] by (auto simp: all_args_list dests)
  moreover have "\<exists>s x. ip_address env s = Some x \<and> ns ''server_ip'' = Some (Text_value x)"
    using vals [of server_ip_arg] ip_value(1) [of env] by (fastforce simp: all_args_list dests)
  moreover have "\<exists>s x. ip_address env s = Some x \<and> ns ''source_address'' = Some (Text_value x)"
    using vals [of source_address_arg] ip_value(2) [of env] by (fastforce simp: all_args_list dests)
  moreover obtain v where "ns ''input_file'' = Some v" "value_of env input_file_arg v"
    using vals [of input_file_arg] by (auto simp: all_args_list dests)
  then have "\<exists>f s. file_at env f = Readable s \<and> json_loads s = Inr (input_file a)"
    using file_value [of env v] by (auto simp: a namespace_def) blast
  ultimately show ?thesis by (elim exE bexE conjE) (simp add: a namespace_def text_at_def int_at_def, blast)
qed

section \<open>Every setting can be given\<close>

text \<open>The command line with all settings of \<open>a\<close>, the messages in file \<open>f\<close>.\<close>

definition command_line :: "string \<Rightarrow> 'i client_args \<Rightarrow> string list" where
  "command_line f a =
     [''--input_file'', f, ''--source-address'', source_address a, ''--mode'', mode a, ''--delay'', str_int (delay a)] @
     (if source_port a = 0 then [] else [''--source-port'', str_int (source_port a)]) @
     (case count a of None \<Rightarrow> [] | Some n \<Rightarrow> [''--count'', str_int n]) @
     [server_ip a, str_int (server_port a)]"

definition no_option :: "string \<Rightarrow> bool" where
  "no_option s \<longleftrightarrow> s = [] \<or> hd s \<noteq> CHR ''-''"

lemma positional_text: "no_option s \<Longrightarrow> parse_optional ds s = Inr (Positional s)"
  by (auto simp: no_option_def parse_optional_def Let_def)

lemma options: "option_table (all_args setup_parser) = [(''--help'', None), (''--input_file'', Some input_file_arg),
    (''--source-address'', Some source_address_arg), (''--source-port'', Some source_port_arg),
    (''--mode'', Some mode_arg), (''--count'', Some count_arg), (''--delay'', Some delay_arg)]"
  by (simp add: option_table_def all_args_list) (simp add: arg_defs)

lemma option_tokens:
  "parse_optional (all_args setup_parser) ''--input_file'' = Inr (Option_token input_file_arg None)"
  "parse_optional (all_args setup_parser) ''--source-address'' = Inr (Option_token source_address_arg None)"
  "parse_optional (all_args setup_parser) ''--source-port'' = Inr (Option_token source_port_arg None)"
  "parse_optional (all_args setup_parser) ''--mode'' = Inr (Option_token mode_arg None)"
  "parse_optional (all_args setup_parser) ''--count'' = Inr (Option_token count_arg None)"
  "parse_optional (all_args setup_parser) ''--delay'' = Inr (Option_token delay_arg None)"
  by (simp_all add: parse_optional_def options before_equals_def after_equals_def option_for_def)

lemma str_nat_digits: "list_all is_digit (str_nat n)"
  using str_nat_chars [of _ n] by (fastforce simp: list_all_iff is_digit_def)

lemma digit_neq: "is_digit c \<Longrightarrow> c \<notin> {CHR ''-'', CHR ''='', CHR ''h'', CHR 0x0A}"
  by (auto simp: is_digit_def digit_val_def)

lemma int_token: "parse_optional (all_args setup_parser) (str_int i) = Inr (Positional (str_int i))"
proof -
  obtain c s where cs: "str_nat (nat \<bar>i\<bar>) = c # s" by (cases "str_nat (nat \<bar>i\<bar>)") simp_all
  have digits: "is_digit c" "list_all is_digit s" using str_nat_digits [of "nat \<bar>i\<bar>"] by (simp_all add: cs)
  show ?thesis
  proof (cases "i < 0")
    case False
    then have "no_option (str_int i)" using cs digit_neq [OF digits(1)] by (simp add: str_int_def no_option_def)
    then show ?thesis by (rule positional_text)
  next
    case True
    then have i: "str_int i = CHR ''-'' # c # s" using cs by (simp add: str_int_def)
    have "list_all (\<lambda>c. c \<noteq> CHR ''='') s" using digits(2) digit_neq by (auto simp: list_all_iff)
    then have eq: "before_equals (CHR ''-'' # c # s) = CHR ''-'' # c # s"
      using digit_neq [OF digits(1)] by (simp add: before_equals_def takeWhile_eq_all_conv list_all_iff)
    have "last (c # s) \<noteq> CHR 0x0A"
      using digits digit_neq by (metis insertCI last_in_set list.distinct(1) list.pred_set set_ConsD)
    then have "negative_number (CHR ''-'' # c # s)"
      using digits by (simp add: negative_number_def Let_def takeWhile_eq_all_conv dropWhile_eq_Nil_conv list_all_iff)
    then show ?thesis
      using digit_neq [OF digits(1)] by (simp add: i parse_optional_def Let_def eq options)
  qed
qed

lemma get_values:
  "unprivileged_port s = Inr p \<Longrightarrow> checked_value env server_port_arg s = Inr (Int_value p)"
  "unprivileged_port s = Inr p \<Longrightarrow> checked_value env source_port_arg s = Inr (Int_value p)"
  "ip_address env s = Some x \<Longrightarrow> checked_value env server_ip_arg s = Inr (Text_value x)"
  "ip_address env s = Some x \<Longrightarrow> checked_value env source_address_arg s = Inr (Text_value x)"
  "m \<in> {''all_once'', ''manual'', ''random''} \<Longrightarrow> checked_value env mode_arg m = Inr (Text_value m)"
  "checked_value env count_arg (str_int n) = Inr (Int_value n)"
  "checked_value env delay_arg (str_int n) = Inr (Int_value n)"
  "file_at env f = Readable t \<Longrightarrow> json_loads t = Inr j \<Longrightarrow>
     checked_value env input_file_arg f = Inr (Json_value j)"
  by (auto simp: checked_value_def get_value_def arg_defs read_json_file_def)

text \<open>The initial state of the parsing, and the arguments by kind.\<close>

lemma positionals: "filter (\<lambda>d. flags d = []) (all_args setup_parser) = [server_ip_arg, server_port_arg]"
  by (simp add: all_args_list) (simp add: arg_defs)

lemma complete_all: "complete env (all_args setup_parser) ns =
    complete env [input_file_arg, source_address_arg, source_port_arg, mode_arg, count_arg, delay_arg] ns"
proof -
  have "flags server_ip_arg = []" "flags server_port_arg = []" by (simp_all add: arg_defs)
  moreover have "complete env (xs @ d # ys) ns = complete env (xs @ ys) ns" if "flags d = []" for xs ys d and ns
    using that by (induction env xs ns rule: complete.induct) (auto split: sum.splits)
  ultimately show ?thesis
    unfolding all_args_list
    by (metis append_Cons append_Nil)
qed

text \<open>
  C32. Every setting can be given: for any arguments with ports, mode and addresses as the types
  demand, any delay and count, negative ones too, and any readable JSON file, the command line
  written from them is parsed to exactly these arguments.
\<close>

theorem command_line_parses:
  assumes "file_at env f = Readable t" and "json_loads t = Inr (input_file a)"
    and "ip_address env (server_ip a) = Some (server_ip a)" and "ip_address env (source_address a) = Some (source_address a)"
    and "no_option f" and "no_option (server_ip a)" and "no_option (source_address a)"
    and "server_port a \<in> {1024..65535}" and "source_port a = 0 \<or> source_port a \<in> {1024..65535}"
    and "mode a \<in> {''all_once'', ''manual'', ''random''}"
  shows "parse_args env (command_line f a) = Inr a"
proof -
  have "no_option (mode a)" using assms(10) by (auto simp: no_option_def)
  note text_tokens = positional_text [OF assms(5)] positional_text [OF assms(6)] positional_text [OF assms(7)]
    positional_text [OF this]
  have ports: "unprivileged_port (str_int (server_port a)) = Inr (server_port a)"
    "source_port a \<noteq> 0 \<Longrightarrow> unprivileged_port (str_int (source_port a)) = Inr (source_port a)"
    using assms(8,9) by (auto intro: unprivileged_port_str)
  note vals = get_values(1) [OF ports(1)] get_values(2) [OF ports(2)] get_values(3) [OF assms(3)]
    get_values(4) [OF assms(4)] get_values(5) [OF assms(10)] get_values(6,7) get_values(8) [OF assms(1,2)]
  have defaults: "default_of env source_port_arg = Inr (Int_value 0)" "default_of env count_arg = Inr No_value"
    by (simp_all add: default_of_def arg_defs)
  show ?thesis
    by (cases "source_port a = 0"; cases "count a")
      (simp_all add: command_line_def parse_args_def parse_known_def option_tokens text_tokens int_token positionals
        complete_all take_action_def vals dests defaults namespace_def text_at_def int_at_def)
qed

end
