(* ===== verification/Sample_Files.thy ===== *)
theory Sample_Files
  imports Cli_Props
begin

text \<open>
  The checker's two payload files as text, character by character but for the line ends, and the
  client run on them from its command line on.
\<close>

definition sample_file :: string where
  "sample_file = file_text [CHR 0x09] [CHR 0x09] sample_items"

definition sample_wildcard_file :: string where
  "sample_wildcard_file = file_text (replicate 8 (CHR '' '')) '' '' sample_wildcard_items"

lemma message_of_object: "message_of (object_of x) = Some (mk_message (fst x) (snd x))"
  by (auto simp: message_of_def object_of_def text_of_def mk_message_def fun_eq_iff)

lemma messages_of_objects: "messages_of (JArr (map object_of xs)) = Some (map (\<lambda>(d, p). mk_message d p) xs)"
  by (auto simp: messages_of_def message_of_object list_all_iff)

lemma printable_append [simp]: "printable (s @ t) \<longleftrightarrow> printable s \<and> printable t"
  by (simp add: printable_def)

lemma printable_huge: "printable huge_text"
proof -
  have "printable (concat (replicate n huge_period))" for n
    by (induction n) (simp_all add: printable_def huge_period_def)
  then show ?thesis by (simp add: huge_text_def) (simp add: printable_def)
qed

lemma items_ok: "list_all item_ok sample_items" "list_all item_ok sample_wildcard_items"
  unfolding sample_items_def sample_wildcard_items_def item_ok_def list.pred_inject fst_conv snd_conv
  by (simp_all only: printable_huge simp_thms) (simp_all add: printable_def)

lemma files_read:
  "\<exists>j. json_loads sample_file = Inr j \<and> messages_of j = Some sample_payloads"
  "\<exists>j. json_loads sample_wildcard_file = Inr j \<and> messages_of j = Some sample_wildcard_payloads"
  using json_loads_file [of "[CHR 0x09]" "[CHR 0x09]", OF _ _ items_ok(1)]
    json_loads_file [of "replicate 8 (CHR '' '')" "'' ''", OF _ _ items_ok(2)]
  by (simp_all add: sample_file_def sample_wildcard_file_def json_space_def list_all_iff messages_of_objects sample_payloads_def
      sample_wildcard_payloads_def)

lemma short_command:
  assumes "file_at env f = Readable t" and "json_loads t = Inr j"
    and "ip_address env ip = Some ip'" and "no_option f" and "no_option ip" and "p \<in> {1024..65535}"
  shows "parse_args env [''--input_file'', f, ip, str_int p] = Inr \<lparr>input_file = j, server_ip = ip',
    server_port = p, source_address = ''0.0.0.0'', source_port = 0, mode = ''all_once'', count = None, delay = 0\<rparr>"
proof -
  have port: "unprivileged_port (str_int p) = Inr p" using assms(6) by (auto intro: unprivileged_port_str)
  have "ipv4_ok ''0.0.0.0''"
    by (simp add: ipv4_ok_def octet_ok_def is_digit_def digit_val_def digits_def)
  then have defaults: "default_of env source_port_arg = Inr (Int_value 0)" "default_of env count_arg = Inr No_value"
    "default_of env source_address_arg = Inr (Text_value ''0.0.0.0'')" "default_of env delay_arg = Inr (Int_value 0)"
    "default_of env mode_arg = Inr (Text_value ''all_once'')"
    by (simp_all add: default_of_def arg_defs get_value_def ip_address_def)
  have "flags mode_arg \<noteq> []" "flags source_address_arg \<noteq> []" by (simp_all add: arg_defs)
  then show ?thesis
    by (simp add: parse_args_def parse_known_def option_tokens positional_text [OF assms(4)] positional_text [OF assms(5)]
        int_token positionals complete_all take_action_def get_values(8) [OF assms(1,2)] get_values(3) [OF assms(3)]
        get_values(1) [OF port] dests defaults namespace_def text_at_def int_at_def)
qed

text \<open>
  C16. The command the checker runs, from its arguments and the text of the file on: with the file
  \<open>sample_payloads.json\<close> the client prints nineteen lines and sends the sixteen datagrams of the
  plain topics to the given server, with \<open>sample_wildcard_payloads.json\<close> seventeen lines and the
  fourteen datagrams of the wildcard topics, and ends normally.
\<close>

theorem checker_command_runs:
  assumes "file_at env f = Readable (if w then sample_wildcard_file else sample_file)" and "no_option f"
    and "ip_address env ip = Some ip'" and "no_option ip" and "p \<in> {1024..65535}"
    and "os_bind net ''0.0.0.0'' 0 = Inr port" and "accepts net"
  shows "\<exists>io' new. udp_client env net [''--input_file'', f, ip, str_int p] io = Ran (Some (Ret (), io')) \<and>
    out io' = out io @ new \<and> line_count new = (if w then 17 else 19) \<and>
    datagrams io' = datagrams io @ map (\<lambda>bs. (bs, ip', p)) (if w then wildcard_datagrams else plain_datagrams)"
proof -
  let ?ms = "if w then sample_wildcard_payloads else sample_payloads"
  let ?a = "\<lparr>input_file = ?ms, server_ip = ip', server_port = p, source_address = ''0.0.0.0'', source_port = 0,
    mode = ''all_once'', count = None, delay = 0\<rparr> :: parsed_args"
  obtain j where j: "json_loads (if w then sample_wildcard_file else sample_file) = Inr j" "messages_of j = Some ?ms"
    using files_read by (cases w) auto
  have "udp_client env net [''--input_file'', f, ip, str_int p] io = Ran (main net ?a io)"
    using short_command [OF assms(1) j(1) assms(3,2,4,5)] j(2) by (simp add: udp_client_def with_messages_def)
  moreover obtain io' new where "main net ?a io = Some (Ret (), io')" "out io' = out io @ new"
    "line_count new = (if w then 17 else 19)"
    "datagrams io' = datagrams io @ map (\<lambda>bs. (bs, ip', p)) (if w then wildcard_datagrams else plain_datagrams)"
    using run_on_samples [of ?a net port w io] assms(6,7) by auto
  ultimately show ?thesis by simp
qed

end
