(* ===== verification/Cli_Examples.thy ===== *)
theory Cli_Examples
  imports Sample_Files Udp_Examples
begin

text \<open>The properties of the command line at concrete inputs: a directory with the sample file.\<close>

definition env0 :: cmd_env where
  "env0 = \<lparr>file_at = (\<lambda>f. if f = ''s.json'' then Readable sample_file else Absent), ip6_text = (\<lambda>_. None)\<rparr>"

lemma localhost: "ip_address env0 ''127.0.0.1'' = Some ''127.0.0.1''" "ip_address env0 ''0.0.0.0'' = Some ''0.0.0.0''"
  by (simp_all add: ip_address_def ipv4_ok_def octet_ok_def is_digit_def digit_val_def digits_def)

lemma file0: "file_at env0 ''s.json'' = Readable sample_file" "no_option ''s.json''" "no_option ''127.0.0.1''"
  by (simp_all add: env0_def no_option_def)

theorem parsed_args_type_witness:
  "\<exists>a. parse_args env0 [''--input_file'', ''s.json'', ''127.0.0.1'', str_int 12345] = Inr a \<and>
    server_port a \<in> {1024..65535} \<and> mode a \<in> {''all_once'', ''manual'', ''random''}"
proof -
  obtain j where "json_loads sample_file = Inr j" "messages_of j = Some sample_payloads" using files_read(1) by blast
  then obtain a where "parse_args env0 [''--input_file'', ''s.json'', ''127.0.0.1'', str_int 12345] = Inr a"
    using short_command [OF file0(1) _ localhost(1) file0(2,3), of j 12345] by auto
  with parsed_args_type [OF this] show ?thesis by blast
qed

theorem command_line_parses_witness:
  "\<exists>a. parse_args env0 (command_line ''s.json'' a) = Inr a \<and> delay a = -5 \<and> mode a = ''random'' \<and> count a = Some 3"
proof -
  obtain j where j: "json_loads sample_file = Inr j"
    using files_read(1) by auto
  let ?a = "\<lparr>input_file = j, server_ip = ''127.0.0.1'', server_port = 12345, source_address = ''0.0.0.0'',
    source_port = 2000, mode = ''random'', count = Some 3, delay = -5\<rparr> :: json client_args"
  from j command_line_parses [OF file0(1), of ?a] localhost file0(2,3)
  have "parse_args env0 (command_line ''s.json'' ?a) = Inr ?a" by (simp add: no_option_def)
  then show ?thesis by (intro exI [of _ ?a]) simp
qed

theorem checker_command_runs_witness:
  "\<exists>io'. udp_client env0 good_net [''--input_file'', ''s.json'', ''127.0.0.1'', str_int 12345] io0 = Ran (Some (Ret (), io')) \<and>
    datagrams io' = map (\<lambda>bs. (bs, ''127.0.0.1'', 12345)) plain_datagrams"
  using checker_command_runs [of env0 "''s.json''" False "''127.0.0.1''" "''127.0.0.1''" 12345 good_net 40000 io0]
    file0 localhost good_net by (auto simp: io0_def)

end
