(* ===== verification/Harness.thy ===== *)
theory Harness
  imports Topics "HOL-Library.AList"
begin

text \<open>
  The machinery of the checker \<open>test.py\<close>: the table of results, the \<open>Process\<close> class, the system
  utilities and the helpers its tests share. The checker runs the compiled server, subscribers and
  the UDP client as child processes; the operating system with these processes is a state of type
  \<open>'w\<close> that the record \<open>os\<close> of system calls acts on, an argument of the whole development.
\<close>

section \<open>The operating system\<close>

datatype channel = Stdout | Stderr

text \<open>
  \<open>os_popen\<close> starts a command in a directory and yields its number or an exception; \<open>os_readline\<close>
  is a read of one line, \<open>None\<close> when it blocks forever; \<open>os_readline_within\<close> is the same read
  under an alarm, \<open>None\<close> when the alarm interrupts it; \<open>os_write\<close> writes to the standard input of a
  child and \<open>os_shell\<close> runs a command, each \<open>None\<close> when it never returns (a full pipe that the child
  does not read, a command that hangs), for neither is under an alarm; \<open>os_wait\<close> tells whether the process ended
  within the given seconds; \<open>os_poll_none\<close> whether it is still running. \<open>os_first_line\<close> opens a
  file for reading and reads a line, \<open>os_open_write\<close> opens it for writing.
\<close>

record 'w os =
  os_popen :: "string list \<Rightarrow> string \<Rightarrow> 'w \<Rightarrow> (exn + nat) \<times> 'w"
  os_terminate :: "nat \<Rightarrow> 'w \<Rightarrow> 'w"
  os_wait :: "nat \<Rightarrow> nat \<Rightarrow> 'w \<Rightarrow> bool \<times> 'w"
  os_write :: "nat \<Rightarrow> string \<Rightarrow> 'w \<Rightarrow> ((exn + unit) \<times> 'w) option"
  os_readline :: "nat \<Rightarrow> channel \<Rightarrow> 'w \<Rightarrow> (string \<times> 'w) option"
  os_readline_within :: "nat \<Rightarrow> channel \<Rightarrow> nat \<Rightarrow> 'w \<Rightarrow> string option \<times> 'w"
  os_poll_none :: "nat \<Rightarrow> 'w \<Rightarrow> bool \<times> 'w"
  os_sleep :: "nat \<Rightarrow> 'w \<Rightarrow> 'w"
  os_shell :: "string \<Rightarrow> 'w \<Rightarrow> 'w option"
  os_path_exists :: "string \<Rightarrow> 'w \<Rightarrow> bool"
  os_first_line :: "string \<Rightarrow> 'w \<Rightarrow> exn + string"
  os_access_w :: "string \<Rightarrow> 'w \<Rightarrow> bool"
  os_open_write :: "string \<Rightarrow> 'w \<Rightarrow> (exn + unit) \<times> 'w"
  os_file_write :: "string \<Rightarrow> string \<Rightarrow> 'w \<Rightarrow> 'w"

text \<open>
  The checker's state: the dict \<open>tests\<close> in insertion order, the text printed so far, the system,
  and a record of the file writes, which nothing reads, kept to state what was written.
\<close>

record 'w harness =
  tests :: "(string \<times> string) list"
  console :: string
  world :: 'w
  written :: "(string \<times> string) list"

type_synonym ('w, 'a) test = "('w harness, 'a) py"

definition sys :: "('w \<Rightarrow> 'a \<times> 'w) \<Rightarrow> ('w, 'a) test" where
  "sys f = bnd (gets (\<lambda>h. f (world h))) (\<lambda>(a, w). andthen (modify (\<lambda>h. h\<lparr>world := w\<rparr>)) (ret a))"

definition sys_do :: "('w \<Rightarrow> 'w) \<Rightarrow> ('w, unit) test" where
  "sys_do f = modify (\<lambda>h. h\<lparr>world := f (world h)\<rparr>)"

text \<open>A call that may never return.\<close>

definition sys_may :: "('w \<Rightarrow> ('a \<times> 'w) option) \<Rightarrow> ('w, 'a) test" where
  "sys_may f h = (case f (world h) of None \<Rightarrow> None | Some (a, w) \<Rightarrow> Some (Ret a, h\<lparr>world := w\<rparr>))"

definition shell :: "'w os \<Rightarrow> string \<Rightarrow> ('w, unit) test" where
  "shell os cmd = sys_may (\<lambda>w. map_option (Pair ()) (os_shell os cmd w))"

definition print_text :: "string \<Rightarrow> ('w, unit) test" where
  "print_text s = modify (\<lambda>h. h\<lparr>console := console h @ s\<rparr>)"

definition say :: "string \<Rightarrow> ('w, unit) test" where
  "say s = print_text (s @ newline)"

definition sleep :: "'w os \<Rightarrow> nat \<Rightarrow> ('w, unit) test" where
  "sleep os n = sys_do (os_sleep os n)"

definition quit :: "('w, 'a) test" where
  "quit = raise SystemExit"

section \<open>The table of results\<close>

definition default_port :: string where "default_port = ''12345''"

definition default_ip :: string where "default_ip = ''127.0.0.1''"

definition udp_client_path :: string where "udp_client_path = ''pcom_hw2_udp_client''"

definition test_output_line_size :: nat where "test_output_line_size = 60"

definition initial_tests :: "(string \<times> string) list" where
  "initial_tests =
    [(''compile'', ''not executed''),
     (''server_start'', ''not executed''),
     (''c1_start'', ''not executed''),
     (''data_unsubscribed'', ''not executed''),
     (''c1_subscribe_all'', ''not executed''),
     (''data_subscribed'', ''not executed''),
     (''c1_stop'', ''not executed''),
     (''c1_restart'', ''not executed''),
     (''data_no_clients'', ''not executed''),
     (''same_id'', ''not executed''),
     (''c2_start'', ''not executed''),
     (''c2_subscribe'', ''not executed''),
     (''c2_stop'', ''skipped''),
     (''c2_subscribe_plus_wildcard'', ''not executed''),
     (''c2_subscribe_star_wildcard'', ''not executed''),
     (''c2_subscribe_compound_wildcard'', ''not executed''),
     (''c2_subscribe_wildcard_set_inclusion'', ''not executed''),
     (''quick_flow'', ''not executed''),
     (''server_stop'', ''not executed'')]"

definition pass_test :: "string \<Rightarrow> ('w, unit) test" where
  "pass_test test = modify (\<lambda>h. h\<lparr>tests := AList.update test ''passed'' (tests h)\<rparr>)"

definition fail_test :: "string \<Rightarrow> ('w, unit) test" where
  "fail_test test = modify (\<lambda>h. h\<lparr>tests := AList.update test ''failed'' (tests h)\<rparr>)"

definition result_line :: "string \<Rightarrow> string \<Rightarrow> string" where
  "result_line test status = test @
     replicate (nat (int test_output_line_size - int (length test) - int (length status)))
       (CHR ''.'') @ status @ newline"

definition print_test_results :: "('w, unit) test" where
  "print_test_results =
     andthen (say '''') (andthen (say ''RESULTS'') (andthen (say ''-------'')
     (bnd (gets tests) (\<lambda>ts. for_each ts (\<lambda>(test, status). print_text (result_line test status))))))"

section \<open>The \<open>Process\<close> class\<close>

record process =
  command :: "string list"
  started :: bool
  cwd :: string
  proc :: nat

definition mk_process :: "string list \<Rightarrow> string \<Rightarrow> process" where
  "mk_process cmd dir = \<lparr>command = cmd, started = False, cwd = dir, proc = 0\<rparr>"

definition start :: "'w os \<Rightarrow> process \<Rightarrow> ('w, process) test" where
  "start os p = try_except
     (bnd (sys (os_popen os (command p) (cwd p))) (\<lambda>r.
      bnd (lift_res r) (\<lambda>pid. ret (p\<lparr>proc := pid, started := True\<rparr>))))
     (\<lambda>e. case e of FileNotFoundError msg \<Rightarrow> Some (andthen (say msg) quit) | _ \<Rightarrow> None)"

definition finish :: "'w os \<Rightarrow> process \<Rightarrow> ('w, process) test" where
  "finish os p =
     (if started p
      then andthen (sys_do (os_terminate os (proc p)))
        (bnd (sys (os_wait os (proc p) 1)) (\<lambda>ended.
           if ended then ret (p\<lparr>started := False\<rparr>) else raise TimeoutExpired))
      else ret p)"

definition send_input :: "'w os \<Rightarrow> process \<Rightarrow> string \<Rightarrow> ('w, unit) test" where
  "send_input os p proc_in =
     (if started p then bnd (sys_may (os_write os (proc p) (proc_in @ newline))) lift_res else ret ())"

definition read_blocking :: "'w os \<Rightarrow> process \<Rightarrow> channel \<Rightarrow> ('w, string) test" where
  "read_blocking os p ch =
     (if started p
      then sys_may (os_readline os (proc p) ch)
      else ret '''')"

text \<open>
  A read under \<open>with timeout(tout)\<close>: the alarm raises \<open>TimeoutError\<close> in the read that is still
  waiting, and the handler around the read turns it into the text \<open>timeout\<close>.
\<close>

definition read_timeout :: "'w os \<Rightarrow> process \<Rightarrow> channel \<Rightarrow> nat \<Rightarrow> ('w, string) test" where
  "read_timeout os p ch tout =
     (if started p
      then bnd (sys (os_readline_within os (proc p) ch tout)) (\<lambda>r.
             ret (case r of Some line \<Rightarrow> line | None \<Rightarrow> ''timeout''))
      else ret '''')"

definition get_output :: "'w os \<Rightarrow> process \<Rightarrow> ('w, string) test" where
  "get_output os p = read_blocking os p Stdout"

definition get_output_timeout :: "'w os \<Rightarrow> process \<Rightarrow> nat \<Rightarrow> ('w, string) test" where
  "get_output_timeout os p tout = read_timeout os p Stdout tout"

definition get_error :: "'w os \<Rightarrow> process \<Rightarrow> ('w, string) test" where
  "get_error os p = read_blocking os p Stderr"

definition get_error_timeout :: "'w os \<Rightarrow> process \<Rightarrow> nat \<Rightarrow> ('w, string) test" where
  "get_error_timeout os p tout = read_timeout os p Stderr tout"

definition is_alive :: "'w os \<Rightarrow> process \<Rightarrow> ('w, bool) test" where
  "is_alive os p = (if started p then sys (os_poll_none os (proc p)) else ret False)"

section \<open>System helpers\<close>

definition make_target :: "'w os \<Rightarrow> string \<Rightarrow> ('w, bool) test" where
  "make_target os target = andthen (shell os (''make '' @ target))
     (gets (\<lambda>h. os_path_exists os target (world h)))"

definition make_clean :: "'w os \<Rightarrow> ('w, unit) test" where
  "make_clean os = shell os ''make clean''"

definition exit_if_condition :: "'w os \<Rightarrow> bool \<Rightarrow> string \<Rightarrow> ('w, unit) test" where
  "exit_if_condition os condition message =
     (if condition
      then andthen (say message) (andthen (make_clean os) (andthen print_test_results quit))
      else ret ())"

definition procfs_path :: "bool \<Rightarrow> string" where
  "procfs_path rmem = ''/proc/sys/net/ipv4/tcp_'' @ (if rmem then ''rmem'' else ''wmem'')"

definition get_procfs_values :: "'w os \<Rightarrow> bool \<Rightarrow> ('w, string list) test" where
  "get_procfs_values os rmem =
     bnd (gets (\<lambda>h. os_first_line os (procfs_path rmem) (world h))) (\<lambda>r.
     bnd (lift_res r) (\<lambda>line.
       let values = split_ws line
       in if length values < 3
          then andthen (say ''Error: could not read correctly from procfs'') (ret [''error''])
          else ret values))"

definition write_file :: "'w os \<Rightarrow> string \<Rightarrow> string \<Rightarrow> ('w, unit) test" where
  "write_file os path text = andthen (sys_do (os_file_write os path text))
     (modify (\<lambda>h. h\<lparr>written := written h @ [(path, text)]\<rparr>))"

definition set_procfs_values :: "'w os \<Rightarrow> bool \<Rightarrow> string list \<Rightarrow> ('w, bool) test" where
  "set_procfs_values os rmem values =
     bnd (gets (\<lambda>h. os_access_w os (procfs_path rmem) (world h))) (\<lambda>writable.
       if \<not> writable
       then andthen (say ''Error: not enough permissions to write to procfs'') (ret False)
       else bnd (sys (os_open_write os (procfs_path rmem))) (\<lambda>r.
            bnd (lift_res r) (\<lambda>_.
            bnd (list_get values 0) (\<lambda>a. bnd (list_get values 1) (\<lambda>b. bnd (list_get values 2) (\<lambda>c.
            andthen (write_file os (procfs_path rmem) (a @ '' '' @ b @ '' '' @ c)) (ret True)))))))"

end
