(* ===== verification/Harness_Helpers.thy ===== *)
theory Harness_Helpers
  imports Harness
begin

text \<open>
  The helpers the tests of \<open>test.py\<close> share (\<open>run_udp_client\<close> to \<open>subscribe_to_topic\<close>), the lemmas
  that compute the basic statements, and the interface through which state predicates are carried
  over every helper.
\<close>

section \<open>The helpers\<close>

definition run_udp_client :: "'w os \<Rightarrow> bool \<Rightarrow> string list \<Rightarrow> string \<Rightarrow> ('w, unit) test" where
  "run_udp_client os mode types input_file =
     (if mode
      then bnd (start os (mk_process [''python3'', ''udp_client.py'', ''--input_file'', input_file,
                 default_ip, default_port] udp_client_path)) (\<lambda>udpcl.
           andthen (for_range 19 (andthen (get_output_timeout os udpcl 1) (ret ())))
           (andthen (finish os udpcl) (ret ())))
      else bnd (start os (mk_process [''python3'', ''udp_client.py'', ''--mode'', ''manual'',
                 ''--input_file'', input_file, default_ip, default_port] udp_client_path)) (\<lambda>udpcl.
           andthen (sleep os 1)
           (andthen (for_each types (\<lambda>type. andthen (send_input os udpcl type) (sleep os 1)))
           (andthen (send_input os udpcl ''exit'')
           (andthen (finish os udpcl) (ret ()))))))"

text \<open>The call with default arguments: every payload of \<open>sample_payloads.json\<close>, once.\<close>

definition run_udp_client_default :: "'w os \<Rightarrow> ('w, unit) test" where
  "run_udp_client_default os = run_udp_client os True [''0''] ''sample_payloads.json''"

definition client_test_id :: "string \<Rightarrow> bool \<Rightarrow> string" where
  "client_test_id cid restart = ''c'' @ cid @ (if restart then ''_restart'' else ''_start'')"

text \<open>The part of \<open>start_and_check_client\<close> between the two marks: start the client and judge it.\<close>

definition client_started :: "'w os \<Rightarrow> process \<Rightarrow> string \<Rightarrow> ('w, process \<times> bool) test" where
  "client_started os server cid =
     andthen (say (''Starting subscriber C'' @ cid))
     (bnd (start os (mk_process [''./subscriber'', ''C'' @ cid, default_ip, default_port] '''')) (\<lambda>client.
      bnd (get_output_timeout os server 2) (\<lambda>outs.
      bnd (is_alive os client) (\<lambda>alive.
      bnd (if \<not> alive
           then andthen (say (''Error: subscriber C'' @ cid @ '' is not up'')) (ret False)
           else ret True) (\<lambda>success.
      bnd (if \<not> startswith outs (''New client C'' @ cid @ '' connected from'')
           then andthen (say (''Error: server did not print that C'' @ cid @ '' is connected'')) (ret False)
           else ret success) (\<lambda>success. ret (client, success)))))))"

definition start_and_check_client ::
    "'w os \<Rightarrow> process \<Rightarrow> string \<Rightarrow> bool \<Rightarrow> bool \<Rightarrow> ('w, process \<times> bool) test" where
  "start_and_check_client os server cid restart test =
     andthen (if test then fail_test (client_test_id cid restart) else ret ())
     (bnd (client_started os server cid) (\<lambda>(client, success).
      andthen (if success \<and> test then pass_test (client_test_id cid restart) else ret ())
      (ret (client, success))))"

definition check_subscriber_output ::
    "'w os \<Rightarrow> process \<Rightarrow> string \<Rightarrow> string \<Rightarrow> ('w, bool) test" where
  "check_subscriber_output os c client_id target =
     bnd (get_output_timeout os c 1) (\<lambda>outc.
       if \<not> contains target outc
       then andthen (say (''Error: C'' @ client_id @ '' output should contain ['' @ target @
              ''], is actually ['' @ rstrip outc @ '']'')) (ret False)
       else ret True)"

definition check_subscriber_stop ::
    "'w os \<Rightarrow> process \<Rightarrow> process \<Rightarrow> string \<Rightarrow> ('w, bool) test" where
  "check_subscriber_stop os server c cid =
     andthen (say (''Disconnecting subscriber C'' @ cid))
     (andthen (send_input os c ''exit'')
     (andthen (sleep os 1)
     (bnd (get_output_timeout os server 1) (\<lambda>outs.
       let message = ''Client C'' @ cid @ '' disconnected.''
       in bnd (if rstrip outs \<noteq> message then ret True else is_alive os c) (\<lambda>bad.
          if bad
          then andthen (say (''Error: client C'' @ cid @ '' not disconnected'')) (ret False)
          else ret True)))))"

definition check_two_subscribers ::
    "'w os \<Rightarrow> process \<Rightarrow> process \<Rightarrow> Topic list \<Rightarrow> nat \<Rightarrow> ('w, bool) test" where
  "check_two_subscribers os c1 c2 topics topic_id =
     bnd (list_get topics topic_id) (\<lambda>topic.
     andthen (say (''Generating one message for topic '' @ topic_name topic))
     (andthen (run_udp_client os False [str_nat topic_id] ''sample_payloads.json'')
     (let target = topic_print topic
      in bnd (check_subscriber_output os c1 ''1'' target) (\<lambda>success.
         bnd (check_subscriber_output os c2 ''2'' target) (\<lambda>second. ret (second \<and> success))))))"

text \<open>The result is \<open>-1\<close> when the command was not confirmed, and nothing otherwise.\<close>

definition subscribe_to_topic ::
    "'w os \<Rightarrow> process \<Rightarrow> string \<Rightarrow> string \<Rightarrow> ('w, int option) test" where
  "subscribe_to_topic os c name wildcard =
     andthen (send_input os c (''subscribe '' @ name @ wildcard))
     (bnd (get_output_timeout os c 1) (\<lambda>outc.
       if \<not> startswith outc ''Subscribed to topic''
       then andthen (say (''Error: C not subscribed to topic '' @ wildcard)) (ret (Some (-1)))
       else ret None))"

section \<open>Statements of the checker as state changes\<close>

lemma sys_app [py_eqs]:
  "sys f h = (let (a, w) = f (world h) in Some (Ret a, h\<lparr>world := w\<rparr>))"
  by (simp add: sys_def py_eqs split: prod.splits)

lemma sys_do_app [py_eqs]: "sys_do f h = Some (Ret (), h\<lparr>world := f (world h)\<rparr>)"
  by (simp add: sys_do_def py_eqs)

lemma sys_may_app [py_eqs]:
  "sys_may f h = (case f (world h) of None \<Rightarrow> None | Some (a, w) \<Rightarrow> Some (Ret a, h\<lparr>world := w\<rparr>))"
  by (simp add: sys_may_def)

lemma shell_app [py_eqs]:
  "shell os cmd h = map_option (\<lambda>w. (Ret (), h\<lparr>world := w\<rparr>)) (os_shell os cmd (world h))"
  by (simp add: shell_def sys_may_app split: option.splits)

lemma print_text_app [py_eqs]: "print_text s h = Some (Ret (), h\<lparr>console := console h @ s\<rparr>)"
  by (simp add: print_text_def py_eqs)

lemma pass_test_app [py_eqs]:
  "pass_test t h = Some (Ret (), h\<lparr>tests := AList.update t ''passed'' (tests h)\<rparr>)"
  by (simp add: pass_test_def py_eqs)

lemma fail_test_app [py_eqs]:
  "fail_test t h = Some (Ret (), h\<lparr>tests := AList.update t ''failed'' (tests h)\<rparr>)"
  by (simp add: fail_test_def py_eqs)

text \<open>A read under an alarm always yields a text, and changes nothing but the system.\<close>

lemma get_output_timeout_yields:
  "\<exists>line w. get_output_timeout os p n h = Some (Ret line, h\<lparr>world := w\<rparr>)"
proof (cases "started p")
  case True
  then show ?thesis
    by (cases "os_readline_within os (proc p) Stdout n (world h)")
      (auto simp: get_output_timeout_def read_timeout_def py_eqs)
next
  case False
  then show ?thesis
    by (auto simp: get_output_timeout_def read_timeout_def py_eqs intro: exI [of _ "world h"])
qed

section \<open>An interface for state predicates\<close>

text \<open>
  A predicate on the checker's state that the system, the console and the marking of a test in
  \<open>T\<close> cannot change. The client's lemmas say that every method and helper that writes no file
  keeps it; \<open>checker_files\<close> adds the file writes.
\<close>

locale checker_invariant =
  fixes I :: "'w harness \<Rightarrow> bool"
    and T :: "string set"
  assumes world_keeps: "I h \<Longrightarrow> I (h\<lparr>world := w\<rparr>)"
    and console_keeps: "I h \<Longrightarrow> I (h\<lparr>console := s\<rparr>)"
    and mark_keeps: "t \<in> T \<Longrightarrow> v \<in> {''passed'', ''failed''} \<Longrightarrow> I h \<Longrightarrow>
      I (h\<lparr>tests := AList.update t v (tests h)\<rparr>)"
begin

lemma keeps_sys [keeps_rules]: "keeps I (sys f)"
  by (rule keepsI) (auto simp: py_eqs split: prod.splits intro: world_keeps)

lemma keeps_sys_do [keeps_rules]: "keeps I (sys_do f)"
  by (rule keepsI) (auto simp: py_eqs intro: world_keeps)

lemma keeps_sys_may [keeps_rules]: "keeps I (sys_may f)"
  by (rule keepsI) (auto simp: py_eqs split: option.splits intro: world_keeps)

lemma keeps_shell [keeps_rules]: "keeps I (shell os cmd)"
  by (simp add: shell_def keeps_rules)

lemma keeps_print_text [keeps_rules]: "keeps I (print_text s)"
  by (rule keepsI) (auto simp: py_eqs intro: console_keeps)

lemma keeps_say [keeps_rules]: "keeps I (say s)"
  by (simp add: say_def keeps_rules)

lemma keeps_sleep [keeps_rules]: "keeps I (sleep os n)"
  by (simp add: sleep_def keeps_rules)

lemma keeps_quit [keeps_rules]: "keeps I quit"
  by (simp add: quit_def keeps_rules)

lemma keeps_pass [keeps_rules]: "t \<in> T \<Longrightarrow> keeps I (pass_test t)"
  by (rule keepsI) (auto simp: py_eqs intro: mark_keeps)

lemma keeps_fail [keeps_rules]: "t \<in> T \<Longrightarrow> keeps I (fail_test t)"
  by (rule keepsI) (auto simp: py_eqs intro: mark_keeps)

lemma keeps_print_test_results [keeps_rules]: "keeps I print_test_results"
  by (auto simp: print_test_results_def intro!: keeps_rules split: prod.splits)

lemma keeps_start [keeps_rules]: "keeps I (start os p)"
  unfolding start_def by (intro keeps_rules) (auto intro!: keeps_rules split: exn.splits)

lemma keeps_finish [keeps_rules]: "keeps I (finish os p)"
  by (auto simp: finish_def intro!: keeps_rules)

lemma keeps_send_input [keeps_rules]: "keeps I (send_input os p s)"
  by (auto simp: send_input_def intro!: keeps_rules)

lemma keeps_read_timeout [keeps_rules]: "keeps I (read_timeout os p ch n)"
  by (auto simp: read_timeout_def intro!: keeps_rules)

lemma keeps_get_output_timeout [keeps_rules]: "keeps I (get_output_timeout os p n)"
  by (simp add: get_output_timeout_def keeps_rules)

lemma keeps_is_alive [keeps_rules]: "keeps I (is_alive os p)"
  by (auto simp: is_alive_def intro!: keeps_rules)

lemma keeps_make [keeps_rules]: "keeps I (make_target os t)" "keeps I (make_clean os)"
  by (auto simp: make_target_def make_clean_def intro!: keeps_rules)

lemma keeps_exit_if [keeps_rules]: "keeps I (exit_if_condition os b s)"
  by (auto simp: exit_if_condition_def intro!: keeps_rules)

lemma keeps_get_procfs [keeps_rules]: "keeps I (get_procfs_values os b)"
  by (auto simp: get_procfs_values_def Let_def intro!: keeps_rules)

lemma keeps_run_udp_client [keeps_rules]: "keeps I (run_udp_client os m ts f)"
  by (auto simp: run_udp_client_def intro!: keeps_rules)

lemma keeps_run_udp_default [keeps_rules]: "keeps I (run_udp_client_default os)"
  by (simp add: run_udp_client_default_def keeps_rules)

lemma keeps_client_started [keeps_rules]: "keeps I (client_started os server cid)"
  by (auto simp: client_started_def intro!: keeps_rules)

lemma keeps_start_and_check [keeps_rules]:
  "(test \<Longrightarrow> client_test_id cid r \<in> T) \<Longrightarrow> keeps I (start_and_check_client os server cid r test)"
  by (auto simp: start_and_check_client_def intro!: keeps_rules)

lemma keeps_check_output [keeps_rules]: "keeps I (check_subscriber_output os c i t)"
  by (auto simp: check_subscriber_output_def intro!: keeps_rules)

lemma keeps_check_stop [keeps_rules]: "keeps I (check_subscriber_stop os s c i)"
  by (auto simp: check_subscriber_stop_def Let_def intro!: keeps_rules)

lemma keeps_subscribe [keeps_rules]: "keeps I (subscribe_to_topic os c n w)"
  by (auto simp: subscribe_to_topic_def intro!: keeps_rules)

end

locale checker_files = checker_invariant I T
  for I :: "'w harness \<Rightarrow> bool" and T :: "string set" +
  assumes written_keeps: "I h \<Longrightarrow> I (h\<lparr>written := l\<rparr>)"
begin

lemma keeps_write_file [keeps_rules]: "keeps I (write_file os p s)"
  by (auto simp: write_file_def intro!: keeps_rules keeps_modify intro: written_keeps)

lemma keeps_set_procfs [keeps_rules]: "keeps I (set_procfs_values os b vs)"
  by (auto simp: set_procfs_values_def intro!: keeps_rules)

end

section \<open>Every helper returns\<close>

text \<open>
  The reads are all under an alarm, so only a command of \<open>make\<close> that hangs or a pipe that is never
  read could keep a helper waiting.
\<close>

definition responsive :: "'w os \<Rightarrow> bool" where
  "responsive os \<longleftrightarrow> (\<forall>cmd w. os_shell os cmd w \<noteq> None) \<and> (\<forall>pid s w. os_write os pid s w \<noteq> None)"

lemma returns_sys [returns_rules]: "returns (sys f)" "returns (sys_do g)"
  by (auto simp: returns_def py_eqs split: prod.splits)

lemma returns_shell [returns_rules]: "responsive os \<Longrightarrow> returns (shell os cmd)"
  by (auto simp: returns_def py_eqs responsive_def)

lemma returns_write [returns_rules]: "responsive os \<Longrightarrow> returns (sys_may (os_write os pid s))"
  by (auto simp: returns_def py_eqs responsive_def split: option.splits)

lemma returns_basic [returns_rules]:
  "returns (print_text s)" "returns (say s)" "returns (sleep os n)" "returns quit"
  "returns (pass_test t)" "returns (fail_test t)" "returns print_test_results"
  by (auto simp: print_text_def say_def sleep_def quit_def pass_test_def fail_test_def
      print_test_results_def intro!: returns_rules split: prod.splits)

lemma returns_methods [returns_rules]:
  "returns (start os p)" "returns (finish os p)" "responsive os \<Longrightarrow> returns (send_input os p s)"
  "returns (get_output_timeout os p n)" "returns (get_error_timeout os p n)" "returns (is_alive os p)"
  by (auto simp: start_def finish_def send_input_def get_output_timeout_def get_error_timeout_def
      read_timeout_def is_alive_def intro!: returns_rules split: exn.splits)

lemma returns_system [returns_rules]:
  "responsive os \<Longrightarrow> returns (make_target os t)" "responsive os \<Longrightarrow> returns (make_clean os)"
  "responsive os \<Longrightarrow> returns (exit_if_condition os b s)"
  "returns (get_procfs_values os b)" "returns (set_procfs_values os b vs)"
  by (auto simp: make_target_def make_clean_def exit_if_condition_def get_procfs_values_def
      set_procfs_values_def write_file_def Let_def intro!: returns_rules)

lemma returns_helpers [returns_rules]:
  "responsive os \<Longrightarrow> returns (run_udp_client os m ts f)"
  "responsive os \<Longrightarrow> returns (run_udp_client_default os)"
  "returns (client_started os server cid)" "returns (start_and_check_client os server cid r test)"
  "returns (check_subscriber_output os c i t)"
  "responsive os \<Longrightarrow> returns (check_subscriber_stop os s c i)"
  "responsive os \<Longrightarrow> returns (subscribe_to_topic os c n w)"
  by (auto simp: run_udp_client_def run_udp_client_default_def client_started_def start_and_check_client_def
      check_subscriber_output_def check_subscriber_stop_def subscribe_to_topic_def Let_def
      intro!: returns_rules)

end
