(* ===== verification/Harness_Tests.thy ===== *)
theory Harness_Tests
  imports Harness_Helpers
begin

text \<open>
  The nineteen tests of \<open>test.py\<close> and the driver \<open>h2_test\<close>, statement by statement: which commands
  go to the clients, which lines are read and compared in which order, when a failed comparison
  keeps later lines from being read, and which result is recorded.
\<close>

section \<open>Building and starting\<close>

definition run_test_compile :: "'w os \<Rightarrow> ('w, unit) test" where
  "run_test_compile os =
     andthen (fail_test ''compile'')
     (andthen (say ''Compiling'')
     (bnd (make_target os ''server'') (\<lambda>built.
     andthen (exit_if_condition os (\<not> built) ''Error: server could not be built'')
     (bnd (make_target os ''subscriber'') (\<lambda>built.
     andthen (exit_if_condition os (\<not> built) ''Error: subscriber could not be built'')
     (pass_test ''compile''))))))"

definition run_test_server_start :: "'w os \<Rightarrow> ('w, process) test" where
  "run_test_server_start os =
     andthen (fail_test ''server_start'')
     (andthen (say ''Starting the server'')
     (bnd (start os (mk_process [''./server'', default_port] '''')) (\<lambda>server.
     andthen (sleep os 1)
     (bnd (is_alive os server) (\<lambda>alive.
     andthen (exit_if_condition os (\<not> alive) ''Error: server is not up'')
     (andthen (pass_test ''server_start'') (ret server)))))))"

definition run_test_c1_start :: "'w os \<Rightarrow> process \<Rightarrow> ('w, process \<times> bool) test" where
  "run_test_c1_start os server = start_and_check_client os server ''1'' False True"

section \<open>One subscriber\<close>

definition run_test_data_unsubscribed :: "'w os \<Rightarrow> process \<Rightarrow> process \<Rightarrow> ('w, unit) test" where
  "run_test_data_unsubscribed os server c1 =
     andthen (fail_test ''data_unsubscribed'')
     (andthen (say ''Generating one message for each topic'')
     (andthen (run_udp_client_default os)
     (bnd (get_output_timeout os server 1) (\<lambda>outs.
      bnd (get_output_timeout os c1 1) (\<lambda>outc1.
      bnd (if outs \<noteq> ''timeout''
           then andthen (say (''Error: server printing ['' @ rstrip outs @ '']'')) (ret True)
           else ret False) (\<lambda>failed.
      bnd (if outc1 \<noteq> ''timeout''
           then andthen (say (''Error: C1 printing ['' @ rstrip outc1 @ '']'')) (ret True)
           else ret failed) (\<lambda>failed.
      if \<not> failed then pass_test ''data_unsubscribed'' else ret ())))))))"

text \<open>The loop of \<open>run_test_c1_subscribe_all\<close>, left by \<open>break\<close> at the first failure.\<close>

fun subscribe_each :: "'w os \<Rightarrow> process \<Rightarrow> Topic list \<Rightarrow> ('w, bool) test" where
  "subscribe_each os c1 [] = ret False"
| "subscribe_each os c1 (topic # topics) =
     andthen (send_input os c1 (''subscribe '' @ topic_name topic))
     (bnd (get_output_timeout os c1 1) (\<lambda>outc1.
       if \<not> startswith outc1 ''Subscribed to topic''
       then andthen (say ''Error: C1 not subscribed to all topics'') (ret True)
       else subscribe_each os c1 topics))"

definition run_test_c1_subscribe_all :: "'w os \<Rightarrow> process \<Rightarrow> process \<Rightarrow> Topic list \<Rightarrow> ('w, unit) test" where
  "run_test_c1_subscribe_all os server c1 topics =
     andthen (fail_test ''c1_subscribe_all'')
     (andthen (say ''Subscribing C1 to all topics'')
     (bnd (subscribe_each os c1 topics) (\<lambda>failed.
      if \<not> failed then pass_test ''c1_subscribe_all'' else ret ())))"

text \<open>\<open>for topic in topics: success = check_subscriber_output(c, id, topic.print()) and success\<close>\<close>

definition check_each :: "'w os \<Rightarrow> process \<Rightarrow> string \<Rightarrow> Topic list \<Rightarrow> bool \<Rightarrow> ('w, bool) test" where
  "check_each os c cid topics success =
     fold_each topics (\<lambda>topic success.
       bnd (check_subscriber_output os c cid (topic_print topic)) (\<lambda>ok. ret (ok \<and> success))) success"

definition run_test_data_subscribed :: "'w os \<Rightarrow> process \<Rightarrow> process \<Rightarrow> Topic list \<Rightarrow> ('w, unit) test" where
  "run_test_data_subscribed os server c1 topics =
     andthen (fail_test ''data_subscribed'')
     (andthen (say ''Generating one message for each topic'')
     (andthen (run_udp_client_default os)
     (bnd (check_each os c1 ''1'' topics True) (\<lambda>success.
      if success then pass_test ''data_subscribed'' else ret ()))))"

definition run_test_c1_stop :: "'w os \<Rightarrow> process \<Rightarrow> process \<Rightarrow> ('w, bool) test" where
  "run_test_c1_stop os server c1 =
     andthen (fail_test ''c1_stop'')
     (bnd (check_subscriber_stop os server c1 ''1'') (\<lambda>ok.
      if ok then andthen (pass_test ''c1_stop'') (ret True) else ret False))"

definition run_test_c1_restart :: "'w os \<Rightarrow> process \<Rightarrow> ('w, process \<times> bool) test" where
  "run_test_c1_restart os server =
     andthen (say ''Generating one message for each topic'')
     (andthen (run_udp_client_default os)
     (andthen (sleep os 1)
     (start_and_check_client os server ''1'' True True)))"

definition run_test_data_no_clients :: "'w os \<Rightarrow> process \<Rightarrow> ('w, unit) test" where
  "run_test_data_no_clients os c1 =
     andthen (fail_test ''data_no_clients'')
     (bnd (get_output_timeout os c1 1) (\<lambda>line.
      if line = ''timeout'' then pass_test ''data_no_clients'' else ret ()))"

definition run_test_same_id :: "'w os \<Rightarrow> process \<Rightarrow> ('w, unit) test" where
  "run_test_same_id os server =
     andthen (fail_test ''same_id'')
     (andthen (say ''Starting another subscriber with ID C1'')
     (bnd (start os (mk_process [''./subscriber'', ''C1'', default_ip, default_port] '''')) (\<lambda>c1bis.
     andthen (sleep os 1)
     (bnd (get_output_timeout os server 2) (\<lambda>outs.
      bnd (is_alive os c1bis) (\<lambda>alive.
      bnd (if alive then andthen (say ''Error: second subscriber C1 is up'') (ret False)
           else ret True) (\<lambda>success.
      bnd (if \<not> startswith outs ''Client C1 already connected.''
           then andthen (say ''Error: server did not print that C1 is already connected'') (ret False)
           else ret success) (\<lambda>success.
      if success then pass_test ''same_id'' else ret ()))))))))"

section \<open>A second subscriber\<close>

definition run_test_c2_start :: "'w os \<Rightarrow> process \<Rightarrow> ('w, process \<times> bool) test" where
  "run_test_c2_start os server = start_and_check_client os server ''2'' False True"

definition run_test_c2_subscribe :: "'w os \<Rightarrow> process \<Rightarrow> Topic list \<Rightarrow> ('w, unit) test" where
  "run_test_c2_subscribe os c2 topics =
     andthen (fail_test ''c2_subscribe'')
     (bnd (list_get topics 0) (\<lambda>topic.
     andthen (say (''Subscribing C2 to topic '' @ topic_name topic))
     (andthen (send_input os c2 (''subscribe '' @ topic_name topic))
     (bnd (get_output_timeout os c2 1) (\<lambda>outc2.
      if \<not> startswith outc2 ''Subscribed to topic''
      then say (''Error: C2 not subscribed to topic '' @ topic_name topic)
      else pass_test ''c2_subscribe'')))))"

definition run_test_c2_stop :: "'w os \<Rightarrow> process \<Rightarrow> process \<Rightarrow> ('w, bool) test" where
  "run_test_c2_stop os server c2 =
     andthen (fail_test ''c2_stop'')
     (bnd (check_subscriber_stop os server c2 ''2'') (\<lambda>ok.
      if ok then andthen (pass_test ''c2_stop'') (ret True) else ret False))"

section \<open>Messages in quick succession\<close>

text \<open>Thirty runs of the client, the comparisons they allow, and the mark.\<close>

definition quick_flow_body :: "'w os \<Rightarrow> process \<Rightarrow> Topic list \<Rightarrow> ('w, unit) test" where
  "quick_flow_body os c1 topics =
     andthen (say ''Generating one message for each topic 30 times in a row'')
     (andthen (for_range 30 (run_udp_client_default os))
     (bnd (fold_each [0..<30] (\<lambda>_ success. check_each os c1 ''1'' topics success) True) (\<lambda>success.
      if success then pass_test ''quick_flow'' else ret ())))"

definition run_test_quick_flow :: "'w os \<Rightarrow> process \<Rightarrow> Topic list \<Rightarrow> ('w, unit) test" where
  "run_test_quick_flow os c1 topics =
     andthen (fail_test ''quick_flow'')
     (bnd (get_procfs_values os True) (\<lambda>rmem.
      bnd (get_procfs_values os False) (\<lambda>wmem.
      bnd (list_get rmem 0) (\<lambda>r0.
      bnd (if r0 = ''error'' then ret True
           else bnd (list_get wmem 0) (\<lambda>w0. ret (w0 = ''error''))) (\<lambda>unreadable.
      if unreadable then ret () else
      bnd (set_procfs_values os True [''5'', ''5'', ''5'']) (\<lambda>ok.
      if \<not> ok then ret () else
      bnd (set_procfs_values os False [''5'', ''5'', ''5'']) (\<lambda>ok.
      if \<not> ok then andthen (set_procfs_values os True rmem) (ret ()) else
      andthen (quick_flow_body os c1 topics)
      (andthen (set_procfs_values os True rmem)
      (andthen (set_procfs_values os False wmem) (ret ()))))))))))"

definition run_test_server_stop :: "'w os \<Rightarrow> process \<Rightarrow> process \<Rightarrow> ('w, unit) test" where
  "run_test_server_stop os server c1 =
     andthen (fail_test ''server_stop'')
     (andthen (say ''Stopping the server'')
     (andthen (send_input os server ''exit'')
     (andthen (sleep os 1)
     (bnd (is_alive os server) (\<lambda>alive.
      bnd (if alive then andthen (say ''Error: server is still up'') (ret False)
           else ret True) (\<lambda>success.
      bnd (is_alive os c1) (\<lambda>alive.
      bnd (if alive then andthen (say ''Error: C1 is still up'') (ret False)
           else ret success) (\<lambda>success.
      if success then pass_test ''server_stop'' else ret ()))))))))"

end
