(* ===== verification/Wildcard_Tests.thy ===== *)
theory Wildcard_Tests
  imports Harness_Tests
begin

text \<open>
  The wildcard tests of \<open>test.py\<close> and its driver \<open>h2_test\<close>. A test is a sequence of rounds:
  subscribe C2 to a pattern, have the UDP client send numbered messages of
  \<open>sample_wildcard_payloads.json\<close>, compare the lines C2 shows, unsubscribe.
\<close>

section \<open>The recurring statements\<close>

text \<open>Subscribe to a pattern; a refusal ends the test (\<open>return\<close>), otherwise \<open>k\<close> goes on.\<close>

definition subscribed :: "'w os \<Rightarrow> process \<Rightarrow> string \<Rightarrow> ('w, unit) test \<Rightarrow> ('w, unit) test" where
  "subscribed os c2 wildcard k =
     andthen (say (''Subscribing C2 to topics '' @ wildcard))
     (bnd (subscribe_to_topic os c2 '''' wildcard) (\<lambda>r. if r = Some (-1) then ret () else k))"

definition unsubscribed :: "'w os \<Rightarrow> process \<Rightarrow> string \<Rightarrow> ('w, unit) test" where
  "unsubscribed os c2 wildcard =
     andthen (send_input os c2 (''unsubscribe '' @ wildcard))
     (andthen (get_output_timeout os c2 1) (ret ()))"

definition generate :: "'w os \<Rightarrow> string list \<Rightarrow> ('w, unit) test" where
  "generate os types = run_udp_client os False types ''sample_wildcard_payloads.json''"

text \<open>\<open>check_subscriber_output(c2, "2", topics[i].print())\<close> and the check that nothing comes.\<close>

definition expect :: "'w os \<Rightarrow> process \<Rightarrow> Topic list \<Rightarrow> nat \<Rightarrow> ('w, bool) test" where
  "expect os c2 topics i =
     bnd (list_get topics i) (\<lambda>t. check_subscriber_output os c2 ''2'' (topic_print t))"

definition expect_none :: "'w os \<Rightarrow> process \<Rightarrow> ('w, bool) test" where
  "expect_none os c2 = check_subscriber_output os c2 ''2'' ''timeout''"

definition conclude :: "string \<Rightarrow> bool \<Rightarrow> ('w, unit) test" where
  "conclude test success = (if success then pass_test test else ret ())"

section \<open>The tests\<close>

definition run_test_c2_subscribe_plus_wildcard ::
    "'w os \<Rightarrow> process \<Rightarrow> Topic list \<Rightarrow> ('w, unit) test" where
  "run_test_c2_subscribe_plus_wildcard os c2 topics =
     andthen (fail_test ''c2_subscribe_plus_wildcard'')
     (subscribed os c2 ''+/ec/100/pressure''
     (andthen (generate os [''8'', ''9''])
     (bnd (expect os c2 topics 8) (\<lambda>success.
      bnd (and_also success (expect_none os c2)) (\<lambda>success.
     andthen (unsubscribed os c2 ''+/ec/100/pressure'')
     (subscribed os c2 ''upb/+/100/pressure''
     (andthen (generate os [''8'', ''9''])
     (bnd (and_also success (expect os c2 topics 8)) (\<lambda>success.
      bnd (and_also success (expect os c2 topics 9)) (\<lambda>success.
     andthen (unsubscribed os c2 ''upb/+/100/pressure'')
     (subscribed os c2 ''upb/ec/100/+''
     (andthen (generate os [''6'', ''7'', ''5''])
     (bnd (and_also success (expect os c2 topics 6)) (\<lambda>success.
      bnd (and_also success (expect os c2 topics 7)) (\<lambda>success.
      bnd (and_also success (expect_none os c2)) (\<lambda>success.
     andthen (unsubscribed os c2 ''upb/ec/100/+'')
     (conclude ''c2_subscribe_plus_wildcard'' success)))))))))))))))))"

definition run_test_c2_subscribe_star_wildcard ::
    "'w os \<Rightarrow> process \<Rightarrow> Topic list \<Rightarrow> ('w, unit) test" where
  "run_test_c2_subscribe_star_wildcard os c2 topics =
     andthen (fail_test ''c2_subscribe_star_wildcard'')
     (subscribed os c2 ''*/pressure''
     (andthen (generate os [''8'', ''9'', ''7''])
     (bnd (expect os c2 topics 8) (\<lambda>success.
      bnd (and_also success (expect os c2 topics 9)) (\<lambda>success.
      bnd (expect_none os c2) (\<lambda>success.
     andthen (unsubscribed os c2 ''*/pressure'')
     (subscribed os c2 ''upb/precis/elevator/*/floor''
     (andthen (generate os [''1'', ''3'', ''2''])
     (bnd (and_also success (expect os c2 topics 1)) (\<lambda>success.
      bnd (and_also success (expect os c2 topics 3)) (\<lambda>success.
      bnd (and_also success (expect_none os c2)) (\<lambda>success.
     andthen (unsubscribed os c2 ''upb/precis/elevator/*/floor'')
     (subscribed os c2 ''upb/precis/*''
     (andthen (generate os [''1'', ''4'', ''6''])
     (bnd (and_also success (expect os c2 topics 1)) (\<lambda>success.
      bnd (and_also success (expect os c2 topics 4)) (\<lambda>success.
      bnd (and_also success (expect_none os c2)) (\<lambda>success.
     andthen (unsubscribed os c2 ''upb/precis/*'')
     (subscribed os c2 ''*''
     (andthen (run_udp_client os True [''0''] ''sample_wildcard_payloads.json'')
     (bnd (check_each os c2 ''2'' topics success) (\<lambda>success.
     andthen (unsubscribed os c2 ''*'')
     (conclude ''c2_subscribe_star_wildcard'' success)))))))))))))))))))))))"

definition run_test_c2_subscribe_compound_wildcard ::
    "'w os \<Rightarrow> process \<Rightarrow> Topic list \<Rightarrow> ('w, unit) test" where
  "run_test_c2_subscribe_compound_wildcard os c2 topics =
     andthen (fail_test ''c2_subscribe_compound_wildcard'')
     (subscribed os c2 ''upb/+/100/+''
     (andthen (generate os [''4'', ''5'', ''10''])
     (bnd (expect os c2 topics 4) (\<lambda>success.
      bnd (and_also success (expect os c2 topics 5)) (\<lambda>success.
      bnd (and_also success (expect_none os c2)) (\<lambda>success.
     andthen (unsubscribed os c2 ''upb/+/100/+'')
     (subscribed os c2 ''upb/+/100/*''
     (andthen (generate os [''9'', ''10'', ''0''])
     (bnd (and_also success (expect os c2 topics 9)) (\<lambda>success.
      bnd (and_also success (expect os c2 topics 10)) (\<lambda>success.
      bnd (and_also success (expect_none os c2)) (\<lambda>success.
     andthen (unsubscribed os c2 ''upb/+/100/*'')
     (subscribed os c2 ''*/100/+''
     (andthen (generate os [''4'', ''5'', ''10'', ''0''])
     (bnd (and_also success (expect os c2 topics 4)) (\<lambda>success.
      bnd (and_also success (expect os c2 topics 5)) (\<lambda>success.
      bnd (and_also success (expect_none os c2)) (\<lambda>success.
      bnd (and_also success (expect_none os c2)) (\<lambda>success.
     andthen (unsubscribed os c2 ''*/100/+'')
     (subscribed os c2 ''*/100/*''
     (andthen (generate os [''4'', ''5'', ''10'', ''0''])
     (bnd (and_also success (expect os c2 topics 4)) (\<lambda>success.
      bnd (and_also success (expect os c2 topics 5)) (\<lambda>success.
      bnd (and_also success (expect os c2 topics 10)) (\<lambda>success.
      bnd (and_also success (expect_none os c2)) (\<lambda>success.
     andthen (unsubscribed os c2 ''*/100/*'')
     (conclude ''c2_subscribe_compound_wildcard'' success)))))))))))))))))))))))))))"

definition run_test_c2_subscribe_wildcard_set_inclusion ::
    "'w os \<Rightarrow> process \<Rightarrow> Topic list \<Rightarrow> ('w, unit) test" where
  "run_test_c2_subscribe_wildcard_set_inclusion os c2 topics =
     andthen (fail_test ''c2_subscribe_wildcard_set_inclusion'')
     (subscribed os c2 ''upb/precis/100/+''
     (subscribed os c2 ''upb/precis/100/*''
     (andthen (generate os [''4''])
     (bnd (expect os c2 topics 4) (\<lambda>success.
      bnd (and_also success (expect_none os c2)) (\<lambda>success.
     andthen (unsubscribed os c2 ''upb/precis/100/+'')
     (andthen (unsubscribed os c2 ''upb/precis/100/*'')
     (conclude ''c2_subscribe_wildcard_set_inclusion'' success))))))))"

section \<open>The driver\<close>

text \<open>The tests with a second subscriber, run when C2 has started.\<close>

definition h2_second_subscriber ::
    "'w os \<Rightarrow> process \<Rightarrow> process \<Rightarrow> Topic list \<Rightarrow> Topic list \<Rightarrow> ('w, unit) test" where
  "h2_second_subscriber os server c2 topics wildcards =
     andthen (run_test_c2_subscribe os c2 topics)
     (andthen (run_test_c2_subscribe_plus_wildcard os c2 wildcards)
     (andthen (run_test_c2_subscribe_star_wildcard os c2 wildcards)
     (andthen (run_test_c2_subscribe_compound_wildcard os c2 wildcards)
     (andthen (run_test_c2_subscribe_wildcard_set_inclusion os c2 wildcards)
     (andthen (run_test_c2_stop os server c2) (ret ()))))))"

text \<open>The tests after C1 has been stopped and started again.\<close>

definition h2_restarted ::
    "'w os \<Rightarrow> process \<Rightarrow> process \<Rightarrow> Topic list \<Rightarrow> Topic list \<Rightarrow> ('w, unit) test" where
  "h2_restarted os server c1 topics wildcards =
     andthen (run_test_data_no_clients os c1)
     (andthen (run_test_same_id os server)
     (bnd (run_test_c2_start os server) (\<lambda>(c2, success).
      if success then h2_second_subscriber os server c2 topics wildcards else ret ())))"

text \<open>The tests with a running C1; the result is the process \<open>c1\<close> stands for at the end.\<close>

definition h2_first_subscriber ::
    "'w os \<Rightarrow> process \<Rightarrow> process \<Rightarrow> Topic list \<Rightarrow> Topic list \<Rightarrow> ('w, process) test" where
  "h2_first_subscriber os server c1 topics wildcards =
     andthen (run_test_data_unsubscribed os server c1)
     (andthen (run_test_c1_subscribe_all os server c1 topics)
     (andthen (run_test_data_subscribed os server c1 topics)
     (bnd (run_test_c1_stop os server c1) (\<lambda>success.
      bnd (if success
           then bnd (run_test_c1_restart os server) (\<lambda>(c1, success).
             andthen (if success then h2_restarted os server c1 topics wildcards else ret ())
             (ret c1))
           else ret c1) (\<lambda>c1.
     andthen (run_test_quick_flow os c1 topics) (ret c1))))))"

definition h2_test :: "'w os \<Rightarrow> ('w, unit) test" where
  "h2_test os =
     andthen (make_clean os)
     (let topics = generate_topics False; wildcards = generate_topics True in
     (andthen (run_test_compile os)
     (bnd (run_test_server_start os) (\<lambda>server.
      bnd (run_test_c1_start os server) (\<lambda>(c1, success).
      bnd (if success then h2_first_subscriber os server c1 topics wildcards else ret c1) (\<lambda>c1.
     andthen (run_test_server_stop os server c1)
     (andthen (make_clean os) print_test_results)))))))"

end
