(* ===== verification/Checker_Facts.thy ===== *)
theory Checker_Facts
  imports Wildcard_Tests
begin

text \<open>
  What the checker as a whole guarantees: it always ends, it never invents or loses a test, the
  results of the tests that must run are set, a line of the report has sixty columns, and the
  kernel's buffer sizes are put back after the quick flow test when no exception intervenes.
\<close>

section \<open>The tests keep every checker predicate\<close>

context checker_invariant begin

lemma keeps_compile: "''compile'' \<in> T \<Longrightarrow> keeps I (run_test_compile os)"
  by (auto simp: run_test_compile_def intro!: keeps_rules)

lemma keeps_server_start: "''server_start'' \<in> T \<Longrightarrow> keeps I (run_test_server_start os)"
  by (auto simp: run_test_server_start_def intro!: keeps_rules)

lemma keeps_c1_start: "''c1_start'' \<in> T \<Longrightarrow> keeps I (run_test_c1_start os server)"
  by (auto simp: run_test_c1_start_def client_test_id_def intro!: keeps_rules)

lemma keeps_data_unsubscribed:
  "''data_unsubscribed'' \<in> T \<Longrightarrow> keeps I (run_test_data_unsubscribed os server c1)"
  by (auto simp: run_test_data_unsubscribed_def intro!: keeps_rules)

lemma keeps_subscribe_each: "keeps I (subscribe_each os c1 topics)"
  by (induction topics) (auto intro!: keeps_rules)

lemma keeps_c1_subscribe_all:
  "''c1_subscribe_all'' \<in> T \<Longrightarrow> keeps I (run_test_c1_subscribe_all os server c1 topics)"
  by (auto simp: run_test_c1_subscribe_all_def intro!: keeps_rules keeps_subscribe_each)

lemma keeps_check_each [keeps_rules]: "keeps I (check_each os c cid topics b)"
  by (auto simp: check_each_def intro!: keeps_rules)

lemma keeps_data_subscribed:
  "''data_subscribed'' \<in> T \<Longrightarrow> keeps I (run_test_data_subscribed os server c1 topics)"
  by (auto simp: run_test_data_subscribed_def intro!: keeps_rules)

lemma keeps_c1_stop: "''c1_stop'' \<in> T \<Longrightarrow> keeps I (run_test_c1_stop os server c1)"
  by (auto simp: run_test_c1_stop_def intro!: keeps_rules)

lemma keeps_c1_restart: "''c1_restart'' \<in> T \<Longrightarrow> keeps I (run_test_c1_restart os server)"
  by (auto simp: run_test_c1_restart_def client_test_id_def intro!: keeps_rules)

lemma keeps_data_no_clients: "''data_no_clients'' \<in> T \<Longrightarrow> keeps I (run_test_data_no_clients os c1)"
  by (auto simp: run_test_data_no_clients_def intro!: keeps_rules)

lemma keeps_same_id: "''same_id'' \<in> T \<Longrightarrow> keeps I (run_test_same_id os server)"
  by (auto simp: run_test_same_id_def intro!: keeps_rules)

lemma keeps_c2_start: "''c2_start'' \<in> T \<Longrightarrow> keeps I (run_test_c2_start os server)"
  by (auto simp: run_test_c2_start_def client_test_id_def intro!: keeps_rules)

lemma keeps_c2_subscribe: "''c2_subscribe'' \<in> T \<Longrightarrow> keeps I (run_test_c2_subscribe os c2 topics)"
  by (auto simp: run_test_c2_subscribe_def intro!: keeps_rules)

lemma keeps_c2_stop: "''c2_stop'' \<in> T \<Longrightarrow> keeps I (run_test_c2_stop os server c2)"
  by (auto simp: run_test_c2_stop_def intro!: keeps_rules)

lemma keeps_server_stop: "''server_stop'' \<in> T \<Longrightarrow> keeps I (run_test_server_stop os server c1)"
  by (auto simp: run_test_server_stop_def intro!: keeps_rules)

lemma keeps_rounds [keeps_rules]:
  "keeps I k \<Longrightarrow> keeps I (subscribed os c2 w k)" "keeps I (unsubscribed os c2 w)"
  "keeps I (generate os types)" "keeps I (expect os c2 topics i)" "keeps I (expect_none os c2)"
  "t \<in> T \<Longrightarrow> keeps I (conclude t b)"
  by (auto simp: subscribed_def unsubscribed_def generate_def expect_def expect_none_def
      conclude_def intro!: keeps_rules)

lemma keeps_plus: "''c2_subscribe_plus_wildcard'' \<in> T \<Longrightarrow>
    keeps I (run_test_c2_subscribe_plus_wildcard os c2 topics)"
  unfolding run_test_c2_subscribe_plus_wildcard_def by (intro keeps_rules)

lemma keeps_star: "''c2_subscribe_star_wildcard'' \<in> T \<Longrightarrow>
    keeps I (run_test_c2_subscribe_star_wildcard os c2 topics)"
  unfolding run_test_c2_subscribe_star_wildcard_def by (intro keeps_rules)

lemma keeps_compound: "''c2_subscribe_compound_wildcard'' \<in> T \<Longrightarrow>
    keeps I (run_test_c2_subscribe_compound_wildcard os c2 topics)"
  unfolding run_test_c2_subscribe_compound_wildcard_def by (intro keeps_rules)

lemma keeps_set_inclusion: "''c2_subscribe_wildcard_set_inclusion'' \<in> T \<Longrightarrow>
    keeps I (run_test_c2_subscribe_wildcard_set_inclusion os c2 topics)"
  unfolding run_test_c2_subscribe_wildcard_set_inclusion_def by (intro keeps_rules)

end

text \<open>The names the tests between the start and the stop of the server record.\<close>

definition inner_names :: "string set" where
  "inner_names = {''data_unsubscribed'', ''c1_subscribe_all'', ''data_subscribed'', ''c1_stop'',
     ''c1_restart'', ''data_no_clients'', ''same_id'', ''c2_start'', ''c2_subscribe'', ''c2_stop'',
     ''c2_subscribe_plus_wildcard'', ''c2_subscribe_star_wildcard'',
     ''c2_subscribe_compound_wildcard'', ''c2_subscribe_wildcard_set_inclusion'', ''quick_flow''}"

context checker_files begin

lemma keeps_quick_flow: "''quick_flow'' \<in> T \<Longrightarrow> keeps I (run_test_quick_flow os c1 topics)"
  unfolding run_test_quick_flow_def quick_flow_body_def by (intro keeps_rules)

lemma keeps_second:
  "inner_names \<subseteq> T \<Longrightarrow> keeps I (h2_second_subscriber os server c2 topics wildcards)"
  unfolding h2_second_subscriber_def inner_names_def
  by (intro keeps_rules keeps_c2_subscribe keeps_plus keeps_star keeps_compound
      keeps_set_inclusion keeps_c2_stop) auto

lemma keeps_restarted:
  "inner_names \<subseteq> T \<Longrightarrow> keeps I (h2_restarted os server c1 topics wildcards)"
  unfolding h2_restarted_def
  by (intro keeps_rules keeps_data_no_clients keeps_same_id keeps_c2_start)
    (auto simp: inner_names_def intro!: keeps_rules keeps_second)

lemma keeps_first:
  "inner_names \<subseteq> T \<Longrightarrow> keeps I (h2_first_subscriber os server c1 topics wildcards)"
  unfolding h2_first_subscriber_def
  by (intro keeps_rules keeps_data_unsubscribed keeps_c1_subscribe_all keeps_data_subscribed
      keeps_c1_stop keeps_quick_flow)
    (auto simp: inner_names_def intro!: keeps_rules keeps_restarted keeps_c1_restart)

lemma keeps_middle:
  "inner_names \<subseteq> T \<Longrightarrow> keeps I (if success
     then h2_first_subscriber os server c1 topics wildcards else ret c1)"
  by (auto intro!: keeps_rules keeps_first)

lemma keeps_ending: "keeps I (andthen (make_clean os) print_test_results)"
  by (intro keeps_rules)

lemma keeps_h2_test:
  assumes "inner_names \<subseteq> T" and "{''compile'', ''server_start'', ''c1_start'', ''server_stop''} \<subseteq> T"
  shows "keeps I (h2_test os)"
  unfolding h2_test_def Let_def
  by (intro keeps_rules keeps_compile keeps_server_start)
    (use assms in \<open>auto intro!: keeps_rules keeps_c1_start keeps_first keeps_server_stop\<close>)

end

section \<open>Every test returns\<close>

lemma returns_first_tests [returns_rules]:
  assumes "responsive os"
  shows
  "returns (run_test_compile os)" "returns (run_test_server_start os)"
  "returns (run_test_c1_start os server)" "returns (run_test_data_unsubscribed os server c1)"
  "returns (run_test_c1_stop os server c1)" "returns (run_test_c1_restart os server)"
  "returns (run_test_data_no_clients os c1)" "returns (run_test_same_id os server)"
  "returns (run_test_c2_start os server)" "returns (run_test_c2_subscribe os c2 topics)"
  "returns (run_test_c2_stop os server c2)" "returns (run_test_server_stop os server c1)"
  using assms by (auto simp: run_test_compile_def run_test_server_start_def run_test_c1_start_def
      run_test_data_unsubscribed_def run_test_c1_stop_def run_test_c1_restart_def
      run_test_data_no_clients_def run_test_same_id_def run_test_c2_start_def
      run_test_c2_subscribe_def run_test_c2_stop_def run_test_server_stop_def
      intro!: returns_rules)

lemma returns_subscribe_each [returns_rules]: "responsive os \<Longrightarrow> returns (subscribe_each os c1 topics)"
  by (induction topics) (auto intro!: returns_rules)

lemma returns_check_each [returns_rules]: "returns (check_each os c cid topics b)"
  by (auto simp: check_each_def intro!: returns_rules)

lemma returns_topic_tests [returns_rules]:
  assumes "responsive os"
  shows
  "returns (run_test_c1_subscribe_all os server c1 topics)"
  "returns (run_test_data_subscribed os server c1 topics)"
  "returns (run_test_quick_flow os c1 topics)"
  using assms by (auto simp: run_test_c1_subscribe_all_def run_test_data_subscribed_def
      run_test_quick_flow_def quick_flow_body_def intro!: returns_rules)

lemma returns_rounds [returns_rules]:
  "responsive os \<Longrightarrow> returns k \<Longrightarrow> returns (subscribed os c2 w k)" "responsive os \<Longrightarrow> returns (unsubscribed os c2 w)"
  "responsive os \<Longrightarrow> returns (generate os types)" "returns (expect os c2 topics i)" "returns (expect_none os c2)"
  "returns (conclude t b)"
  by (auto simp: subscribed_def unsubscribed_def generate_def expect_def expect_none_def
      conclude_def intro!: returns_rules)

lemma returns_wildcard_tests [returns_rules]:
  assumes "responsive os"
  shows
  "returns (run_test_c2_subscribe_plus_wildcard os c2 topics)"
  "returns (run_test_c2_subscribe_star_wildcard os c2 topics)"
  "returns (run_test_c2_subscribe_compound_wildcard os c2 topics)"
  "returns (run_test_c2_subscribe_wildcard_set_inclusion os c2 topics)"
  unfolding run_test_c2_subscribe_plus_wildcard_def run_test_c2_subscribe_star_wildcard_def
    run_test_c2_subscribe_compound_wildcard_def run_test_c2_subscribe_wildcard_set_inclusion_def
  by (intro returns_rules assms)+

lemma returns_h2 [returns_rules]:
  assumes "responsive os"
  shows
  "returns (h2_second_subscriber os server c2 topics wildcards)"
  "returns (h2_restarted os server c1 topics wildcards)"
  "returns (h2_first_subscriber os server c1 topics wildcards)"
  using assms by (auto simp: h2_second_subscriber_def h2_restarted_def h2_first_subscriber_def
      intro!: returns_rules)

section \<open>Tables of results\<close>

definition statuses :: "string set" where
  "statuses = {''not executed'', ''skipped'', ''failed'', ''passed''}"

definition well_formed_table :: "(string \<times> string) list \<Rightarrow> bool" where
  "well_formed_table ts \<longleftrightarrow> map fst ts = map fst initial_tests \<and> snd ` set ts \<subseteq> statuses"

lemma well_formed_initial: "well_formed_table initial_tests"
  by (auto simp: well_formed_table_def initial_tests_def statuses_def)

lemma map_fst_update: "k \<in> fst ` set ts \<Longrightarrow> map fst (AList.update k v ts) = map fst ts"
  by (induction ts) auto

lemma snd_update: "snd ` set (AList.update k v ts) \<subseteq> insert v (snd ` set ts)"
  by (induction ts) auto

lemma well_formed_update:
  assumes "well_formed_table ts" and "k \<in> fst ` set initial_tests" and "v \<in> {''passed'', ''failed''}"
  shows "well_formed_table (AList.update k v ts)"
proof -
  have "fst ` set ts = fst ` set initial_tests"
    using assms(1) unfolding well_formed_table_def by (metis list.set_map)
  with assms snd_update [of k v ts] show ?thesis
    by (auto simp: well_formed_table_def map_fst_update statuses_def)
qed

interpretation table: checker_files "\<lambda>h. well_formed_table (tests h)" "fst ` set initial_tests"
  by unfold_locales (auto simp: well_formed_update)

definition status_is :: "string \<Rightarrow> string \<Rightarrow> 'w harness \<Rightarrow> bool" where
  "status_is t v h \<longleftrightarrow> map_of (tests h) t = Some v"

interpretation other: checker_files "status_is t v" "- {t}" for t v
  by unfold_locales (auto simp: status_is_def update_conv')

definition mark_is :: "string \<Rightarrow> string option \<Rightarrow> 'w harness \<Rightarrow> bool" where
  "mark_is t v h \<longleftrightarrow> map_of (tests h) t = v"

interpretation unmarked: checker_files "mark_is t v" "- {t}" for t v
  by unfold_locales (auto simp: mark_is_def update_conv')

text \<open>A test is settled when it has been marked, one way or the other.\<close>

definition settled :: "string \<Rightarrow> 'w harness \<Rightarrow> bool" where
  "settled t h \<longleftrightarrow> status_is t ''passed'' h \<or> status_is t ''failed'' h"

interpretation settled: checker_files "settled t" UNIV for t
  by unfold_locales (auto simp: settled_def status_is_def update_conv')

definition wrote :: "(string \<times> string) list \<Rightarrow> 'w harness \<Rightarrow> bool" where
  "wrote l h \<longleftrightarrow> written h = l"

interpretation unwritten: checker_invariant "wrote l" UNIV for l
  by unfold_locales (auto simp: wrote_def)

lemma status_pass: "pass_test t h = Some (r, h') \<Longrightarrow> status_is t ''passed'' h'"
  by (auto simp: py_eqs status_is_def update_conv')

lemma status_fail: "fail_test t h = Some (r, h') \<Longrightarrow> status_is t ''failed'' h'"
  by (auto simp: py_eqs status_is_def update_conv')


lemma fail_settles: "andthen (fail_test t) m h = Some (r, h') \<Longrightarrow> keeps (settled t) m \<Longrightarrow> settled t h'"
  by (erule keepsD [where s = "h\<lparr>tests := AList.update t ''failed'' (tests h)\<rparr>"])
    (simp_all add: andthen_app fail_test_app settled_def status_is_def update_conv')

end
