(* ===== verification/Packets.thy ===== *)
theory Packets
  imports Prelude
begin

text \<open>
  \<open>common.cpp\<close>: how a packet, a header of five bytes and a payload, is sent over and received from a
  stream socket. Bytes are characters; integers in the header are little-endian, as on the
  machines the broker is built for. A loop that never ends is \<open>None\<close>, C undefined behaviour the
  value \<open>Undefined\<close>.
\<close>

datatype 'a cresult = Done 'a | Undefined

section \<open>Headers\<close>

definition le4 :: "nat \<Rightarrow> string" where
  "le4 n = map char_of [n mod 256, n div 256 mod 256, n div 65536 mod 256, n div 16777216 mod 256]"

definition of_le4 :: "string \<Rightarrow> nat" where
  "of_le4 s = (case map of_char s of
     [a, b, c, d] \<Rightarrow> a + 256 * b + 65536 * c + 16777216 * d | _ \<Rightarrow> 0)"

definition header_size :: nat where "header_size = 5"

definition MAX_LEN :: nat where "MAX_LEN = 4096"

text \<open>\<open>tcp_hdr\<close>: the action, one byte, and the length of the payload, an \<open>int\<close>.\<close>

record tcp_hdr =
  action :: nat
  len :: nat

definition hdr_bytes :: "tcp_hdr \<Rightarrow> string" where
  "hdr_bytes h = char_of (action h) # le4 (len h)"

definition read_hdr :: "string \<Rightarrow> tcp_hdr" where
  "read_hdr s = \<lparr>action = of_char (hd s), len = of_le4 (take 4 (tl s))\<rparr>"

text \<open>The length as the \<open>size_t\<close> the loops count with: a negative \<open>int\<close> becomes a huge number.\<close>

definition payload_size :: "tcp_hdr \<Rightarrow> nat" where
  "payload_size h = (if len h < 2 ^ 31 then len h else len h + (2 ^ 64 - 2 ^ 32))"

definition packet_bytes :: "nat \<Rightarrow> string \<Rightarrow> string" where
  "packet_bytes a payload = hdr_bytes \<lparr>action = a, len = length payload\<rparr> @ payload"

section \<open>Receiving\<close>

text \<open>
  What arrives at a socket: pieces of data and failures of the call. The end of the list is
  the end of the connection, where \<open>recv\<close> yields no byte, every time. \<open>None\<close> is the result -1.
\<close>

datatype arrival = Data string | Failure

fun recv :: "nat \<Rightarrow> arrival list \<Rightarrow> string option \<times> arrival list" where
  "recv n [] = (Some [], [])"
| "recv n (Failure # s) = (None, s)"
| "recv n (Data d # s) = (Some (take n d), if length d \<le> n then s else Data (drop n d) # s)"

text \<open>
  The loop of \<open>recv_tcp_packet\<close>; \<open>got\<close> holds the bytes of the buffer before the next position. The
  result -1 is kept in a \<open>size_t\<close>, so the check for a negative number never holds: the position
  moves back by one and the count of missing bytes grows by one.
\<close>

partial_function (option) recv_loop ::
    "string \<Rightarrow> nat \<Rightarrow> arrival list \<Rightarrow> (string \<times> arrival list) cresult option" where
  "recv_loop got remaining s =
     (if remaining = 0 then Some (Done (got, s))
      else case recv remaining s of
          (None, s') \<Rightarrow> if got = [] then Some Undefined else recv_loop (butlast got) (remaining + 1) s'
        | (Some d, s') \<Rightarrow> recv_loop (got @ d) (remaining - length d) s')"

definition recv_tcp_packet :: "arrival list \<Rightarrow> (string \<times> arrival list) cresult option" where
  "recv_tcp_packet s = Option.bind (recv_loop [] header_size s) (\<lambda>r. case r of
       Undefined \<Rightarrow> Some Undefined
     | Done (h, s') \<Rightarrow> recv_loop h (payload_size (read_hdr h)) s')"

section \<open>Sending\<close>




section \<open>Reading back what was written\<close>

lemma length_le4 [simp]: "length (le4 n) = 4"
  by (simp add: le4_def)

lemma of_le4_le4: "n < 2 ^ 32 \<Longrightarrow> of_le4 (le4 n) = n"
proof -
  assume "n < 2 ^ 32"
  then have top: "n div 16777216 mod 256 = n div 16777216" by simp
  moreover have "n div 65536 = 256 * (n div 16777216) + n div 65536 mod 256"
    using mult_div_mod_eq [of 256 "n div 65536"] by (simp add: div_mult2_eq [symmetric])
  moreover have "n div 256 = 256 * (n div 65536) + n div 256 mod 256"
    using mult_div_mod_eq [of 256 "n div 256"] by (simp add: div_mult2_eq [symmetric])
  ultimately have "n mod 256 + 256 * (n div 256 mod 256) + 65536 * (n div 65536 mod 256) +
      16777216 * (n div 16777216 mod 256) = n"
    using mult_div_mod_eq [of 256 n] by linarith
  then show "of_le4 (le4 n) = n" by (simp add: le4_def of_le4_def top)
qed

lemma read_hdr_bytes: "a < 256 \<Longrightarrow> n < 2 ^ 32 \<Longrightarrow>
    read_hdr (hdr_bytes \<lparr>action = a, len = n\<rparr> @ s) = \<lparr>action = a, len = n\<rparr>"
  by (simp add: read_hdr_def hdr_bytes_def of_le4_le4)

lemma length_hdr [simp]: "length (hdr_bytes h) = header_size"
  by (simp add: hdr_bytes_def header_size_def)

lemma length_packet [simp]: "length (packet_bytes a p) = header_size + length p"
  by (simp add: packet_bytes_def)


fun pieces :: "arrival list \<Rightarrow> string \<Rightarrow> bool" where
  "pieces [] bytes = (bytes = [])"
| "pieces (Failure # s) bytes = False"
| "pieces (Data c # s) bytes = (c \<noteq> [] \<and> take (length c) bytes = c \<and> pieces s (drop (length c) bytes))"

lemma recv_loop_0 [simp]: "recv_loop got 0 s = Some (Done (got, s))"
  by (subst recv_loop.simps) simp

lemma recv_loop_Data: "0 < n \<Longrightarrow> recv_loop got n (Data c # s) =
    recv_loop (got @ take n c) (n - length c) (if length c \<le> n then s else Data (drop n c) # s)"
  by (subst recv_loop.simps) (auto simp: min_def)

text \<open>Bytes that arrive in pieces, whatever the pieces, are put together.\<close>

lemma recv_loop_pieces:
  "pieces s bytes \<Longrightarrow> n \<le> length bytes \<Longrightarrow>
     \<exists>s'. recv_loop got n s = Some (Done (got @ take n bytes, s')) \<and> pieces s' (drop n bytes)"
proof (induction s bytes arbitrary: got n rule: pieces.induct)
  case (3 c s bytes)
  then obtain b where b: "bytes = c @ b" "pieces s b" "c \<noteq> []"
    by (metis append_take_drop_id pieces.simps(3))
  show ?case
  proof (cases "n = 0")
    case True
    with 3(2) show ?thesis by auto
  next
    case False
    show ?thesis
    proof (cases "length c \<le> n")
      case True
      with 3(1) [of "n - length c" "got @ c"] 3(3) b False show ?thesis
        by (auto simp: recv_loop_Data)
    next
      case big: False
      with b False show ?thesis by (auto simp: recv_loop_Data)
    qed
  qed
qed auto




lemma recv_loop_starves:
  assumes "remaining > 0"
  shows "recv_loop got remaining [] = None"
proof (rule ccontr)
  assume "recv_loop got remaining [] \<noteq> None"
  then obtain x where res: "recv_loop got remaining [] = Some x" by auto
  let ?P = "\<lambda>(g :: string) (n :: nat) (s :: arrival list) (x :: (string \<times> arrival list) cresult). s = [] \<and> n > 0 \<longrightarrow> False"
  have "?P got remaining [] x"
  proof (rule recv_loop.raw_induct [where P = ?P, OF _ res])
    fix f g n s x
    assume IH: "\<And>g n s x. f g n s = Some x \<Longrightarrow> ?P g n s x"
      and body: "(if n = 0 then Some (Done (g, s)) else case recv n s of
          (None, s') \<Rightarrow> if g = [] then Some Undefined else f (butlast g) (n + 1) s'
        | (Some d, s') \<Rightarrow> f (g @ d) (n - length d) s') = Some x"
    show "?P g n s x"
    proof
      assume "s = [] \<and> n > 0"
      with body have "f g n [] = Some x" by simp
      with IH \<open>s = [] \<and> n > 0\<close> show False by blast
    qed
  qed
  with assms show False by simp
qed

lemma recv_loop_short: "pieces s bytes \<Longrightarrow> length bytes < n \<Longrightarrow> recv_loop got n s = None"
proof (induction s bytes arbitrary: got n rule: pieces.induct)
  case (3 c s bytes)
  then obtain b where "bytes = c @ b" "pieces s b"
    by (metis append_take_drop_id pieces.simps(3))
  with 3 show ?case by (auto simp: recv_loop_Data)
qed (auto simp: recv_loop_starves)

text \<open>
  C30. When the connection ends within a packet, or before one begins, \<open>recv_tcp_packet\<close> never
  returns: \<open>recv\<close> then yields no byte, which the loop does not distinguish from progress.
\<close>

theorem recv_never_returns_at_end:
  assumes "pieces s (take k (packet_bytes a p))" and "k < header_size + length p"
    and "a < 256" and "length p < 2 ^ 31"
  shows "recv_tcp_packet s = None"
proof (cases "k < header_size")
  case True
  with recv_loop_short [OF assms(1), of header_size] show ?thesis by (simp add: recv_tcp_packet_def)
next
  case False
  let ?h = "hdr_bytes \<lparr>action = a, len = length p\<rparr>"
  have bytes: "take k (packet_bytes a p) = ?h @ take (k - header_size) p"
    using False by (simp add: packet_bytes_def)
  obtain s1 where h: "recv_loop [] header_size s = Some (Done (?h, s1))"
    and s1: "pieces s1 (take (k - header_size) p)"
    using recv_loop_pieces [OF assms(1), of header_size "[]"] unfolding bytes by auto
  have "read_hdr ?h = \<lparr>action = a, len = length p\<rparr>"
    using read_hdr_bytes [of a "length p" "[]"] assms(3,4) by simp
  then have n: "payload_size (read_hdr ?h) = length p" using assms(4) by (simp add: payload_size_def)
  have "recv_loop ?h (length p) s1 = None"
    by (rule recv_loop_short [OF s1]) (use assms(2) False in simp)
  with h n show ?thesis by (simp add: recv_tcp_packet_def)
qed

text \<open>
  A failure of \<open>recv\<close> within a packet is not noticed: the loop goes on one position earlier, so
  that the next byte to arrive replaces the last one received.
\<close>

lemma recv_failure_overwrites:
  "recv_loop (got @ [c]) (Suc n) (Failure # Data (d # ds) # s) =
   recv_loop (got @ d # take (Suc n) ds) (Suc n - min (Suc n) (length ds))
     (if length ds \<le> Suc n then s else Data (drop (Suc n) ds) # s)"
  by (subst recv_loop.simps) (auto simp: recv_loop_Data min_def)

end
