(* ===== verification/Notification.thy ===== *)
theory Notification
  imports Packets Datagrams "HOL-Library.Word"
begin

text \<open>
  The notification packet: how \<open>parse_udp_packet\<close> of \<open>server.cpp\<close> makes one from a datagram, and
  the line \<open>parse_notification\<close> of \<open>subscriber.cpp\<close> prints for it.
\<close>

section \<open>Actions\<close>

definition CONNECT_ACTION :: nat where "CONNECT_ACTION = 1"
definition SHUTDOWN_CLOSE :: nat where "SHUTDOWN_CLOSE = 2"
definition SUBSCRIBE_ACTION :: nat where "SUBSCRIBE_ACTION = 3"
definition NOTIFICATION_ACTION :: nat where "NOTIFICATION_ACTION = 4"
definition SHUTDOWN_INTRUDER :: nat where "SHUTDOWN_INTRUDER = 5"
definition UNSUBSCRIBE_ACTION :: nat where "UNSUBSCRIBE_ACTION = 6"

lemmas action_defs = CONNECT_ACTION_def SHUTDOWN_CLOSE_def SUBSCRIBE_ACTION_def NOTIFICATION_ACTION_def
  SHUTDOWN_INTRUDER_def UNSUBSCRIBE_ACTION_def

section \<open>C strings and buffers\<close>

definition cstr :: "string \<Rightarrow> string" where
  "cstr s = takeWhile (\<lambda>c. c \<noteq> NUL) s"

definition MAX_UDP_PACKET_LEN :: nat where "MAX_UDP_PACKET_LEN = 1552"

text \<open>A buffer that was cleared before bytes were put at its start.\<close>

definition cleared_buffer :: "string \<Rightarrow> string" where
  "cleared_buffer s = s @ replicate (MAX_LEN - length s) NUL"

definition be4 :: "string \<Rightarrow> nat" where
  "be4 s = (case map of_char (take 4 s) of
     [a, b, c, d] \<Rightarrow> 16777216 * a + 65536 * b + 256 * c + d | _ \<Rightarrow> 0)"

definition be2 :: "string \<Rightarrow> nat" where
  "be2 s = (case map of_char (take 2 s) of [a, b] \<Rightarrow> 256 * a + b | _ \<Rightarrow> 0)"

section \<open>The sender's address\<close>

text \<open>
  A \<open>sockaddr_in\<close>: its family (2, little-endian), the port in network order, the address. The code
  gives \<open>inet_ntop\<close> the start of the structure instead of its address member.
\<close>

record sockaddr =
  sin_port :: nat
  sin_addr :: "nat list"

definition sockaddr_bytes :: "sockaddr \<Rightarrow> nat list" where
  "sockaddr_bytes a = [2, 0, sin_port a div 256 mod 256, sin_port a mod 256] @ sin_addr a"

definition inet_ntop :: "nat list \<Rightarrow> string" where
  "inet_ntop bs = join ''.'' (map str_nat (take 4 bs))"

section \<open>The packet\<close>

text \<open>
  The packed structure \<open>notification\<close>, field by field; \<open>payload\<close> has the bytes that are sent. The
  field \<open>ip\<close> holds the text, its end, and what the allocated memory held before.
\<close>

record notification =
  ntopic :: string
  ntype :: char
  nport :: nat
  nip :: string
  npayload :: string

definition notification_bytes :: "notification \<Rightarrow> string" where
  "notification_bytes n = ntopic n @ [ntype n] @ le4 (nport n) @ nip n @ npayload n"

definition ip_field :: "string \<Rightarrow> string \<Rightarrow> string" where
  "ip_field ip junk = take 16 (ip @ [NUL] @ junk)"

text \<open>
  \<open>parse_udp_packet\<close> up to the sending: \<open>buff\<close> is the cleared buffer with the datagram, \<open>junk\<close> the
  contents of fresh memory. An unknown type leaves the length without a value. For a string
  the copy of 1501 bytes and the final null go one byte past the member \<open>payload\<close>, into the
  space the allocator rounds up to.
\<close>

definition payload_length :: "nat \<Rightarrow> nat option" where
  "payload_length type =
     (if type = 0 then Some 5 else if type = 1 then Some 2 else if type = 2 then Some 6
      else if type = 3 then Some 1501 else None)"

definition parse_udp_packet :: "string \<Rightarrow> sockaddr \<Rightarrow> string \<Rightarrow> notification cresult" where
  "parse_udp_packet buff addr junk =
     (let type = of_char (buff ! 50) :: nat
      in case payload_length type of
           None \<Rightarrow> Undefined
         | Some l \<Rightarrow>
             let copied = take l (drop 51 buff);
                 payload = (if type = 3 then cstr (take 1500 copied) @ [NUL] else copied)
             in Done \<lparr>ntopic = take 50 buff @ [NUL], ntype = buff ! 50, nport = sin_port addr,
                  nip = ip_field (inet_ntop (sockaddr_bytes addr)) junk, npayload = payload\<rparr>)"

text \<open>What \<open>start_server\<close> reads of a datagram, at most 1552 bytes, into the cleared buffer.\<close>

definition receive_datagram :: "string \<Rightarrow> string" where
  "receive_datagram d = cleared_buffer (take MAX_UDP_PACKET_LEN d)"

section \<open>Printing\<close>

definition pad_digits :: "nat \<Rightarrow> string \<Rightarrow> string" where
  "pad_digits n s = replicate (n - length s) (CHR ''0'') @ s"

text \<open>A natural number over a power of ten, as \<open>%.*f\<close> prints it.\<close>

definition decimal :: "nat \<Rightarrow> nat \<Rightarrow> string" where
  "decimal m e = (if e = 0 then str_nat m
     else str_nat (m div 10 ^ e) @ ''.'' @ pad_digits e (str_nat (m mod 10 ^ e)))"

text \<open>
  The conversion of a 32-bit number to \<open>float\<close>: 24 significant bits, to nearest, ties to even. The
  further division by a power of ten in \<open>double\<close> errs by less than half of the last
  printed digit, so that the text is the one of the exact quotient.
\<close>

function float_excess :: "nat \<Rightarrow> nat" where
  "float_excess n = (if n < 2 ^ 24 then 0 else Suc (float_excess (n div 2)))"
  by auto
termination by (relation "measure id") auto

declare float_excess.simps [simp del]

definition to_float :: "nat \<Rightarrow> nat" where
  "to_float n = (let k = float_excess n; q = n div 2 ^ k; r = n mod 2 ^ k
     in (if k > 0 \<and> (2 * r > 2 ^ k \<or> (2 * r = 2 ^ k \<and> odd q)) then q + 1 else q) * 2 ^ k)"

text \<open>
  The integer is negated and printed as 32-bit machine words are; hundredths of a \<open>uint16_t\<close> are
  exact to two places in \<open>float\<close>.
\<close>

definition int_text :: "string \<Rightarrow> string" where
  "int_text payload =
     (let num = of_nat (be4 (tl payload)) :: 32 word;
          num = (if of_char (hd payload) = (1 :: nat) then - num else num)
      in str_int (sint num))"

definition short_real_text :: "string \<Rightarrow> string" where
  "short_real_text payload = decimal (be2 payload) 2"

definition float_text :: "string \<Rightarrow> string" where
  "float_text payload =
     (let num = be4 (tl payload); e = of_char (payload ! 5) :: nat
      in (if of_char (hd payload) = (1 :: nat) then ''-'' else []) @ decimal (to_float num) e)"

definition value_text :: "nat \<Rightarrow> string \<Rightarrow> string" where
  "value_text type payload =
     (if type = 0 then ''INT - '' @ int_text payload @ newline
      else if type = 1 then ''SHORT_REAL - '' @ short_real_text payload @ newline
      else if type = 2 then ''FLOAT - '' @ float_text payload @ newline
      else if type = 3 then ''STRING - '' @ cstr payload @ newline
      else [])"

text \<open>
  \<open>parse_notification\<close>; \<open>n\<close> is the cleared buffer behind the header. The port is a 32-bit number that
  \<open>%d\<close> prints as a signed one.
\<close>

definition parse_notification :: "string \<Rightarrow> string" where
  "parse_notification n =
     cstr (drop 56 n) @ '':'' @ str_int (sint (of_nat (of_le4 (take 4 (drop 52 n))) :: 32 word)) @ '' - '' @ cstr n @ '' - '' @
     value_text (of_char (n ! 51)) (drop 72 n)"

section \<open>From a datagram to a line\<close>

text \<open>The line a subscriber prints when the packet of a notification has arrived.\<close>

definition shown :: "notification \<Rightarrow> string" where
  "shown n = parse_notification
     (drop header_size (cleared_buffer (packet_bytes NOTIFICATION_ACTION (notification_bytes n))))"

lemma cstr_append_NUL: "NUL \<notin> set s \<Longrightarrow> cstr (s @ NUL # t) = s"
  unfolding cstr_def by (induction s) auto

lemma cstr_no_NUL: "NUL \<notin> set (cstr s)"
  by (auto simp: cstr_def dest: set_takeWhileD)

lemma cstr_length: "length (cstr s) \<le> length s"
  by (simp add: cstr_def length_takeWhile_le)

lemma behind_header: "drop header_size (packet_bytes a p @ s) = p @ s"
  by (simp add: packet_bytes_def)

lemma shown_buffer: "\<exists>k. shown n = parse_notification (notification_bytes n @ replicate k NUL)"
  unfolding shown_def cleared_buffer_def behind_header by blast

lemma be_fields:
  "n < 2 ^ 32 \<Longrightarrow> be4 (map char_of [n div 16777216 mod 256, n div 65536 mod 256, n div 256 mod 256, n mod 256] @ s) = n"
  using of_le4_le4 [of n]
  by (simp add: be4_def le4_def of_le4_def)

lemma be2_fields: "n < 2 ^ 16 \<Longrightarrow> be2 (map char_of [n div 256 mod 256, n mod 256] @ s) = n"
  by (simp add: be2_def)

definition ip_text :: "sockaddr \<Rightarrow> string" where
  "ip_text addr = inet_ntop (sockaddr_bytes addr)"

lemma ip_text_eq: "ip_text addr = ''2.0.'' @ str_nat (sin_port addr div 256 mod 256) @ ''.'' @
    str_nat (sin_port addr mod 256)"
  by (simp add: ip_text_def inet_ntop_def sockaddr_bytes_def join_def str_nat.simps [of 2]
      str_nat.simps [of 0] digit_char_def char_of_def bit_0)

lemma str_nat_no_NUL: "NUL \<notin> set (str_nat n)"
proof
  assume "NUL \<in> set (str_nat n)"
  then obtain d where d: "d < 10" "NUL = digit_char d" using str_nat_chars by blast
  have "(of_char NUL :: nat) = 0" by (simp add: NUL_def)
  with d of_char_digit [OF d(1)] show False by simp
qed

lemma str_nat_byte_length: "n < 256 \<Longrightarrow> length (str_nat n) \<le> 3"
  by (simp add: str_nat.simps [of n] str_nat.simps [of "n div 10"] str_nat.simps [of "n div 10 div 10"])

lemma ip_text_ok: "NUL \<notin> set (ip_text addr)" "length (ip_text addr) \<le> 11"
  using str_nat_byte_length [of "sin_port addr div 256 mod 256"] str_nat_byte_length [of "sin_port addr mod 256"]
  using str_nat_no_NUL by (auto simp: ip_text_eq) (auto simp: NUL_def)

lemma port_text: "n < 2 ^ 16 \<Longrightarrow> str_int (sint (of_nat n :: 32 word)) = str_nat n"
  by (simp add: signed_of_nat signed_take_bit_int_eq_self str_int_def)

text \<open>The line for a packet whose fields have been filled in.\<close>

lemma shown_line:
  assumes "name_ok name" and "code < 256" and "sin_port addr < 2 ^ 16" and "16 \<le> length junk"
    and "n = \<lparr>ntopic = pad50 name @ [NUL], ntype = char_of code, nport = sin_port addr,
      nip = ip_field (ip_text addr) junk, npayload = payload\<rparr>"
  shows "\<exists>k. shown n = ip_text addr @ '':'' @ str_nat (sin_port addr) @ '' - '' @ name @ '' - '' @
    value_text code (payload @ replicate k NUL)"
proof -
  let ?ip = "ip_text addr"
  obtain k where k: "shown n = parse_notification (notification_bytes n @ replicate k NUL)"
    using shown_buffer by blast
  define B where "B = notification_bytes n @ replicate k NUL"
  have ip: "ip_field ?ip junk = ?ip @ NUL # take (15 - length ?ip) junk"
    using ip_text_ok(2) [of addr] by (simp add: ip_field_def take_Cons')
  have ip_len: "length (ip_field ?ip junk) = 16"
    using ip_text_ok(2) [of addr] assms(4) by (simp add: ip)
  have top_len: "length (pad50 name @ [NUL]) = 51"
    using assms(1) by (simp add: name_ok_def length_pad50)
  let ?rest = "ip_field ?ip junk @ payload @ replicate k NUL"
  have bytes: "B =
      (pad50 name @ [NUL]) @ char_of code # le4 (sin_port addr) @ ?rest"
    by (simp add: B_def notification_bytes_def assms(5))
  have f: "drop 52 B = le4 (sin_port addr) @ ?rest"
    "drop 56 B = ?rest"
    "drop 72 B = payload @ replicate k NUL"
    "B ! 51 = char_of code"
    unfolding bytes using top_len ip_len by (simp_all add: nth_append drop_Cons')
  have topic: "cstr B = name"
    using assms(1) unfolding bytes pad50_def name_ok_def
    by (cases "50 - length name") (simp_all add: cstr_append_NUL)
  show ?thesis
    using assms(2,3) ip_text_ok(1) [of addr]
    by (intro exI [of _ k])
      (simp add: k B_def [symmetric] parse_notification_def f topic of_le4_le4 cstr_append_NUL ip port_text [OF assms(3)])
qed

end
