(* ===== verification/Delivery.thy ===== *)
theory Delivery
  imports Notification
begin

text \<open>
  From the datagram to the subscriber's terminal: \<open>parse_udp_packet\<close> followed by
  \<open>parse_notification\<close>, for each of the four types of content.
\<close>

text \<open>The line a subscriber prints for a datagram, \<open>None\<close> when the server's behaviour is undefined.\<close>

definition delivered_line :: "string \<Rightarrow> sockaddr \<Rightarrow> string \<Rightarrow> string option" where
  "delivered_line d addr junk = (case parse_udp_packet (receive_datagram d) addr junk of
     Undefined \<Rightarrow> None | Done n \<Rightarrow> Some (shown n))"

section \<open>What the server reads of a datagram\<close>

lemma received_fields:
  assumes "name_ok name" and "length content \<le> 1501"
  shows "\<exists>k. receive_datagram (datagram name code content) =
    pad50 name @ char_of code # content @ replicate k NUL \<and> length content + k = 4045"
proof -
  have "length (datagram name code content) = 51 + length content"
    using assms(1) by (simp add: datagram_def length_pad50 name_ok_def)
  then have "receive_datagram (datagram name code content) =
      datagram name code content @ replicate (4045 - length content) NUL"
    using assms(2) by (simp add: receive_datagram_def cleared_buffer_def MAX_UDP_PACKET_LEN_def MAX_LEN_def)
  with assms(2) show ?thesis
    by (intro exI [of _ "4045 - length content"]) (simp add: datagram_def)
qed

lemma cstr_append_zeros: "cstr (s @ replicate k NUL) = cstr s"
proof (induction s)
  case Nil
  show ?case by (cases k) (simp_all add: cstr_def)
qed (simp add: cstr_def)

lemma cstr_idem: "NUL \<notin> set s \<Longrightarrow> cstr s = s"
  by (simp add: cstr_def takeWhile_eq_all_conv) (metis)

lemma parsed_packet:
  assumes "name_ok name" and "code < 4" and "payload_length code = Some l"
    and "code < 3 \<Longrightarrow> length content = l" and "code = 3 \<Longrightarrow> length content \<le> 1500"
  shows "parse_udp_packet (receive_datagram (datagram name code content)) addr junk =
    Done \<lparr>ntopic = pad50 name @ [NUL], ntype = char_of code, nport = sin_port addr,
      nip = ip_field (ip_text addr) junk,
      npayload = (if code = 3 then cstr content @ [NUL] else content)\<rparr>"
proof -
  have l: "length content \<le> l" "l \<le> 1501" "code < 256"
    using assms(2-5) by (auto simp: payload_length_def split: if_splits)
  obtain k where b: "receive_datagram (datagram name code content) =
      pad50 name @ char_of code # content @ replicate k NUL" and k: "length content + k = 4045"
    using received_fields [OF assms(1), of content code] l by auto
  have p: "length (pad50 name) = 50" using assms(1) by (simp add: name_ok_def length_pad50)
  have f: "receive_datagram (datagram name code content) ! 50 = char_of code"
    "take 50 (receive_datagram (datagram name code content)) = pad50 name"
    "drop 51 (receive_datagram (datagram name code content)) = content @ replicate k NUL"
    unfolding b using p by (simp_all add: nth_append drop_Cons')
  have "code = 3 \<Longrightarrow> cstr (take 1500 (take l (content @ replicate k NUL))) = cstr content"
    using assms(3,5) k by (simp add: payload_length_def cstr_append_zeros)
  moreover have "code \<noteq> 3 \<Longrightarrow> take l (content @ replicate k NUL) = content"
    using assms(2,4) by simp
  ultimately show ?thesis
    using l(3) assms(3) by (simp add: parse_udp_packet_def f Let_def ip_text_def)
qed

lemma delivered:
  assumes "name_ok name" and "code < 4" and "payload_length code = Some l"
    and "code < 3 \<Longrightarrow> length content = l" and "code = 3 \<Longrightarrow> length content \<le> 1500"
    and "sin_port addr < 2 ^ 16" and "16 \<le> length junk"
  shows "\<exists>k. delivered_line (datagram name code content) addr junk =
    Some (ip_text addr @ '':'' @ str_nat (sin_port addr) @ '' - '' @ name @ '' - '' @
      value_text code ((if code = 3 then cstr content @ [NUL] else content) @ replicate k NUL))"
proof -
  have "code < 256" using assms(2) by simp
  note line = shown_line [OF assms(1) this assms(6,7) refl,
      of "if code = 3 then cstr content @ [NUL] else content"]
  have "delivered_line (datagram name code content) addr junk = Some (shown
      \<lparr>ntopic = pad50 name @ [NUL], ntype = char_of code, nport = sin_port addr,
        nip = ip_field (ip_text addr) junk,
        npayload = if code = 3 then cstr content @ [NUL] else content\<rparr>)"
    by (simp only: delivered_line_def parsed_packet [OF assms(1-5)] cresult.case)
  with line show ?thesis by (simp only: option.inject)
qed

section \<open>What is printed\<close>

definition line_of :: "sockaddr \<Rightarrow> string \<Rightarrow> string \<Rightarrow> string" where
  "line_of addr name v =
     ip_text addr @ '':'' @ str_nat (sin_port addr) @ '' - '' @ name @ '' - '' @ v @ newline"

lemma sint_small: "n < 2 ^ 31 \<Longrightarrow> sint (of_nat n :: 32 word) = int n"
  "n < 2 ^ 31 \<Longrightarrow> sint (- of_nat n :: 32 word) = - int n"
proof -
  show "n < 2 ^ 31 \<Longrightarrow> sint (of_nat n :: 32 word) = int n"
    by (simp add: signed_of_nat signed_take_bit_int_eq_self)
  assume "n < 2 ^ 31"
  then have "signed_take_bit 31 (- int n) = - int n"
    by (intro signed_take_bit_int_eq_self) auto
  moreover have "- of_nat n = (of_int (- int n) :: 32 word)" by simp
  ultimately show "sint (- of_nat n :: 32 word) = - int n"
    by (simp only: signed_of_int) simp
qed

lemma int_line:
  assumes "name_ok name" and "s \<le> 1" and "n < 2 ^ 31" and "sin_port addr < 2 ^ 16" and "16 \<le> length junk"
  shows "delivered_line (int_payload name s n) addr junk =
    Some (line_of addr name (''INT - '' @ str_int (if s = 1 then - int n else int n)))"
proof -
  let ?c = "map char_of [s, n div 16777216 mod 256, n div 65536 mod 256, n div 256 mod 256, n mod 256] :: string"
  obtain k where k: "delivered_line (datagram name 0 ?c) addr junk =
    Some (ip_text addr @ '':'' @ str_nat (sin_port addr) @ '' - '' @ name @ '' - '' @
      value_text 0 (?c @ replicate k NUL))"
    using delivered [OF assms(1), of 0 5 ?c addr junk] assms(4,5) by (auto simp: payload_length_def)
  have "be4 (tl (?c @ replicate k NUL)) = n"
    using be_fields [of n "replicate k NUL"] assms(3) by simp
  moreover have "(of_char (hd (?c @ replicate k NUL)) = (1 :: nat)) = (s = 1)"
    using assms(2) by simp
  ultimately have "int_text (?c @ replicate k NUL) = str_int (if s = 1 then - int n else int n)"
    using assms(3) unfolding int_text_def Let_def by (simp only: sint_small split: if_splits) simp
  with k show ?thesis by (simp only: int_payload_def value_text_def line_of_def) simp
qed

lemma short_real_line:
  assumes "name_ok name" and "n < 2 ^ 16" and "sin_port addr < 2 ^ 16" and "16 \<le> length junk"
  shows "delivered_line (short_real_payload name n) addr junk =
    Some (line_of addr name (''SHORT_REAL - '' @ decimal n 2))"
proof -
  let ?c = "map char_of [n div 256 mod 256, n mod 256] :: string"
  obtain k where k: "delivered_line (datagram name 1 ?c) addr junk =
    Some (ip_text addr @ '':'' @ str_nat (sin_port addr) @ '' - '' @ name @ '' - '' @
      value_text 1 (?c @ replicate k NUL))"
    using delivered [OF assms(1), of 1 2 ?c addr junk] assms(3,4) by (auto simp: payload_length_def)
  have "be2 (?c @ replicate k NUL) = n" by (rule be2_fields [OF assms(2)])
  with k show ?thesis
    by (simp only: short_real_payload_def value_text_def short_real_text_def line_of_def) simp
qed

lemma to_float_small: "n < 2 ^ 24 \<Longrightarrow> to_float n = n"
  by (simp add: to_float_def float_excess.simps)

lemma float_line:
  assumes "name_ok name" and "s \<le> 1" and "n < 2 ^ 32" and "e < 256" and "sin_port addr < 2 ^ 16"
    and "16 \<le> length junk"
  shows "delivered_line (float_payload name s n e) addr junk =
    Some (line_of addr name (''FLOAT - '' @ (if s = 1 then ''-'' else []) @ decimal (to_float n) e))"
proof -
  let ?c = "map char_of [s, n div 16777216 mod 256, n div 65536 mod 256, n div 256 mod 256, n mod 256, e] :: string"
  obtain k where k: "delivered_line (datagram name 2 ?c) addr junk =
    Some (ip_text addr @ '':'' @ str_nat (sin_port addr) @ '' - '' @ name @ '' - '' @
      value_text 2 (?c @ replicate k NUL))"
    using delivered [OF assms(1), of 2 6 ?c addr junk] assms(5,6) by (auto simp: payload_length_def)
  have "be4 (tl (?c @ replicate k NUL)) = n"
    using be_fields [of n "char_of e # replicate k NUL"] assms(3) by simp
  moreover have "(of_char (hd (?c @ replicate k NUL)) = (1 :: nat)) = (s = 1)"
    using assms(2) by simp
  moreover have "(of_char ((?c @ replicate k NUL) ! 5) :: nat) = e"
    using assms(4) by simp
  ultimately have "float_text (?c @ replicate k NUL) =
      (if s = 1 then ''-'' else []) @ decimal (to_float n) e"
    unfolding float_text_def Let_def by (simp only:)
  with k show ?thesis by (simp only: float_payload_def value_text_def line_of_def) simp
qed

lemma small_float_line:
  assumes "name_ok name" and "s \<le> 1" and "n < 2 ^ 24" and "e < 256" and "sin_port addr < 2 ^ 16"
    and "16 \<le> length junk"
  shows "delivered_line (float_payload name s n e) addr junk =
    Some (line_of addr name (''FLOAT - '' @ (if s = 1 then ''-'' else []) @ decimal n e))"
proof -
  have "n < 2 ^ 32" using assms(3) by simp
  from float_line [OF assms(1,2) this assms(4-6)] show ?thesis
    by (simp only: to_float_small [OF assms(3)])
qed

text \<open>
  C38. Larger numbers lose digits on the way through \<open>float\<close>: two datagrams with different
  digits are shown with the same value.
\<close>

theorem float_datagram_loses_digits:
  assumes "name_ok name" and "e < 256" and "sin_port addr < 2 ^ 16" and "16 \<le> length junk"
  shows "delivered_line (float_payload name 0 16777217 e) addr junk =
    delivered_line (float_payload name 0 16777216 e) addr junk"
proof -
  have "to_float 16777217 = 16777216" "to_float 16777216 = 16777216"
    by (simp_all add: to_float_def float_excess.simps Let_def)
  then show ?thesis
    using float_line [OF assms(1) _ _ assms(2-4), of 0 16777217]
      float_line [OF assms(1) _ _ assms(2-4), of 0 16777216] by simp
qed

lemma string_line:
  assumes "name_ok name" and "length s \<le> 1500" and "sin_port addr < 2 ^ 16" and "16 \<le> length junk"
  shows "delivered_line (string_payload name s) addr junk =
    Some (line_of addr name (''STRING - '' @ cstr s))"
proof -
  obtain k where k: "delivered_line (datagram name 3 s) addr junk =
    Some (ip_text addr @ '':'' @ str_nat (sin_port addr) @ '' - '' @ name @ '' - '' @
      value_text 3 ((cstr s @ [NUL]) @ replicate k NUL))"
    using delivered [OF assms(1), of 3 1501 s addr junk] assms(2-4) by (auto simp: payload_length_def)
  have "cstr ((cstr s @ [NUL]) @ replicate k NUL) = cstr s"
    using cstr_append_NUL [OF cstr_no_NUL, of s "replicate k NUL"] by simp
  with k show ?thesis by (simp only: string_payload_def value_text_def line_of_def) simp
qed

section \<open>Readings\<close>

text \<open>
  What a datagram means, independent of its bytes: the four kinds of value of the protocol, the
  datagram that carries each, and the text a subscriber is to see for it.
\<close>

datatype reading =
    Int_reading bool nat
  | Short_real_reading nat
  | Float_reading bool nat nat
  | String_reading string

fun encode_reading :: "string \<Rightarrow> reading \<Rightarrow> string" where
  "encode_reading name (Int_reading neg n) = int_payload name (if neg then 1 else 0) n"
| "encode_reading name (Short_real_reading n) = short_real_payload name n"
| "encode_reading name (Float_reading neg n e) = float_payload name (if neg then 1 else 0) n e"
| "encode_reading name (String_reading s) = string_payload name s"

fun reading_text :: "reading \<Rightarrow> string" where
  "reading_text (Int_reading neg n) = ''INT - '' @ str_int (if neg then - int n else int n)"
| "reading_text (Short_real_reading n) = ''SHORT_REAL - '' @ decimal n 2"
| "reading_text (Float_reading neg n e) = ''FLOAT - '' @ (if neg then ''-'' else []) @ decimal n e"
| "reading_text (String_reading s) = ''STRING - '' @ s"

text \<open>The readings that survive the way: the magnitude of a decimal number has to fit a \<open>float\<close>.\<close>

fun reading_ok :: "reading \<Rightarrow> bool" where
  "reading_ok (Int_reading neg n) \<longleftrightarrow> n < 2 ^ 31"
| "reading_ok (Short_real_reading n) \<longleftrightarrow> n < 2 ^ 16"
| "reading_ok (Float_reading neg n e) \<longleftrightarrow> n < 2 ^ 24 \<and> e < 256"
| "reading_ok (String_reading s) \<longleftrightarrow> length s \<le> 1500 \<and> NUL \<notin> set s"

lemma delivered_reading:
  assumes "name_ok name" and "reading_ok r" and "sin_port addr < 2 ^ 16" and "16 \<le> length junk"
  shows "delivered_line (encode_reading name r) addr junk = Some (line_of addr name (reading_text r))"
proof (cases r)
  case (Int_reading neg n)
  then show ?thesis
    using int_line [OF assms(1), of "if neg then 1 else 0" n] assms(2-4) by simp
next
  case (Short_real_reading n)
  then show ?thesis using short_real_line [OF assms(1), of n] assms(2-4) by simp
next
  case (Float_reading neg n e)
  then show ?thesis
    using small_float_line [OF assms(1), of "if neg then 1 else 0" n e] assms(2-4) by simp
next
  case (String_reading t)
  then show ?thesis using string_line [OF assms(1), of t] assms(2-4) by (simp add: cstr_idem)
qed

text \<open>
  C12. Every reading is shown as it was meant: the line a subscriber prints for its datagram is the
  address text, the topic and the text of the reading, for integers below \<open>2 ^ 31\<close> in magnitude,
  all hundredths, decimal numbers whose digits are below \<open>2 ^ 24\<close>, and texts of up to 1500 bytes
  without a null byte.
\<close>

theorem reading_is_shown:
  assumes "name_ok name" and "reading_ok r" and "sin_port addr < 2 ^ 16" and "16 \<le> length junk"
  shows "delivered_line (encode_reading name r) addr junk = Some (line_of addr name (reading_text r))"
  by (rule delivered_reading [OF assms])

end
