(* ===== verification/Readings.thy ===== *)
theory Readings
  imports Delivery Samples Topics
begin

text \<open>
  The payload files as readings: what the sixteen and the fourteen datagrams mean, and that the texts
  the checker expects for them are what subscribers are shown.
\<close>

definition plain_readings :: "reading list" where
  "plain_readings =
    [Int_reading False 10, Int_reading True 10, Int_reading False 1234567890, Int_reading True 1234567890,
     Int_reading False 10, Short_real_reading 230, Short_real_reading 65505, Short_real_reading 1700,
     Float_reading False 17 0, Float_reading True 17 0, Float_reading False 12344321 4,
     Float_reading True 12344321 4, Float_reading False 42 3, Float_reading True 42 3,
     String_reading ''Ana are mere'',
     String_reading (concat (replicate 57 alphabet) @ ''abcdefghijklmnopqr'')]"

definition wildcard_readings :: "reading list" where
  "wildcard_readings =
    [Int_reading False 5, Int_reading False 4, Int_reading True 0, Int_reading True 0,
     Short_real_reading 2430, Short_real_reading 2987, Short_real_reading 2130, Short_real_reading 2611,
     Float_reading False 10132512 4, Float_reading False 10431249 4]"

text \<open>The last four messages of the second file end in a null byte of their own.\<close>

definition schedule_datagrams :: "string list" where
  "schedule_datagrams = map (\<lambda>n. string_payload n (''Protocoale De Comunicatie'' @ [NUL]))
    [''upb/precis/100/schedule/monday/8'', ''upb/ec/100/schedule/tuesday/12'',
     ''upb/precis/100/schedule/monday/8'', ''upb/ec/100/schedule/tuesday/12'']"

lemma plain_datagrams_encode:
  "plain_datagrams = map2 encode_reading (map topic_name plain_topics) plain_readings"
  by (simp add: plain_datagrams_def plain_topics_def mk_topic_def plain_readings_def)

lemma wildcard_datagrams_encode:
  "wildcard_datagrams =
     map2 encode_reading (map topic_name (take 10 wildcard_topics)) wildcard_readings @ schedule_datagrams"
  by (simp add: wildcard_datagrams_def wildcard_topics_def mk_topic_def wildcard_readings_def schedule_datagrams_def)

text \<open>The expected text is the start of the shown one.\<close>

definition expects :: "Topic \<Rightarrow> reading \<Rightarrow> bool" where
  "expects t r \<longleftrightarrow> name_ok (topic_name t) \<and> reading_ok r \<and>
     startswith (reading_text r) (category t @ '' - '' @ topic_value t)"

lemma line_contains_topic:
  "contains (topic_print t)
     (line_of addr (topic_name t) ((category t @ '' - '' @ topic_value t) @ rest))"
  unfolding contains_iff line_of_def topic_print_def
  by (intro exI [of _ "ip_text addr @ '':'' @ str_nat (sin_port addr) @ '' - ''"] exI [of _ "rest @ newline"]) simp

lemma expects_delivered:
  assumes "expects t r" and "sin_port addr < 2 ^ 16" and "16 \<le> length junk"
  shows "\<exists>l. delivered_line (encode_reading (topic_name t) r) addr junk = Some l \<and> contains (topic_print t) l"
proof -
  obtain rest where "reading_text r = (category t @ '' - '' @ topic_value t) @ rest"
    using assms(1) by (auto simp: expects_def startswith_iff)
  then show ?thesis
    using line_contains_topic [of t addr rest] delivered_reading [of "topic_name t" r addr junk] assms
    by (simp add: expects_def)
qed

lemmas expects_defs = expects_def mk_topic_def name_ok_def NUL_def startswith_def str_int_def
  decimal_def pad_digits_def str_nat.simps digit_char_def char_of_small

lemma alphabets: "length (concat (replicate n alphabet)) = 26 * n" "NUL \<notin> set (concat (replicate n alphabet))"
  by (induction n) (auto simp: alphabet_def NUL_def)

lemma huge_expected:
  "expects (mk_topic ''huge_string'' ''STRING'' alphabet)
     (String_reading (concat (replicate 57 alphabet) @ ''abcdefghijklmnopqr''))"
proof -
  let ?t = "''STRING'' @ '' - '' @ alphabet"
  have "replicate 57 alphabet = alphabet # replicate 56 alphabet"
    using replicate_Suc [of 56 alphabet] by simp
  then have "concat (replicate 57 alphabet) = alphabet @ concat (replicate 56 alphabet)" by simp
  then have "startswith (''STRING - '' @ concat (replicate 57 alphabet) @ ''abcdefghijklmnopqr'') ?t"
    by (simp add: startswith_def)
  moreover have "length (concat (replicate 57 alphabet) @ ''abcdefghijklmnopqr'') \<le> 1500"
    by (simp only: length_append alphabets) simp
  ultimately show ?thesis
    using alphabets(2) [of 57] by (simp add: expects_def mk_topic_def name_ok_def) (simp add: NUL_def)
qed

lemma small_expected: "list_all2 expects (take 15 plain_topics) (take 15 plain_readings)"
  by (simp add: plain_topics_def plain_readings_def expects_defs)

lemma plain_expected: "list_all2 expects plain_topics plain_readings"
proof -
  have "plain_topics = take 15 plain_topics @ [mk_topic ''huge_string'' ''STRING'' alphabet]"
    by (simp add: plain_topics_def alphabet_def)
  moreover have "plain_readings = take 15 plain_readings @
      [String_reading (concat (replicate 57 alphabet) @ ''abcdefghijklmnopqr'')]"
    by (simp add: plain_readings_def)
  ultimately show ?thesis
    using list_all2_appendI [OF small_expected] huge_expected by (metis list_all2_Cons list_all2_Nil)
qed

lemma wildcard_expected: "list_all2 expects (take 10 wildcard_topics) wildcard_readings"
  by (simp add: wildcard_topics_def wildcard_readings_def expects_defs)

definition shows_topic :: "sockaddr \<Rightarrow> string \<Rightarrow> Topic \<Rightarrow> string \<Rightarrow> bool" where
  "shows_topic addr junk t d \<longleftrightarrow> (\<exists>l. delivered_line d addr junk = Some l \<and> contains (topic_print t) l)"

lemma expected_shown:
  assumes "list_all2 expects ts rs" and "sin_port addr < 2 ^ 16" and "16 \<le> length junk"
  shows "list_all2 (shows_topic addr junk) ts (map2 encode_reading (map topic_name ts) rs)"
  using assms(1)
  by (induction rule: list_all2_induct) (auto simp: shows_topic_def expects_delivered [OF _ assms(2,3)])

lemma schedule_shown:
  assumes "sin_port addr < 2 ^ 16" and "16 \<le> length junk"
  shows "list_all2 (shows_topic addr junk) (drop 10 wildcard_topics) schedule_datagrams"
proof -
  let ?v = "''Protocoale De Comunicatie''"
  have cut: "cstr (?v @ [NUL]) = ?v" by (rule cstr_append_NUL) (simp add: NUL_def)
  have "shows_topic addr junk (mk_topic n ''STRING'' ?v) (string_payload n (?v @ [NUL]))" if "name_ok n" for n
    using string_line [OF that, of "?v @ [NUL]" addr junk, unfolded cut] assms
      line_contains_topic [of "mk_topic n ''STRING'' ?v" addr "[]"]
    by (simp add: shows_topic_def mk_topic_def)
  then show ?thesis
    by (simp add: wildcard_topics_def schedule_datagrams_def name_ok_def NUL_def)
qed

lemma all_expected_shown:
  assumes "sin_port addr < 2 ^ 16" and "16 \<le> length junk"
  shows "list_all2 (\<lambda>t d. \<exists>l. delivered_line d addr junk = Some l \<and> contains (topic_print t) l)
    (generate_topics w) (if w then wildcard_datagrams else plain_datagrams)"
proof -
  have "list_all2 (shows_topic addr junk) (take 10 wildcard_topics @ drop 10 wildcard_topics) wildcard_datagrams"
    unfolding wildcard_datagrams_encode
    by (rule list_all2_appendI [OF expected_shown [OF wildcard_expected assms] schedule_shown [OF assms]])
  moreover have "list_all2 (shows_topic addr junk) plain_topics plain_datagrams"
    unfolding plain_datagrams_encode by (rule expected_shown [OF plain_expected assms])
  ultimately show ?thesis
    by (simp add: generate_topics_def shows_topic_def [abs_def])
qed

text \<open>
  C20. The checker's expectations hold: for every message of both payload files, the line that a
  subscriber prints for its datagram contains the text the checker looks for, whatever the sender
  and the memory of the broker.
\<close>

theorem expected_texts_are_shown:
  assumes "sin_port addr < 2 ^ 16" and "16 \<le> length junk"
  shows "list_all2 (\<lambda>t d. \<exists>l. delivered_line d addr junk = Some l \<and> contains (topic_print t) l)
    (generate_topics w) (if w then wildcard_datagrams else plain_datagrams)"
  by (rule all_expected_shown [OF assms])

end
