(* ===== verification/Checker_Delivery.thy ===== *)
theory Checker_Delivery
  imports Checker_Facts Readings
begin

text \<open>
  The checker and the programs it judges: the test of the data C1 receives, run on a subscriber
  that prints the lines of the broker's model for the load generator's datagrams.
\<close>

text \<open>The next reads of a process yield these lines, each in time.\<close>

fun answers :: "'w os \<Rightarrow> nat \<Rightarrow> string list \<Rightarrow> 'w \<Rightarrow> bool" where
  "answers os pid [] w \<longleftrightarrow> True"
| "answers os pid (l # ls) w \<longleftrightarrow>
     fst (os_readline_within os pid Stdout 1 w) = Some l \<and> answers os pid ls (snd (os_readline_within os pid Stdout 1 w))"

lemma check_one:
  assumes "started c" and "answers os (proc c) (l # ls) (world h)"
  shows "\<exists>h'. check_subscriber_output os c cid t h = Some (Ret (contains t l), h') \<and> answers os (proc c) ls (world h')"
  using assms
  by (cases "os_readline_within os (proc c) Stdout 1 (world h)")
    (auto simp: check_subscriber_output_def get_output_timeout_def read_timeout_def say_def py_eqs)

text \<open>Every comparison is made, whatever the results of those before it.\<close>

lemma check_each_lines:
  "answers os (proc c) ls (world h) \<Longrightarrow> started c \<Longrightarrow> length ls = length ts \<Longrightarrow>
     \<exists>h'. check_each os c cid ts b h = Some (Ret (b \<and> list_all2 (\<lambda>t l. contains (topic_print t) l) ts ls), h')"
proof (induction ts arbitrary: ls h b)
  case Nil
  then show ?case by (simp add: check_each_def ret_app)
next
  case (Cons t ts)
  then obtain l ls' where ls: "ls = l # ls'" by (cases ls) auto
  obtain h1 where h1: "check_subscriber_output os c cid (topic_print t) h = Some (Ret (contains (topic_print t) l), h1)"
    "answers os (proc c) ls' (world h1)"
    using check_one [of c os l ls' h cid "topic_print t"] Cons.prems ls by auto
  obtain h2 where "check_each os c cid ts (contains (topic_print t) l \<and> b) h1 = Some (Ret ((contains (topic_print t) l \<and> b) \<and>
      list_all2 (\<lambda>t l. contains (topic_print t) l) ts ls'), h2)"
    using Cons.IH [OF h1(2), of "contains (topic_print t) l \<and> b"] Cons.prems ls by auto
  with h1(1) ls show ?case by (auto simp: check_each_def bnd_app ret_app)
qed

lemma data_subscribed_run:
  assumes "started c1" and "length ls = length topics"
    and "\<forall>g. world g = world h \<longrightarrow>
      (\<exists>g'. run_udp_client_default os g = Some (Ret (), g') \<and> answers os (proc c1) ls (world g'))"
  shows "\<exists>h'. run_test_data_subscribed os server c1 topics h = Some (Ret (), h') \<and>
    status_is ''data_subscribed'' (if list_all2 (\<lambda>t l. contains (topic_print t) l) topics ls then ''passed'' else ''failed'') h'"
proof -
  let ?ok = "list_all2 (\<lambda>t l. contains (topic_print t) l) topics ls"
  let ?failed = "status_is ''data_subscribed'' ''failed''"
  let ?g = "h\<lparr>tests := AList.update ''data_subscribed'' ''failed'' (tests h),
    console := console h @ ''Generating one message for each topic'' @ newline\<rparr>"
  obtain g1 where g1: "run_udp_client_default os ?g = Some (Ret (), g1)" "answers os (proc c1) ls (world g1)"
    using assms(3) [rule_format, of ?g] by auto
  obtain g2 where g2: "check_each os c1 ''1'' topics True g1 = Some (Ret ?ok, g2)"
    using check_each_lines [OF g1(2) assms(1,2), of "''1''" True] by auto
  have "?failed ?g" by (simp add: status_is_def update_conv')
  then have "?failed g2"
    using keepsD [OF other.keeps_run_udp_default _ g1(1)] keepsD [OF other.keeps_check_each _ g2] by blast
  then show ?thesis
    using g1(1) g2
    by (cases ?ok) (auto simp: run_test_data_subscribed_def andthen_app bnd_app fail_test_app say_def print_text_app
        pass_test_app ret_app status_is_def update_conv')
qed

text \<open>
  C39. The test of the data that C1 receives is exact and can be passed: run while C1 prints sixteen
  lines, it is marked passed when each line contains the text of its topic and failed when any does not;
  and it is marked passed when they are the lines of the broker and the subscriber for the load
  generator's sixteen datagrams in order, from any port and with any memory contents at the broker.
\<close>

theorem data_subscribed_accepts_pipeline:
  assumes "started c1" and "length ls = length (generate_topics False)"
    and "\<forall>g. world g = world h \<longrightarrow>
      (\<exists>g'. run_udp_client_default os g = Some (Ret (), g') \<and> answers os (proc c1) ls (world g'))"
  shows "\<exists>h'. run_test_data_subscribed os server c1 (generate_topics False) h = Some (Ret (), h') \<and>
    status_is ''data_subscribed'' (if \<forall>i < length ls. contains (topic_print (generate_topics False ! i)) (ls ! i)
      then ''passed'' else ''failed'') h' \<and>
    (sin_port addr < 2 ^ 16 \<and>
      (\<forall>i < length ls. 16 \<le> length (junk i) \<and> delivered_line (plain_datagrams ! i) addr (junk i) = Some (ls ! i)) \<longrightarrow>
      status_is ''data_subscribed'' ''passed'' h')"
proof -
  have ok: "list_all2 (\<lambda>t l. contains (topic_print t) l) (generate_topics False) ls \<longleftrightarrow>
      (\<forall>i < length ls. contains (topic_print (generate_topics False ! i)) (ls ! i))"
    using assms(2) by (auto simp: list_all2_conv_all_nth)
  obtain h' where h': "run_test_data_subscribed os server c1 (generate_topics False) h = Some (Ret (), h')"
    "status_is ''data_subscribed'' (if \<forall>i < length ls. contains (topic_print (generate_topics False ! i)) (ls ! i)
      then ''passed'' else ''failed'') h'"
    using data_subscribed_run [OF assms, of server] unfolding ok by blast
  have pass: "status_is ''data_subscribed'' ''passed'' h'"
    if all: "\<forall>i < length ls. contains (topic_print (generate_topics False ! i)) (ls ! i)"
    using h'(2) unfolding if_P [OF all] .
  have "status_is ''data_subscribed'' ''passed'' h'"
    if small: "sin_port addr < 2 ^ 16"
      and lines: "\<forall>i < length ls. 16 \<le> length (junk i) \<and> delivered_line (plain_datagrams ! i) addr (junk i) = Some (ls ! i)"
  proof (rule pass; intro allI impI)
    fix i assume i: "i < length ls"
    with lines have "16 \<le> length (junk i)" "delivered_line (plain_datagrams ! i) addr (junk i) = Some (ls ! i)"
      by simp_all
    with all_expected_shown [OF small, of "junk i" False] i assms(2)
    show "contains (topic_print (generate_topics False ! i)) (ls ! i)"
      by (auto dest!: list_all2_nthD [where p = i])
  qed
  with h' show ?thesis by blast
qed

end
