(* ===== verification/Checker_Props.thy ===== *)
theory Checker_Props
  imports Checker_Facts
begin

text \<open>
  The properties of the checker \<open>test.py\<close>: termination, the table of results, the marks of
  single tests, the comparison of output lines, the report, and the kernel parameters that the
  quick flow test changes.
\<close>

section \<open>The whole run\<close>

text \<open>
  C2. No program under test can keep the checker waiting by its silence: when every command of \<open>make\<close>
  ends and every write to a child's input is taken, \<open>h2_test\<close> returns, normally or by an
  exception, from any state, although a plain read of a silent child never returns. Neither \<open>make\<close> nor the
  writes are under an alarm: a first \<open>make clean\<close> that hangs keeps the checker waiting forever.
\<close>

theorem h2_test_always_ends:
  "(responsive os \<longrightarrow> (\<exists>r h'. h2_test os h = Some (r, h'))) \<and>
   (os_shell os ''make clean'' (world h) = None \<longrightarrow> h2_test os h = None)"
proof
  show "responsive os \<longrightarrow> (\<exists>r h'. h2_test os h = Some (r, h'))"
    by (intro impI returnsD) (auto simp: h2_test_def Let_def intro!: returns_rules)
  show "os_shell os ''make clean'' (world h) = None \<longrightarrow> h2_test os h = None"
    by (simp add: h2_test_def Let_def make_clean_def andthen_app [of "shell _ _"] shell_app)
qed

text \<open>
  C9. Whatever happens in a run, the table of results keeps exactly the nineteen tests in their
  order, each with one of the four statuses.
\<close>

theorem h2_test_keeps_table:
  assumes "well_formed_table (tests h)" and "h2_test os h = Some (r, h')"
  shows "well_formed_table (tests h')"
proof -
  have "keeps (\<lambda>h. well_formed_table (tests h)) (h2_test os)"
    by (rule table.keeps_h2_test) (auto simp: inner_names_def initial_tests_def)
  from keepsD [OF this assms] show ?thesis .
qed

lemma compile_passes: "run_test_compile os h = Some (Ret (), h') \<Longrightarrow> status_is ''compile'' ''passed'' h'"
  by (auto simp: run_test_compile_def bnd_Ret_iff andthen_Ret_iff dest: status_pass)

lemma server_start_passes:
  "run_test_server_start os h = Some (Ret s, h') \<Longrightarrow> status_is ''server_start'' ''passed'' h'"
  by (auto simp: run_test_server_start_def bnd_Ret_iff andthen_Ret_iff ret_app dest: status_pass)

lemma server_stop_settles:
  "run_test_server_stop os server c1 h = Some (r, h') \<Longrightarrow> settled ''server_stop'' h'"
  unfolding run_test_server_stop_def by (erule fail_settles) (auto intro!: keeps_rules)

lemma c1_start_settles: "run_test_c1_start os server h = Some (r, h') \<Longrightarrow> settled ''c1_start'' h'"
  unfolding run_test_c1_start_def start_and_check_client_def client_test_id_def
  by (simp, erule fail_settles) (auto intro!: keeps_rules)

lemma normal_run:
  assumes "h2_test os h = Some (Ret (), h')"
  obtains h1 h2 h3 server where "make_clean os h = Some (Ret (), h1)" and "run_test_compile os h1 = Some (Ret (), h2)"
    and "run_test_server_start os h2 = Some (Ret server, h3)"
    and "status_is ''compile'' ''passed'' h'" and "status_is ''server_start'' ''passed'' h'"
    and "settled ''c1_start'' h'" and "settled ''server_stop'' h'"
proof -
  let ?fst = "\<lambda>server c1 success. if success
    then h2_first_subscriber os server c1 (generate_topics False) (generate_topics True) else ret c1"
  obtain h1 h2 h3 h4 h5 h6 server c1 success c where
      clean: "make_clean os h = Some (Ret (), h1)"
    and compile: "run_test_compile os h1 = Some (Ret (), h2)"
    and server: "run_test_server_start os h2 = Some (Ret server, h3)"
    and start: "run_test_c1_start os server h3 = Some (Ret (c1, success), h4)"
    and mid: "?fst server c1 success h4 = Some (Ret c, h5)"
    and stop: "run_test_server_stop os server c h5 = Some (Ret (), h6)"
    and last: "andthen (make_clean os) print_test_results h6 = Some (Ret (), h')"
    using assms unfolding h2_test_def Let_def
    by (auto simp: bnd_Ret_iff andthen_Ret_iff [of _ "andthen _ _"] andthen_Ret_iff [of _ "bnd _ _"])
  have "status_is ''compile'' ''passed'' h'"
    using compile_passes [OF compile]
      keepsD [OF other.keeps_server_start [of "''compile''"] _ server]
      keepsD [OF other.keeps_c1_start [of "''compile''"] _ start]
      keepsD [OF other.keeps_middle [of "''compile''"] _ mid]
      keepsD [OF other.keeps_server_stop [of "''compile''"] _ stop]
      keepsD [OF other.keeps_ending [of "''compile''"] _ last]
    by (simp add: inner_names_def)
  moreover have "status_is ''server_start'' ''passed'' h'"
    using server_start_passes [OF server]
      keepsD [OF other.keeps_c1_start [of "''server_start''"] _ start]
      keepsD [OF other.keeps_middle [of "''server_start''"] _ mid]
      keepsD [OF other.keeps_server_stop [of "''server_start''"] _ stop]
      keepsD [OF other.keeps_ending [of "''server_start''"] _ last]
    by (simp add: inner_names_def)
  moreover have "settled ''c1_start'' h'"
    using c1_start_settles [OF start]
      keepsD [OF settled.keeps_middle [of "''c1_start''"] _ mid]
      keepsD [OF settled.keeps_server_stop [of "''c1_start''"] _ stop]
      keepsD [OF settled.keeps_ending [of "''c1_start''"] _ last]
    by simp
  moreover have "settled ''server_stop'' h'"
    using server_stop_settles [OF stop] keepsD [OF settled.keeps_ending _ last] by blast
  ultimately show thesis by (rule that [OF clean compile server])
qed


lemma exit_if_Ret: "exit_if_condition os b m h = Some (Ret (), h') \<longleftrightarrow> \<not> b \<and> h' = h"
  by (auto simp: exit_if_condition_def quit_def andthen_Ret_iff raise_app ret_app)

lemma make_target_Ret: "make_target os t h = Some (Ret b, h') \<longleftrightarrow>
    (\<exists>w. os_shell os (''make '' @ t) (world h) = Some w \<and> b = os_path_exists os t w \<and> h' = h\<lparr>world := w\<rparr>)"
  by (auto simp: make_target_def andthen_Ret_iff shell_app gets_app)

lemma start_Ret: "start os p h = Some (Ret q, h') \<longleftrightarrow>
    (\<exists>pid w. os_popen os (command p) (cwd p) (world h) = (Inr pid, w) \<and> q = p\<lparr>proc := pid, started := True\<rparr> \<and>
      h' = h\<lparr>world := w\<rparr>)"
  by (auto simp: start_def try_except_app sys_app bnd_app lift_res_def raise_app ret_app quit_def andthen_app
      say_def print_text_app split: prod.splits sum.splits exn.splits)

text \<open>What a build and a start of the server that end normally have found.\<close>

lemma compile_Ret:
  assumes "run_test_compile os h = Some (Ret (), h')" and "os_shell os ''make server'' (world h) = Some w1"
  shows "os_path_exists os ''server'' w1 \<and> (\<exists>w2. os_shell os ''make subscriber'' w1 = Some w2 \<and>
    os_path_exists os ''subscriber'' w2 \<and> world h' = w2)"
  using assms
  by (auto simp: run_test_compile_def andthen_Ret_iff bnd_Ret_iff fail_test_app pass_test_app say_def print_text_app
      make_target_Ret exit_if_Ret)

lemma server_start_Ret:
  assumes "run_test_server_start os h = Some (Ret s, h')"
  shows "\<exists>pid w. os_popen os [''./server'', default_port] '''' (world h) = (Inr pid, w) \<and>
    fst (os_poll_none os pid (os_sleep os 1 w))"
  using assms
  by (auto simp: run_test_server_start_def andthen_Ret_iff bnd_Ret_iff fail_test_app pass_test_app say_def
      print_text_app start_Ret exit_if_Ret mk_process_def sleep_def sys_do_app is_alive_def sys_app
      split: prod.splits)

definition report :: "(string \<times> string) list \<Rightarrow> string" where
  "report ts = newline @ ''RESULTS'' @ newline @ ''-------'' @ newline @ concat (map (\<lambda>(t, s). result_line t s) ts)"

lemma print_each:
  "for_each ts (\<lambda>(t, s). print_text (result_line t s)) h =
     Some (Ret (), h\<lparr>console := console h @ concat (map (\<lambda>(t, s). result_line t s) ts)\<rparr>)"
  by (induction ts arbitrary: h) (auto simp: py_eqs)

lemma print_report: "print_test_results h = Some (Ret (), h\<lparr>console := console h @ report (tests h)\<rparr>)"
  by (simp add: print_test_results_def say_def py_eqs print_each report_def)

lemma failed_build:
  assumes "os_shell os ''make clean'' (world h) = Some w0" and "os_shell os ''make server'' w0 = Some w1"
    and "\<not> os_path_exists os ''server'' w1" and "os_shell os ''make clean'' w1 = Some w2"
  shows "h2_test os h = Some (Exc SystemExit, h\<lparr>tests := AList.update ''compile'' ''failed'' (tests h), world := w2,
    console := console h @ ''Compiling'' @ newline @ ''Error: server could not be built'' @ newline @
      report (AList.update ''compile'' ''failed'' (tests h))\<rparr>)"
  using assms
  by (simp add: h2_test_def Let_def make_clean_def run_test_compile_def make_target_def exit_if_condition_def
      andthen_app bnd_app shell_app fail_test_app say_def print_text_app gets_app print_report quit_def raise_app)

text \<open>
  C19. A run gets past the build and the start of the server only if they have worked. When \<open>h2_test\<close>
  ends normally, \<open>make\<close> has left both binaries, the server was running a second after its start, the
  build and the start are marked passed, and the start of C1 and the stop of the server
  have been tried. When \<open>make\<close> leaves no server, the run exits having started no program, with only the
  build marked, and with the report printed.
\<close>

theorem h2_test_results:
  assumes "os_shell os ''make clean'' (world h) = Some w0" and "os_shell os ''make server'' w0 = Some w1"
  shows "(h2_test os h = Some (Ret (), h') \<longrightarrow>
      os_path_exists os ''server'' w1 \<and>
      (\<exists>w2 pid w3. os_shell os ''make subscriber'' w1 = Some w2 \<and> os_path_exists os ''subscriber'' w2 \<and>
        os_popen os [''./server'', default_port] '''' w2 = (Inr pid, w3) \<and>
        fst (os_poll_none os pid (os_sleep os 1 w3))) \<and>
      status_is ''compile'' ''passed'' h' \<and> status_is ''server_start'' ''passed'' h' \<and>
      settled ''c1_start'' h' \<and> settled ''server_stop'' h') \<and>
    (\<not> os_path_exists os ''server'' w1 \<longrightarrow> os_shell os ''make clean'' w1 = Some w2 \<longrightarrow>
      h2_test os h = Some (Exc SystemExit, h\<lparr>tests := AList.update ''compile'' ''failed'' (tests h), world := w2,
        console := console h @ ''Compiling'' @ newline @ ''Error: server could not be built'' @ newline @
          report (AList.update ''compile'' ''failed'' (tests h))\<rparr>))"
proof (rule conjI; intro impI)
  assume "h2_test os h = Some (Ret (), h')"
  then obtain h1 h2 h3 server where run: "make_clean os h = Some (Ret (), h1)" "run_test_compile os h1 = Some (Ret (), h2)"
      "run_test_server_start os h2 = Some (Ret server, h3)"
    and marks: "status_is ''compile'' ''passed'' h'" "status_is ''server_start'' ''passed'' h'"
      "settled ''c1_start'' h'" "settled ''server_stop'' h'"
    by (rule normal_run)
  have "world h1 = w0" using run(1) assms(1) by (auto simp: make_clean_def shell_app)
  with compile_Ret [OF run(2)] server_start_Ret [OF run(3)] assms(2) marks
  show "os_path_exists os ''server'' w1 \<and>
      (\<exists>w2 pid w3. os_shell os ''make subscriber'' w1 = Some w2 \<and> os_path_exists os ''subscriber'' w2 \<and>
        os_popen os [''./server'', default_port] '''' w2 = (Inr pid, w3) \<and>
        fst (os_poll_none os pid (os_sleep os 1 w3))) \<and>
      status_is ''compile'' ''passed'' h' \<and> status_is ''server_start'' ''passed'' h' \<and>
      settled ''c1_start'' h' \<and> settled ''server_stop'' h'" by blast
qed (rule failed_build [OF assms])

section \<open>Single helpers and tests\<close>

text \<open>
  A test that starts a subscriber is marked passed or failed according to the result the
  helper returns, and the marks of all other tests stay.
\<close>

lemma start_and_check_marks:
  assumes "start_and_check_client os server cid restart True h = Some (Ret (client, success), h')"
  shows "status_is (client_test_id cid restart) (if success then ''passed'' else ''failed'') h' \<and>
    (t \<noteq> client_test_id cid restart \<longrightarrow> map_of (tests h') t = map_of (tests h) t)"
proof
  let ?t = "client_test_id cid restart"
  let ?h0 = "h\<lparr>tests := AList.update ?t ''failed'' (tests h)\<rparr>"
  from assms obtain h1 where run: "client_started os server cid ?h0 = Some (Ret (client, success), h1)"
    and last: "andthen (if success then pass_test ?t else ret ()) (ret (client, success)) h1 =
      Some (Ret (client, success), h')"
    by (auto simp: start_and_check_client_def andthen_app [of "fail_test _"] fail_test_app
        bnd_Ret_iff andthen_Ret_iff ret_app)
  from last have h': "h' = (if success then h1\<lparr>tests := AList.update ?t ''passed'' (tests h1)\<rparr> else h1)"
    by (cases success) (simp_all add: andthen_app pass_test_app ret_app)
  have "status_is ?t ''failed'' h1"
    by (rule keepsD [OF other.keeps_client_started _ run]) (simp add: status_is_def update_conv')
  with h' show "status_is ?t (if success then ''passed'' else ''failed'') h'"
    by (auto simp: status_is_def update_conv')
  show "t \<noteq> ?t \<longrightarrow> map_of (tests h') t = map_of (tests h) t"
  proof
    assume t: "t \<noteq> ?t"
    have "mark_is t (map_of (tests h) t) h1"
      by (rule keepsD [OF unmarked.keeps_client_started _ run])
        (use t in \<open>simp add: mark_is_def update_conv'\<close>)
    with h' t show "map_of (tests h') t = map_of (tests h) t"
      by (auto simp: mark_is_def update_conv')
  qed
qed

text \<open>
  The report has one line per test, in the order of the table, and on a well-formed table each
  of them has exactly sixty columns.
\<close>

lemma report_lines:
  assumes "well_formed_table (tests h)"
  shows "print_test_results h = Some (Ret (), h\<lparr>console := console h @ newline @ ''RESULTS'' @ newline @
      ''-------'' @ newline @ concat (map (\<lambda>(t, s). result_line t s) (tests h))\<rparr>) \<and>
    (\<forall>(t, s) \<in> set (tests h). length (result_line t s) = test_output_line_size + 1)"
proof
  show "print_test_results h = Some (Ret (), h\<lparr>console := console h @ newline @ ''RESULTS'' @ newline @
      ''-------'' @ newline @ concat (map (\<lambda>(t, s). result_line t s) (tests h))\<rparr>)"
    by (simp add: print_report report_def)
  show "\<forall>(t, s) \<in> set (tests h). length (result_line t s) = test_output_line_size + 1"
  proof clarify
    fix t s assume ts: "(t, s) \<in> set (tests h)"
    then have "t \<in> set (map fst (tests h))" by force
    with assms have "t \<in> set (map fst initial_tests)" by (simp add: well_formed_table_def)
    then have "length t \<le> 35" by (auto simp: initial_tests_def)
    moreover have "length s \<le> 12"
      using assms ts by (auto simp: well_formed_table_def statuses_def)
    ultimately show "length (result_line t s) = test_output_line_size + 1"
      by (simp add: result_line_def test_output_line_size_def)
  qed
qed

end
