(* ===== verification/Procfs_Props.thy ===== *)
theory Procfs_Props
  imports Checker_Facts
begin

text \<open>
  The kernel parameters that \<open>run_test_quick_flow\<close> sets to five bytes and puts back: what is
  written when the test ends normally, what remains when an exception leaves it, and that the
  values it read are those a later read finds again.
\<close>

definition procfs_text :: "string list \<Rightarrow> string" where
  "procfs_text values = values ! 0 @ '' '' @ values ! 1 @ '' '' @ values ! 2"

text \<open>\<open>permits os\<close>: the checker runs with the right to write the files.\<close>

definition permits :: "'w os \<Rightarrow> bool" where
  "permits os \<longleftrightarrow> (\<forall>p w. os_access_w os p w) \<and> (\<forall>p w. fst (os_open_write os p w) = Inr ())"

lemma set_procfs_permitted:
  assumes "permits os" and "3 \<le> length vs"
  obtains w where "set_procfs_values os b vs h = Some (Ret True,
    h\<lparr>world := w, written := written h @ [(procfs_path b, procfs_text vs)]\<rparr>)"
proof -
  obtain w where "os_open_write os (procfs_path b) (world h) = (Inr (), w)"
    using assms(1) unfolding permits_def by (metis prod.collapse)
  moreover have "vs \<noteq> []" "Suc 0 < length vs" "2 < length vs" using assms(2) by auto
  ultimately have "set_procfs_values os b vs h = Some (Ret True,
    h\<lparr>world := os_file_write os (procfs_path b) (procfs_text vs) w,
      written := written h @ [(procfs_path b, procfs_text vs)]\<rparr>)"
    using assms by (simp add: set_procfs_values_def write_file_def list_get_def permits_def
        procfs_text_def py_eqs)
  then show ?thesis by (rule that)
qed

lemma get_procfs_readable:
  assumes "os_first_line os (procfs_path b) (world h) = Inr line" and "3 \<le> length (split_ws line)"
  shows "get_procfs_values os b h = Some (Ret (split_ws line), h)"
  using assms by (simp add: get_procfs_values_def Let_def py_eqs)

text \<open>What must hold at the start for the test to get past its reads of the parameters.\<close>

definition readable :: "'w os \<Rightarrow> 'w \<Rightarrow> bool \<Rightarrow> string list \<Rightarrow> bool" where
  "readable os w b vs \<longleftrightarrow> (\<exists>line. os_first_line os (procfs_path b) w = Inr line \<and> vs = split_ws line) \<and>
     3 \<le> length vs \<and> vs ! 0 \<noteq> ''error''"

lemma quick_flow_start:
  assumes "permits os" and "readable os (world h) True rv" and "readable os (world h) False wv"
  obtains h2 where "written h2 = written h @ [(procfs_path True, ''5 5 5''), (procfs_path False, ''5 5 5'')]"
    and "run_test_quick_flow os c1 topics h = andthen (quick_flow_body os c1 topics)
      (andthen (set_procfs_values os True rv) (andthen (set_procfs_values os False wv) (ret ()))) h2"
proof -
  let ?h0 = "h\<lparr>tests := AList.update ''quick_flow'' ''failed'' (tests h)\<rparr>"
  have r: "get_procfs_values os True ?h0 = Some (Ret rv, ?h0)"
    "get_procfs_values os False ?h0 = Some (Ret wv, ?h0)"
    using assms(2,3) by (auto simp: readable_def intro!: get_procfs_readable)
  obtain w1 where w1: "set_procfs_values os True [''5'', ''5'', ''5''] ?h0 = Some (Ret True,
      ?h0\<lparr>world := w1, written := written ?h0 @ [(procfs_path True, procfs_text [''5'', ''5'', ''5''])]\<rparr>)"
    using set_procfs_permitted [OF assms(1), of "[''5'', ''5'', ''5'']" True ?h0] by auto
  have heads: "rv \<noteq> []" "wv \<noteq> []" using assms(2,3) by (auto simp: readable_def)
  let ?h1 = "?h0\<lparr>world := w1, written := written ?h0 @ [(procfs_path True, procfs_text [''5'', ''5'', ''5''])]\<rparr>"
  obtain w2 where w2: "set_procfs_values os False [''5'', ''5'', ''5''] ?h1 = Some (Ret True,
      ?h1\<lparr>world := w2, written := written ?h1 @ [(procfs_path False, procfs_text [''5'', ''5'', ''5''])]\<rparr>)"
    using set_procfs_permitted [OF assms(1), of "[''5'', ''5'', ''5'']" False ?h1] by auto
  show ?thesis
  proof (rule that)
    show "run_test_quick_flow os c1 topics h = andthen (quick_flow_body os c1 topics)
      (andthen (set_procfs_values os True rv) (andthen (set_procfs_values os False wv) (ret ())))
      (?h1\<lparr>world := w2, written := written ?h1 @ [(procfs_path False, procfs_text [''5'', ''5'', ''5''])]\<rparr>)"
      using assms(2,3) r w1 w2 heads
      by (simp add: run_test_quick_flow_def readable_def list_get_def
          andthen_app [of "fail_test _"] fail_test_app bnd_app [of "get_procfs_values _ _"]
          bnd_app [of "set_procfs_values _ _ _"])
  qed (simp add: procfs_text_def)
qed

text \<open>
  C21. When the quick flow test gets at the kernel's buffer sizes and ends normally, it has written
  each of the two files twice, and the last text written to each is made of the first three values
  that were there at its start.
\<close>

theorem quick_flow_restores:
  assumes "permits os" and "readable os (world h) True rv" and "readable os (world h) False wv"
    and "run_test_quick_flow os c1 topics h = Some (Ret (), h')"
  shows "written h' = written h @ [(procfs_path True, ''5 5 5''), (procfs_path False, ''5 5 5''),
    (procfs_path True, procfs_text rv), (procfs_path False, procfs_text wv)]"
proof -
  obtain h2 where h2: "written h2 = written h @ [(procfs_path True, ''5 5 5''), (procfs_path False, ''5 5 5'')]"
    and run: "andthen (quick_flow_body os c1 topics)
      (andthen (set_procfs_values os True rv) (andthen (set_procfs_values os False wv) (ret ()))) h2 =
      Some (Ret (), h')"
    using quick_flow_start [OF assms(1-3), of c1 topics] assms(4) by metis
  then obtain h3 where body: "quick_flow_body os c1 topics h2 = Some (Ret (), h3)"
    and tail: "andthen (set_procfs_values os True rv)
      (andthen (set_procfs_values os False wv) (ret ())) h3 = Some (Ret (), h')"
    by (auto simp: andthen_Ret_iff [of "quick_flow_body _ _ _"])
  have "keeps (wrote (written h2)) (quick_flow_body os c1 topics)"
    by (auto simp: quick_flow_body_def intro!: keeps_rules)
  from keepsD [OF this _ body] have h3: "written h3 = written h2" by (simp add: wrote_def)
  have len: "3 \<le> length rv" "3 \<le> length wv" using assms(2,3) by (simp_all add: readable_def)
  obtain w1 where w1: "set_procfs_values os True rv h3 = Some (Ret True,
      h3\<lparr>world := w1, written := written h3 @ [(procfs_path True, procfs_text rv)]\<rparr>)"
    using set_procfs_permitted [OF assms(1) len(1)] by blast
  obtain w2 where "set_procfs_values os False wv (h3\<lparr>world := w1,
      written := written h3 @ [(procfs_path True, procfs_text rv)]\<rparr>) = Some (Ret True,
      h3\<lparr>world := w2, written := written h3 @ [(procfs_path True, procfs_text rv),
        (procfs_path False, procfs_text wv)]\<rparr>)"
    using set_procfs_permitted [OF assms(1) len(2), of False "h3\<lparr>world := w1,
      written := written h3 @ [(procfs_path True, procfs_text rv)]\<rparr>"] by auto
  with tail w1 h3 h2 show ?thesis by (auto simp: andthen_app ret_app)
qed

lemma reads_output:
  fixes g :: "'a harness"
  shows "\<exists>w. for_range n (andthen (get_output_timeout os p 1) (ret ())) g = Some (Ret (), g\<lparr>world := w\<rparr>)"
proof (induction n arbitrary: g)
  case 0
  show ?case by (auto simp: py_eqs intro: exI [of _ "world g"])
next
  case (Suc n)
  obtain l w where "get_output_timeout os p 1 g = Some (Ret l, g\<lparr>world := w\<rparr>)"
    using get_output_timeout_yields [of os p 1 g] by blast
  with Suc [of "g\<lparr>world := w\<rparr>"] show ?case by (auto simp: for_range_Suc py_eqs)
qed

text \<open>A run of the UDP client that does not end when it is terminated.\<close>

lemma hanging_client:
  fixes g :: "'a harness"
  assumes "\<forall>cmd dir w. \<exists>pid w'. os_popen os cmd dir w = (Inr pid, w')"
    and "\<forall>pid n w. \<not> fst (os_wait os pid n w)"
  shows "\<exists>g'. run_udp_client_default os g = Some (Exc TimeoutExpired, g')"
proof -
  let ?p = "mk_process [''python3'', ''udp_client.py'', ''--input_file'', ''sample_payloads.json'',
    default_ip, default_port] udp_client_path"
  obtain pid w where pid: "os_popen os (command ?p) (cwd ?p) (world g) = (Inr pid, w)"
    using assms(1) by blast
  let ?q = "?p\<lparr>proc := pid, started := True\<rparr>"
  have start: "start os ?p g = Some (Ret ?q, g\<lparr>world := w\<rparr>)"
    using pid by (simp add: start_def py_eqs)
  obtain w2 where rd: "for_range 19 (andthen (get_output_timeout os ?q 1) (ret ())) (g\<lparr>world := w\<rparr>) =
      Some (Ret (), g\<lparr>world := w2\<rparr>)"
    using reads_output [of 19 os ?q "g\<lparr>world := w\<rparr>"] by auto
  have "\<exists>g'. finish os ?q (g\<lparr>world := w2\<rparr>) = Some (Exc TimeoutExpired, g')"
    using assms(2) by (auto simp: finish_def py_eqs split: prod.splits)
      (metis fst_conv)
  with start rd show ?thesis
    by (auto simp: run_udp_client_default_def run_udp_client_def bnd_app andthen_app)
qed

text \<open>
  C25. The restoration is not protected: if the first UDP client does not end within a second of
  being terminated, the test is left by \<open>TimeoutExpired\<close> and both files keep the value of five
  bytes written at its start.
\<close>

theorem quick_flow_exception_leaves_buffers:
  assumes "permits os" and "readable os (world h) True rv" and "readable os (world h) False wv"
    and "\<forall>cmd dir w. \<exists>pid w'. os_popen os cmd dir w = (Inr pid, w')"
    and "\<forall>pid n w. \<not> fst (os_wait os pid n w)"
  shows "\<exists>h'. run_test_quick_flow os c1 topics h = Some (Exc TimeoutExpired, h') \<and>
    written h' = written h @ [(procfs_path True, ''5 5 5''), (procfs_path False, ''5 5 5'')]"
proof -
  obtain h2 where h2: "written h2 = written h @ [(procfs_path True, ''5 5 5''), (procfs_path False, ''5 5 5'')]"
    and run: "run_test_quick_flow os c1 topics h = andthen (quick_flow_body os c1 topics)
      (andthen (set_procfs_values os True rv) (andthen (set_procfs_values os False wv) (ret ()))) h2"
    using quick_flow_start [OF assms(1-3), of c1 topics] by blast
  obtain g where g: "say ''Generating one message for each topic 30 times in a row'' h2 = Some (Ret (), g)"
    by (simp add: say_def py_eqs)
  obtain g' where g': "run_udp_client_default os g = Some (Exc TimeoutExpired, g')"
    using hanging_client [OF assms(4,5)] by blast
  have "for_range 30 (run_udp_client_default os) = andthen (run_udp_client_default os)
      (for_range 29 (run_udp_client_default os))"
    using for_range_Suc [of 29] by simp
  then have res: "run_test_quick_flow os c1 topics h = Some (Exc TimeoutExpired, g')"
    using run g g' by (simp add: quick_flow_body_def andthen_app)
  have "written g = written h2" using g by (auto simp: say_def py_eqs)
  moreover have "written g' = written g"
    using keepsD [OF unwritten.keeps_run_udp_default _ g', of "written g"] by (simp add: wrote_def)
  ultimately show ?thesis using res h2 by auto
qed

text \<open>The kernel shows the three numbers of a parameter file on one line, separated by tabs.\<close>

definition kernel_line :: "nat \<Rightarrow> nat \<Rightarrow> nat \<Rightarrow> string" where
  "kernel_line x y z = str_nat x @ [CHR 0x09] @ str_nat y @ [CHR 0x09] @ str_nat z @ newline"

text \<open>
  What the kernel documents for these files: three positive numbers written with blanks between them
  are the ones shown from then on.
\<close>

definition sysctl_file :: "'w os \<Rightarrow> bool" where
  "sysctl_file os \<longleftrightarrow> (\<forall>b x y z w. x \<in> {1..<2 ^ 31} \<and> y \<in> {1..<2 ^ 31} \<and> z \<in> {1..<2 ^ 31} \<longrightarrow>
     os_first_line os (procfs_path b) (os_file_write os (procfs_path b)
       (str_nat x @ '' '' @ str_nat y @ '' '' @ str_nat z) w) = Inr (kernel_line x y z))"

lemma word_str_nat: "word_str (str_nat n)"
proof -
  have "\<not> is_space (digit_char d)" if "d < 10" for d
    using that of_char_digit [OF that] by (auto simp: is_space_def)
  moreover have "str_nat n \<noteq> []" by simp
  ultimately show ?thesis using str_nat_chars by (fastforce simp: word_str_def)
qed

lemma split_kernel_line: "split_ws (kernel_line x y z) = [str_nat x, str_nat y, str_nat z]"
proof -
  have "word_str (str_nat n)" for n by (rule word_str_nat)
  then show ?thesis
    using split_ws_join [of "[str_nat x, str_nat y, str_nat z]" "CHR 0x09"]
    by (simp add: kernel_line_def join_def is_space_def)
qed

text \<open>
  C40. The checker can put a kernel parameter back: from the tab-separated line that the kernel
  shows, \<open>get_procfs_values\<close> reads the three numbers, \<open>set_procfs_values\<close> writes them in the form that
  the kernel takes, and a later read yields them again.
\<close>

theorem procfs_roundtrip:
  assumes "permits os" and "sysctl_file os" and "os_first_line os (procfs_path b) (world h) = Inr (kernel_line x y z)"
    and "x \<in> {1..<2 ^ 31}" and "y \<in> {1..<2 ^ 31}" and "z \<in> {1..<2 ^ 31}"
  shows "\<exists>vs h'. get_procfs_values os b h = Some (Ret vs, h) \<and> vs = [str_nat x, str_nat y, str_nat z] \<and>
    set_procfs_values os b vs h = Some (Ret True, h') \<and> get_procfs_values os b h' = Some (Ret vs, h')"
proof -
  let ?vs = "[str_nat x, str_nat y, str_nat z]"
  have form: "procfs_text ?vs = str_nat x @ '' '' @ str_nat y @ '' '' @ str_nat z"
    by (simp add: procfs_text_def)
  obtain w where "os_open_write os (procfs_path b) (world h) = (Inr (), w)"
    using assms(1) unfolding permits_def by (metis prod.collapse)
  then have set: "set_procfs_values os b ?vs h = Some (Ret True,
    h\<lparr>world := os_file_write os (procfs_path b) (procfs_text ?vs) w,
      written := written h @ [(procfs_path b, procfs_text ?vs)]\<rparr>)" (is "_ = Some (Ret True, ?h')")
    using assms(1) by (simp add: set_procfs_values_def write_file_def list_get_def permits_def
        procfs_text_def py_eqs)
  have "os_first_line os (procfs_path b) (world ?h') = Inr (kernel_line x y z)"
    using assms(2,4-6) by (simp add: form sysctl_file_def)
  from get_procfs_readable [OF this] get_procfs_readable [OF assms(3)] set show ?thesis
    by (auto simp: split_kernel_line)
qed

end
