(* ===== verification/Star_Wildcard.thy ===== *)
theory Star_Wildcard
  imports Checker_Facts
begin

text \<open>
  The star wildcard test overwrites the result of its first round: a run in which subscriber C2
  never shows the first message is marked passed. The run is played on a scripted system.
\<close>

section \<open>A scripted system\<close>

text \<open>
  Process 7 answers each read with the next entry of the script, \<open>None\<close> standing for a second
  without a line; every other process starts, stays silent and ends when it is told to. Writes
  are accepted.
\<close>

definition script_os :: "string option list os" where
  "script_os =
    \<lparr>os_popen = \<lambda>cmd dir w. (Inr 1, w),
     os_terminate = \<lambda>pid w. w,
     os_wait = \<lambda>pid n w. (True, w),
     os_write = \<lambda>pid s w. Some (Inr (), w),
     os_readline = \<lambda>pid ch w. None,
     os_readline_within = \<lambda>pid ch n w. if pid = 7 then (case w of [] \<Rightarrow> (None, []) | x # xs \<Rightarrow> (x, xs))
       else (None, w),
     os_poll_none = \<lambda>pid w. (True, w),
     os_sleep = \<lambda>n w. w,
     os_shell = \<lambda>cmd w. Some w,
     os_path_exists = \<lambda>p w. True,
     os_first_line = \<lambda>p w. Inl (FileNotFoundError p),
     os_access_w = \<lambda>p w. False,
     os_open_write = \<lambda>p w. (Inl (FileNotFoundError p), w),
     os_file_write = \<lambda>p s w. w\<rparr>"

definition script_c2 :: process where
  "script_c2 = \<lparr>command = [''./subscriber'', ''C2'', default_ip, default_port], started = True,
     cwd = '''', proc = 7\<rparr>"

definition script_line :: "string option \<Rightarrow> string" where
  "script_line x = (case x of Some l \<Rightarrow> l | None \<Rightarrow> ''timeout'')"

lemma script_fields:
  "os_popen script_os cmd dir w = (Inr 1, w)" "os_terminate script_os pid w = w"
  "os_wait script_os pid n w = (True, w)" "os_write script_os pid s w = Some (Inr (), w)"
  "os_sleep script_os n w = w"
  "os_readline_within script_os pid ch n w =
     (if pid = 7 then (case w of [] \<Rightarrow> (None, []) | x # xs \<Rightarrow> (x, xs)) else (None, w))"
  by (simp_all add: script_os_def)

lemma script_c2_fields: "started script_c2" "proc script_c2 = 7"
  by (simp_all add: script_c2_def)

lemma script_send: "send_input script_os p s h = Some (Ret (), h)"
  by (simp add: send_input_def script_fields py_eqs)

lemma script_sleep: "sleep script_os n h = Some (Ret (), h)"
  by (simp add: sleep_def script_fields py_eqs)

lemma script_read:
  "world h = x # xs \<Longrightarrow> get_output_timeout script_os script_c2 n h =
     Some (Ret (script_line x), h\<lparr>world := xs\<rparr>)"
  by (simp add: get_output_timeout_def read_timeout_def script_fields script_c2_fields
      script_line_def py_eqs split: option.splits)

lemma script_finish: "started p \<Longrightarrow> finish script_os p h = Some (Ret (p\<lparr>started := False\<rparr>), h)"
  by (simp add: finish_def script_fields py_eqs)

lemma script_start:
  "start script_os p h = Some (Ret (p\<lparr>proc := 1, started := True\<rparr>), h)"
  by (simp add: start_def script_fields py_eqs)

lemma script_silent:
  "proc p = 1 \<Longrightarrow> \<exists>l. get_output_timeout script_os p n h = Some (Ret l, h)"
  by (simp add: get_output_timeout_def read_timeout_def script_fields py_eqs)

lemma script_loops:
  "for_each types (\<lambda>type. andthen (send_input script_os p type) (sleep script_os 1)) h = Some (Ret (), h)"
  "proc p = 1 \<Longrightarrow> for_range k (andthen (get_output_timeout script_os p 1) (ret ())) h = Some (Ret (), h)"
proof -
  show "for_each types (\<lambda>type. andthen (send_input script_os p type) (sleep script_os 1)) h = Some (Ret (), h)"
    by (induction types) (simp_all add: script_send script_sleep py_eqs)
  show "proc p = 1 \<Longrightarrow>
      for_range k (andthen (get_output_timeout script_os p 1) (ret ())) h = Some (Ret (), h)"
  proof (induction k)
    case (Suc k)
    with script_silent [of p 1 h] show ?case by (auto simp: for_range_Suc py_eqs)
  qed (simp add: py_eqs)
qed

lemma script_udp: "run_udp_client script_os m types f h = Some (Ret (), h)"
  by (simp add: run_udp_client_def bnd_app andthen_app script_start script_sleep script_finish
      script_send script_loops ret_app del: One_nat_def)

text \<open>What a comparison leaves behind: the line is consumed, a mismatch is reported.\<close>

definition mismatch :: "string \<Rightarrow> string \<Rightarrow> string" where
  "mismatch target line = (if contains target line then '''' else ''Error: C2 output should contain ['' @
     target @ ''], is actually ['' @ rstrip line @ '']'' @ newline)"

lemma script_check:
  "world h = x # xs \<Longrightarrow> check_subscriber_output script_os script_c2 ''2'' target h =
     Some (Ret (contains target (script_line x)),
       h\<lparr>world := xs, console := console h @ mismatch target (script_line x)\<rparr>)"
  by (simp add: check_subscriber_output_def bnd_app andthen_app script_read mismatch_def say_def
      print_text_app ret_app)

lemma script_subscribed:
  "world h = Some (''Subscribed to topic'' @ s) # xs \<Longrightarrow> subscribed script_os script_c2 w k h =
     k (h\<lparr>console := console h @ ''Subscribing C2 to topics '' @ w @ newline, world := xs\<rparr>)"
  by (simp add: subscribed_def subscribe_to_topic_def bnd_app andthen_app script_read script_send
      say_def print_text_app ret_app script_line_def startswith_def)

lemma script_unsubscribed:
  "world h = x # xs \<Longrightarrow> unsubscribed script_os script_c2 w h = Some (Ret (), h\<lparr>world := xs\<rparr>)"
  by (simp add: unsubscribed_def andthen_app script_read script_send ret_app)

section \<open>The run\<close>

text \<open>
  The lines C2 shows: in the first round one arbitrary line \<open>l\<close> and then none; in the other rounds
  what the test expects.
\<close>

definition shows_topic :: "nat \<Rightarrow> string option" where
  "shows_topic i = Some (''127.0.0.1:5000 - '' @ topic_print (wildcard_topics ! i) @ newline)"

definition star_round :: "string option list \<Rightarrow> string option list" where
  "star_round answers = Some (''Subscribed to topic'' @ newline) # answers @
     [Some (''Unsubscribed from topic'' @ newline)]"

definition star_script :: "string \<Rightarrow> string option list" where
  "star_script l = star_round [Some l, None] @ star_round [shows_topic 1, shows_topic 3, None] @
     star_round [shows_topic 1, shows_topic 4, None] @ star_round (map shows_topic [0..<14])"

lemma contains_shown: "contains (topic_print (wildcard_topics ! i)) (script_line (shows_topic i))"
proof -
  have "script_line (shows_topic i) =
      ''127.0.0.1:5000 - '' @ topic_print (wildcard_topics ! i) @ newline"
    by (simp only: shows_topic_def script_line_def option.case)
  then show ?thesis by (simp only: contains_middle)
qed

lemma contains_timeout: "contains ''timeout'' (script_line None)"
  by (simp add: script_line_def startswith_def)

lemma script_expect:
  "world h = x # xs \<Longrightarrow> i < 14 \<Longrightarrow> expect script_os script_c2 (generate_topics True) i h =
     Some (Ret (contains (topic_print (wildcard_topics ! i)) (script_line x)),
       h\<lparr>world := xs, console := console h @ mismatch (topic_print (wildcard_topics ! i)) (script_line x)\<rparr>)"
  using length_topics(2)
  by (simp add: expect_def list_get_def bnd_app script_check ret_app generate_topics_def)

lemma script_expect_none:
  "world h = x # xs \<Longrightarrow> expect_none script_os script_c2 h =
     Some (Ret (contains ''timeout'' (script_line x)),
       h\<lparr>world := xs, console := console h @ mismatch ''timeout'' (script_line x)\<rparr>)"
  by (simp add: expect_none_def script_check)

lemma script_check_each:
  "world h = map shows_topic is @ xs \<Longrightarrow>
     check_each script_os script_c2 ''2'' (map (\<lambda>i. wildcard_topics ! i) is) b h = Some (Ret b, h\<lparr>world := xs\<rparr>)"
proof (induction "is" arbitrary: h)
  case Nil
  then show ?case by (simp add: check_each_def ret_app)
next
  case (Cons i "is")
  have "h\<lparr>world := map shows_topic is @ xs, console := console h @ []\<rparr> = h\<lparr>world := map shows_topic is @ xs\<rparr>"
    by simp
  with Cons.IH [of "h\<lparr>world := map shows_topic is @ xs\<rparr>"] Cons.prems show ?case
    by (simp add: check_each_def bnd_app script_check contains_shown mismatch_def ret_app)
qed

text \<open>
  C24. The result of the first round of the star wildcard test is lost. If C2 shows, instead of the
  message on the first topic, any other line and then nothing, and the later rounds go well, the
  test ends marked \<open>passed\<close>.
\<close>

theorem star_test_passes_without_first_round:
  assumes "\<not> contains (topic_print (wildcard_topics ! 8)) l" and "world h = star_script l"
  shows "\<exists>h'. run_test_c2_subscribe_star_wildcard script_os script_c2 (generate_topics True) h =
      Some (Ret (), h') \<and> status_is ''c2_subscribe_star_wildcard'' ''passed'' h' \<and> world h' = []"
proof -
  have all: "generate_topics True = map (\<lambda>i. wildcard_topics ! i) [0..<14]"
    using map_nth [of wildcard_topics] length_topics(2) by (simp add: generate_topics_def)
  have each: "check_each script_os script_c2 ''2'' (generate_topics True) b g =
      Some (Ret b, g\<lparr>world := xs\<rparr>)" if "world g = map shows_topic [0..<14] @ xs" for b g xs
    unfolding all using that by (rule script_check_each)
  let ?m = "mismatch (topic_print (wildcard_topics ! 8)) l"
  note steps = script_udp script_expect script_expect_none script_unsubscribed
  show ?thesis
    using assms
    by (simp add: run_test_c2_subscribe_star_wildcard_def andthen_app bnd_app fail_test_app
        pass_test_app script_subscribed generate_def steps star_script_def star_round_def
        and_also_def contains_shown contains_timeout each conclude_def ret_app
        status_is_def update_conv' script_line_def [of "Some _"])
qed

end
