(* ===== verification/Checker_Examples.thy ===== *)
theory Checker_Examples
  imports Checker_Delivery Checker_Props Procfs_Props Star_Wildcard
begin

text \<open>
  The properties of the checker at concrete inputs: runs on the scripted system of the star
  wildcard test, and on systems that only have the two parameter files.
\<close>

section \<open>Runs on the scripted system\<close>

definition start_state :: "'w \<Rightarrow> 'w harness" where
  "start_state w = \<lparr>tests = initial_tests, console = [], world = w, written = []\<rparr>"

lemma script_responsive: "responsive script_os"
  by (simp add: responsive_def script_os_def)

theorem h2_test_always_ends_witness: "\<exists>r h'. h2_test script_os (start_state []) = Some (r, h')"
  using h2_test_always_ends [of script_os "start_state []"] script_responsive by blast

lemma h2_script: "\<exists>r h'. h2_test script_os h = Some (r, h')"
  using script_responsive by (intro returnsD) (auto simp: h2_test_def Let_def intro!: returns_rules)

theorem h2_test_keeps_table_witness:
  "\<exists>r h'. h2_test script_os (start_state []) = Some (r, h') \<and> well_formed_table (tests h')"
proof -
  obtain r h' where run: "h2_test script_os (start_state []) = Some (r, h')"
    using h2_script [of "start_state []"] by blast
  have "well_formed_table (tests (start_state []))"
    by (simp add: start_state_def well_formed_initial)
  from h2_test_keeps_table [OF this run] run show ?thesis by blast
qed

text \<open>
  With no subscriber ever announced by the server, the run goes from the start of C1 straight to
  the stop of the server.
\<close>

lemma script_alive: "started p \<Longrightarrow> is_alive script_os p h = Some (Ret True, h)"
  by (simp add: is_alive_def script_os_def py_eqs)

lemma script_timeout:
  "started p \<Longrightarrow> proc p \<noteq> 7 \<Longrightarrow> get_output_timeout script_os p n h = Some (Ret ''timeout'', h)"
  by (simp add: get_output_timeout_def read_timeout_def script_fields py_eqs)

lemma script_make: "make_clean script_os h = Some (Ret (), h)" "make_target script_os t h = Some (Ret True, h)"
  by (simp_all add: make_clean_def make_target_def script_os_def py_eqs)

lemma script_short_run: "\<exists>h'. h2_test script_os h = Some (Ret (), h')"
  by (simp add: h2_test_def Let_def run_test_compile_def run_test_server_start_def run_test_c1_start_def
      start_and_check_client_def client_started_def run_test_server_stop_def exit_if_condition_def
      andthen_app bnd_app ret_app fail_test_app pass_test_app say_def print_text_app script_start
      script_sleep script_send script_alive script_timeout script_make startswith_def print_report)

theorem h2_test_results_witness:
  "\<exists>h'. h2_test script_os (start_state []) = Some (Ret (), h') \<and>
    status_is ''compile'' ''passed'' h' \<and> settled ''server_stop'' h'"
  using script_short_run [of "start_state []"] h2_test_results [of script_os "start_state []" "[]" "[]"]
  by (auto simp: script_os_def start_state_def)

lemma start_and_check_marks_example:
  "\<exists>client h'. start_and_check_client script_os script_c2 ''1'' False True
      (start_state [Some ''New client C1 connected from 127.0.0.1:4000.'']) = Some (Ret (client, True), h') \<and>
    status_is ''c1_start'' ''passed'' h' \<and> map_of (tests h') ''c2_start'' = Some ''not executed''"
proof -
  let ?h = "start_state [Some ''New client C1 connected from 127.0.0.1:4000.'']"
  obtain client h' where run: "start_and_check_client script_os script_c2 ''1'' False True ?h =
      Some (Ret (client, True), h')"
    by (simp add: start_and_check_client_def client_started_def andthen_app bnd_app fail_test_app say_def
        print_text_app script_start script_read start_state_def script_alive script_line_def
        startswith_def ret_app pass_test_app)
  from start_and_check_marks [OF run, of "''c2_start''"] run show ?thesis
    by (auto simp: client_test_id_def start_state_def initial_tests_def)
qed

lemma report_lines_example:
  "\<exists>text. print_test_results (start_state ()) = Some (Ret (), (start_state ())\<lparr>console := text\<rparr>)"
  using report_lines [of "start_state ()"] by (auto simp: start_state_def well_formed_initial)

theorem star_test_passes_without_first_round_witness:
  "\<exists>h'. run_test_c2_subscribe_star_wildcard script_os script_c2 (generate_topics True)
      (start_state (star_script ''something else'')) = Some (Ret (), h') \<and>
    status_is ''c2_subscribe_star_wildcard'' ''passed'' h'"
proof -
  have "\<not> contains (topic_print (wildcard_topics ! 8)) ''something else''"
    by (simp add: topics_defs topic_print_def startswith_def)
  then show ?thesis
    using star_test_passes_without_first_round [of "''something else''"
        "start_state (star_script ''something else'')"]
    by (auto simp: start_state_def)
qed

text \<open>C1 prints the lines of the broker for the datagrams.\<close>

lemma script_answers: "answers script_os 7 ls (map Some ls)"
  by (induction ls) (simp_all add: script_fields)

theorem data_subscribed_accepts_pipeline_witness:
  "\<exists>ls h'. run_test_data_subscribed script_os script_c2 script_c2 (generate_topics False) (start_state (map Some ls)) =
      Some (Ret (), h') \<and> status_is ''data_subscribed'' ''passed'' h'"
proof -
  let ?addr = "\<lparr>sin_port = 40000, sin_addr = [127, 0, 0, 1]\<rparr>" and ?junk = "\<lambda>_ :: nat. replicate 16 (CHR ''x'')"
  have shown: "list_all2 (\<lambda>t d. \<exists>l. delivered_line d ?addr (?junk 0) = Some l \<and> contains (topic_print t) l)
      (generate_topics False) plain_datagrams"
    using all_expected_shown [of ?addr "?junk 0" False] by simp
  define ls where "ls = map (\<lambda>d. the (delivered_line d ?addr (?junk 0))) plain_datagrams"
  have len: "length ls = length (generate_topics False)"
    using list_all2_lengthD [OF shown] by (simp add: ls_def)
  have lines: "\<forall>i < length ls. 16 \<le> length (?junk i) \<and> delivered_line (plain_datagrams ! i) ?addr (?junk i) = Some (ls ! i)"
    using shown by (auto simp: ls_def list_all2_conv_all_nth)
  have "\<forall>g. world g = world (start_state (map Some ls)) \<longrightarrow>
      (\<exists>g'. run_udp_client_default script_os g = Some (Ret (), g') \<and> answers script_os (proc script_c2) ls (world g'))"
    by (simp add: run_udp_client_default_def script_udp script_c2_fields start_state_def script_answers)
  from data_subscribed_accepts_pipeline [OF script_c2_fields(1) len this, of script_c2 ?addr ?junk] lines
  show ?thesis by auto
qed

section \<open>The parameter files\<close>

text \<open>
  A system whose state is the text last written to a parameter file, which is shown with tabs for its
  blanks; programs start at once,
  say nothing, and end when told if \<open>stops\<close> holds.
\<close>

definition tabbed :: "string \<Rightarrow> string" where
  "tabbed s = map (\<lambda>c. if c = CHR '' '' then CHR 0x09 else c) s"

definition param_os :: "bool \<Rightarrow> string os" where
  "param_os stops =
    \<lparr>os_popen = \<lambda>cmd dir w. (Inr 1, w),
     os_terminate = \<lambda>pid w. w,
     os_wait = \<lambda>pid n w. (stops, w),
     os_write = \<lambda>pid s w. Some (Inr (), w),
     os_readline = \<lambda>pid ch w. None,
     os_readline_within = \<lambda>pid ch n w. (None, w),
     os_poll_none = \<lambda>pid w. (True, w),
     os_sleep = \<lambda>n w. w,
     os_shell = \<lambda>cmd w. Some w,
     os_path_exists = \<lambda>p w. True,
     os_first_line = \<lambda>p w. Inr (tabbed w @ newline),
     os_access_w = \<lambda>p w. True,
     os_open_write = \<lambda>p w. (Inr (), w),
     os_file_write = \<lambda>p s w. s\<rparr>"

definition param_state :: "string harness" where
  "param_state = start_state ''4096 131072 6291456''"

lemma param_permits: "permits (param_os b)"
  by (simp add: permits_def param_os_def)

lemma param_readable: "readable (param_os b) (world param_state) p [''4096'', ''131072'', ''6291456'']"
proof -
  have "split_ws (tabbed ''4096 131072 6291456'' @ newline) = [''4096'', ''131072'', ''6291456'']"
    by code_simp
  then show ?thesis by (simp add: readable_def param_os_def param_state_def start_state_def)
qed

lemma param_sysctl: "sysctl_file (param_os b)"
proof -
  have "CHR '' '' \<notin> set (str_nat n)" for n using word_str_nat [of n] by (auto simp: word_str_def is_space_def)
  then have "tabbed (str_nat n) = str_nat n" for n by (auto simp: tabbed_def intro!: map_idI)
  then show ?thesis by (simp add: sysctl_file_def param_os_def kernel_line_def) (simp add: tabbed_def)
qed

lemma param_line: "os_first_line (param_os b) p (world param_state) = Inr (kernel_line 4096 131072 6291456)"
  by (simp add: param_os_def param_state_def start_state_def tabbed_def kernel_line_def str_nat.simps digit_char_def
      char_of_small)

theorem procfs_roundtrip_witness:
  "\<exists>h'. set_procfs_values (param_os True) False [str_nat 4096, str_nat 131072, str_nat 6291456] param_state =
      Some (Ret True, h') \<and>
    get_procfs_values (param_os True) False h' = Some (Ret [str_nat 4096, str_nat 131072, str_nat 6291456], h')"
  using procfs_roundtrip [OF param_permits param_sysctl param_line, of True False] by auto

theorem quick_flow_exception_leaves_buffers_witness:
  "\<exists>h'. run_test_quick_flow (param_os False) script_c2 (generate_topics False) param_state =
      Some (Exc TimeoutExpired, h') \<and>
    written h' = [(procfs_path True, ''5 5 5''), (procfs_path False, ''5 5 5'')]"
  using quick_flow_exception_leaves_buffers [OF param_permits param_readable param_readable,
      of False script_c2 "generate_topics False"]
  by (simp add: param_os_def param_state_def start_state_def)

lemma param_start: "start (param_os b) p h = Some (Ret (p\<lparr>proc := 1, started := True\<rparr>), h)"
  by (simp add: start_def param_os_def py_eqs)

lemma param_read: "\<exists>l. get_output_timeout (param_os b) p n h = Some (Ret l, h)"
  by (simp add: get_output_timeout_def read_timeout_def param_os_def py_eqs)

lemma param_udp: "run_udp_client_default (param_os True) h = Some (Ret (), h)"
proof -
  have loop: "for_range n (andthen (get_output_timeout (param_os True) p 1) (ret ())) h = Some (Ret (), h)"
    for n p and h :: "string harness"
  proof (induction n)
    case (Suc n)
    with param_read [of True p 1 h] show ?case by (auto simp: for_range_Suc py_eqs)
  qed (simp add: py_eqs)
  have stop: "started p \<Longrightarrow> finish (param_os True) p h = Some (Ret (p\<lparr>started := False\<rparr>), h)" for p
    by (simp add: finish_def param_os_def py_eqs)
  show ?thesis
    by (simp add: run_udp_client_default_def run_udp_client_def bnd_app andthen_app param_start loop stop
          ret_app del: One_nat_def)
qed

lemma param_check: "\<exists>b' h'. check_each (param_os True) c i topics b h = Some (Ret b', h')"
proof -
  have one: "\<exists>b h'. check_subscriber_output (param_os True) c i t h = Some (Ret b, h')" for t h
    using param_read [of True c 1 h]
    by (auto simp: check_subscriber_output_def bnd_app andthen_app say_def print_text_app ret_app)
  show ?thesis
  proof (induction topics arbitrary: b h)
    case Nil
    show ?case by (simp add: check_each_def ret_app)
  next
    case (Cons t topics)
    obtain b1 h1 where "check_subscriber_output (param_os True) c i (topic_print t) h = Some (Ret b1, h1)"
      using one by blast
    with Cons [of "b1 \<and> b" h1] show ?case by (simp add: check_each_def bnd_app ret_app)
  qed
qed

lemma param_quick_flow: "\<exists>h'. run_test_quick_flow (param_os True) c topics param_state = Some (Ret (), h')"
proof -
  have runs: "for_range n (run_udp_client_default (param_os True)) h = Some (Ret (), h)" for n h
    by (induction n) (simp_all add: for_range_Suc py_eqs param_udp)
  have checks: "\<exists>b' h'. fold_each xs (\<lambda>_ success. check_each (param_os True) c ''1'' topics success) b h =
      Some (Ret b', h')" for xs b h
  proof (induction xs arbitrary: b h)
    case (Cons x xs)
    obtain b1 h1 where "check_each (param_os True) c ''1'' topics b h = Some (Ret b1, h1)"
      using param_check by blast
    with Cons [of b1 h1] show ?case by (simp add: bnd_app)
  qed (simp add: ret_app)
  have body: "\<exists>h'. quick_flow_body (param_os True) c topics h = Some (Ret (), h')" for h
  proof -
    let ?h = "h\<lparr>console := console h @ ''Generating one message for each topic 30 times in a row'' @ newline\<rparr>"
    obtain b h1 where "fold_each [0..<30] (\<lambda>_ success. check_each (param_os True) c ''1'' topics success)
        True ?h = Some (Ret b, h1)"
      using checks by blast
    then show ?thesis
      by (cases b) (simp_all add: quick_flow_body_def andthen_app bnd_app say_def print_text_app runs
          pass_test_app ret_app)
  qed
  obtain h2 where run: "run_test_quick_flow (param_os True) c topics param_state =
      andthen (quick_flow_body (param_os True) c topics) (andthen (set_procfs_values (param_os True) True
        [''4096'', ''131072'', ''6291456'']) (andthen (set_procfs_values (param_os True) False
        [''4096'', ''131072'', ''6291456'']) (ret ()))) h2"
    using quick_flow_start [OF param_permits param_readable param_readable, of True c topics] by blast
  obtain h3 where h3: "quick_flow_body (param_os True) c topics h2 = Some (Ret (), h3)"
    using body by blast
  have "\<exists>h'. set_procfs_values (param_os True) b [''4096'', ''131072'', ''6291456''] h = Some (Ret True, h')" for b h
    using set_procfs_permitted [OF param_permits, of "[''4096'', ''131072'', ''6291456'']" True b h] by auto
  then show ?thesis unfolding run using h3 by (auto simp: andthen_app ret_app split: option.splits res.splits)
     (metis option.inject prod.inject res.inject(1) res.distinct(1) option.distinct(1))+
qed

theorem quick_flow_restores_witness:
  "\<exists>h'. run_test_quick_flow (param_os True) script_c2 (generate_topics False) param_state =
      Some (Ret (), h') \<and>
    written h' = [(procfs_path True, ''5 5 5''), (procfs_path False, ''5 5 5''),
      (procfs_path True, ''4096 131072 6291456''), (procfs_path False, ''4096 131072 6291456'')]"
proof -
  obtain h' where run: "run_test_quick_flow (param_os True) script_c2 (generate_topics False) param_state =
      Some (Ret (), h')"
    using param_quick_flow by blast
  from quick_flow_restores [OF param_permits param_readable param_readable run] run show ?thesis
    by (simp add: procfs_text_def param_state_def start_state_def)
qed

end
