(* ===== verification/Topic_Match.thy ===== *)
theory Topic_Match
  imports Py_Str
begin

text \<open>
  \<open>matches_topic\<close> of \<open>server.cpp\<close>: a subscription pattern is rewritten into the text of a regular
  expression, which is matched against a topic. The fragment of ECMAScript expressions that can
  arise is parsed and matched here: plain characters, the dot, a run of non-slashes, a run of
  anything. A pattern with another special character is outside it.
\<close>

section \<open>From pattern to expression text\<close>

text \<open>\<open>regex_replace\<close> with a one-character expression replaces every occurrence of it.\<close>

definition replace_char :: "char \<Rightarrow> string \<Rightarrow> string \<Rightarrow> string" where
  "replace_char c by s = concat (map (\<lambda>x. if x = c then by else [x]) s)"

definition full_regex_pattern :: "string \<Rightarrow> string" where
  "full_regex_pattern pattern =
     (let match_one_level_wildcard = replace_char (CHR ''+'') ''[^/]+'' pattern;
          match_multi_level_wildcard = replace_char (CHR ''*'') ''.*'' match_one_level_wildcard
      in ''^'' @ match_multi_level_wildcard @ ''$'')"

section \<open>Expressions\<close>

datatype regex_item = Plain char | Dot | Dot_star | Not_slash_plus

definition special :: "char \<Rightarrow> bool" where
  "special c \<longleftrightarrow> c \<in> set ''^$.*+?()[]{}|'' \<or> c = CHR 0x5C"

fun parse_items :: "string \<Rightarrow> regex_item list option" where
  "parse_items [] = None"
| "parse_items (c # s) =
     (if c = CHR ''$'' \<and> s = [] then Some []
      else if c = CHR ''.'' \<and> s \<noteq> [] \<and> hd s = CHR ''*'' then map_option (Cons Dot_star) (parse_items (tl s))
      else if c = CHR ''.'' then map_option (Cons Dot) (parse_items s)
      else if c = CHR ''['' \<and> take 4 s = ''^/]+'' then map_option (Cons Not_slash_plus) (parse_items (drop 4 s))
      else if special c then None
      else map_option (Cons (Plain c)) (parse_items s))"

definition parse_regex :: "string \<Rightarrow> regex_item list option" where
  "parse_regex s = (case s of CHR ''^'' # t \<Rightarrow> parse_items t | _ \<Rightarrow> None)"

text \<open>The dot stands for every character but a line terminator.\<close>

definition line_end :: "char \<Rightarrow> bool" where
  "line_end c \<longleftrightarrow> c = CHR 0x0A \<or> c = CHR 0x0D"

text \<open>A whole match; a repetition either ends or takes one more character.\<close>

fun regex_match :: "regex_item list \<Rightarrow> string \<Rightarrow> bool" where
  "regex_match [] s = (s = [])"
| "regex_match (Plain d # r) [] = False"
| "regex_match (Plain d # r) (c # s) = (c = d \<and> regex_match r s)"
| "regex_match (Dot # r) [] = False"
| "regex_match (Dot # r) (c # s) = (\<not> line_end c \<and> regex_match r s)"
| "regex_match (Dot_star # r) [] = regex_match r []"
| "regex_match (Dot_star # r) (c # s) =
     (regex_match r (c # s) \<or> (\<not> line_end c \<and> regex_match (Dot_star # r) s))"
| "regex_match (Not_slash_plus # r) [] = False"
| "regex_match (Not_slash_plus # r) (c # s) =
     (c \<noteq> CHR ''/'' \<and> (regex_match r s \<or> regex_match (Not_slash_plus # r) s))"

text \<open>
  \<open>None\<close>: the pattern has another special character, and the library reads a different expression
  or refuses the text.
\<close>

definition matches_topic :: "string \<Rightarrow> string \<Rightarrow> bool option" where
  "matches_topic topic pattern =
     map_option (\<lambda>r. regex_match r topic) (parse_regex (full_regex_pattern pattern))"

section \<open>What a pattern means\<close>

text \<open>
  The reference: a relation between patterns and topics, with no regular expression in it.
\<close>

inductive covers :: "string \<Rightarrow> string \<Rightarrow> bool" where
  Nil: "covers [] []"
| One: "w \<noteq> [] \<Longrightarrow> CHR ''/'' \<notin> set w \<Longrightarrow> covers p t \<Longrightarrow> covers (CHR ''+'' # p) (w @ t)"
| Many: "list_all (\<lambda>c. \<not> line_end c) w \<Longrightarrow> covers p t \<Longrightarrow> covers (CHR ''*'' # p) (w @ t)"
| Any: "\<not> line_end c \<Longrightarrow> covers p t \<Longrightarrow> covers (CHR ''.'' # p) (c # t)"
| Same: "c \<notin> set ''+*.'' \<Longrightarrow> covers p t \<Longrightarrow> covers (c # p) (c # t)"

inductive_cases covers_NilE: "covers [] t"
inductive_cases covers_ConsE: "covers (c # p) t"

definition item_of :: "char \<Rightarrow> regex_item" where
  "item_of c = (if c = CHR ''+'' then Not_slash_plus else if c = CHR ''*'' then Dot_star
     else if c = CHR ''.'' then Dot else Plain c)"

text \<open>Patterns the code is meant for: no special character but the wildcards, and the dot.\<close>

definition plain_pattern :: "string \<Rightarrow> bool" where
  "plain_pattern p \<longleftrightarrow> list_all (\<lambda>c. special c \<longrightarrow> c \<in> set ''+*.'') p"

lemma replace_char_simps [simp]:
  "replace_char c by [] = []"
  "replace_char c by (x # s) = (if x = c then by else [x]) @ replace_char c by s"
  by (simp_all add: replace_char_def)

lemma replace_char_append [simp]: "replace_char c by (s @ t) = replace_char c by s @ replace_char c by t"
  by (simp add: replace_char_def)

lemma replace_char_none: "c \<notin> set s \<Longrightarrow> replace_char c by s = s"
  by (induction s) auto

lemma replaced_head:
  "hd (replace_char (CHR ''*'') ''.*'' (replace_char (CHR ''+'') ''[^/]+'' p) @ ''$'') \<noteq> CHR ''*''"
  by (cases p) auto

lemma parse_pattern:
  "plain_pattern p \<Longrightarrow>
     parse_items (replace_char (CHR ''*'') ''.*'' (replace_char (CHR ''+'') ''[^/]+'' p) @ ''$'') =
       Some (map item_of p)"
proof (induction p)
  case (Cons c p)
  then have IH: "parse_items (replace_char (CHR ''*'') ''.*'' (replace_char (CHR ''+'') ''[^/]+'' p) @ ''$'') =
      Some (map item_of p)" and c: "special c \<longrightarrow> c \<in> set ''+*.''"
    by (simp_all add: plain_pattern_def)
  consider "c = CHR ''+''" | "c = CHR ''*''" | "c = CHR ''.''" | "\<not> special c" "c \<noteq> CHR ''+''" "c \<noteq> CHR ''*''" "c \<noteq> CHR ''.''"
    using c by auto
  then show ?case
  proof cases
    case 3
    with IH replaced_head [of p] show ?thesis by (simp add: item_of_def)
  next
    case 4
    then have "c \<noteq> CHR ''$''" "c \<noteq> CHR ''[''" by (auto simp: special_def)
    with 4 IH show ?thesis by (simp add: item_of_def)
  qed (simp_all add: IH item_of_def)
qed simp

lemma matches_topic_plain:
  "plain_pattern p \<Longrightarrow> matches_topic t p = Some (regex_match (map item_of p) t)"
  by (simp add: matches_topic_def full_regex_pattern_def parse_regex_def parse_pattern Let_def)

lemma match_star_iff:
  "regex_match (Dot_star # r) s \<longleftrightarrow>
     (\<exists>u v. s = u @ v \<and> list_all (\<lambda>c. \<not> line_end c) u \<and> regex_match r v)"
proof (induction s)
  case Nil
  show ?case by simp
next
  case (Cons c s)
  show ?case (is "?L \<longleftrightarrow> ?R")
  proof
    assume ?L
    then consider "regex_match r (c # s)" | "\<not> line_end c" "regex_match (Dot_star # r) s" by auto
    then show ?R
    proof cases
      case 1
      then show ?thesis by (intro exI [of _ "[]"] exI [of _ "c # s"]) simp
    next
      case 2
      with Cons obtain u v where "s = u @ v" "list_all (\<lambda>c. \<not> line_end c) u" "regex_match r v" by auto
      with 2 show ?thesis by (intro exI [of _ "c # u"] exI [of _ v]) simp
    qed
  next
    assume ?R
    then obtain u v where uv: "c # s = u @ v" "list_all (\<lambda>c. \<not> line_end c) u" "regex_match r v" by blast
    show ?L
    proof (cases u)
      case Nil
      with uv have "regex_match r (c # s)" by simp
      then show ?thesis by simp
    next
      case (Cons d u')
      with uv Cons.IH show ?thesis by auto
    qed
  qed
qed

lemma match_plus_iff:
  "regex_match (Not_slash_plus # r) s \<longleftrightarrow>
     (\<exists>u v. s = u @ v \<and> u \<noteq> [] \<and> CHR ''/'' \<notin> set u \<and> regex_match r v)"
proof (induction s)
  case Nil
  show ?case by simp
next
  case (Cons c s)
  show ?case (is "?L \<longleftrightarrow> ?R")
  proof
    assume ?L
    then have c: "c \<noteq> CHR ''/''" by simp
    from \<open>?L\<close> consider "regex_match r s" | "regex_match (Not_slash_plus # r) s" by auto
    then show ?R
    proof cases
      case 1
      with c show ?thesis by (intro exI [of _ "[c]"] exI [of _ s]) simp
    next
      case 2
      with Cons obtain u v where "s = u @ v" "CHR ''/'' \<notin> set u" "regex_match r v" by auto
      with c show ?thesis by (intro exI [of _ "c # u"] exI [of _ v]) simp
    qed
  next
    assume ?R
    then obtain u v where uv: "c # s = u @ v" "u \<noteq> []" "CHR ''/'' \<notin> set u" "regex_match r v" by blast
    then obtain u' where u: "u = c # u'" "s = u' @ v" by (cases u) auto
    show ?L
    proof (cases "u' = []")
      case True
      with u uv show ?thesis by simp
    next
      case False
      with u uv Cons.IH have "regex_match (Not_slash_plus # r) s" by auto
      with u uv show ?thesis by auto
    qed
  qed
qed

lemma item_of_simps:
  "item_of (CHR ''+'') = Not_slash_plus" "item_of (CHR ''*'') = Dot_star" "item_of (CHR ''.'') = Dot"
  "c \<notin> set ''+*.'' \<Longrightarrow> item_of c = Plain c"
  by (auto simp: item_of_def)

lemma match_covers: "regex_match (map item_of p) t \<longleftrightarrow> covers p t"
proof (induction p arbitrary: t)
  case Nil
  show ?case by (auto intro: covers.Nil elim: covers_NilE)
next
  case (Cons c p)
  consider (plus) "c = CHR ''+''" | (star) "c = CHR ''*''" | (dot) "c = CHR ''.''"
    | (same) "c \<notin> set ''+*.''" by auto
  then show ?case
  proof cases
    case plus
    then show ?thesis
      by (auto simp: item_of_simps match_plus_iff Cons.IH intro: covers.One elim!: covers_ConsE)
  next
    case star
    then show ?thesis
      by (auto simp: item_of_simps match_star_iff Cons.IH intro: covers.Many elim!: covers_ConsE)
  next
    case dot
    then show ?thesis
      by (cases t) (auto simp: item_of_simps Cons.IH intro: covers.Any elim!: covers_ConsE)
  next
    case same
    then show ?thesis
      by (cases t) (auto simp: item_of_simps Cons.IH intro: covers.Same elim!: covers_ConsE)
  qed
qed

lemma matches_plain: "plain_pattern p \<Longrightarrow> matches_topic t p = Some (covers p t)"
  by (simp add: matches_topic_plain match_covers)

text \<open>
  C11. On a pattern without special characters but the two wildcards and the dot, the server's matching through
  regular expressions is the reference relation: \<open>+\<close> stands for one or more characters
  other than a slash, \<open>*\<close> for any characters but line ends, the dot for one such character, and every other
  character for itself.
\<close>

theorem matches_topic_covers:
  "plain_pattern p \<Longrightarrow> matches_topic t p = Some (covers p t)"
  by (rule matches_plain)

section \<open>Patterns by levels\<close>

text \<open>A topic is a sequence of levels between slashes; a pattern may have \<open>+\<close> in place of a level.\<close>

definition path :: "string list \<Rightarrow> string" where
  "path levels = join ''/'' levels"

definition level :: "string \<Rightarrow> bool" where
  "level s \<longleftrightarrow> CHR ''/'' \<notin> set s"

definition literal_level :: "string \<Rightarrow> bool" where
  "literal_level s \<longleftrightarrow> level s \<and> list_all (\<lambda>c. \<not> special c) s"

definition level_matches :: "string \<Rightarrow> string \<Rightarrow> bool" where
  "level_matches p t = (if p = ''+'' then t \<noteq> [] else t = p)"

lemma path_simps: "path [] = []" "path [x] = x" "path (x # y # xs) = x @ CHR ''/'' # path (y # xs)"
  by (simp_all add: path_def join_def)

lemma covers_literal:
  "list_all (\<lambda>c. \<not> special c) l \<Longrightarrow> covers (l @ p) t \<longleftrightarrow> (\<exists>t'. t = l @ t' \<and> covers p t')"
proof (induction l arbitrary: t)
  case (Cons c l)
  then have c: "c \<notin> set ''+*.''" by (auto simp: special_def)
  have "covers ((c # l) @ p) t \<longleftrightarrow> (\<exists>t'. t = c # t' \<and> covers (l @ p) t')"
    using c by (auto intro: covers.Same elim!: covers_ConsE)
  with Cons show ?case by auto
qed simp

lemma covers_plus:
  "covers (CHR ''+'' # p) t \<longleftrightarrow> (\<exists>w t'. t = w @ t' \<and> w \<noteq> [] \<and> level w \<and> covers p t')"
  by (auto simp: level_def intro: covers.One elim!: covers_ConsE)

lemma covers_slash: "covers (CHR ''/'' # p) t \<longleftrightarrow> (\<exists>t'. t = CHR ''/'' # t' \<and> covers p t')"
  by (auto intro: covers.Same elim!: covers_ConsE)

lemma covers_nil: "covers [] t \<longleftrightarrow> t = []"
  by (auto intro: covers.Nil elim: covers_NilE)

lemma level_split:
  "level x \<Longrightarrow> level w \<Longrightarrow> x @ CHR ''/'' # s = w @ CHR ''/'' # t \<longleftrightarrow> x = w \<and> s = t"
proof (induction x arbitrary: w)
  case Nil
  then show ?case by (cases w) (auto simp: level_def)
next
  case (Cons c x)
  then show ?case by (cases w) (auto simp: level_def)
qed

text \<open>One level of pattern against what a topic has up to its next slash.\<close>

lemma covers_level:
  assumes "l = ''+'' \<or> literal_level l"
  shows "covers (l @ CHR ''/'' # p) t \<longleftrightarrow>
      (\<exists>w t'. level w \<and> t = w @ CHR ''/'' # t' \<and> level_matches l w \<and> covers p t')"
    and "covers l t \<longleftrightarrow> level t \<and> level_matches l t"
proof -
  have lit: "l \<noteq> ''+'' \<Longrightarrow> level l \<and> list_all (\<lambda>c. \<not> special c) l"
    using assms by (simp add: literal_level_def)
  show "covers (l @ CHR ''/'' # p) t \<longleftrightarrow>
      (\<exists>w t'. level w \<and> t = w @ CHR ''/'' # t' \<and> level_matches l w \<and> covers p t')"
    using lit by (cases "l = ''+''")
      (auto simp: level_matches_def covers_plus covers_slash covers_literal)
  show "covers l t \<longleftrightarrow> level t \<and> level_matches l t"
    using lit covers_literal [of l "[]" t] by (cases "l = ''+''")
      (auto simp: level_matches_def covers_plus covers_nil)
qed

lemma covers_path:
  assumes "\<forall>l \<in> set ls. l = ''+'' \<or> literal_level l" and "\<forall>t \<in> set ts. level t" and "ls \<noteq> []" and "ts \<noteq> []"
  shows "covers (path ls) (path ts) \<longleftrightarrow> list_all2 level_matches ls ts"
  using assms
proof (induction ls arbitrary: ts rule: induct_list012)
  case (2 l)
  from 2(3,4) consider t where "ts = [t]" | t u us where "ts = t # u # us"
    by (cases ts; cases "tl ts") auto
  then show ?case
  proof cases
    case 1
    with 2 show ?thesis by (simp add: path_simps covers_level)
  next
    case 2
    then show ?thesis using "2.prems" by (simp add: path_simps covers_level level_def)
  qed
next
  case (3 l m ls)
  from 3(6) consider t where "ts = [t]" | t u us where "ts = t # u # us"
    by (cases ts; cases "tl ts") auto
  then show ?case
  proof cases
    case 1
    with 3(3,4) show ?thesis
      by (auto simp: path_simps covers_level level_def)
  next
    case 2
    have "covers (path (l # m # ls)) (path ts) \<longleftrightarrow>
        level_matches l t \<and> covers (path (m # ls)) (path (u # us))"
      using 3(3,4) 2 by (auto simp: path_simps covers_level level_split)
    with 3 2 show ?thesis by simp
  qed
qed simp

lemma set_path: "set (path ls) \<subseteq> insert (CHR ''/'') (\<Union> (set ` set ls))"
  by (induction ls rule: induct_list012) (auto simp: path_simps)

lemma path_plain_pattern:
  assumes "\<forall>l \<in> set ls. l = ''+'' \<or> literal_level l"
  shows "plain_pattern (path ls)"
proof -
  have "special c \<longrightarrow> c \<in> set ''+*.''" if c: "c \<in> set (path ls)" for c
  proof (cases "c = CHR ''/''")
    case True
    then show ?thesis by (simp add: special_def)
  next
    case False
    with c set_path [of ls] obtain l where "l \<in> set ls" "c \<in> set l" by blast
    with assms show ?thesis by (auto simp: literal_level_def list_all_iff)
  qed
  then show ?thesis by (simp add: plain_pattern_def list_all_iff)
qed

text \<open>
  C37. A pattern made of levels, each a literal text or a single \<open>+\<close>, matches a topic exactly when
  both have the same number of levels and each level of the topic is the literal one, or is any
  nonempty text where the pattern has \<open>+\<close>.
\<close>

theorem matches_topic_levels:
  assumes "\<forall>l \<in> set ls. l = ''+'' \<or> literal_level l" and "\<forall>t \<in> set ts. level t" and "ls \<noteq> []" and "ts \<noteq> []"
  shows "matches_topic (path ts) (path ls) = Some (list_all2 level_matches ls ts)"
  using assms by (simp add: matches_plain path_plain_pattern covers_path)

text \<open>
  A pattern with one \<open>*\<close> between two literal texts matches exactly the topics that begin with
  the first and end with the second, without overlap and without a line end in between; the star
  may stand for nothing and for several levels.
\<close>

lemma matches_topic_star:
  assumes "list_all (\<lambda>c. \<not> special c) p" and "list_all (\<lambda>c. \<not> special c) q"
  shows "matches_topic t (p @ ''*'' @ q) =
    Some (\<exists>w. t = p @ w @ q \<and> list_all (\<lambda>c. \<not> line_end c) w)"
proof -
  have "plain_pattern (p @ ''*'' @ q)"
    using assms by (auto simp: plain_pattern_def list_all_iff)
  moreover have "covers (p @ ''*'' @ q) t \<longleftrightarrow> (\<exists>w. t = p @ w @ q \<and> list_all (\<lambda>c. \<not> line_end c) w)"
  proof -
    have "covers (CHR ''*'' # q) s \<longleftrightarrow> (\<exists>w. s = w @ q \<and> list_all (\<lambda>c. \<not> line_end c) w)" for s
      using covers_literal [OF assms(2), of "[]"]
      by (auto simp: covers_nil intro: covers.Many elim!: covers_ConsE)
    then show ?thesis using covers_literal [OF assms(1)] by auto
  qed
  ultimately show ?thesis by (simp only: matches_plain)
qed

end
