(* ===== verification/Server.thy ===== *)
theory Server
  imports Delivery Topic_Match
begin

text \<open>
  The broker \<open>server.cpp\<close>: the database of subscribers, the array of polled descriptors, the handlers
  of the packets of subscribers and of datagrams, and one turn of the loop of \<open>start_server\<close> for
  each kind of event \<open>poll\<close> reports. Descriptors are numbers the system chooses.
\<close>

section \<open>State\<close>

record subscriber =
  sub_fd :: nat
  sub_id :: string
  sub_topics :: "string list"
  sub_online :: bool

text \<open>
  \<open>sv_fds\<close> lists the descriptors of the array: standard input, the two listening sockets,
  then the subscribers; \<open>sv_fds_room\<close> is the size of its allocation in bytes. \<open>buff\<close> is the global
  buffer. The last three fields record the effects: text on standard output, packets sent (descriptor,
  action, payload), descriptors closed.
\<close>

record server =
  subs :: "subscriber list"
  sv_fds :: "nat list"
  sv_fds_capacity :: nat
  sv_fds_room :: nat
  buff :: string
  stdout_text :: string
  sent :: "(nat \<times> nat \<times> string) list"
  closed :: "nat list"

datatype outcome = Running server | Exited nat server | Broken

definition and_then :: "outcome \<Rightarrow> (server \<Rightarrow> outcome) \<Rightarrow> outcome" where
  "and_then r k = (case r of Running st \<Rightarrow> k st | Exited n st \<Rightarrow> Exited n st | Broken \<Rightarrow> Broken)"

definition BACKLOG_MAX :: nat where "BACKLOG_MAX = 64"
definition MAX_ID :: nat where "MAX_ID = 4"
definition sizeof_pollfd :: nat where "sizeof_pollfd = 8"

definition clear_buffer :: "server \<Rightarrow> server" where
  "clear_buffer st = st\<lparr>buff := replicate MAX_LEN NUL\<rparr>"

text \<open>
  A received packet is put at the start of the buffer; what was behind it stays. A packet that is
  longer than the buffer overruns it.
\<close>

definition packet_fits :: "nat \<times> string \<Rightarrow> bool" where
  "packet_fits p \<longleftrightarrow> header_size + length (snd p) \<le> MAX_LEN"

definition fill_buffer :: "nat \<times> string \<Rightarrow> server \<Rightarrow> server" where
  "fill_buffer p st = (let bytes = packet_bytes (fst p) (snd p)
     in st\<lparr>buff := bytes @ drop (length bytes) (buff st)\<rparr>)"

definition send_to :: "nat \<Rightarrow> nat \<Rightarrow> string \<Rightarrow> server \<Rightarrow> server" where
  "send_to fd a payload st = st\<lparr>sent := sent st @ [(fd, a, payload)]\<rparr>"

definition say_out :: "string \<Rightarrow> server \<Rightarrow> server" where
  "say_out s st = st\<lparr>stdout_text := stdout_text st @ s @ newline\<rparr>"

definition close_fd :: "nat \<Rightarrow> server \<Rightarrow> server" where
  "close_fd fd st = st\<lparr>closed := closed st @ [fd]\<rparr>"

section \<open>The array of descriptors\<close>

text \<open>
  When the array is full, \<open>realloc\<close> is given twice the number of elements as a number of bytes.
  Writing the new element outside the allocation is undefined.
\<close>

definition add_new_pollfd_struc :: "nat \<Rightarrow> server \<Rightarrow> outcome" where
  "add_new_pollfd_struc fd st =
     (let st' = (if length (sv_fds st) = sv_fds_capacity st
                 then st\<lparr>sv_fds_room := sv_fds_capacity st * 2, sv_fds_capacity := sv_fds_capacity st * 2\<rparr>
                 else st)
      in if sizeof_pollfd * (length (sv_fds st') + 1) \<le> sv_fds_room st'
         then Running (st'\<lparr>sv_fds := sv_fds st' @ [fd]\<rparr>) else Broken)"

text \<open>\<open>push_basic_fds\<close>, given the descriptors of the two listening sockets.\<close>

definition push_basic_fds :: "nat \<Rightarrow> nat \<Rightarrow> server \<Rightarrow> outcome" where
  "push_basic_fds tcp udp st =
     and_then (add_new_pollfd_struc 0 (st\<lparr>sv_fds := [], sv_fds_capacity := BACKLOG_MAX,
       sv_fds_room := BACKLOG_MAX * sizeof_pollfd\<rparr>)) (\<lambda>st.
     and_then (add_new_pollfd_struc tcp st) (add_new_pollfd_struc udp))"

text \<open>\<open>get_poll_struc_by_fd\<close> and the removal of the element it finds.\<close>

definition remove_fd :: "nat \<Rightarrow> nat list \<Rightarrow> nat list" where
  "remove_fd fd fds = remove1 fd fds"

section \<open>The database of subscribers\<close>

text \<open>The loops over \<open>subs\<close> act on the first element that satisfies their test.\<close>

fun update_first :: "('a \<Rightarrow> bool) \<Rightarrow> ('a \<Rightarrow> 'a) \<Rightarrow> 'a list \<Rightarrow> 'a list" where
  "update_first P f [] = []"
| "update_first P f (x # xs) = (if P x then f x # xs else x # update_first P f xs)"

definition get_subscriber_by_fd :: "nat \<Rightarrow> server \<Rightarrow> subscriber option" where
  "get_subscriber_by_fd fd st = List.find (\<lambda>s. sub_fd s = fd) (subs st)"

definition update_subscriber :: "nat \<Rightarrow> (subscriber \<Rightarrow> subscriber) \<Rightarrow> server \<Rightarrow> server" where
  "update_subscriber fd f st = st\<lparr>subs := update_first (\<lambda>s. sub_fd s = fd) f (subs st)\<rparr>"

text \<open>
  \<open>check_and_add_new_sub\<close>: \<open>Some id\<close> is the pointer to the identifier, \<open>None\<close> the null pointer. The
  copy of a new identifier of four characters or more overruns the member \<open>id\<close>.
\<close>

definition check_and_add_new_sub :: "nat \<Rightarrow> server \<Rightarrow> (string option \<times> server) cresult" where
  "check_and_add_new_sub sockfd st =
     (let recv_id = cstr (drop header_size (buff st))
      in case List.find (\<lambda>s. sub_id s = recv_id) (subs st) of
           Some s \<Rightarrow>
             if \<not> sub_online s
             then Done (Some recv_id, st\<lparr>subs := update_first (\<lambda>s. sub_id s = recv_id)
               (\<lambda>s. s\<lparr>sub_fd := sockfd, sub_online := True\<rparr>) (subs st)\<rparr>)
             else Done (None, say_out (''Client '' @ recv_id @ '' already connected.'') st)
         | None \<Rightarrow>
             if length recv_id + 1 \<le> MAX_ID
             then Done (Some recv_id, st\<lparr>subs := subs st @
               [\<lparr>sub_fd = sockfd, sub_id = recv_id, sub_topics = [], sub_online = True\<rparr>]\<rparr>)
             else Undefined)"

definition send_shutdown_to_intruder :: "nat \<Rightarrow> server \<Rightarrow> server" where
  "send_shutdown_to_intruder sockfd st = send_to sockfd SHUTDOWN_INTRUDER [] (clear_buffer st)"

section \<open>Datagrams\<close>

text \<open>\<open>sub_is_interesed_in_topic\<close>, \<open>None\<close> when a pattern is outside the fragment of expressions.\<close>

fun sub_is_interesed :: "string list \<Rightarrow> string \<Rightarrow> bool option" where
  "sub_is_interesed [] topic = Some False"
| "sub_is_interesed (p # ps) topic =
     (case matches_topic topic p of
        None \<Rightarrow> None | Some True \<Rightarrow> Some True | Some False \<Rightarrow> sub_is_interesed ps topic)"

fun get_subs_by_topic :: "subscriber list \<Rightarrow> string \<Rightarrow> subscriber list option" where
  "get_subs_by_topic [] topic = Some []"
| "get_subs_by_topic (s # ss) topic =
     (case sub_is_interesed (sub_topics s) topic of
        None \<Rightarrow> None
      | Some b \<Rightarrow> map_option (\<lambda>r. if b \<and> sub_online s then s # r else r) (get_subs_by_topic ss topic))"

definition send_packet_to_subscribers :: "notification \<Rightarrow> server \<Rightarrow> outcome" where
  "send_packet_to_subscribers n st =
     (case get_subs_by_topic (subs st) (cstr (ntopic n)) of
        None \<Rightarrow> Broken
      | Some interested \<Rightarrow>
          Running (fold (\<lambda>s. send_to (sub_fd s) NOTIFICATION_ACTION (notification_bytes n)) interested st))"

definition handle_datagram :: "string \<Rightarrow> sockaddr \<Rightarrow> string \<Rightarrow> server \<Rightarrow> outcome" where
  "handle_datagram d addr junk st =
     (let st = st\<lparr>buff := receive_datagram d\<rparr>
      in case parse_udp_packet (buff st) addr junk of
           Undefined \<Rightarrow> Broken | Done n \<Rightarrow> send_packet_to_subscribers n st)"

section \<open>Packets of subscribers\<close>

definition handle_shutdown_sub :: "nat \<Rightarrow> server \<Rightarrow> outcome" where
  "handle_shutdown_sub fd st =
     (case get_subscriber_by_fd fd st of
        None \<Rightarrow> Exited 1 st
      | Some s \<Rightarrow>
          let st = update_subscriber fd (\<lambda>s. s\<lparr>sub_online := False\<rparr>) (close_fd (sub_fd s) st)
          in if fd \<notin> set (sv_fds st) then Exited 1 st
             else Running (say_out (''Client '' @ sub_id s @ '' disconnected.'')
               (st\<lparr>sv_fds := remove_fd fd (sv_fds st)\<rparr>)))"

definition handle_subscribe :: "nat \<Rightarrow> server \<Rightarrow> outcome" where
  "handle_subscribe fd st =
     (let topic = cstr (drop header_size (buff st))
      in case get_subscriber_by_fd fd st of
           None \<Rightarrow> Exited 1 st
         | Some s \<Rightarrow> Running (update_subscriber fd (\<lambda>s. s\<lparr>sub_topics := sub_topics s @ [topic]\<rparr>) st))"

definition handle_unsubscribe :: "nat \<Rightarrow> server \<Rightarrow> outcome" where
  "handle_unsubscribe fd st =
     (let topic = cstr (drop header_size (buff st))
      in case get_subscriber_by_fd fd st of
           None \<Rightarrow> Exited 1 st
         | Some s \<Rightarrow> if topic \<notin> set (sub_topics s) then Exited 1 st
             else Running (update_subscriber fd (\<lambda>s. s\<lparr>sub_topics := remove1 topic (sub_topics s)\<rparr>) st))"

definition parse_tcp_client_message :: "nat \<Rightarrow> nat \<times> string \<Rightarrow> server \<Rightarrow> outcome" where
  "parse_tcp_client_message fd p st =
     (let st = fill_buffer p st
      in if \<not> packet_fits p then Broken
         else if fst p = SUBSCRIBE_ACTION then handle_subscribe fd st
         else if fst p = UNSUBSCRIBE_ACTION then handle_unsubscribe fd st
         else if fst p = SHUTDOWN_CLOSE then handle_shutdown_sub fd st
         else Running st)"

section \<open>The loop\<close>

text \<open>
  What one call of \<open>poll\<close> leads to. \<open>Connecting\<close>: the descriptor \<open>accept\<close> yields, the peer and the
  first packet. \<open>Datagram_in\<close>: a datagram, its sender, and the old contents of the memory the
  packet is built in. \<open>Clients_ready\<close>: the descriptors with input, and the packet each sends.
\<close>

datatype event =
    Stdin_ready
  | Connecting nat sockaddr "nat \<times> string"
  | Datagram_in string sockaddr string
  | Clients_ready "(nat \<times> nat \<times> string) list"

definition shutdown_server :: "server \<Rightarrow> outcome" where
  "shutdown_server st = Exited 0 (fold close_fd (take 2 (drop 1 (sv_fds st)))
     (fold (\<lambda>fd st. close_fd fd (send_to fd SHUTDOWN_CLOSE [] (clear_buffer st))) (drop 3 (sv_fds st)) st))"

definition handle_connection :: "nat \<Rightarrow> sockaddr \<Rightarrow> nat \<times> string \<Rightarrow> server \<Rightarrow> outcome" where
  "handle_connection fd addr p st =
     (if \<not> packet_fits p then Broken else
      case check_and_add_new_sub fd (fill_buffer p st) of
        Undefined \<Rightarrow> Broken
      | Done (None, st') \<Rightarrow> Running (send_shutdown_to_intruder fd st')
      | Done (Some i, st') \<Rightarrow> and_then (add_new_pollfd_struc fd st') (\<lambda>st'.
          Running (say_out (''New client '' @ i @ '' connected from '' @ inet_ntop (sin_addr addr) @ '':'' @
            str_nat (sin_port addr) @ ''.'') st')))"

text \<open>
  The loop over the ready subscribers: the array shrinks when one of them leaves, the index
  goes on.
\<close>

lemma parse_message_fds:
  "parse_tcp_client_message fd p st = Running st' \<Longrightarrow> length (sv_fds st') \<le> length (sv_fds st)"
  by (auto simp: parse_tcp_client_message_def handle_subscribe_def handle_unsubscribe_def
      handle_shutdown_sub_def update_subscriber_def fill_buffer_def close_fd_def say_out_def Let_def
      remove_fd_def length_remove1 split: if_splits option.splits)

function clients_loop :: "nat \<Rightarrow> (nat \<times> nat \<times> string) list \<Rightarrow> server \<Rightarrow> outcome" where
  "clients_loop i ready st =
     (if i < length (sv_fds st)
      then (case map_of ready (sv_fds st ! i) of
              None \<Rightarrow> clients_loop (i + 1) ready st
            | Some p \<Rightarrow> (case parse_tcp_client_message (sv_fds st ! i) p st of
                  Running st' \<Rightarrow> clients_loop (i + 1) ready st'
                | r \<Rightarrow> r))
      else Running st)"
  by auto
termination
  by (relation "measure (\<lambda>(i, ready, st). length (sv_fds st) - i)") (auto dest!: parse_message_fds)

declare clients_loop.simps [simp del]

definition step :: "event \<Rightarrow> server \<Rightarrow> outcome" where
  "step e st =
     (let st = clear_buffer st
      in case e of
           Stdin_ready \<Rightarrow> shutdown_server st
         | Connecting fd addr p \<Rightarrow> handle_connection fd addr p st
         | Datagram_in d addr junk \<Rightarrow> handle_datagram d addr junk st
         | Clients_ready ready \<Rightarrow> clients_loop 3 ready st)"

fun run_server :: "event list \<Rightarrow> server \<Rightarrow> outcome" where
  "run_server [] st = Running st"
| "run_server (e # es) st = and_then (step e st) (run_server es)"

end
