(* ===== verification/Broker_Props.thy ===== *)
theory Broker_Props
  imports Server
begin

text \<open>
  Properties of the broker: what its database and its array of descriptors have in common in every
  reachable state, what the packets of a subscriber change, who gets a datagram, and what goes wrong
  when the system reuses a descriptor.
\<close>

section \<open>First matches under distinct keys\<close>

lemma update_first_map:
  "distinct (map key xs) \<Longrightarrow>
     update_first (\<lambda>x. key x = k) f xs = map (\<lambda>x. if key x = k then f x else x) xs"
proof (induction xs)
  case (Cons x xs)
  show ?case
  proof (cases "key x = k")
    case True
    from Cons.prems have "key x \<notin> key ` set xs" by simp
    with True have "\<forall>y \<in> set xs. key y \<noteq> k" by blast
    then have "map (\<lambda>x. if key x = k then f x else x) xs = xs" by (simp add: map_idI)
    with True show ?thesis by simp
  qed (use Cons in simp)
qed simp

lemma find_key:
  "distinct (map key xs) \<Longrightarrow> x \<in> set xs \<Longrightarrow> List.find (\<lambda>y. key y = key x) xs = Some x"
  by (induction xs) force+

lemma find_Some: "List.find P xs = Some x \<Longrightarrow> x \<in> set xs \<and> P x"
  by (induction xs) (auto split: if_splits)

lemma find_None: "List.find P xs = None \<longleftrightarrow> (\<forall>x \<in> set xs. \<not> P x)"
  by (induction xs) auto

section \<open>The invariants\<close>

text \<open>
  Identifiers and descriptors of the database are distinct, and the polled descriptors of
  subscribers are exactly those of the subscribers online.
\<close>

definition broker_inv :: "server \<Rightarrow> bool" where
  "broker_inv st \<longleftrightarrow> distinct (map sub_id (subs st)) \<and> distinct (map sub_fd (subs st)) \<and>
     distinct (sv_fds st) \<and> 3 \<le> length (sv_fds st) \<and>
     set (drop 3 (sv_fds st)) = sub_fd ` {s \<in> set (subs st). sub_online s}"

text \<open>
  It is an invariant as long as no descriptor of a subscriber that has left is given to another one.
  What holds in every reachable state is weaker: identifiers fit and are distinct, and each polled
  descriptor is the one of some subscriber online.
\<close>

definition database_inv :: "server \<Rightarrow> bool" where
  "database_inv st \<longleftrightarrow> distinct (map sub_id (subs st)) \<and>
     (\<forall>s \<in> set (subs st). NUL \<notin> set (sub_id s) \<and> length (sub_id s) \<le> 3) \<and>
     distinct (sv_fds st) \<and> 3 \<le> length (sv_fds st) \<and>
     set (drop 3 (sv_fds st)) \<subseteq> sub_fd ` {s \<in> set (subs st). sub_online s}"

text \<open>
  What \<open>accept\<close> guarantees: a descriptor that is not open. It may be one that a subscriber has had
  before it left; \<open>fresh\<close> excludes this, unless that subscriber itself is coming back.
\<close>

definition accept_ok :: "event \<Rightarrow> server \<Rightarrow> bool" where
  "accept_ok e st = (case e of Connecting fd addr p \<Rightarrow> fd \<notin> set (sv_fds st) | _ \<Rightarrow> True)"

definition packet_text :: "nat \<times> string \<Rightarrow> string" where
  "packet_text p = cstr (snd p @ replicate (MAX_LEN - header_size - length (snd p)) NUL)"

definition fresh :: "event \<Rightarrow> server \<Rightarrow> bool" where
  "fresh e st = (case e of
       Connecting fd addr p \<Rightarrow> fd \<notin> set (sv_fds st) \<and>
         list_all (\<lambda>s. sub_fd s = fd \<longrightarrow> sub_id s = packet_text p) (subs st)
     | _ \<Rightarrow> True)"

inductive reachable :: "server \<Rightarrow> bool" where
  start: "push_basic_fds tcp udp st = Running st' \<Longrightarrow> subs st = [] \<Longrightarrow> distinct [0, tcp, udp] \<Longrightarrow> reachable st'"
| step: "reachable st \<Longrightarrow> accept_ok e st \<Longrightarrow> step e st = Running st' \<Longrightarrow> reachable st'"

lemma frame_simps [simp]:
  "subs (clear_buffer st) = subs st" "sv_fds (clear_buffer st) = sv_fds st"
  "subs (fill_buffer p st) = subs st" "sv_fds (fill_buffer p st) = sv_fds st"
  "subs (send_to f a q st) = subs st" "sv_fds (send_to f a q st) = sv_fds st"
  "subs (say_out s st) = subs st" "sv_fds (say_out s st) = sv_fds st"
  "subs (close_fd f st) = subs st" "sv_fds (close_fd f st) = sv_fds st"
  "sv_fds (update_subscriber f g st) = sv_fds st"
  "sent (clear_buffer st) = sent st" "sent (fill_buffer p st) = sent st"
  by (simp_all add: clear_buffer_def fill_buffer_def send_to_def say_out_def close_fd_def
      update_subscriber_def Let_def)

lemma distinct_mapI: "distinct (map f xs) \<Longrightarrow> distinct xs"
  by (simp add: distinct_map)

lemma behind_packet: "drop header_size (packet_bytes a p) = p"
  using behind_header [of a p "[]"] by simp

lemma buffer_text: "cstr (drop header_size (buff (fill_buffer p (clear_buffer st)))) = packet_text p"
  by (simp add: fill_buffer_def clear_buffer_def packet_text_def behind_packet Let_def
      diff_diff_left)

lemma broker_inv_frame:
  "subs st' = subs st \<Longrightarrow> sv_fds st' = sv_fds st \<Longrightarrow> broker_inv st \<Longrightarrow> broker_inv st'"
  by (simp add: broker_inv_def)

lemma image_filter_map:
  "f ` {y \<in> set (map g xs). P y} = (\<lambda>x. f (g x)) ` {x \<in> set xs. P (g x)}"
  by auto

lemma inv_lookup:
  assumes "broker_inv st" and "fd \<in> set (drop 3 (sv_fds st))"
  obtains s where "s \<in> set (subs st)" and "sub_online s" and "sub_fd s = fd"
    and "get_subscriber_by_fd fd st = Some s"
proof -
  obtain s where s: "s \<in> set (subs st)" "sub_online s" "sub_fd s = fd"
    using assms by (auto simp: broker_inv_def)
  with assms(1) find_key [of sub_fd "subs st" s] have "get_subscriber_by_fd fd st = Some s"
    by (simp add: get_subscriber_by_fd_def broker_inv_def)
  with s show ?thesis by (rule that)
qed

lemma inv_update:
  assumes "broker_inv st" and "\<And>s. sub_id (f s) = sub_id s" and "\<And>s. sub_fd (f s) = sub_fd s"
    and "\<And>s. sub_online (f s) = sub_online s"
  shows "broker_inv (update_subscriber fd f st)"
proof -
  let ?g = "\<lambda>s. if sub_fd s = fd then f s else s"
  have subs: "subs (update_subscriber fd f st) = map ?g (subs st)"
    using assms(1) by (simp add: update_subscriber_def update_first_map broker_inv_def)
  have keys: "map sub_id (map ?g (subs st)) = map sub_id (subs st)" "map sub_fd (map ?g (subs st)) = map sub_fd (subs st)"
    using assms(2,3) by simp_all
  have same: "sub_fd (?g s) = sub_fd s" "sub_online (?g s) = sub_online s" for s
    using assms(3,4) by simp_all
  have "sub_fd ` {s \<in> set (map ?g (subs st)). sub_online s} = sub_fd ` {s \<in> set (subs st). sub_online s}"
    unfolding image_filter_map by (simp only: same)
  with keys subs assms(1) show ?thesis unfolding broker_inv_def by (simp only: frame_simps)
qed

lemma drop_remove1: "x \<in> set (drop 3 xs) \<Longrightarrow> distinct xs \<Longrightarrow> drop 3 (remove1 x xs) = remove1 x (drop 3 xs)"
proof -
  assume x: "x \<in> set (drop 3 xs)" and d: "distinct xs"
  then have "x \<notin> set (take 3 xs)" by (metis append_take_drop_id disjoint_iff distinct_append)
  then have "remove1 x xs = take 3 xs @ remove1 x (drop 3 xs)"
    by (metis append_take_drop_id remove1_append)
  moreover have "length (take 3 xs) = 3" using x by (cases "length xs \<le> 3") auto
  ultimately show "drop 3 (remove1 x xs) = remove1 x (drop 3 xs)" by simp
qed

lemma inv_shutdown:
  assumes "broker_inv st" and "fd \<in> set (drop 3 (sv_fds st))" and "handle_shutdown_sub fd st = Running st'"
  shows "broker_inv st'"
proof -
  obtain s where s: "get_subscriber_by_fd fd st = Some s" using inv_lookup [OF assms(1,2)] by blast
  let ?g = "\<lambda>s. if sub_fd s = fd then s\<lparr>sub_online := False\<rparr> else s"
  have subs: "subs st' = map ?g (subs st)" and fds: "sv_fds st' = remove1 fd (sv_fds st)"
    using assms(1,3) s by (auto simp: handle_shutdown_sub_def update_subscriber_def update_first_map
        broker_inv_def remove_fd_def Let_def split: if_splits)
  have rest: "drop 3 (sv_fds st') = remove1 fd (drop 3 (sv_fds st))"
    using assms(1,2) by (simp add: fds drop_remove1 broker_inv_def)
  have "distinct (drop 3 (sv_fds st))" using assms(1) by (simp add: broker_inv_def)
  then have "set (drop 3 (sv_fds st')) = set (drop 3 (sv_fds st)) - {fd}" by (simp add: rest)
  also have "\<dots> = sub_fd ` {s \<in> set (subs st'). sub_online s}"
    unfolding subs image_filter_map using assms(1)
    by (auto simp: broker_inv_def if_distrib [of sub_fd] if_distrib [of sub_online])
  finally have set: "set (drop 3 (sv_fds st')) = sub_fd ` {s \<in> set (subs st'). sub_online s}" .
  have "map sub_id (subs st') = map sub_id (subs st)" "map sub_fd (subs st') = map sub_fd (subs st)"
    by (simp_all add: subs)
  moreover have "3 \<le> length (sv_fds st')"
  proof -
    from assms(2) have "3 < length (sv_fds st)" by (cases "length (sv_fds st) \<le> 3") auto
    then show ?thesis by (auto simp: fds length_remove1)
  qed
  ultimately show ?thesis
    using assms(1) set unfolding broker_inv_def by (simp add: fds)
qed

lemma inv_message:
  assumes "broker_inv st" and "fd \<in> set (drop 3 (sv_fds st))" and "parse_tcp_client_message fd p st = Running st'"
  shows "broker_inv st'"
proof -
  have f: "broker_inv (fill_buffer p st)" using broker_inv_frame [OF _ _ assms(1)] by simp
  note up = inv_update [OF f]
  show ?thesis
    using assms(2,3) inv_shutdown [OF f, of fd st'] f
    by (auto simp: parse_tcp_client_message_def handle_subscribe_def handle_unsubscribe_def Let_def
        split: if_splits option.splits intro!: up)
qed

text \<open>A predicate that each packet of a polled descriptor keeps is kept by the loop over the ready ones.\<close>

lemma clients_loop_keeps:
  assumes step: "\<And>st fd p st'. I st \<Longrightarrow> fd \<in> set (drop 3 (sv_fds st)) \<Longrightarrow>
      parse_tcp_client_message fd p st = Running st' \<Longrightarrow> I st'"
  shows "I st \<Longrightarrow> 3 \<le> i \<Longrightarrow> clients_loop i ready st = Running st' \<Longrightarrow> I st'"
proof (induction i ready st rule: clients_loop.induct)
  case (1 i ready st)
  show ?case
  proof (cases "i < length (sv_fds st)")
    case False
    with 1(3,5) show ?thesis by (simp add: clients_loop.simps [of i])
  next
    case i: True
    show ?thesis
    proof (cases "map_of ready (sv_fds st ! i)")
      case None
      with 1(5) i have "clients_loop (i + 1) ready st = Running st'" by (simp add: clients_loop.simps [of i])
      with 1(1) [OF i None] 1(3,4) show ?thesis by simp
    next
      case (Some p)
      with 1(5) i obtain st1 where st1: "parse_tcp_client_message (sv_fds st ! i) p st = Running st1"
        and rest: "clients_loop (i + 1) ready st1 = Running st'"
        by (auto simp: clients_loop.simps [of i] split: outcome.splits)
      have "sv_fds st ! i \<in> set (drop 3 (sv_fds st))"
        using i 1(4) by (auto simp: in_set_conv_nth intro!: exI [of _ "i - 3"])
      with step [OF 1(3) _ st1] have "I st1" by blast
      with 1(2) [OF i Some st1] 1(4) rest show ?thesis by simp
    qed
  qed
qed

lemma inv_clients_loop:
  "broker_inv st \<Longrightarrow> 3 \<le> i \<Longrightarrow> clients_loop i ready st = Running st' \<Longrightarrow> broker_inv st'"
  by (rule clients_loop_keeps [OF inv_message])

lemma inv_new:
  assumes "broker_inv st" and "fd \<notin> set (sv_fds st)" and "\<forall>s \<in> set (subs st). sub_id s \<noteq> i \<and> sub_fd s \<noteq> fd"
    and "subs st' = subs st @ [\<lparr>sub_fd = fd, sub_id = i, sub_topics = [], sub_online = True\<rparr>]"
    and "sv_fds st' = sv_fds st @ [fd]"
  shows "broker_inv st'"
proof -
  let ?s = "\<lparr>sub_fd = fd, sub_id = i, sub_topics = [], sub_online = True\<rparr>"
  have "{s \<in> set (subs st @ [?s]). sub_online s} = insert ?s {s \<in> set (subs st). sub_online s}"
    by auto
  then have "sub_fd ` {s \<in> set (subs st'). sub_online s} = insert fd (sub_fd ` {s \<in> set (subs st). sub_online s})"
    by (simp add: assms(4))
  moreover have "distinct (map sub_id (subs st'))" "distinct (map sub_fd (subs st'))"
    using assms(1,3) by (force simp: assms(4) broker_inv_def)+
  ultimately show ?thesis
    using assms(1,2) unfolding broker_inv_def by (simp add: assms(5))
qed

lemma inv_returning:
  assumes "broker_inv st" and "fd \<notin> set (sv_fds st)" and "\<forall>s \<in> set (subs st). sub_fd s = fd \<longrightarrow> sub_id s = i"
    and s: "s \<in> set (subs st)" "sub_id s = i" and off: "\<not> sub_online s"
    and subs: "subs st' = map (\<lambda>s. if sub_id s = i then s\<lparr>sub_fd := fd, sub_online := True\<rparr> else s) (subs st)"
    and arr': "sv_fds st' = sv_fds st @ [fd]"
  shows "broker_inv st'"
proof -
  let ?g = "\<lambda>s. if sub_id s = i then s\<lparr>sub_fd := fd, sub_online := True\<rparr> else s"
  have ids: "distinct (map sub_id (subs st))" and fds: "distinct (map sub_fd (subs st))"
    using assms(1) by (simp_all add: broker_inv_def)
  have only: "sub_id x = i \<longleftrightarrow> x = s" if "x \<in> set (subs st)" for x
    using ids s that by (metis distinct_map inj_onD)
  have "inj_on (\<lambda>s. sub_fd (?g s)) (set (subs st))"
  proof (rule inj_onI)
    fix x y
    assume xy: "x \<in> set (subs st)" "y \<in> set (subs st)" "sub_fd (?g x) = sub_fd (?g y)"
    then have same: "sub_id x = i \<longleftrightarrow> sub_id y = i" using assms(3) by (simp split: if_splits)
    show "x = y"
    proof (cases "sub_id x = i")
      case True
      with same only [OF xy(1)] only [OF xy(2)] show ?thesis by simp
    next
      case False
      with same xy(3) have "sub_fd x = sub_fd y" by simp
      with xy(1,2) fds show ?thesis by (metis distinct_map inj_onD)
    qed
  qed
  with distinct_mapI [OF ids] have "distinct (map (\<lambda>s. sub_fd (?g s)) (subs st))" by (simp only: distinct_map simp_thms)
  then have "distinct (map sub_fd (subs st'))" by (simp only: subs map_map comp_def)
  moreover have "sub_fd ` {s \<in> set (subs st'). sub_online s} = insert fd (sub_fd ` {s \<in> set (subs st). sub_online s})"
  proof -
    let ?on = "{x \<in> set (subs st). sub_online x}"
    have a: "{x \<in> set (subs st). sub_online (?g x)} = insert s ?on"
      using s(1) by (auto simp: only cong: conj_cong)
    have b: "sub_fd (?g x) = sub_fd x" if "x \<in> ?on" for x
      using that off by (auto simp: only)
    have "(\<lambda>x. sub_fd (?g x)) ` insert s ?on = insert (sub_fd (?g s)) ((\<lambda>x. sub_fd (?g x)) ` ?on)"
      by (rule image_insert)
    also have "(\<lambda>x. sub_fd (?g x)) ` ?on = sub_fd ` ?on" by (rule image_cong [OF refl b])
    also have "sub_fd (?g s) = fd" using s(2) by simp
    finally show ?thesis unfolding subs image_filter_map a .
  qed
  moreover have "map sub_id (subs st') = map sub_id (subs st)" by (simp add: subs)
  ultimately show ?thesis
    using assms(1,2) unfolding broker_inv_def by (simp add: arr')
qed

lemma inv_connection:
  assumes "broker_inv st" and "fresh (Connecting fd addr p) st"
    and "handle_connection fd addr p (clear_buffer st) = Running st'"
  shows "broker_inv st'"
proof -
  let ?i = "packet_text p" and ?st = "fill_buffer p (clear_buffer st)"
  have fits: "packet_fits p" using assms(3) by (simp add: handle_connection_def split: if_splits)
  have fresh: "fd \<notin> set (sv_fds st)" "\<forall>s \<in> set (subs st). sub_fd s = fd \<longrightarrow> sub_id s = ?i"
    using assms(2) by (simp_all add: fresh_def list_all_iff)
  have ids: "distinct (map sub_id (subs st))" using assms(1) by (simp add: broker_inv_def)
  have added: "add_new_pollfd_struc fd st1 = Running st2 \<Longrightarrow> subs st2 = subs st1 \<and> sv_fds st2 = sv_fds st1 @ [fd]"
    for st1 st2 by (auto simp: add_new_pollfd_struc_def Let_def split: if_splits)
  show ?thesis
  proof (cases "List.find (\<lambda>s. sub_id s = ?i) (subs st)")
    case None
    then have "\<forall>s \<in> set (subs st). sub_id s \<noteq> ?i \<and> sub_fd s \<noteq> fd"
      using fresh(2) by (auto simp: find_None)
    then show ?thesis
      using assms(3) None
      by (intro inv_new [OF assms(1) fresh(1)])
        (auto simp: handle_connection_def fits check_and_add_new_sub_def buffer_text Let_def and_then_def
          split: if_splits outcome.splits dest!: added)
  next
    case (Some s)
    then have s: "s \<in> set (subs st)" "sub_id s = ?i" using find_Some by fastforce+
    show ?thesis
    proof (cases "sub_online s")
      case True
      with assms(3) Some have "subs st' = subs st" "sv_fds st' = sv_fds st"
        by (auto simp: handle_connection_def fits check_and_add_new_sub_def buffer_text Let_def
            send_shutdown_to_intruder_def)
      then show ?thesis using broker_inv_frame assms(1) by blast
    next
      case off: False
      show ?thesis
        using assms(3) Some off
        by (intro inv_returning [OF assms(1) fresh s off])
          (auto simp: handle_connection_def fits check_and_add_new_sub_def buffer_text Let_def and_then_def
            update_first_map [OF ids] split: if_splits outcome.splits dest!: added)
    qed
  qed
qed

lemma fold_send:
  fixes xs :: "subscriber list"
  shows "fold (\<lambda>s. send_to (sub_fd s) a q) xs st = st\<lparr>sent := sent st @ map (\<lambda>s. (sub_fd s, a, q)) xs\<rparr>"
  by (induction xs arbitrary: st) (simp_all add: send_to_def)

lemma datagram_frame:
  "handle_datagram d addr junk st = Running st' \<Longrightarrow> subs st' = subs st \<and> sv_fds st' = sv_fds st"
  by (auto simp: handle_datagram_def send_packet_to_subscribers_def Let_def fold_send
      split: cresult.splits option.splits)

lemma inv_step: "broker_inv st \<Longrightarrow> fresh e st \<Longrightarrow> step e st = Running st' \<Longrightarrow> broker_inv st'"
proof (cases e)
  case Stdin_ready
  then show "step e st = Running st' \<Longrightarrow> broker_inv st'" by (simp add: step_def shutdown_server_def)
next
  case (Connecting fd addr p)
  then show "broker_inv st \<Longrightarrow> fresh e st \<Longrightarrow> step e st = Running st' \<Longrightarrow> broker_inv st'"
    using inv_connection by (simp add: step_def)
next
  case (Datagram_in d addr junk)
  then show "broker_inv st \<Longrightarrow> step e st = Running st' \<Longrightarrow> broker_inv st'"
    using datagram_frame [of d addr junk "clear_buffer st" st'] broker_inv_frame [of st' st]
    by (simp add: step_def)
next
  case (Clients_ready ready)
  then show "broker_inv st \<Longrightarrow> step e st = Running st' \<Longrightarrow> broker_inv st'"
    using inv_clients_loop [of "clear_buffer st" 3 ready st'] broker_inv_frame [of "clear_buffer st" st]
    by (simp add: step_def)
qed

lemma inv_start:
  assumes "push_basic_fds tcp udp st = Running st'" and "subs st = []" and "distinct [0, tcp, udp]"
  shows "broker_inv st'"
  using assms
  by (auto simp: push_basic_fds_def and_then_def add_new_pollfd_struc_def broker_inv_def Let_def
      split: if_splits outcome.splits)

lemma fresh_accept: "fresh e st \<Longrightarrow> accept_ok e st"
  by (auto simp: fresh_def accept_ok_def split: event.splits)

section \<open>Every reachable state\<close>

lemma update_first_in: "x \<in> set xs \<Longrightarrow> \<not> P x \<Longrightarrow> x \<in> set (update_first P f xs)"
  by (induction xs) auto

lemma update_first_found: "List.find P xs = Some x \<Longrightarrow> f x \<in> set (update_first P f xs)"
  by (induction xs) (auto split: if_splits)

lemma update_first_same: "(\<And>x. key (f x) = key x) \<Longrightarrow> map key (update_first P f xs) = map key xs"
  by (induction xs) auto

lemma update_first_ids:
  "(\<And>x. sub_id (f x) = sub_id x) \<Longrightarrow> sub_id ` set (update_first P f xs) = sub_id ` set xs"
  using arg_cong [OF update_first_same [of sub_id f P xs], of set] by simp

text \<open>The invariant from its parts: what an operation does to the identifiers and to the polled descriptors.\<close>

lemma database_invI:
  assumes "database_inv st" and "map sub_id (subs st') = map sub_id (subs st)" and "distinct (sv_fds st')"
    and "3 \<le> length (sv_fds st')"
    and "\<And>fd. fd \<in> set (drop 3 (sv_fds st')) \<Longrightarrow> \<exists>s \<in> set (subs st'). sub_online s \<and> sub_fd s = fd"
  shows "database_inv st'"
proof -
  have "sub_id ` set (subs st') = sub_id ` set (subs st)" using arg_cong [OF assms(2), of set] by simp
  then have "\<forall>s \<in> set (subs st'). NUL \<notin> set (sub_id s) \<and> length (sub_id s) \<le> 3"
    using assms(1) unfolding database_inv_def by (metis (no_types, lifting) image_iff)
  with assms show ?thesis by (auto simp: database_inv_def)
qed

lemma database_frame: "subs st' = subs st \<Longrightarrow> sv_fds st' = sv_fds st \<Longrightarrow> database_inv st \<Longrightarrow> database_inv st'"
  by (simp add: database_inv_def)

lemma polled_online:
  assumes "database_inv st" and "fd \<in> set (drop 3 (sv_fds st))"
  obtains s where "s \<in> set (subs st)" and "sub_online s" and "sub_fd s = fd"
  using assms by (auto simp: database_inv_def)

lemma polled_found:
  assumes "database_inv st" and "fd \<in> set (drop 3 (sv_fds st))"
  shows "get_subscriber_by_fd fd st \<noteq> None"
proof -
  obtain s where "s \<in> set (subs st)" "sub_fd s = fd" by (rule polled_online [OF assms])
  then show ?thesis by (auto simp: get_subscriber_by_fd_def find_None)
qed

lemma database_update:
  assumes "database_inv st" and "\<And>s. sub_id (f s) = sub_id s" and "\<And>s. sub_fd (f s) = sub_fd s"
    and "\<And>s. sub_online (f s) = sub_online s"
  shows "database_inv (update_subscriber fd f st)"
proof -
  let ?key = "\<lambda>s. (sub_fd s, sub_online s)"
  have "map ?key (update_first (\<lambda>s. sub_fd s = fd) f (subs st)) = map ?key (subs st)"
    using assms(3,4) by (intro update_first_same) simp
  from arg_cong [OF this, of set] have keys: "?key ` set (subs (update_subscriber fd f st)) = ?key ` set (subs st)"
    by (simp add: update_subscriber_def)
  show ?thesis
  proof (rule database_invI [OF assms(1)])
    fix g assume "g \<in> set (drop 3 (sv_fds (update_subscriber fd f st)))"
    then obtain s where "s \<in> set (subs st)" "?key s = (g, True)"
      using polled_online [OF assms(1), of g] by auto
    then have "(g, True) \<in> ?key ` set (subs (update_subscriber fd f st))" unfolding keys by force
    then show "\<exists>s \<in> set (subs (update_subscriber fd f st)). sub_online s \<and> sub_fd s = g" by auto
  qed (use assms(1,2) in \<open>simp_all add: database_inv_def update_subscriber_def update_first_same\<close>)
qed

lemma database_shutdown:
  assumes "database_inv st" and "fd \<in> set (drop 3 (sv_fds st))"
  shows "\<exists>st'. handle_shutdown_sub fd st = Running st' \<and> database_inv st'"
proof -
  obtain s where s: "get_subscriber_by_fd fd st = Some s" using polled_found [OF assms] by auto
  have in_fds: "fd \<in> set (sv_fds st)" by (rule in_set_dropD [OF assms(2)])
  obtain st' where st': "handle_shutdown_sub fd st = Running st'" "sv_fds st' = remove1 fd (sv_fds st)"
    "subs st' = update_first (\<lambda>s. sub_fd s = fd) (\<lambda>s. s\<lparr>sub_online := False\<rparr>) (subs st)"
    using s in_fds by (simp add: handle_shutdown_sub_def update_subscriber_def remove_fd_def Let_def)
  have "database_inv st'"
  proof (rule database_invI [OF assms(1)])
    show "map sub_id (subs st') = map sub_id (subs st)" by (simp add: st'(3) update_first_same)
    show "distinct (sv_fds st')" using assms(1) by (simp add: st'(2) database_inv_def)
    from assms(2) have "3 < length (sv_fds st)" by (cases "length (sv_fds st) \<le> 3") auto
    then show "3 \<le> length (sv_fds st')" by (auto simp: st'(2) length_remove1)
    fix g assume "g \<in> set (drop 3 (sv_fds st'))"
    then have g: "g \<in> set (drop 3 (sv_fds st))" "g \<noteq> fd"
      using assms drop_remove1 [OF assms(2)] by (auto simp: st'(2) database_inv_def)
    obtain x where "x \<in> set (subs st)" "sub_online x" "sub_fd x = g" by (rule polled_online [OF assms(1) g(1)])
    with g(2) show "\<exists>s \<in> set (subs st'). sub_online s \<and> sub_fd s = g"
      unfolding st'(3) by (intro bexI [of _ x] conjI update_first_in) auto
  qed
  with st'(1) show ?thesis by blast
qed

lemma database_message:
  assumes "database_inv st" and "fd \<in> set (drop 3 (sv_fds st))" and "parse_tcp_client_message fd p st = Running st'"
  shows "database_inv st'"
proof -
  have f: "database_inv (fill_buffer p st)" using database_frame [OF _ _ assms(1)] by simp
  show ?thesis
    using assms(2,3) database_shutdown [OF f, of fd] f
    by (auto simp: parse_tcp_client_message_def handle_subscribe_def handle_unsubscribe_def Let_def
        split: if_splits option.splits intro!: database_update [OF f])
qed

lemma database_clients_loop:
  "database_inv st \<Longrightarrow> 3 \<le> i \<Longrightarrow> clients_loop i ready st = Running st' \<Longrightarrow> database_inv st'"
  by (rule clients_loop_keeps [OF database_message])

lemma added_state:
  "add_new_pollfd_struc fd st = Running st' \<Longrightarrow> subs st' = subs st \<and> sv_fds st' = sv_fds st @ [fd]"
  by (auto simp: add_new_pollfd_struc_def Let_def split: if_splits)

lemma database_connection:
  assumes "database_inv st" and "fd \<notin> set (sv_fds st)"
    and "handle_connection fd addr p (clear_buffer st) = Running st'"
  shows "database_inv st'"
proof -
  let ?i = "packet_text p" and ?st = "fill_buffer p (clear_buffer st)"
  have fits: "packet_fits p" using assms(3) by (simp add: handle_connection_def split: if_splits)
  obtain r st1 where check: "check_and_add_new_sub fd ?st = Done (r, st1)"
    and rest: "case r of None \<Rightarrow> st' = send_shutdown_to_intruder fd st1
      | Some i \<Rightarrow> subs st' = subs st1 \<and> sv_fds st' = sv_fds st1 @ [fd]"
    using assms(3)
    by (auto simp: handle_connection_def fits and_then_def split: cresult.splits option.splits outcome.splits
        dest!: added_state)
  have NUL: "NUL \<notin> set ?i" using cstr_no_NUL by (simp add: packet_text_def)
  have polled: "\<exists>s \<in> set (subs st'). sub_online s \<and> sub_fd s = g"
    if "sv_fds st' = sv_fds st @ [fd]" and "g \<in> set (drop 3 (sv_fds st'))"
      and "\<exists>s \<in> set (subs st'). sub_online s \<and> sub_fd s = fd"
      and "\<And>s. s \<in> set (subs st) \<Longrightarrow> sub_online s \<Longrightarrow> s \<in> set (subs st')" for g
    using that assms(1) by (auto simp: database_inv_def) blast
  show ?thesis
  proof (cases "List.find (\<lambda>s. sub_id s = ?i) (subs st)")
    case None
    let ?new = "\<lparr>sub_fd = fd, sub_id = ?i, sub_topics = [], sub_online = True\<rparr>"
    have new: "length ?i \<le> 3" "subs st' = subs st @ [?new]" "sv_fds st' = sv_fds st @ [fd]"
      using check None rest by (auto simp: check_and_add_new_sub_def buffer_text MAX_ID_def Let_def split: if_splits)
    have "set (drop 3 (sv_fds st')) \<subseteq> sub_fd ` {s \<in> set (subs st'). sub_online s}"
      using polled [OF new(3)] new(2) by fastforce
    then show ?thesis
      using assms(1,2) None NUL new by (auto simp: database_inv_def find_None)
  next
    case (Some s)
    then have s: "s \<in> set (subs st)" "sub_id s = ?i" using find_Some by fastforce+
    have ids: "distinct (map sub_id (subs st))" using assms(1) by (simp add: database_inv_def)
    show ?thesis
    proof (cases "sub_online s")
      case True
      with check Some rest have "subs st' = subs st" "sv_fds st' = sv_fds st"
        by (auto simp: check_and_add_new_sub_def buffer_text Let_def send_shutdown_to_intruder_def)
      then show ?thesis using database_frame assms(1) by blast
    next
      case off: False
      let ?f = "\<lambda>s. s\<lparr>sub_fd := fd, sub_online := True\<rparr>"
      have new: "subs st' = update_first (\<lambda>s. sub_id s = ?i) ?f (subs st)" "sv_fds st' = sv_fds st @ [fd]"
        using check Some off rest by (auto simp: check_and_add_new_sub_def buffer_text Let_def)
      have stay: "x \<in> set (subs st')" if "x \<in> set (subs st)" "sub_online x" for x
      proof -
        have "sub_id x \<noteq> ?i" using that s off ids by (metis distinct_map inj_onD)
        with that show ?thesis unfolding new(1) by (intro update_first_in)
      qed
      have "?f s \<in> set (subs st')" unfolding new(1) by (rule update_first_found [OF Some])
      then have at: "\<exists>s \<in> set (subs st'). sub_online s \<and> sub_fd s = fd" by (intro bexI [of _ "?f s"]) simp_all
      show ?thesis
      proof (rule database_invI [OF assms(1)])
        show "map sub_id (subs st') = map sub_id (subs st)" unfolding new(1) by (rule update_first_same) simp
        show "\<exists>s \<in> set (subs st'). sub_online s \<and> sub_fd s = g" if "g \<in> set (drop 3 (sv_fds st'))" for g
          by (rule polled [OF new(2) that at stay])
      qed (use assms(1,2) new(2) in \<open>simp_all add: database_inv_def\<close>)
    qed
  qed
qed

lemma database_step: "database_inv st \<Longrightarrow> accept_ok e st \<Longrightarrow> step e st = Running st' \<Longrightarrow> database_inv st'"
proof (cases e)
  case Stdin_ready
  then show "step e st = Running st' \<Longrightarrow> database_inv st'" by (simp add: step_def shutdown_server_def)
next
  case (Connecting fd addr p)
  then show "database_inv st \<Longrightarrow> accept_ok e st \<Longrightarrow> step e st = Running st' \<Longrightarrow> database_inv st'"
    using database_connection by (simp add: step_def accept_ok_def)
next
  case (Datagram_in d addr junk)
  then show "database_inv st \<Longrightarrow> step e st = Running st' \<Longrightarrow> database_inv st'"
    using datagram_frame [of d addr junk "clear_buffer st" st'] database_frame [of st' st]
    by (simp add: step_def)
next
  case (Clients_ready ready)
  then show "database_inv st \<Longrightarrow> step e st = Running st' \<Longrightarrow> database_inv st'"
    using database_clients_loop [of "clear_buffer st" 3 ready st'] database_frame [of "clear_buffer st" st]
    by (simp add: step_def)
qed

lemma database_start:
  assumes "push_basic_fds tcp udp st = Running st'" and "subs st = []" and "distinct [0, tcp, udp]"
  shows "database_inv st'"
  using assms
  by (auto simp: push_basic_fds_def and_then_def add_new_pollfd_struc_def database_inv_def Let_def
      split: if_splits outcome.splits)

lemma reachable_database: "reachable st \<Longrightarrow> database_inv st"
  by (induction rule: reachable.induct) (auto intro: database_start database_step)

text \<open>
  C4. In every state the broker can reach while \<open>accept\<close> returns descriptors that are not open, reused
  ones included: identifiers in the database fit their member and are distinct, no descriptor is
  polled twice, each polled one besides the three basic ones is the one of a subscriber online, and
  looking it up finds a subscriber, so that the \<open>DIE\<close> of a failed lookup is never reached for a packet.
\<close>

theorem reachable_inv:
  assumes "reachable st"
  shows "database_inv st \<and> (\<forall>fd \<in> set (drop 3 (sv_fds st)). get_subscriber_by_fd fd st \<noteq> None)"
  using reachable_database [OF assms] polled_found by blast

section \<open>Packets of a subscriber\<close>

text \<open>
  The abstract database: for each identifier the subscriptions and, when online, the descriptor.
\<close>

definition view :: "subscriber \<Rightarrow> string list \<times> nat option" where
  "view s = (sub_topics s, if sub_online s then Some (sub_fd s) else None)"

definition registry :: "server \<Rightarrow> string \<rightharpoonup> string list \<times> nat option" where
  "registry st i = map_option view (List.find (\<lambda>s. sub_id s = i) (subs st))"

lemma registry_cong: "subs st' = subs st \<Longrightarrow> registry st' = registry st"
  by (rule ext) (simp add: registry_def)

lemma find_map_key:
  "(\<And>x. key (g x) = key x) \<Longrightarrow>
     List.find (\<lambda>x. key x = i) (map g xs) = map_option g (List.find (\<lambda>x. key x = i) xs)"
  by (induction xs) auto

lemma registry_update:
  assumes "distinct (map sub_id (subs st))" and "distinct (map sub_fd (subs st))" and "s \<in> set (subs st)"
    and "sub_fd s = fd" and "\<And>s. sub_id (f s) = sub_id s"
    and "subs st' = map (\<lambda>s. if sub_fd s = fd then f s else s) (subs st)"
  shows "registry st' = (registry st)(sub_id s \<mapsto> view (f s))"
proof
  fix i
  let ?g = "\<lambda>s. if sub_fd s = fd then f s else s"
  have r: "registry st' i = map_option (\<lambda>x. view (?g x)) (List.find (\<lambda>s. sub_id s = i) (subs st))"
    using assms(5) by (simp add: registry_def assms(6) find_map_key option.map_comp comp_def)
  show "registry st' i = ((registry st)(sub_id s \<mapsto> view (f s))) i"
  proof (cases "i = sub_id s")
    case True
    then show ?thesis using r find_key [OF assms(1,3)] assms(4) by simp
  next
    case False
    have "sub_fd x \<noteq> fd" if "List.find (\<lambda>s. sub_id s = i) (subs st) = Some x" for x
      using find_Some [OF that] False assms(2-4) by (metis distinct_map inj_onD)
    then show ?thesis using r False by (cases "List.find (\<lambda>s. sub_id s = i) (subs st)") (auto simp: registry_def)
  qed
qed

lemma packet_topic: "NUL \<notin> set t \<Longrightarrow> cstr (drop header_size (buff (fill_buffer (a, t @ [NUL]) st))) = t"
  by (simp add: fill_buffer_def Let_def behind_packet cstr_append_NUL)

lemma topic_fits [simp]: "packet_fits (a, t @ [NUL]) \<longleftrightarrow> header_size + length t < MAX_LEN" "packet_fits (a, [])"
  by (auto simp: packet_fits_def header_size_def MAX_LEN_def)

lemma found_by_fd:
  assumes "broker_inv st" and "s \<in> set (subs st)" and "subs st1 = subs st"
  shows "get_subscriber_by_fd (sub_fd s) st1 = Some s"
  using find_key [of sub_fd "subs st" s] assms by (simp add: get_subscriber_by_fd_def broker_inv_def)

lemma registry_update_subscriber:
  assumes "broker_inv st" and "s \<in> set (subs st)" and "subs st1 = subs st" and "\<And>s. sub_id (f s) = sub_id s"
  shows "registry (update_subscriber (sub_fd s) f st1) = (registry st)(sub_id s \<mapsto> view (f s))"
proof -
  have ids: "distinct (map sub_id (subs st))" and fds: "distinct (map sub_fd (subs st))"
    using assms(1) by (simp_all add: broker_inv_def)
  show ?thesis
    by (rule registry_update [OF ids fds assms(2) refl assms(4)])
      (use assms(3) fds in \<open>simp add: update_subscriber_def update_first_map\<close>)
qed

lemma subscribe_runs:
  assumes "broker_inv st" and "s \<in> set (subs st)" and "subs st1 = subs st" and "NUL \<notin> set t"
    and "header_size + length t < MAX_LEN"
  shows "parse_tcp_client_message (sub_fd s) (SUBSCRIBE_ACTION, t @ [NUL]) st1 = Running
    (update_subscriber (sub_fd s) (\<lambda>s. s\<lparr>sub_topics := sub_topics s @ [t]\<rparr>) (fill_buffer (SUBSCRIBE_ACTION, t @ [NUL]) st1))"
  using assms by (simp add: parse_tcp_client_message_def handle_subscribe_def found_by_fd [OF assms(1,2)] packet_topic)

lemma unsubscribe_runs:
  assumes "broker_inv st" and "s \<in> set (subs st)" and "NUL \<notin> set t" and "header_size + length t < MAX_LEN"
  shows "parse_tcp_client_message (sub_fd s) (UNSUBSCRIBE_ACTION, t @ [NUL]) st =
    (let st1 = fill_buffer (UNSUBSCRIBE_ACTION, t @ [NUL]) st in
     if t \<in> set (sub_topics s)
     then Running (update_subscriber (sub_fd s) (\<lambda>s. s\<lparr>sub_topics := remove1 t (sub_topics s)\<rparr>) st1)
     else Exited 1 st1)"
  using assms
  by (simp add: parse_tcp_client_message_def action_defs handle_unsubscribe_def found_by_fd [OF assms(1,2)]
      packet_topic Let_def)

lemma shutdown_refines:
  assumes "broker_inv st" and "s \<in> set (subs st)" and "sub_online s"
  shows "\<exists>st'. parse_tcp_client_message (sub_fd s) (SHUTDOWN_CLOSE, []) st = Running st' \<and>
    registry st' = (registry st)(sub_id s \<mapsto> (sub_topics s, None)) \<and>
    sub_fd s \<notin> set (sv_fds st') \<and> closed st' = closed st @ [sub_fd s]"
proof -
  let ?off = "\<lambda>s. s\<lparr>sub_online := False\<rparr>"
  let ?c = "close_fd (sub_fd s) (fill_buffer (SHUTDOWN_CLOSE, []) st)"
  let ?u = "update_subscriber (sub_fd s) ?off ?c"
  let ?st = "say_out (''Client '' @ sub_id s @ '' disconnected.'') (?u\<lparr>sv_fds := remove1 (sub_fd s) (sv_fds st)\<rparr>)"
  have "sub_fd s \<in> set (drop 3 (sv_fds st))" using assms by (auto simp: broker_inv_def)
  then have "sub_fd s \<in> set (sv_fds st)" by (rule in_set_dropD)
  then have "parse_tcp_client_message (sub_fd s) (SHUTDOWN_CLOSE, []) st = Running ?st"
    by (simp add: parse_tcp_client_message_def action_defs handle_shutdown_sub_def found_by_fd [OF assms(1,2)]
        Let_def remove_fd_def)
  moreover have "registry ?st = registry ?u" by (rule registry_cong) simp
  then have "registry ?st = (registry st)(sub_id s \<mapsto> (sub_topics s, None))"
    using registry_update_subscriber [OF assms(1,2), of ?c ?off] by (simp add: view_def)
  moreover have "sub_fd s \<notin> set (sv_fds ?st)" using assms(1) by (simp add: broker_inv_def)
  moreover have "closed ?st = closed st @ [sub_fd s]"
    by (simp add: say_out_def update_subscriber_def close_fd_def fill_buffer_def Let_def)
  ultimately show ?thesis by blast
qed

text \<open>
  C7. Under the invariant, a packet of a subscriber changes exactly its own entry of the abstract
  database: \<open>SUBSCRIBE\<close> appends the topic, \<open>UNSUBSCRIBE\<close> removes its first occurrence, \<open>SHUTDOWN\<close>
  marks it offline and keeps its subscriptions. Unsubscribing from a topic it does not have ends the
  whole server with a failure code.
\<close>

theorem subscriber_packet_refines:
  assumes "broker_inv st" and "s \<in> set (subs st)" and "sub_online s" and "NUL \<notin> set t"
    and "header_size + length t < MAX_LEN"
  shows "(\<exists>st'. parse_tcp_client_message (sub_fd s) (SUBSCRIBE_ACTION, t @ [NUL]) st = Running st' \<and>
      registry st' = (registry st)(sub_id s \<mapsto> (sub_topics s @ [t], Some (sub_fd s)))) \<and>
    (\<exists>st'. parse_tcp_client_message (sub_fd s) (UNSUBSCRIBE_ACTION, t @ [NUL]) st =
        (if t \<in> set (sub_topics s) then Running st' else Exited 1 st') \<and>
      registry st' = (registry st)(sub_id s \<mapsto> (remove1 t (sub_topics s), Some (sub_fd s)))) \<and>
    (\<exists>st'. parse_tcp_client_message (sub_fd s) (SHUTDOWN_CLOSE, []) st = Running st' \<and>
      registry st' = (registry st)(sub_id s \<mapsto> (sub_topics s, None)) \<and>
      sub_fd s \<notin> set (sv_fds st') \<and> closed st' = closed st @ [sub_fd s])"
proof -
  let ?sub = "\<lambda>s. s\<lparr>sub_topics := sub_topics s @ [t]\<rparr>" and ?unsub = "\<lambda>s. s\<lparr>sub_topics := remove1 t (sub_topics s)\<rparr>"
  let ?b = "\<lambda>a. fill_buffer (a, t @ [NUL]) st"
  note up = registry_update_subscriber [OF assms(1,2)]
  have "parse_tcp_client_message (sub_fd s) (SUBSCRIBE_ACTION, t @ [NUL]) st =
      Running (update_subscriber (sub_fd s) ?sub (?b SUBSCRIBE_ACTION))"
    by (rule subscribe_runs [OF assms(1,2) refl assms(4,5)])
  moreover have "registry (update_subscriber (sub_fd s) ?sub (?b SUBSCRIBE_ACTION)) =
      (registry st)(sub_id s \<mapsto> (sub_topics s @ [t], Some (sub_fd s)))"
    using up [of "?b SUBSCRIBE_ACTION" ?sub] assms(3) by (simp add: view_def)
  moreover have "registry (update_subscriber (sub_fd s) ?unsub (?b UNSUBSCRIBE_ACTION)) =
      (registry st)(sub_id s \<mapsto> (remove1 t (sub_topics s), Some (sub_fd s)))"
    using up [of "?b UNSUBSCRIBE_ACTION" ?unsub] assms(3) by (simp add: view_def)
  moreover have "registry (?b UNSUBSCRIBE_ACTION) = (registry st)(sub_id s \<mapsto> (sub_topics s, Some (sub_fd s)))"
  proof -
    have "registry st (sub_id s) = Some (sub_topics s, Some (sub_fd s))"
      using find_key [of sub_id "subs st" s] assms(1-3) by (simp add: registry_def view_def broker_inv_def)
    then show ?thesis by (auto simp: registry_def)
  qed
  ultimately show ?thesis
    using shutdown_refines [OF assms(1-3)] unsubscribe_runs [OF assms(1,2,4,5)]
    by (auto simp: Let_def remove1_idem)
qed

end
