(* ===== verification/Broker_Delivery.thy ===== *)
theory Broker_Delivery
  imports Broker_Props
begin

text \<open>
  Properties of the broker, continued: who is sent a datagram, what a connection changes, the
  limit of the array of descriptors, and the effect of reused descriptors.
\<close>

section \<open>Datagrams\<close>

lemma interested_iff:
  "sub_is_interesed ps t = Some b \<Longrightarrow> b \<longleftrightarrow> (\<exists>p \<in> set ps. matches_topic t p = Some True)"
  by (induction ps arbitrary: b) (auto split: option.splits bool.splits)

lemma interested_plain:
  "\<forall>p \<in> set ps. plain_pattern p \<Longrightarrow> sub_is_interesed ps t = Some (\<exists>p \<in> set ps. covers p t)"
  by (induction ps) (auto simp: matches_plain split: bool.splits)

lemma get_subs_plain:
  "\<forall>s \<in> set ss. \<forall>p \<in> set (sub_topics s). plain_pattern p \<Longrightarrow>
     get_subs_by_topic ss t = Some (filter (\<lambda>s. sub_online s \<and> (\<exists>p \<in> set (sub_topics s). covers p t)) ss)"
  by (induction ss) (auto simp: interested_plain)

lemma datagram_sent:
  assumes "name_ok name" and "code < 4" and "payload_length code = Some l"
    and "code < 3 \<Longrightarrow> length content = l" and "code = 3 \<Longrightarrow> length content \<le> 1500"
    and "\<forall>s \<in> set (subs st). \<forall>p \<in> set (sub_topics s). plain_pattern p"
  shows "\<exists>st' n. step (Datagram_in (datagram name code content) addr junk) st = Running st' \<and>
    parse_udp_packet (receive_datagram (datagram name code content)) addr junk = Done n \<and>
    sent st' = sent st @ map (\<lambda>s. (sub_fd s, NOTIFICATION_ACTION, notification_bytes n))
      (filter (\<lambda>s. sub_online s \<and> (\<exists>p \<in> set (sub_topics s). covers p name)) (subs st)) \<and>
    subs st' = subs st \<and> sv_fds st' = sv_fds st"
proof -
  let ?n = "\<lparr>ntopic = pad50 name @ [NUL], ntype = char_of code, nport = sin_port addr,
      nip = ip_field (ip_text addr) junk, npayload = (if code = 3 then cstr content @ [NUL] else content)\<rparr>"
  have n: "parse_udp_packet (receive_datagram (datagram name code content)) addr junk = Done ?n"
    by (rule parsed_packet [OF assms(1-5)])
  have topic: "cstr (ntopic ?n) = name"
    using assms(1) by (cases "50 - length name") (simp_all add: pad50_def name_ok_def cstr_append_NUL)
  show ?thesis
    unfolding step_def Let_def event.case handle_datagram_def n
    by (simp add: send_packet_to_subscribers_def topic [simplified] get_subs_plain [OF assms(6)] fold_send n)
qed

text \<open>
  C6. A well-formed datagram is sent to each subscriber that is online and has at least one
  subscription covering its topic, exactly once however many of its patterns do, in the order of the
  database, and to nobody else; the database and the descriptors stay as they are.
\<close>

theorem datagram_delivery:
  assumes "name_ok name" and "code < 4" and "payload_length code = Some l"
    and "code < 3 \<Longrightarrow> length content = l" and "code = 3 \<Longrightarrow> length content \<le> 1500"
    and "\<forall>s \<in> set (subs st). \<forall>p \<in> set (sub_topics s). plain_pattern p"
  shows "\<exists>st' n. step (Datagram_in (datagram name code content) addr junk) st = Running st' \<and>
    parse_udp_packet (receive_datagram (datagram name code content)) addr junk = Done n \<and>
    sent st' = sent st @ map (\<lambda>s. (sub_fd s, NOTIFICATION_ACTION, notification_bytes n))
      (filter (\<lambda>s. sub_online s \<and> (\<exists>p \<in> set (sub_topics s). covers p name)) (subs st)) \<and>
    subs st' = subs st \<and> sv_fds st' = sv_fds st"
  by (rule datagram_sent [OF assms])

section \<open>Connections\<close>

lemma find_append:
  "List.find P (xs @ ys) = (case List.find P xs of None \<Rightarrow> List.find P ys | Some x \<Rightarrow> Some x)"
  by (induction xs) auto

text \<open>The array has room for one more element without growing.\<close>

definition has_room :: "server \<Rightarrow> bool" where
  "has_room st \<longleftrightarrow> length (sv_fds st) < sv_fds_capacity st \<and>
     sizeof_pollfd * (length (sv_fds st) + 1) \<le> sv_fds_room st"

lemma room_frame [simp]:
  "sv_fds_capacity (clear_buffer st) = sv_fds_capacity st" "sv_fds_room (clear_buffer st) = sv_fds_room st"
  "sv_fds_capacity (fill_buffer p st) = sv_fds_capacity st" "sv_fds_room (fill_buffer p st) = sv_fds_room st"
  by (simp_all add: clear_buffer_def fill_buffer_def Let_def)

lemma packet_text_NUL: "NUL \<notin> set t \<Longrightarrow> packet_text (a, t @ [NUL]) = t"
  by (simp add: packet_text_def cstr_append_NUL)

lemma added:
  "has_room st \<Longrightarrow> sv_fds st1 = sv_fds st \<Longrightarrow> sv_fds_capacity st1 = sv_fds_capacity st \<Longrightarrow>
     sv_fds_room st1 = sv_fds_room st \<Longrightarrow>
     add_new_pollfd_struc fd st1 = Running (st1\<lparr>sv_fds := sv_fds st1 @ [fd]\<rparr>)"
  by (simp add: add_new_pollfd_struc_def has_room_def Let_def)

lemma identifier_fits: "length i \<le> 3 \<Longrightarrow> header_size + length i < MAX_LEN"
  by (simp add: header_size_def MAX_LEN_def)

lemma new_connection:
  assumes "has_room st" and "List.find (\<lambda>s. sub_id s = i) (subs st) = None" and "NUL \<notin> set i" and "length i \<le> 3"
  obtains st' where "step (Connecting fd addr (CONNECT_ACTION, i @ [NUL])) st = Running st'"
    and "subs st' = subs st @ [\<lparr>sub_fd = fd, sub_id = i, sub_topics = [], sub_online = True\<rparr>]"
    and "sv_fds st' = sv_fds st @ [fd]" and "sent st' = sent st"
  using assms
  by (simp add: step_def handle_connection_def check_and_add_new_sub_def packet_topic identifier_fits Let_def and_then_def
      added [OF assms(1)] MAX_ID_def say_out_def)

lemma read_identifier:
  "NUL \<notin> set i \<Longrightarrow> cstr (drop header_size (buff (fill_buffer (a, i @ [NUL]) (clear_buffer st)))) = i"
  by (simp add: packet_topic)

text \<open>The three cases on the database: an unknown identifier, one that is online, one that has left.\<close>

lemma unknown_connects:
  assumes "has_room st" and "registry st i = None" and "NUL \<notin> set i" and "length i \<le> 3"
  shows "\<exists>st'. step (Connecting fd addr (CONNECT_ACTION, i @ [NUL])) st = Running st' \<and>
    registry st' = (registry st)(i \<mapsto> ([], Some fd)) \<and> sv_fds st' = sv_fds st @ [fd] \<and> sent st' = sent st"
proof -
  let ?new = "\<lparr>sub_fd = fd, sub_id = i, sub_topics = [], sub_online = True\<rparr>"
  have none: "List.find (\<lambda>s. sub_id s = i) (subs st) = None" using assms(2) by (simp add: registry_def)
  obtain st' where st': "step (Connecting fd addr (CONNECT_ACTION, i @ [NUL])) st = Running st'"
    "subs st' = subs st @ [?new]" "sv_fds st' = sv_fds st @ [fd]" "sent st' = sent st"
    by (rule new_connection [OF assms(1) none assms(3,4)])
  have "List.find (\<lambda>s. sub_id s = j) (subs st @ [?new]) =
      (case List.find (\<lambda>s. sub_id s = j) (subs st) of None \<Rightarrow> if i = j then Some ?new else None | x \<Rightarrow> x)" for j
    by (simp add: find_append split: option.splits)
  then have "registry st' = (registry st)(i \<mapsto> ([], Some fd))"
    using none by (auto simp: registry_def st'(2) view_def fun_eq_iff split: option.splits)
  with st' show ?thesis by blast
qed

lemma online_is_refused:
  assumes "registry st i = Some (ts, Some f)" and "NUL \<notin> set i" and "length i \<le> 3"
  shows "\<exists>st'. step (Connecting fd addr (CONNECT_ACTION, i @ [NUL])) st = Running st' \<and>
    registry st' = registry st \<and> sv_fds st' = sv_fds st \<and> sent st' = sent st @ [(fd, SHUTDOWN_INTRUDER, [])]"
proof -
  let ?st = "fill_buffer (CONNECT_ACTION, i @ [NUL]) (clear_buffer st)"
  let ?st1 = "say_out (''Client '' @ i @ '' already connected.'') ?st"
  have "check_and_add_new_sub fd ?st = Done (None, ?st1)"
    using assms(1)
    by (auto simp: registry_def view_def check_and_add_new_sub_def read_identifier [OF assms(2)] Let_def
        split: option.splits if_splits)
  then have "step (Connecting fd addr (CONNECT_ACTION, i @ [NUL])) st =
      Running (send_shutdown_to_intruder fd ?st1)"
    by (simp add: step_def handle_connection_def identifier_fits [OF assms(3)])
  moreover have "registry (send_shutdown_to_intruder fd ?st1) = registry st"
    by (rule registry_cong) (simp add: send_shutdown_to_intruder_def)
  ultimately show ?thesis
    by (simp add: send_shutdown_to_intruder_def send_to_def say_out_def clear_buffer_def fill_buffer_def Let_def)
qed

lemma offline_returns:
  assumes "broker_inv st" and "has_room st" and "registry st i = Some (ts, None)" and "NUL \<notin> set i" and "length i \<le> 3"
  shows "\<exists>st'. step (Connecting fd addr (CONNECT_ACTION, i @ [NUL])) st = Running st' \<and>
    registry st' = (registry st)(i \<mapsto> (ts, Some fd)) \<and> sv_fds st' = sv_fds st @ [fd] \<and> sent st' = sent st"
proof -
  let ?g = "\<lambda>s. if sub_id s = i then s\<lparr>sub_fd := fd, sub_online := True\<rparr> else s"
  have ids: "distinct (map sub_id (subs st))" using assms(1) by (simp add: broker_inv_def)
  obtain s where some: "List.find (\<lambda>s. sub_id s = i) (subs st) = Some s" and s: "\<not> sub_online s" "ts = sub_topics s"
    using assms(3) by (auto simp: registry_def view_def split: if_splits)
  then have i: "sub_id s = i" using find_Some by fastforce
  obtain st' where st': "step (Connecting fd addr (CONNECT_ACTION, i @ [NUL])) st = Running st'"
    "subs st' = map ?g (subs st)" "sv_fds st' = sv_fds st @ [fd]" "sent st' = sent st"
    using some s(1)
    by (simp add: step_def handle_connection_def check_and_add_new_sub_def read_identifier [OF assms(4)] Let_def
        identifier_fits [OF assms(5)] and_then_def added [OF assms(2)] update_first_map [OF ids] say_out_def)
  have all: "registry st' j = map_option (\<lambda>x. view (?g x)) (List.find (\<lambda>s. sub_id s = j) (subs st))" for j
    by (simp add: registry_def st'(2) find_map_key option.map_comp comp_def)
  have "registry st' j = registry st j" if "j \<noteq> i" for j
    unfolding all using find_Some [of "\<lambda>s. sub_id s = j" "subs st"] that
    by (cases "List.find (\<lambda>s. sub_id s = j) (subs st)") (auto simp: registry_def)
  moreover have "registry st' i = Some (ts, Some fd)"
    using some i by (simp add: all view_def s(2))
  ultimately have "registry st' = (registry st)(i \<mapsto> (ts, Some fd))" by (auto simp: fun_eq_iff)
  with st' show ?thesis by blast
qed

text \<open>
  C10. A connecting identifier that the database does not know, of at most three characters, is
  entered online and without subscriptions; one that it knows offline is online again with the
  subscriptions it had; one that is online is refused: it is sent the packet that ends it, and
  neither the database nor the array of descriptors changes.
\<close>

theorem connection_refines:
  assumes "broker_inv st" and "has_room st" and "NUL \<notin> set i" and "length i \<le> 3"
  shows "\<exists>st'. step (Connecting fd addr (CONNECT_ACTION, i @ [NUL])) st = Running st' \<and>
    (case registry st i of
       None \<Rightarrow> registry st' = (registry st)(i \<mapsto> ([], Some fd)) \<and> sv_fds st' = sv_fds st @ [fd] \<and> sent st' = sent st
     | Some (ts, None) \<Rightarrow> registry st' = (registry st)(i \<mapsto> (ts, Some fd)) \<and> sv_fds st' = sv_fds st @ [fd] \<and>
         sent st' = sent st
     | Some (ts, Some f) \<Rightarrow> registry st' = registry st \<and> sv_fds st' = sv_fds st \<and>
         sent st' = sent st @ [(fd, SHUTDOWN_INTRUDER, [])])"
proof -
  consider "registry st i = None" | ts where "registry st i = Some (ts, None)"
    | ts f where "registry st i = Some (ts, Some f)"
    by (metis not_Some_eq surj_pair)
  then show ?thesis
    by cases (simp_all add: unknown_connects [OF assms(2) _ assms(3,4)] offline_returns [OF assms(1,2) _ assms(3,4)]
        online_is_refused [OF _ assms(3,4)])
qed

section \<open>The limit of the array\<close>

definition array_inv :: "server \<Rightarrow> bool" where
  "array_inv st \<longleftrightarrow> sv_fds_capacity st = BACKLOG_MAX \<and> sv_fds_room st = BACKLOG_MAX * sizeof_pollfd \<and>
     length (sv_fds st) \<le> BACKLOG_MAX"

lemma array_frame:
  "sv_fds_capacity st' = sv_fds_capacity st \<Longrightarrow> sv_fds_room st' = sv_fds_room st \<Longrightarrow>
     length (sv_fds st') \<le> length (sv_fds st) \<Longrightarrow> array_inv st \<Longrightarrow> array_inv st'"
  by (simp add: array_inv_def)

lemma add_array_inv: "array_inv st \<Longrightarrow> add_new_pollfd_struc fd st = Running st' \<Longrightarrow> array_inv st'"
  by (auto simp: array_inv_def add_new_pollfd_struc_def BACKLOG_MAX_def sizeof_pollfd_def Let_def
      split: if_splits)

lemma add_full: "array_inv st \<Longrightarrow> length (sv_fds st) = BACKLOG_MAX \<Longrightarrow> add_new_pollfd_struc fd st = Broken"
  by (simp add: array_inv_def add_new_pollfd_struc_def BACKLOG_MAX_def sizeof_pollfd_def)

lemma message_array:
  "parse_tcp_client_message fd p st = Running st' \<Longrightarrow>
     sv_fds_capacity st' = sv_fds_capacity st \<and> sv_fds_room st' = sv_fds_room st \<and>
     length (sv_fds st') \<le> length (sv_fds st)"
  by (auto simp: parse_tcp_client_message_def handle_subscribe_def handle_unsubscribe_def
      handle_shutdown_sub_def update_subscriber_def fill_buffer_def close_fd_def say_out_def Let_def
      remove_fd_def length_remove1 split: if_splits option.splits)

lemma loop_array:
  "clients_loop i ready st = Running st' \<Longrightarrow>
     sv_fds_capacity st' = sv_fds_capacity st \<and> sv_fds_room st' = sv_fds_room st \<and>
     length (sv_fds st') \<le> length (sv_fds st)"
proof (induction i ready st rule: clients_loop.induct)
  case (1 i ready st)
  show ?case
  proof (cases "i < length (sv_fds st)")
    case False
    with 1(3) show ?thesis by (simp add: clients_loop.simps [of i])
  next
    case i: True
    show ?thesis
    proof (cases "map_of ready (sv_fds st ! i)")
      case None
      with 1(1) [OF i None] 1(3) i show ?thesis by (simp add: clients_loop.simps [of i ready st])
    next
      case (Some p)
      with 1(3) i obtain st1 where st1: "parse_tcp_client_message (sv_fds st ! i) p st = Running st1"
        and rest: "clients_loop (i + 1) ready st1 = Running st'"
        by (auto simp: clients_loop.simps [of i] split: outcome.splits)
      from 1(2) [OF i Some st1 rest] message_array [OF st1] show ?thesis by auto
    qed
  qed
qed

lemma check_array:
  "check_and_add_new_sub fd st = Done (r, st') \<Longrightarrow>
     sv_fds_capacity st' = sv_fds_capacity st \<and> sv_fds_room st' = sv_fds_room st \<and> sv_fds st' = sv_fds st"
  by (auto simp: check_and_add_new_sub_def say_out_def Let_def split: if_splits option.splits)

lemma array_step: "array_inv st \<Longrightarrow> step e st = Running st' \<Longrightarrow> array_inv st'"
proof (cases e)
  case Stdin_ready
  then show "step e st = Running st' \<Longrightarrow> array_inv st'" by (simp add: step_def shutdown_server_def)
next
  case (Connecting fd addr p)
  let ?st = "fill_buffer p (clear_buffer st)"
  assume inv: "array_inv st" and run: "step e st = Running st'"
  from run Connecting obtain r st1 where check: "check_and_add_new_sub fd ?st = Done (r, st1)"
    and rest: "(case r of None \<Rightarrow> Running (send_shutdown_to_intruder fd st1)
      | Some i \<Rightarrow> and_then (add_new_pollfd_struc fd st1) (\<lambda>st'. Running (say_out (''New client '' @ i @
          '' connected from '' @ inet_ntop (sin_addr addr) @ '':'' @ str_nat (sin_port addr) @ ''.'') st'))) =
      Running st'"
    by (auto simp: step_def handle_connection_def split: cresult.splits option.splits if_splits)
  have "array_inv st1" by (rule array_frame [of st1 st]) (use check_array [OF check] inv in simp_all)
  show "array_inv st'"
  proof (cases r)
    case None
    with rest have "st' = send_shutdown_to_intruder fd st1" by simp
    with \<open>array_inv st1\<close> show ?thesis
      by (simp add: array_inv_def send_shutdown_to_intruder_def send_to_def clear_buffer_def)
  next
    case (Some i)
    with rest obtain st2 where st2: "add_new_pollfd_struc fd st1 = Running st2"
      "sv_fds_capacity st' = sv_fds_capacity st2" "sv_fds_room st' = sv_fds_room st2" "sv_fds st' = sv_fds st2"
      by (cases "add_new_pollfd_struc fd st1") (auto simp: and_then_def say_out_def)
    show ?thesis
      by (rule array_frame [OF st2(2,3) _ add_array_inv [OF \<open>array_inv st1\<close> st2(1)]]) (simp add: st2(4))
  qed
next
  case (Datagram_in d addr junk)
  then show "array_inv st \<Longrightarrow> step e st = Running st' \<Longrightarrow> array_inv st'"
    by (auto simp: step_def handle_datagram_def send_packet_to_subscribers_def Let_def fold_send array_inv_def
        split: cresult.splits option.splits)
next
  case (Clients_ready ready)
  then show "array_inv st \<Longrightarrow> step e st = Running st' \<Longrightarrow> array_inv st'"
    using loop_array [of 3 ready "clear_buffer st" st'] array_frame [of st' st] by (simp add: step_def)
qed

lemma array_start: "push_basic_fds tcp udp st = Running st' \<Longrightarrow> array_inv st'"
  by (auto simp: push_basic_fds_def and_then_def add_new_pollfd_struc_def array_inv_def BACKLOG_MAX_def
      sizeof_pollfd_def Let_def split: if_splits outcome.splits)

text \<open>
  C22. The array never grows: in every reachable state it holds at most 64 descriptors, 61 of them of
  subscribers, and when it is full the connection of one more subscriber, new or returning, writes
  outside the array, whose reallocation was given a number of elements for a number of bytes.
\<close>

theorem full_array_breaks:
  assumes "reachable st"
  shows "length (sv_fds st) \<le> 64 \<and>
    (length (sv_fds st) = 64 \<and> (\<nexists>ts f. registry st (packet_text p) = Some (ts, Some f)) \<longrightarrow>
      step (Connecting fd addr p) st = Broken)"
proof -
  have inv: "array_inv st" using assms by induction (auto intro: array_start array_step)
  let ?st = "fill_buffer p (clear_buffer st)"
  have "step (Connecting fd addr p) st = Broken"
    if full: "length (sv_fds st) = 64" and off: "\<nexists>ts f. registry st (packet_text p) = Some (ts, Some f)"
  proof (cases "check_and_add_new_sub fd ?st")
    case Undefined
    then show ?thesis by (simp add: step_def handle_connection_def)
  next
    case (Done x)
    obtain r st1 where x: "x = (r, st1)" by (cases x)
    have "r \<noteq> None"
      using Done x off
      by (auto simp: check_and_add_new_sub_def buffer_text registry_def view_def Let_def
          split: if_splits option.splits)
    then obtain i where r: "r = Some i" by auto
    have "array_inv st1" by (rule array_frame [of st1 st]) (use check_array [of fd ?st r st1] Done x inv in simp_all)
    moreover have "length (sv_fds st1) = BACKLOG_MAX"
      using check_array [of fd ?st r st1] Done x full by (simp add: BACKLOG_MAX_def)
    ultimately show ?thesis
      using Done x r by (simp add: step_def handle_connection_def add_full and_then_def)
  qed
  moreover have "length (sv_fds st) \<le> 64" using inv by (simp add: array_inv_def BACKLOG_MAX_def)
  ultimately show ?thesis by blast
qed

section \<open>Reused descriptors\<close>

lemma loop_skips:
  "\<forall>k < n. map_of ready (sv_fds st ! (i + k)) = None \<Longrightarrow> i + n \<le> length (sv_fds st) \<Longrightarrow>
     clients_loop i ready st = clients_loop (i + n) ready st"
proof (induction n arbitrary: i)
  case (Suc n)
  have "clients_loop i ready st = clients_loop (i + 1) ready st"
    using Suc.prems(1) [rule_format, of 0] Suc.prems(2) by (subst clients_loop.simps) simp
  also have "\<dots> = clients_loop (i + 1 + n) ready st"
    using Suc.prems by (intro Suc.IH) (auto dest: spec [of _ "Suc _"])
  finally show ?case by simp
qed simp

text \<open>One subscriber has sent a packet: the loop comes to its descriptor alone.\<close>

lemma single_ready:
  assumes "distinct (sv_fds st)" and "3 \<le> length (sv_fds st)" and "fd \<in> set (drop 3 (sv_fds st))"
    and "parse_tcp_client_message fd q (clear_buffer st) = Running st'" and "sv_fds st' = sv_fds st"
  shows "step (Clients_ready [(fd, q)]) st = Running st'"
proof -
  let ?r = "[(fd, q)]" and ?st = "clear_buffer st" and ?fds = "sv_fds st"
  obtain k where "k < length (drop 3 ?fds)" "drop 3 ?fds ! k = fd"
    using assms(3) unfolding in_set_conv_nth by blast
  then have k: "3 + k < length ?fds" "?fds ! (3 + k) = fd" by simp_all
  have other: "map_of ?r (?fds ! i) = None" if "i < length ?fds" "i \<noteq> 3 + k" for i
    using that k assms(1) by (auto simp: nth_eq_iff_index_eq)
  have "clients_loop 3 ?r ?st = clients_loop (3 + k) ?r ?st"
    by (rule loop_skips) (use k other in auto)
  also have "\<dots> = clients_loop (3 + k + 1) ?r st'"
    using k assms(4) by (subst clients_loop.simps) simp
  also have "\<dots> = clients_loop (3 + k + 1 + (length ?fds - (3 + k + 1))) ?r st'"
    by (rule loop_skips) (use k other assms(5) in auto)
  also have "\<dots> = Running st'"
    using k(1) assms(5) by (subst clients_loop.simps) simp
  finally show ?thesis by (simp add: step_def)
qed

lemma update_first_append:
  "x \<in> set xs \<Longrightarrow> P x \<Longrightarrow> update_first P f (xs @ ys) = update_first P f xs @ ys"
  by (induction xs) auto

text \<open>
  C23. Subscribers are looked up by descriptor among all entries, the offline ones first if they are
  older. When the system gives a new subscriber the descriptor of one that has left, as it does
  whenever that is the lowest free number, the new subscriber's subscription is entered for the
  one that has left: the new one gets nothing.
\<close>

theorem reused_descriptor_misroutes:
  assumes "broker_inv st" and "has_room st" and "s \<in> set (subs st)" and "\<not> sub_online s"
    and "sub_fd s = fd" and "fd \<notin> set (sv_fds st)"
    and "registry st i = None" and "NUL \<notin> set i" and "length i \<le> 3" and "NUL \<notin> set t"
    and "header_size + length t < MAX_LEN"
  shows "\<exists>st'. run_server [Connecting fd addr (CONNECT_ACTION, i @ [NUL]),
      Clients_ready [(fd, SUBSCRIBE_ACTION, t @ [NUL])]] st = Running st' \<and>
    registry st' i = Some ([], Some fd) \<and>
    registry st' (sub_id s) = Some (sub_topics s @ [t], None)"
proof -
  let ?new = "\<lparr>sub_fd = fd, sub_id = i, sub_topics = [], sub_online = True\<rparr>"
  have none: "List.find (\<lambda>s. sub_id s = i) (subs st) = None" using assms(7) by (simp add: registry_def)
  obtain st1 where st1: "step (Connecting fd addr (CONNECT_ACTION, i @ [NUL])) st = Running st1"
    "subs st1 = subs st @ [?new]" "sv_fds st1 = sv_fds st @ [fd]"
    by (rule new_connection [OF assms(2) none assms(8,9)])
  let ?p = "(SUBSCRIBE_ACTION, t @ [NUL])" and ?st = "clear_buffer st1"
  let ?f = "\<lambda>s. s\<lparr>sub_topics := sub_topics s @ [t]\<rparr>"
  have fds: "distinct (map sub_fd (subs st))" and ids: "distinct (map sub_id (subs st))"
    using assms(1) by (simp_all add: broker_inv_def)
  have "List.find (\<lambda>x. sub_fd x = fd) (subs st) = Some s" using find_key [OF fds assms(3)] assms(5) by simp
  then have found: "get_subscriber_by_fd fd (fill_buffer ?p ?st) = Some s"
    by (simp add: get_subscriber_by_fd_def st1(2) find_append)
  let ?st2 = "update_subscriber fd ?f (fill_buffer ?p ?st)"
  have msg: "parse_tcp_client_message fd ?p ?st = Running ?st2"
    using assms(10,11) found
    by (simp add: parse_tcp_client_message_def handle_subscribe_def packet_topic)
  have "distinct (sv_fds st)" "3 \<le> length (sv_fds st)" using assms(1) by (simp_all add: broker_inv_def)
  then have run: "step (Clients_ready [(fd, ?p)]) st1 = Running ?st2"
    by (intro single_ready) (use assms(6) msg in \<open>simp_all add: st1(3) update_subscriber_def\<close>)
  have upd: "update_first (\<lambda>s. sub_fd s = fd) ?f (subs st @ [?new]) =
      update_first (\<lambda>s. sub_fd s = fd) ?f (subs st) @ [?new]"
    by (rule update_first_append [OF assms(3)]) (simp add: assms(5))
  have subs2: "subs ?st2 = map (\<lambda>s. if sub_fd s = fd then ?f s else s) (subs st) @ [?new]"
    by (simp add: update_subscriber_def st1(2) upd update_first_map [OF fds])
  have at_i: "List.find (\<lambda>s. sub_id s = i) (map (\<lambda>s. if sub_fd s = fd then ?f s else s) (subs st)) = None"
    using none by (simp add: find_map_key)
  have at_s: "List.find (\<lambda>x. sub_id x = sub_id s) (map (\<lambda>s. if sub_fd s = fd then ?f s else s) (subs st)) =
      Some (?f s)"
    using find_key [OF ids assms(3)] assms(5) by (simp add: find_map_key)
  have "registry ?st2 i = Some ([], Some fd)"
    by (simp add: registry_def subs2 find_append at_i view_def)
  moreover have "registry ?st2 (sub_id s) = Some (sub_topics s @ [t], None)"
    using assms(4) by (simp add: registry_def subs2 find_append at_s view_def)
  ultimately show ?thesis using st1(1) run by (simp add: and_then_def)
qed

end
