(* ===== verification/Subscriber.thy ===== *)
theory Subscriber
  imports Notification
begin

text \<open>
  The client \<open>subscriber.cpp\<close>: the commands on its standard input, the packets they send, and what
  it does with the packets of the server.
\<close>

section \<open>State\<close>

text \<open>
  \<open>cl_in\<close> is the standard input that is still to be read; the other fields record the effects:
  standard output, standard error, packets sent (action, payload). \<open>cl_shutdown\<close> tells whether the
  system's \<open>shutdown\<close> of the connection will succeed.
\<close>

record client =
  cl_in :: string
  cl_out :: string
  cl_err :: string
  cl_sent :: "(nat \<times> string) list"
  cl_shutdown :: bool

datatype client_outcome = Goes client | Ends nat client | Client_broken

definition MAX_LINE :: nat where "MAX_LINE = 256"
definition MAX_TOPIC :: nat where "MAX_TOPIC = 51"

definition send_packet :: "nat \<Rightarrow> string \<Rightarrow> client \<Rightarrow> client" where
  "send_packet a p c = c\<lparr>cl_sent := cl_sent c @ [(a, p)]\<rparr>"

definition print_out :: "string \<Rightarrow> client \<Rightarrow> client" where
  "print_out s c = c\<lparr>cl_out := cl_out c @ s\<rparr>"

text \<open>\<open>connect_to_server\<close> once the socket is connected; a longer identifier overruns the buffer.\<close>

definition connect_to_server :: "string \<Rightarrow> client \<Rightarrow> client_outcome" where
  "connect_to_server i c = (if header_size + length i + 1 \<le> MAX_LEN
     then Goes (send_packet CONNECT_ACTION (i @ [NUL]) c) else Client_broken)"

section \<open>Commands\<close>

text \<open>\<open>fgets\<close>: the characters up to and with the first newline, \<open>n\<close> at most, and what is left.\<close>

fun fgets :: "nat \<Rightarrow> string \<Rightarrow> string \<times> string" where
  "fgets 0 s = ([], s)"
| "fgets (Suc n) [] = ([], [])"
| "fgets (Suc n) (x # s) = (if x = CHR 0x0A then ([x], s)
     else (x # fst (fgets n s), snd (fgets n s)))"

definition c_space :: "char \<Rightarrow> bool" where
  "c_space x \<longleftrightarrow> x \<in> set [CHR '' '', CHR 0x09, CHR 0x0A, CHR 0x0B, CHR 0x0C, CHR 0x0D]"

text \<open>The word \<open>sscanf\<close> reads for \<open>%s\<close>; when there is none, the cleared \<open>topic\<close> is left empty.\<close>

definition scan_word :: "string \<Rightarrow> string" where
  "scan_word s = takeWhile (\<lambda>x. \<not> c_space x) (dropWhile c_space s)"

definition shutdown_and_close_conn_fd :: "client \<Rightarrow> client_outcome" where
  "shutdown_and_close_conn_fd c = Ends (if cl_shutdown c then 0 else 1) c"

definition handle_shutdown :: "client \<Rightarrow> client_outcome" where
  "handle_shutdown c = shutdown_and_close_conn_fd (send_packet SHUTDOWN_CLOSE [] c)"

text \<open>\<open>subscribe\<close> and \<open>unsubscribe\<close>, given the buffer; a word of more than fifty characters overruns \<open>topic\<close>.\<close>

definition subscribe :: "string \<Rightarrow> client \<Rightarrow> client_outcome" where
  "subscribe buff c =
     (let topic = scan_word (cstr (drop 10 buff))
      in if length topic + 1 \<le> MAX_TOPIC
         then Goes (print_out (''Subscribed to topic '' @ topic @ newline)
           (send_packet SUBSCRIBE_ACTION (topic @ [NUL]) c))
         else Client_broken)"

definition unsubscribe :: "string \<Rightarrow> client \<Rightarrow> client_outcome" where
  "unsubscribe buff c =
     (let topic = scan_word (cstr (drop 12 buff))
      in if length topic + 1 \<le> MAX_TOPIC
         then Goes (print_out (''Unsubscribed to topic '' @ topic @ newline)
           (send_packet UNSUBSCRIBE_ACTION (topic @ [NUL]) c))
         else Client_broken)"

text \<open>
  The last character of the text in the buffer is overwritten, a newline or not. When nothing could
  be read, that write is in front of the buffer.
\<close>

definition parse_stdin_command :: "client \<Rightarrow> client_outcome" where
  "parse_stdin_command c =
     (let (line, rest) = fgets (MAX_LINE - 1) (cl_in c);
          buff = cleared_buffer line;
          n = length (cstr buff);
          buff' = buff[n - 1 := NUL];
          c = c\<lparr>cl_in := rest\<rparr>
      in if n = 0 then Client_broken
         else if take 4 buff' = ''exit'' then handle_shutdown c
         else if take 9 buff' = ''subscribe'' then subscribe buff' c
         else if take 11 buff' = ''unsubscribe'' then unsubscribe buff' c
         else Goes (c\<lparr>cl_err := cl_err c @ ''Wrong command format!'' @ newline\<rparr>))"

section \<open>Packets of the server\<close>

definition handle_packet :: "nat \<Rightarrow> string \<Rightarrow> client \<Rightarrow> client_outcome" where
  "handle_packet a p c =
     (if header_size + length p > MAX_LEN then Client_broken
      else if a = SHUTDOWN_INTRUDER then shutdown_and_close_conn_fd c
      else if a = SHUTDOWN_CLOSE then shutdown_and_close_conn_fd c
      else if a = NOTIFICATION_ACTION
      then Goes (print_out (parse_notification (drop header_size (cleared_buffer (packet_bytes a p)))) c)
      else Goes c)"

text \<open>One turn of the loop of \<open>run_subscriber\<close>: standard input comes first.\<close>

datatype client_event = Typed | Arrived nat string

definition client_step :: "client_event \<Rightarrow> client \<Rightarrow> client_outcome" where
  "client_step e c = (case e of Typed \<Rightarrow> parse_stdin_command c | Arrived a p \<Rightarrow> handle_packet a p c)"

fun run_subscriber :: "client_event list \<Rightarrow> client \<Rightarrow> client_outcome" where
  "run_subscriber [] c = Goes c"
| "run_subscriber (e # es) c = (case client_step e c of Goes c' \<Rightarrow> run_subscriber es c' | r \<Rightarrow> r)"

section \<open>Lines\<close>

lemma fgets_line:
  "CHR 0x0A \<notin> set l \<Longrightarrow> length l < n \<Longrightarrow> fgets n (l @ CHR 0x0A # s) = (l @ [CHR 0x0A], s)"
  by (induction n "l @ CHR 0x0A # s" arbitrary: l rule: fgets.induct) (auto simp: Cons_eq_append_conv)

text \<open>A line of at most 254 characters is in the buffer without its newline, the rest is null.\<close>

lemma command_buffer:
  assumes "CHR 0x0A \<notin> set l" and "NUL \<notin> set l"
  shows "length (cstr (cleared_buffer (l @ [CHR 0x0A]))) = length l + 1"
    and "(cleared_buffer (l @ [CHR 0x0A]))[length l := NUL] =
      l @ NUL # replicate (MAX_LEN - Suc (length l)) NUL"
proof -
  have no: "NUL \<notin> set (l @ [CHR 0x0A])" using assms(2) by (simp add: NUL_def)
  have "cstr ((l @ [CHR 0x0A]) @ replicate k NUL) = l @ [CHR 0x0A]" for k
    using cstr_append_NUL [OF no] no by (cases k) (auto simp: cstr_def takeWhile_eq_all_conv)
  then show "length (cstr (cleared_buffer (l @ [CHR 0x0A]))) = length l + 1"
    by (simp add: cleared_buffer_def)
  show "(cleared_buffer (l @ [CHR 0x0A]))[length l := NUL] = l @ NUL # replicate (MAX_LEN - Suc (length l)) NUL"
    by (simp add: cleared_buffer_def)
qed

lemma typed_command:
  assumes "CHR 0x0A \<notin> set l" and "NUL \<notin> set l" and "length l < 255" and "cl_in c = l @ CHR 0x0A # rest"
  shows "client_step Typed c =
    (let buff = l @ NUL # replicate (MAX_LEN - Suc (length l)) NUL; c = c\<lparr>cl_in := rest\<rparr>
     in if take 4 buff = ''exit'' then handle_shutdown c
        else if take 9 buff = ''subscribe'' then subscribe buff c
        else if take 11 buff = ''unsubscribe'' then unsubscribe buff c
        else Goes (c\<lparr>cl_err := cl_err c @ ''Wrong command format!'' @ newline\<rparr>))"
proof -
  have "fgets (MAX_LINE - 1) (cl_in c) = (l @ [CHR 0x0A], rest)"
    using fgets_line [OF assms(1), of "MAX_LINE - 1" rest] assms(3,4) by (simp add: MAX_LINE_def)
  then show ?thesis
    using command_buffer [OF assms(1,2)] length_0_conv [of "cstr (cleared_buffer (l @ [CHR 0x0A]))"]
    by (simp add: client_step_def parse_stdin_command_def Let_def)
qed

text \<open>Words: what a topic of a command may be made of.\<close>

definition word_ok :: "string \<Rightarrow> bool" where
  "word_ok t \<longleftrightarrow> t \<noteq> [] \<and> length t \<le> 50 \<and> NUL \<notin> set t \<and> list_all (\<lambda>x. \<not> c_space x) t"

lemma scan_word_ok: "word_ok t \<Longrightarrow> scan_word t = t"
  by (cases t) (auto simp: word_ok_def scan_word_def takeWhile_eq_all_conv list_all_iff)

lemma word_no_newline: "word_ok t \<Longrightarrow> CHR 0x0A \<notin> set t"
  by (auto simp: word_ok_def c_space_def list_all_iff)

lemma type_subscribe:
  assumes "word_ok t" and "cl_in c = ''subscribe '' @ t @ CHR 0x0A # rest"
  shows "client_step Typed c = Goes (c\<lparr>cl_in := rest, cl_sent := cl_sent c @ [(SUBSCRIBE_ACTION, t @ [NUL])],
    cl_out := cl_out c @ ''Subscribed to topic '' @ t @ newline\<rparr>)"
proof -
  let ?l = "''subscribe '' @ t"
  have t: "NUL \<notin> set t" "length t \<le> 50" "CHR 0x0A \<notin> set t"
    using assms(1) word_no_newline by (auto simp: word_ok_def)
  have "NUL \<notin> set ?l" "CHR 0x0A \<notin> set ?l" "length ?l < 255"
    using t by (auto simp: NUL_def)
  from typed_command [OF this(2,1,3), of c rest] show ?thesis
    using assms t by (simp add: subscribe_def cstr_append_NUL scan_word_ok MAX_TOPIC_def print_out_def send_packet_def)
qed

lemma type_unsubscribe:
  assumes "word_ok t" and "cl_in c = ''unsubscribe '' @ t @ CHR 0x0A # rest"
  shows "client_step Typed c = Goes (c\<lparr>cl_in := rest, cl_sent := cl_sent c @ [(UNSUBSCRIBE_ACTION, t @ [NUL])],
    cl_out := cl_out c @ ''Unsubscribed to topic '' @ t @ newline\<rparr>)"
proof -
  let ?l = "''unsubscribe '' @ t"
  have t: "NUL \<notin> set t" "length t \<le> 50" "CHR 0x0A \<notin> set t"
    using assms(1) word_no_newline by (auto simp: word_ok_def)
  have "NUL \<notin> set ?l" "CHR 0x0A \<notin> set ?l" "length ?l < 255"
    using t by (auto simp: NUL_def)
  from typed_command [OF this(2,1,3), of c rest] show ?thesis
    using assms t by (simp add: unsubscribe_def cstr_append_NUL scan_word_ok MAX_TOPIC_def print_out_def send_packet_def)
qed

end
