(* ===== verification/End_To_End.thy ===== *)
theory End_To_End
  imports Broker_Delivery Subscriber Readings
begin

text \<open>
  The programs together: a command typed at a subscriber, the packet it sends, the broker's database,
  a datagram of a reading, and the line the subscriber prints for it.
\<close>

section \<open>One subscriber has sent a packet\<close>

lemma subscribe_step:
  assumes "broker_inv st" and "s \<in> set (subs st)" and "sub_online s" and "NUL \<notin> set t"
    and "header_size + length t < MAX_LEN"
  shows "\<exists>st'. step (Clients_ready [(sub_fd s, SUBSCRIBE_ACTION, t @ [NUL])]) st = Running st' \<and>
    sv_fds st' = sv_fds st \<and> sent st' = sent st \<and>
    subs st' = map (\<lambda>x. if sub_fd x = sub_fd s then x\<lparr>sub_topics := sub_topics x @ [t]\<rparr> else x) (subs st)"
proof -
  let ?p = "(SUBSCRIBE_ACTION, t @ [NUL])" and ?fd = "sub_fd s"
  let ?f = "\<lambda>x. x\<lparr>sub_topics := sub_topics x @ [t]\<rparr>"
  let ?st' = "update_subscriber ?fd ?f (fill_buffer ?p (clear_buffer st))"
  have fds: "distinct (map sub_fd (subs st))" and "?fd \<in> set (drop 3 (sv_fds st))"
    using assms(1-3) by (auto simp: broker_inv_def)
  have "parse_tcp_client_message ?fd ?p (clear_buffer st) = Running ?st'"
    by (rule subscribe_runs [OF assms(1,2) _ assms(4,5)]) simp
  moreover have "distinct (sv_fds st)" "3 \<le> length (sv_fds st)" using assms(1) by (simp_all add: broker_inv_def)
  ultimately show ?thesis
    using single_ready [OF _ _ \<open>?fd \<in> _\<close>]
    by (simp add: update_subscriber_def update_first_map [OF fds])
qed

section \<open>Readings as datagrams\<close>

lemma reading_datagram:
  assumes "reading_ok r"
  obtains code content l where "encode_reading name r = datagram name code content" and "code < 4"
    and "payload_length code = Some l" and "code < 3 \<Longrightarrow> length content = l"
    and "code = 3 \<Longrightarrow> length content \<le> 1500"
  using assms
  by (cases r)
    (force simp: int_payload_def short_real_payload_def float_payload_def string_payload_def payload_length_def)+

lemma notification_fits:
  assumes "name_ok name" and "length junk \<ge> 16"
    and "parse_udp_packet (receive_datagram (datagram name code content)) addr junk = Done n"
    and "payload_length code = Some l" and "code < 4"
    and "code < 3 \<Longrightarrow> length content = l" and "code = 3 \<Longrightarrow> length content \<le> 1500"
  shows "header_size + length (notification_bytes n) \<le> MAX_LEN"
proof -
  have "l \<le> 1501" using assms(4) by (auto simp: payload_length_def split: if_splits)
  then have "length (npayload n) \<le> 1501"
    using parsed_packet [OF assms(1,5,4,6,7), of addr junk] assms(3,6,7) le_trans [OF cstr_length, of content 1500]
    by (cases "code = 3") (use assms(5) in auto)
  moreover have "length (nip n) \<le> 16" "length (ntopic n) = 51"
    using parsed_packet [OF assms(1,5,4,6,7), of addr junk] assms(1,3)
    by (auto simp: ip_field_def length_pad50 name_ok_def)
  ultimately show ?thesis by (simp add: notification_bytes_def header_size_def MAX_LEN_def)
qed

text \<open>
  C3. From the keyboard to the screen: when an online subscriber types \<open>subscribe\<close> and a pattern,
  its client sends one packet, the broker enters the pattern, and for every reading whose topic the
  pattern covers that then reaches the broker in a datagram, the broker sends this subscriber a
  packet for which the client prints the line with the topic and the reading's text.
\<close>

theorem subscribed_reading_is_shown:
  assumes "broker_inv st" and "s \<in> set (subs st)" and "sub_online s"
    and "\<forall>s \<in> set (subs st). \<forall>p \<in> set (sub_topics s). plain_pattern p"
    and "word_ok p" and "plain_pattern p" and "covers p name"
    and "name_ok name" and "reading_ok r" and "sin_port addr < 2 ^ 16" and "16 \<le> length junk"
    and "cl_in c = ''subscribe '' @ p @ CHR 0x0A # rest"
  shows "\<exists>c1 q st1 st2 new b c2. client_step Typed c = Goes c1 \<and> cl_in c1 = rest \<and>
    cl_sent c1 = cl_sent c @ [q] \<and>
    step (Clients_ready [(sub_fd s, q)]) st = Running st1 \<and>
    step (Datagram_in (encode_reading name r) addr junk) st1 = Running st2 \<and>
    sent st2 = sent st @ new \<and> (sub_fd s, NOTIFICATION_ACTION, b) \<in> set new \<and>
    client_step (Arrived NOTIFICATION_ACTION b) c1 = Goes c2 \<and>
    cl_out c2 = cl_out c1 @ line_of addr name (reading_text r)"
proof -
  let ?q = "(SUBSCRIBE_ACTION, p @ [NUL])"
  let ?f = "\<lambda>x. if sub_fd x = sub_fd s then x\<lparr>sub_topics := sub_topics x @ [p]\<rparr> else x"
  obtain c1 where c1: "client_step Typed c = Goes c1" "cl_in c1 = rest" "cl_sent c1 = cl_sent c @ [?q]"
    using type_subscribe [OF assms(5,12)] by simp
  have "NUL \<notin> set p" "header_size + length p < MAX_LEN"
    using assms(5) by (simp_all add: word_ok_def header_size_def MAX_LEN_def)
  then obtain st1 where st1: "step (Clients_ready [(sub_fd s, ?q)]) st = Running st1"
    "subs st1 = map ?f (subs st)" "sent st1 = sent st"
    using subscribe_step [OF assms(1-3), of p] by blast
  have plain: "\<forall>x \<in> set (subs st1). \<forall>p \<in> set (sub_topics x). plain_pattern p"
    using assms(4,6) by (auto simp: st1(2))
  obtain code content l where d: "encode_reading name r = datagram name code content"
    and ok: "code < 4" "payload_length code = Some l" "code < 3 \<Longrightarrow> length content = l"
      "code = 3 \<Longrightarrow> length content \<le> 1500"
    by (rule reading_datagram [OF assms(9)]) blast
  let ?to = "filter (\<lambda>x. sub_online x \<and> (\<exists>p \<in> set (sub_topics x). covers p name)) (subs st1)"
  obtain st2 n where st2: "step (Datagram_in (datagram name code content) addr junk) st1 = Running st2"
    and n: "parse_udp_packet (receive_datagram (datagram name code content)) addr junk = Done n"
    and new: "sent st2 = sent st1 @ map (\<lambda>x. (sub_fd x, NOTIFICATION_ACTION, notification_bytes n)) ?to"
    using datagram_sent [OF assms(8) ok plain, of addr junk] by blast
  have "?f s \<in> set ?to" using assms(2,3,7) by (force simp: st1(2))
  from imageI [OF this, of "\<lambda>x. (sub_fd x, NOTIFICATION_ACTION, notification_bytes n)"]
  have to: "(sub_fd s, NOTIFICATION_ACTION, notification_bytes n) \<in>
      set (map (\<lambda>x. (sub_fd x, NOTIFICATION_ACTION, notification_bytes n)) ?to)"
    by (simp only: set_map) simp
  have "shown n = line_of addr name (reading_text r)"
    using delivered_reading [OF assms(8-11)] by (simp add: d delivered_line_def n)
  moreover have "header_size + length (notification_bytes n) \<le> MAX_LEN"
    by (rule notification_fits [OF assms(8,11) n ok(2,1,3,4)])
  ultimately have "client_step (Arrived NOTIFICATION_ACTION (notification_bytes n)) c1 =
      Goes (print_out (line_of addr name (reading_text r)) c1)"
    by (simp add: client_step_def handle_packet_def action_defs shown_def)
  with c1 st1(1,3) st2 new to show ?thesis
    by (intro exI [of _ c1] exI [of _ ?q] exI [of _ st1] exI [of _ st2] exI [of _ "notification_bytes n"]
        exI [of _ "map (\<lambda>x. (sub_fd x, NOTIFICATION_ACTION, notification_bytes n)) ?to"]
        exI [of _ "print_out (line_of addr name (reading_text r)) c1"]) (simp add: d print_out_def)
qed

section \<open>Commands\<close>

text \<open>The line in the cleared buffer: what it starts with, and its end behind a command.\<close>

definition line_buffer :: "string \<Rightarrow> string" where
  "line_buffer l = l @ NUL # replicate (MAX_LEN - Suc (length l)) NUL"

lemma line_buffer_starts:
  assumes "NUL \<notin> set w"
  shows "take (length w) (line_buffer l) = w \<longleftrightarrow> startswith l w"
proof (cases "length w \<le> length l")
  case False
  then have "NUL \<in> set (take (length w) (line_buffer l))" by (auto simp: line_buffer_def take_Cons')
  moreover have "\<not> startswith l w" using False by (auto simp: startswith_iff)
  ultimately show ?thesis using assms by metis
qed (simp add: startswith_def line_buffer_def)

lemma line_buffer_commands:
  "take 4 (line_buffer l) = ''exit'' \<longleftrightarrow> startswith l ''exit''"
  "take 9 (line_buffer l) = ''subscribe'' \<longleftrightarrow> startswith l ''subscribe''"
  "take 11 (line_buffer l) = ''unsubscribe'' \<longleftrightarrow> startswith l ''unsubscribe''"
  using line_buffer_starts [of "''exit''" l] line_buffer_starts [of "''subscribe''" l]
    line_buffer_starts [of "''unsubscribe''" l] by (simp_all add: NUL_def eval_nat_numeral)

lemma line_buffer_rest:
  assumes "NUL \<notin> set l"
  shows "cstr (drop k (line_buffer l)) = drop k l"
proof (cases "k \<le> length l")
  case True
  have "NUL \<notin> set (drop k l)" using assms in_set_dropD by fastforce
  from cstr_append_NUL [OF this] True show ?thesis by (simp add: line_buffer_def)
next
  case False
  then obtain m where "drop k (line_buffer l) = replicate m NUL" by (cases "k - length l") (auto simp: line_buffer_def)
  then show ?thesis using False by (cases m) (simp_all add: cstr_def)
qed

text \<open>
  C31. What a line typed at a subscriber does: \<open>subscribe\<close> and \<open>unsubscribe\<close> with a word of up to
  fifty characters send exactly one packet with that word and confirm it, any line that starts with
  \<open>exit\<close> tells the server and ends the program, any other line is refused on standard error and sends
  nothing; a topic of more than fifty characters overruns its buffer.
\<close>

theorem typed_line_effect:
  assumes "CHR 0x0A \<notin> set l" and "NUL \<notin> set l" and "length l < 255" and "cl_in c = l @ CHR 0x0A # rest"
  shows "client_step Typed c =
    (if startswith l ''exit'' then Ends (if cl_shutdown c then 0 else 1)
       (c\<lparr>cl_in := rest, cl_sent := cl_sent c @ [(SHUTDOWN_CLOSE, [])]\<rparr>)
     else if startswith l ''subscribe'' \<or> startswith l ''unsubscribe''
     then let k = (if startswith l ''subscribe'' then 10 else 12); t = scan_word (drop k l)
       in if length t \<le> 50
          then Goes (c\<lparr>cl_in := rest,
            cl_sent := cl_sent c @ [(if k = 10 then SUBSCRIBE_ACTION else UNSUBSCRIBE_ACTION, t @ [NUL])],
            cl_out := cl_out c @ (if k = 10 then ''Subscribed to topic '' else ''Unsubscribed to topic '') @
              t @ newline\<rparr>)
          else Client_broken
     else Goes (c\<lparr>cl_in := rest, cl_err := cl_err c @ ''Wrong command format!'' @ newline\<rparr>))"
proof -
  note run = typed_command [OF assms, folded line_buffer_def, unfolded Let_def line_buffer_commands]
  note effects = send_packet_def print_out_def MAX_TOPIC_def subscribe_def unsubscribe_def
    line_buffer_rest [OF assms(2)] Let_def
  consider "startswith l ''exit''" | "\<not> startswith l ''exit''" "startswith l ''subscribe''"
    | "\<not> startswith l ''exit''" "\<not> startswith l ''subscribe''" "startswith l ''unsubscribe''"
    | "\<not> startswith l ''exit''" "\<not> startswith l ''subscribe''" "\<not> startswith l ''unsubscribe''"
    by blast
  then show ?thesis
  proof cases
    case 1
    then show ?thesis by (simp add: run handle_shutdown_def shutdown_and_close_conn_fd_def send_packet_def)
  next
    case 2
    then show ?thesis by (simp only: run effects simp_thms if_True if_False) simp
  next
    case 3
    then show ?thesis by (simp only: run effects simp_thms if_True if_False) simp
  next
    case 4
    then show ?thesis by (simp add: run)
  qed
qed

end
