(* ===== verification/Startup.thy ===== *)
theory Startup
  imports Broker_Delivery Subscriber
begin

text \<open>
  How the two C++ programs start: their arguments, the calls that set up their sockets, and the way
  into their loops. The system is a function from the calls made so far and the next call to its
  result; every call is followed by \<open>DIE\<close>, which ends the program when the result is negative.
\<close>

section \<open>Calls\<close>

text \<open>The sockets are streams (\<open>True\<close>) or for datagrams; \<open>Option\<close> is \<open>TCP_NODELAY\<close> or \<open>SO_REUSEADDR\<close>.\<close>

datatype sock_option = Nodelay | Reuse_address

datatype sock_call =
    Socket bool
  | Set_option nat sock_option
  | Bind nat sockaddr
  | Listen nat nat
  | Connect nat sockaddr

type_synonym sock_env = "sock_call list \<Rightarrow> sock_call \<Rightarrow> int"
type_synonym 'a starting = "sock_call list \<Rightarrow> 'a option \<times> sock_call list"

definition call_or_die :: "sock_env \<Rightarrow> sock_call \<Rightarrow> nat starting" where
  "call_or_die env c h = (if env h c < 0 then None else Some (nat (env h c)), h @ [c])"

definition and_do :: "'a starting \<Rightarrow> ('a \<Rightarrow> 'b starting) \<Rightarrow> 'b starting" where
  "and_do m k h = (case m h of (None, h') \<Rightarrow> (None, h') | (Some x, h') \<Rightarrow> k x h')"

definition give :: "'a \<Rightarrow> 'a starting" where
  "give x h = (Some x, h)"

text \<open>\<open>htons\<close> takes its argument modulo the width of a port.\<close>

definition get_basic_sock_addr_in_template :: "int \<Rightarrow> nat list \<Rightarrow> sockaddr" where
  "get_basic_sock_addr_in_template port ip = \<lparr>sin_port = nat (port mod 2 ^ 16), sin_addr = ip\<rparr>"

definition INADDR_ANY :: "nat list" where "INADDR_ANY = [0, 0, 0, 0]"

text \<open>\<open>atoi\<close>: blanks, a sign, digits; \<open>None\<close> when the number is not an \<open>int\<close>, which C leaves undefined.\<close>

definition c_digits :: "string \<Rightarrow> int" where
  "c_digits s = foldl (\<lambda>n c. 10 * n + (of_char c - 48)) 0
     (takeWhile (\<lambda>c. 48 \<le> (of_char c :: nat) \<and> (of_char c :: nat) \<le> 57) s)"

definition atoi :: "string \<Rightarrow> int option" where
  "atoi s = (let t = dropWhile c_space s;
       n = (if take 1 t = ''-'' then - c_digits (drop 1 t)
            else if take 1 t = ''+'' then c_digits (drop 1 t) else c_digits t)
     in if - (2 ^ 31) \<le> n \<and> n < 2 ^ 31 then Some n else None)"

section \<open>The broker\<close>

definition create_sv_tcp_sock :: "sock_env \<Rightarrow> int \<Rightarrow> nat list \<Rightarrow> nat starting" where
  "create_sv_tcp_sock env port ip =
     and_do (call_or_die env (Socket True)) (\<lambda>fd.
     and_do (call_or_die env (Set_option fd Nodelay)) (\<lambda>_.
     and_do (call_or_die env (Bind fd (get_basic_sock_addr_in_template port ip))) (\<lambda>_. give fd)))"

definition create_sv_udp_sock :: "sock_env \<Rightarrow> int \<Rightarrow> nat list \<Rightarrow> nat starting" where
  "create_sv_udp_sock env port ip =
     and_do (call_or_die env (Socket False)) (\<lambda>fd.
     and_do (call_or_die env (Set_option fd Reuse_address)) (\<lambda>_.
     and_do (call_or_die env (Bind fd (get_basic_sock_addr_in_template port ip))) (\<lambda>_. give fd)))"

text \<open>The globals before \<open>main\<close>: nothing allocated, no subscribers, the buffer zero.\<close>

definition booted :: server where
  "booted = \<lparr>subs = [], sv_fds = [], sv_fds_capacity = 0, sv_fds_room = 0, buff = replicate MAX_LEN NUL,
     stdout_text = [], sent = [], closed = []\<rparr>"

text \<open>
  \<open>main\<close> of the broker, given the arguments behind the program's name and the events of its loop; with
  the outcome, the calls made before the loop.
\<close>

definition broker_main :: "sock_env \<Rightarrow> string list \<Rightarrow> event list \<Rightarrow> outcome \<times> sock_call list" where
  "broker_main env argv es =
     (if length argv + 1 \<noteq> 2 then (Exited 1 booted, [])
      else case atoi (hd argv) of None \<Rightarrow> (Broken, []) | Some port \<Rightarrow>
        (case and_do (create_sv_tcp_sock env port INADDR_ANY) (\<lambda>tcp.
                and_do (create_sv_udp_sock env port INADDR_ANY) (\<lambda>udp. give (tcp, udp))) [] of
           (None, h) \<Rightarrow> (Exited 1 booted, h)
         | (Some (tcp, udp), h) \<Rightarrow>
             (case push_basic_fds tcp udp booted of
                Running st \<Rightarrow> (case call_or_die env (Listen (sv_fds st ! 1) BACKLOG_MAX) h of
                    (None, h') \<Rightarrow> (Exited 1 st, h')
                  | (Some _, h') \<Rightarrow> (run_server es st, h'))
              | r \<Rightarrow> (r, h))))"

section \<open>The subscriber\<close>

definition create_sub_tcp_sock :: "sock_env \<Rightarrow> (string \<Rightarrow> nat list) \<Rightarrow> string \<Rightarrow> int \<Rightarrow> nat starting" where
  "create_sub_tcp_sock env inet_addr sv_ip port =
     and_do (call_or_die env (Socket True)) (\<lambda>fd.
     and_do (call_or_die env (Connect fd (get_basic_sock_addr_in_template port (inet_addr sv_ip)))) (\<lambda>_. give fd))"

text \<open>\<open>main\<close> of the subscriber: identifier, address and port of the server, then the events of its loop.\<close>

definition subscriber_main ::
    "sock_env \<Rightarrow> (string \<Rightarrow> nat list) \<Rightarrow> string list \<Rightarrow> client_event list \<Rightarrow> client \<Rightarrow> client_outcome \<times> sock_call list" where
  "subscriber_main env inet_addr argv es c =
     (if length argv + 1 \<noteq> 4 then (Ends 1 c, [])
      else case atoi (argv ! 2) of None \<Rightarrow> (Client_broken, []) | Some port \<Rightarrow>
        (case create_sub_tcp_sock env inet_addr (argv ! 1) port [] of
           (None, h) \<Rightarrow> (Ends 1 c, h)
         | (Some _, h) \<Rightarrow> (case connect_to_server (argv ! 0) c of
               Goes c' \<Rightarrow> (run_subscriber es c', h) | r \<Rightarrow> (r, h))))"


section \<open>What starts\<close>

lemma and_do_some: "and_do m k h = (Some y, h'') \<longleftrightarrow> (\<exists>x h'. m h = (Some x, h') \<and> k x h' = (Some y, h''))"
  by (auto simp: and_do_def split: prod.splits option.splits)

lemma call_some: "call_or_die env c h = (Some n, h') \<longleftrightarrow> env h c \<ge> 0 \<and> n = nat (env h c) \<and> h' = h @ [c]"
  by (auto simp: call_or_die_def)

lemma give_some: "give x h = (Some y, h') \<longleftrightarrow> y = x \<and> h' = h"
  by (auto simp: give_def)

lemmas setup_some = and_do_some call_some give_some

text \<open>An open descriptor is not given out again.\<close>

definition new_descriptors :: "sock_env \<Rightarrow> bool" where
  "new_descriptors env \<longleftrightarrow> (\<forall>h h' b. env h (Socket b) \<noteq> 0 \<and> env h (Socket True) \<noteq> env h' (Socket False))"

text \<open>Events of which each has the property \<open>P\<close> in the state it comes in.\<close>

fun every_event :: "(event \<Rightarrow> server \<Rightarrow> bool) \<Rightarrow> event list \<Rightarrow> server \<Rightarrow> bool" where
  "every_event P [] st \<longleftrightarrow> True"
| "every_event P (e # es) st \<longleftrightarrow> P e st \<and> (case step e st of Running st' \<Rightarrow> every_event P es st' | _ \<Rightarrow> True)"

lemma run_keeps:
  assumes step: "\<And>e st st'. I st \<Longrightarrow> P e st \<Longrightarrow> step e st = Running st' \<Longrightarrow> I st'"
  shows "I st \<Longrightarrow> every_event P es st \<Longrightarrow> run_server es st = Running st' \<Longrightarrow> I st'"
proof (induction es arbitrary: st)
  case (Cons e es)
  then obtain st1 where st1: "step e st = Running st1" "run_server es st1 = Running st'"
    by (cases "step e st") (auto simp: and_then_def)
  with Cons.prems have "P e st" "every_event P es st1" by simp_all
  with Cons.IH [OF step [OF Cons.prems(1) _ st1(1)]] st1(2) show ?case by blast
qed simp

definition listening_calls :: "nat \<Rightarrow> nat \<Rightarrow> int \<Rightarrow> sock_call list" where
  "listening_calls tcp udp port =
     (let addr = \<lparr>sin_port = nat (port mod 2 ^ 16), sin_addr = [0, 0, 0, 0]\<rparr>
      in [Socket True, Set_option tcp Nodelay, Bind tcp addr, Socket False, Set_option udp Reuse_address,
          Bind udp addr, Listen tcp 64])"

lemma basic_fds: "push_basic_fds tcp udp booted =
    Running (booted\<lparr>sv_fds := [0, tcp, udp], sv_fds_capacity := BACKLOG_MAX, sv_fds_room := BACKLOG_MAX * sizeof_pollfd\<rparr>)"
  by (simp add: push_basic_fds_def and_then_def add_new_pollfd_struc_def booted_def BACKLOG_MAX_def sizeof_pollfd_def)

lemma sockets_made:
  "create_sv_tcp_sock env port INADDR_ANY h = (Some fd, h') \<Longrightarrow> int fd = env h (Socket True) \<and>
     h' = h @ [Socket True, Set_option fd Nodelay, Bind fd \<lparr>sin_port = nat (port mod 2 ^ 16), sin_addr = [0, 0, 0, 0]\<rparr>]"
  "create_sv_udp_sock env port INADDR_ANY h = (Some fd, h') \<Longrightarrow> int fd = env h (Socket False) \<and>
     h' = h @ [Socket False, Set_option fd Reuse_address, Bind fd \<lparr>sin_port = nat (port mod 2 ^ 16), sin_addr = [0, 0, 0, 0]\<rparr>]"
  unfolding create_sv_tcp_sock_def create_sv_udp_sock_def setup_some get_basic_sock_addr_in_template_def INADDR_ANY_def
  by (elim exE conjE, simp)+

lemma broker_main_running:
  assumes "broker_main env argv es = (Running st, h)"
  obtains a port tcp udp st0 where "argv = [a]" and "atoi a = Some port" and "push_basic_fds tcp udp booted = Running st0"
    and "run_server es st0 = Running st" and "h = listening_calls tcp udp port" and "int tcp = env [] (Socket True)"
    and "\<exists>h. int udp = env h (Socket False)" and "fst (broker_main env argv []) = Running st0"
proof -
  let ?socks = "\<lambda>port. and_do (create_sv_tcp_sock env port INADDR_ANY) (\<lambda>tcp.
                and_do (create_sv_udp_sock env port INADDR_ANY) (\<lambda>udp. give (tcp, udp)))"
  obtain a where a: "argv = [a]"
    using assms by (cases argv) (auto simp: broker_main_def split: if_splits)
  obtain port where port: "atoi a = Some port"
    using assms by (cases "atoi a") (simp_all add: broker_main_def a)
  obtain tcp udp h1 where socks: "?socks port [] = (Some (tcp, udp), h1)"
    using assms by (cases "?socks port []"; cases "fst (?socks port [])") (auto simp: broker_main_def a port)
  then obtain h0 where made: "create_sv_tcp_sock env port INADDR_ANY [] = (Some tcp, h0)"
    "create_sv_udp_sock env port INADDR_ANY h0 = (Some udp, h1)"
    by (auto simp: setup_some)
  obtain st0 where st0: "push_basic_fds tcp udp booted = Running st0" "sv_fds st0 ! 1 = tcp"
    by (simp add: basic_fds)
  have "run_server es st0 = Running st \<and> h = h1 @ [Listen tcp BACKLOG_MAX] \<and> fst (broker_main env argv []) = Running st0"
    using assms by (auto simp: broker_main_def a port socks st0 st0(2) [simplified] call_or_die_def split: if_splits)
  with sockets_made(1) [OF made(1)] sockets_made(2) [OF made(2)] show ?thesis
    by (intro that [OF a port st0(1)]) (auto simp: listening_calls_def BACKLOG_MAX_def Let_def)
qed

text \<open>
  C5. The whole broker, from its argument on, on a system that never gives out a descriptor that is open
  (\<open>new_descriptors\<close> for \<open>socket\<close>, \<open>accept_ok\<close> for \<open>accept\<close>) and whatever packets and datagrams come in: a
  broker that still runs has made exactly the seven calls that bind both sockets to the port of its
  argument, modulo the width of a port, and listen on the stream socket, and its database and array are
  in the invariant of all reachable states. If moreover no descriptor of a subscriber that has left was
  given to another one, the array holds exactly the descriptors of the subscribers online.
\<close>

theorem broker_program_states:
  assumes "broker_main env argv es = (Running st, h)" and "new_descriptors env"
    and "fst (broker_main env argv []) = Running st0" and "every_event accept_ok es st0"
  shows "database_inv st \<and> (every_event fresh es st0 \<longrightarrow> broker_inv st) \<and>
    (\<exists>a port tcp udp. argv = [a] \<and> atoi a = Some port \<and> h = listening_calls tcp udp port)"
proof -
  obtain a port tcp udp where run: "argv = [a]" "atoi a = Some port" "push_basic_fds tcp udp booted = Running st0"
    "run_server es st0 = Running st" "h = listening_calls tcp udp port"
    and fds: "int tcp = env [] (Socket True)" "\<exists>h. int udp = env h (Socket False)"
  proof (rule broker_main_running [OF assms(1)])
    fix a port tcp udp st1
    assume "argv = [a]" "atoi a = Some port" "push_basic_fds tcp udp booted = Running st1"
      "run_server es st1 = Running st" "h = listening_calls tcp udp port" "int tcp = env [] (Socket True)"
      "\<exists>h. int udp = env h (Socket False)" "fst (broker_main env argv []) = Running st1"
    with assms(3) show thesis by (intro that) simp_all
  qed
  have "int tcp \<noteq> 0" "int udp \<noteq> 0" "int tcp \<noteq> int udp"
    using assms(2) fds unfolding new_descriptors_def by metis+
  then have distinct: "distinct [0, tcp, udp]" by simp
  have "reachable st0" by (rule reachable.start [OF run(3) _ distinct]) (simp add: booted_def)
  from run_keeps [where I = reachable and P = accept_ok, OF _ this assms(4) run(4)]
  have "reachable st" by (blast intro: reachable.step)
  moreover have "broker_inv st0" by (rule inv_start [OF run(3) _ distinct]) (simp add: booted_def)
  then have "every_event fresh es st0 \<longrightarrow> broker_inv st"
    using run_keeps [where I = broker_inv and P = fresh, OF _ _ _ run(4)] inv_step by blast
  ultimately show ?thesis using reachable_database run(1,2,5) by blast
qed

section \<open>A subscriber starts\<close>

lemma subscriber_connects:
  assumes "\<forall>h c. 0 \<le> env h c" and "atoi p = Some port" and "length i \<le> 3"
  shows "\<exists>fd. \<forall>es. subscriber_main env inet_addr [i, ip, p] es c =
    (run_subscriber es (send_packet CONNECT_ACTION (i @ [NUL]) c),
     [Socket True, Connect fd \<lparr>sin_port = nat (port mod 2 ^ 16), sin_addr = inet_addr ip\<rparr>])"
proof -
  have "header_size + length i + 1 \<le> MAX_LEN" using assms(3) by (simp add: header_size_def MAX_LEN_def)
  moreover have "\<not> env h c < 0" for h c using assms(1) by (simp add: not_less)
  ultimately show ?thesis
    using assms(2)
    by (intro exI [of _ "nat (env [] (Socket True))"] allI)
      (simp add: subscriber_main_def create_sub_tcp_sock_def and_do_def call_or_die_def give_def
        get_basic_sock_addr_in_template_def connect_to_server_def)
qed

text \<open>
  C8. A subscriber program that starts makes two calls, connecting to the port of its third argument,
  and sends its identifier; the broker that takes this connection enters a new identifier, puts a known
  one that has left back online with its subscriptions, and refuses one that is online with the
  packet that ends the program that has just started.
\<close>

theorem started_subscriber_is_registered:
  assumes "\<forall>h c. 0 \<le> env h c" and "atoi p = Some port" and "NUL \<notin> set i" and "length i \<le> 3"
    and "broker_inv st" and "has_room st"
  shows "\<exists>fd q c1 st'. subscriber_main env inet_addr [i, ip, p] [] c =
      (Goes c1, [Socket True, Connect fd \<lparr>sin_port = nat (port mod 2 ^ 16), sin_addr = inet_addr ip\<rparr>]) \<and>
    cl_sent c1 = cl_sent c @ [q] \<and> step (Connecting new addr q) st = Running st' \<and>
    (case registry st i of
       None \<Rightarrow> registry st' = (registry st)(i \<mapsto> ([], Some new)) \<and> sent st' = sent st
     | Some (ts, None) \<Rightarrow> registry st' = (registry st)(i \<mapsto> (ts, Some new)) \<and> sent st' = sent st
     | Some (ts, Some f) \<Rightarrow> registry st' = registry st \<and>
         (\<exists>a b. sent st' = sent st @ [(new, a, b)] \<and>
           fst (subscriber_main env inet_addr [i, ip, p] [Arrived a b] c) = Ends (if cl_shutdown c then 0 else 1) c1))"
proof -
  let ?q = "(CONNECT_ACTION, i @ [NUL])" and ?c = "send_packet CONNECT_ACTION (i @ [NUL]) c"
  obtain fd where run: "\<forall>es. subscriber_main env inet_addr [i, ip, p] es c = (run_subscriber es ?c,
      [Socket True, Connect fd \<lparr>sin_port = nat (port mod 2 ^ 16), sin_addr = inet_addr ip\<rparr>])"
    using subscriber_connects [OF assms(1,2,4), of inet_addr ip c] by blast
  have ended: "run_subscriber [Arrived SHUTDOWN_INTRUDER []] ?c = Ends (if cl_shutdown c then 0 else 1) ?c"
    by (simp add: shutdown_and_close_conn_fd_def send_packet_def client_step_def handle_packet_def header_size_def MAX_LEN_def)
  have sent: "cl_sent ?c = cl_sent c @ [?q]" by (simp add: send_packet_def)
  consider "registry st i = None" | ts where "registry st i = Some (ts, None)"
    | ts f where "registry st i = Some (ts, Some f)"
    by (metis not_Some_eq surj_pair)
  then show ?thesis
  proof cases
    case 1
    with unknown_connects [OF assms(6) 1 assms(3,4), of new addr] run sent show ?thesis by auto
  next
    case (2 ts)
    with offline_returns [OF assms(5,6) 2 assms(3,4), of new addr] run sent show ?thesis by auto
  next
    case (3 ts f)
    with online_is_refused [OF 3 assms(3,4), of new addr] run sent ended show ?thesis by auto
  qed
qed

end
