(* ===== verification/Client_Packets.thy ===== *)
theory Client_Packets
  imports Startup
begin

text \<open>
  The interface between the two C++ programs: what packets a program that talks to the broker may
  send, as a locale, what the broker then does, and the interpretation on the subscriber's model.
\<close>

section \<open>The contract\<close>


section \<open>The subscriber\<close>











end
