(* ===== verification/Broker_Examples.thy ===== *)
theory Broker_Examples
  imports End_To_End Client_Packets Startup
begin

text \<open>
  The properties of the broker and its subscribers at concrete inputs: a broker with one subscriber
  online and one that has left, a few packets, patterns and datagrams, and a full array of descriptors.
\<close>

section \<open>Packets\<close>


theorem recv_never_returns_at_end_witness:
  "recv_tcp_packet [Data (take 7 (packet_bytes 3 ''a/b''))] = None"
  using recv_never_returns_at_end [of "[Data (take 7 (packet_bytes 3 ''a/b''))]" 7 3 "''a/b''"]
  by (simp add: header_size_def packet_bytes_def hdr_bytes_def)

section \<open>Patterns\<close>

lemma covers_example: "covers ''a/+'' ''a/bc''"
proof -
  have plus: "covers ''+'' ''bc''" using covers.One [of "''bc''" "[]" "[]"] covers.Nil by simp
  show ?thesis by (rule covers.Same, simp, rule covers.Same, simp, rule plus)
qed

lemma plain_example: "plain_pattern ''a/+''"
  by (simp add: plain_pattern_def special_def)

theorem matches_topic_covers_witness: "matches_topic ''a/bc'' ''a/+'' = Some True"
  using matches_topic_covers [OF plain_example, of "''a/bc''"] covers_example by simp

theorem matches_topic_levels_witness:
  "matches_topic (path [''upb'', ''x'', ''t'']) (path [''upb'', ''+'', ''t'']) = Some True"
  using matches_topic_levels [of "[''upb'', ''+'', ''t'']" "[''upb'', ''x'', ''t'']"]
  by (simp add: literal_level_def level_def special_def level_matches_def)

lemma matches_topic_star_example: "matches_topic ''upb/ec/t'' (''upb/'' @ ''*'' @ ''t'') = Some True"
  using matches_topic_star [of "''upb/''" "''t''" "''upb/ec/t''"]
  by (auto simp: special_def line_end_def intro: exI [of _ "''ec/''"])

section \<open>Datagrams\<close>

definition from0 :: sockaddr where "from0 = \<lparr>sin_port = 40000, sin_addr = [127, 0, 0, 1]\<rparr>"

definition junk0 :: string where "junk0 = replicate 16 (CHR ''x'')"

lemma sender0: "sin_port from0 < 2 ^ 16" "16 \<le> length junk0"
  by (simp_all add: from0_def junk0_def)

lemma name0: "name_ok ''a/bc''"
  by (simp add: name_ok_def NUL_def)

theorem reading_is_shown_witness:
  "delivered_line (encode_reading ''a/bc'' (Float_reading True 12 1)) from0 junk0 =
    Some (line_of from0 ''a/bc'' ''FLOAT - -1.2'')"
proof -
  have "reading_text (Float_reading True 12 1) = ''FLOAT - -1.2''"
    by (simp add: decimal_def pad_digits_def str_nat.simps digit_char_def char_of_small)
  with reading_is_shown [OF name0 _ sender0, of "Float_reading True 12 1"] show ?thesis by simp
qed

theorem float_datagram_loses_digits_witness:
  "delivered_line (float_payload ''a/bc'' 0 16777217 0) from0 junk0 =
    delivered_line (float_payload ''a/bc'' 0 16777216 0) from0 junk0"
  using float_datagram_loses_digits [OF name0 _ sender0, of 0] by simp

theorem expected_texts_are_shown_witness:
  "\<exists>l. delivered_line (int_payload ''a_non_negative_int'' 0 10) from0 junk0 = Some l \<and>
    contains ''a_non_negative_int - INT - 10'' l"
  using expected_texts_are_shown [OF sender0, of False]
  by (simp add: generate_topics_def plain_topics_def plain_datagrams_def mk_topic_def topic_print_def)

section \<open>The broker\<close>

definition alice :: subscriber where
  "alice = \<lparr>sub_fd = 5, sub_id = ''A'', sub_topics = [''x''], sub_online = True\<rparr>"
definition bob :: subscriber where
  "bob = \<lparr>sub_fd = 6, sub_id = ''B'', sub_topics = [], sub_online = False\<rparr>"

definition broker0 :: server where
  "broker0 = \<lparr>subs = [alice, bob], sv_fds = [0, 3, 4, 5], sv_fds_capacity = 64, sv_fds_room = 512,
     buff = replicate MAX_LEN NUL, stdout_text = [], sent = [], closed = []\<rparr>"

lemma broker0_inv: "broker_inv broker0" "has_room broker0"
  by (auto simp: broker_inv_def has_room_def broker0_def alice_def bob_def sizeof_pollfd_def
      intro: image_eqI [where x = alice])

lemma broker0_plain: "\<forall>s \<in> set (subs broker0). \<forall>p \<in> set (sub_topics s). plain_pattern p"
  by (simp add: broker0_def alice_def bob_def plain_pattern_def special_def)

lemma alice_in: "alice \<in> set (subs broker0)" "sub_online alice"
  by (simp_all add: broker0_def alice_def)

theorem subscriber_packet_refines_witness:
  "\<exists>st'. parse_tcp_client_message 5 (SUBSCRIBE_ACTION, ''a/+'' @ [NUL]) broker0 = Running st' \<and>
    registry st' ''A'' = Some ([''x'', ''a/+''], Some 5)"
  using subscriber_packet_refines [OF broker0_inv(1) alice_in, of "''a/+''"]
  by (auto simp: alice_def NUL_def header_size_def MAX_LEN_def)

lemma line0: "word_ok ''a/+''" by (simp add: word_ok_def NUL_def c_space_def)

theorem datagram_delivery_witness:
  "\<exists>st' n. step (Datagram_in (datagram ''x'' 1 [CHR 0x01, CHR 0x02]) from0 junk0) broker0 = Running st' \<and>
    sent st' = [(5, NOTIFICATION_ACTION, notification_bytes n)]"
proof -
  have "covers ''x'' ''x''" by (intro covers.Same covers.Nil) simp
  moreover have "name_ok ''x''" by (simp add: name_ok_def NUL_def)
  ultimately show ?thesis
    using datagram_delivery [of "''x''" 1 2 "[CHR 0x01, CHR 0x02]" broker0 from0 junk0] broker0_plain
    by (auto simp: payload_length_def) (auto simp: broker0_def alice_def bob_def)
qed

theorem connection_refines_witness:
  "\<exists>st'. step (Connecting 9 from0 (CONNECT_ACTION, ''B'' @ [NUL])) broker0 = Running st' \<and>
    registry st' ''B'' = Some ([], Some 9) \<and> sv_fds st' = [0, 3, 4, 5, 9]"
proof -
  have "registry broker0 ''B'' = Some ([], None)"
    by (simp add: registry_def view_def broker0_def alice_def bob_def)
  moreover have "sv_fds broker0 = [0, 3, 4, 5]" by (simp add: broker0_def)
  ultimately show ?thesis
    using connection_refines [OF broker0_inv, of "''B''" 9 from0] by (auto simp: NUL_def)
qed

theorem reused_descriptor_misroutes_witness:
  "\<exists>st'. run_server [Connecting 6 from0 (CONNECT_ACTION, ''C'' @ [NUL]),
      Clients_ready [(6, SUBSCRIBE_ACTION, ''y'' @ [NUL])]] broker0 = Running st' \<and>
    registry st' ''C'' = Some ([], Some 6) \<and> registry st' ''B'' = Some ([''y''], None)"
proof -
  have "bob \<in> set (subs broker0)" "\<not> sub_online bob" "sub_fd bob = 6" "6 \<notin> set (sv_fds broker0)"
    "registry broker0 ''C'' = None" "NUL \<notin> set ''C''" "length ''C'' \<le> 3" "NUL \<notin> set ''y''"
    "header_size + length ''y'' < MAX_LEN"
    by (simp_all add: header_size_def MAX_LEN_def broker0_def alice_def bob_def registry_def NUL_def)
  from reused_descriptor_misroutes [OF broker0_inv this, of from0] show ?thesis by (simp add: bob_def)
qed

section \<open>A full array\<close>

text \<open>Sixty-one subscribers with identifiers of one character.\<close>

definition member :: "nat \<Rightarrow> subscriber" where
  "member k = \<lparr>sub_fd = 5 + k, sub_id = [char_of (33 + k)], sub_topics = [], sub_online = True\<rparr>"

definition crowd_of :: "nat \<Rightarrow> server \<Rightarrow> bool" where
  "crowd_of n st \<longleftrightarrow> reachable st \<and> array_inv st \<and> subs st = map member [0..<n] \<and> sv_fds st = [0, 3, 4] @ [5..<5 + n]"

lemma char_id:
  fixes j k :: nat
  shows "j < 100 \<Longrightarrow> k < 100 \<Longrightarrow> (char_of (33 + j) :: char) = char_of (33 + k) \<longleftrightarrow> j = k"
proof
  assume "j < 100" "k < 100" "(char_of (33 + j) :: char) = char_of (33 + k)"
  then have "(of_char (char_of (33 + j) :: char) :: nat) = of_char (char_of (33 + k) :: char)" by simp
  with \<open>j < 100\<close> \<open>k < 100\<close> show "j = k" by simp
qed simp

lemma crowd_grows:
  assumes "crowd_of n st" and "n < 61"
  shows "\<exists>st'. crowd_of (Suc n) st'"
proof -
  let ?i = "[char_of (33 + n)] :: string" and ?e = "Connecting (5 + n) from0 (CONNECT_ACTION, [char_of (33 + n)] @ [NUL])"
  have st: "reachable st" "array_inv st" "subs st = map member [0..<n]" "sv_fds st = [0, 3, 4] @ [5..<5 + n]"
    using assms(1) by (simp_all add: crowd_of_def)
  have "has_room st"
    using st(2,4) assms(2) by (simp add: has_room_def array_inv_def BACKLOG_MAX_def sizeof_pollfd_def)
  moreover have "(char_of (33 + n) :: char) \<noteq> char_of (33 + k)" if "k < n" for k
    using that assms(2) char_id [of n k] by simp
  then have none: "List.find (\<lambda>s. sub_id s = ?i) (subs st) = None"
    unfolding find_None st(3) using assms(2) by (auto simp: member_def)
  moreover have "(of_char (char_of (33 + n) :: char) :: nat) \<noteq> of_char NUL"
    using assms(2) by (simp add: NUL_def)
  then have no: "NUL \<notin> set ?i" by (metis empty_iff list.set(1) set_ConsD)
  ultimately obtain st' where st': "step ?e st = Running st'"
    "subs st' = subs st @ [\<lparr>sub_fd = 5 + n, sub_id = ?i, sub_topics = [], sub_online = True\<rparr>]"
    "sv_fds st' = sv_fds st @ [5 + n]"
    using new_connection [of st ?i "5 + n" from0] by auto
  have "accept_ok ?e st" by (auto simp: accept_ok_def st(4))
  then have "reachable st'" by (rule reachable.step [OF st(1) _ st'(1)])
  moreover have "array_inv st'" by (rule array_step [OF st(2) st'(1)])
  moreover have "[5..<5 + Suc n] = [5..<5 + n] @ [5 + n]"
    using upt_Suc_append [of 5 "5 + n"] by (simp only: add_Suc_right)
  ultimately have "crowd_of (Suc n) st'" using st'(2,3) st(3,4) by (simp add: crowd_of_def member_def)
  then show ?thesis ..
qed

lemma crowd: "n \<le> 61 \<Longrightarrow> \<exists>st. crowd_of n st"
proof (induction n)
  case 0
  let ?st = "broker0\<lparr>subs := []\<rparr>"
  obtain st where st: "push_basic_fds 3 4 ?st = Running st" "subs st = []" "sv_fds st = [0, 3, 4]"
    by (simp add: push_basic_fds_def and_then_def add_new_pollfd_struc_def broker0_def BACKLOG_MAX_def
        sizeof_pollfd_def)
  have "reachable st" by (rule reachable.start [OF st(1)]) simp_all
  with st array_start [OF st(1)] show ?case by (auto simp: crowd_of_def)
next
  case (Suc n)
  then show ?case using crowd_grows by force
qed

lemma small_state: obtains st where "reachable st" and "sv_fds st = [0, 3, 4, 5]" and "subs st = [member 0]"
  using crowd [of 1] by (auto simp: crowd_of_def upt_rec)

theorem reachable_inv_witness:
  "\<exists>st. subs st = [member 0] \<and> database_inv st \<and> get_subscriber_by_fd 5 st \<noteq> None"
proof -
  obtain st where st: "reachable st" "sv_fds st = [0, 3, 4, 5]" "subs st = [member 0]" by (rule small_state)
  then show ?thesis using reachable_inv [OF st(1)] by auto
qed

theorem full_array_breaks_witness:
  "\<exists>st. reachable st \<and> length (sv_fds st) = 64 \<and>
    step (Connecting 99 from0 (CONNECT_ACTION, ''new'' @ [NUL])) st = Broken"
proof -
  obtain st where st: "reachable st" "subs st = map member [0..<61]" "sv_fds st = [0, 3, 4] @ [5..<5 + 61]"
    using crowd [of 61] by (auto simp: crowd_of_def)
  have said: "packet_text (CONNECT_ACTION, ''new'' @ [NUL]) = ''new''"
    by (simp add: packet_text_def cstr_def NUL_def)
  have "registry st ''new'' = None"
    by (auto simp: registry_def st(2) find_None member_def)
  moreover have "length (sv_fds st) = 64" by (simp add: st(3))
  ultimately show ?thesis
    using full_array_breaks [OF st(1), of "(CONNECT_ACTION, ''new'' @ [NUL])" 99 from0] st(1)
    unfolding said by auto
qed

section \<open>From the keyboard to the screen\<close>

definition client0 :: "string \<Rightarrow> client" where
  "client0 s = \<lparr>cl_in = s, cl_out = [], cl_err = [], cl_sent = [], cl_shutdown = True\<rparr>"

theorem subscribed_reading_is_shown_witness:
  "\<exists>c1 c2 b. client_step Typed (client0 (''subscribe '' @ ''a/+'' @ CHR 0x0A # [])) = Goes c1 \<and>
    cl_sent c1 = [(SUBSCRIBE_ACTION, ''a/+'' @ [NUL])] \<and>
    client_step (Arrived NOTIFICATION_ACTION b) c1 = Goes c2 \<and>
    cl_out c2 = cl_out c1 @ line_of from0 ''a/bc'' ''STRING - hello''"
proof -
  have c: "cl_in (client0 (''subscribe '' @ ''a/+'' @ CHR 0x0A # [])) = ''subscribe '' @ ''a/+'' @ CHR 0x0A # []"
    by (simp add: client0_def)
  have r: "reading_ok (String_reading ''hello'')" by (simp add: NUL_def)
  from subscribed_reading_is_shown [OF broker0_inv(1) alice_in broker0_plain line0 plain_example covers_example
      name0 r sender0 c]
  show ?thesis using type_subscribe [OF line0 c] by (auto simp: client0_def)
qed

theorem typed_line_effect_witness:
  "client_step Typed (client0 (''hello'' @ CHR 0x0A # ''exit'')) =
    Goes ((client0 ''exit'')\<lparr>cl_err := ''Wrong command format!'' @ newline\<rparr>)"
  using typed_line_effect [of "''hello''" "client0 (''hello'' @ CHR 0x0A # ''exit'')" "''exit''"]
  by (simp add: client0_def NUL_def startswith_def)

section \<open>Starting\<close>

text \<open>A system that numbers its sockets from three on and lets every call succeed.\<close>

definition sys0 :: sock_env where
  "sys0 h c = (case c of Socket s \<Rightarrow> if s then 3 else 4 | _ \<Rightarrow> 0)"

lemma port0: "atoi ''8080'' = Some 8080"
  by (simp add: atoi_def c_digits_def c_space_def Let_def)

theorem broker_program_states_witness:
  "\<exists>st. fst (broker_main sys0 [''8080''] [Connecting 5 from0 (CONNECT_ACTION, ''A'' @ [NUL])]) = Running st \<and>
    broker_inv st \<and> sv_fds st = [0, 3, 4, 5]"
proof -
  let ?e = "Connecting 5 from0 (CONNECT_ACTION, ''A'' @ [NUL])"
  let ?st = "\<lambda>tcp udp. booted\<lparr>sv_fds := [0, tcp, udp], sv_fds_capacity := BACKLOG_MAX,
    sv_fds_room := BACKLOG_MAX * sizeof_pollfd\<rparr>"
  have room: "has_room (?st tcp udp)" for tcp udp
    by (simp add: has_room_def BACKLOG_MAX_def sizeof_pollfd_def)
  have none: "List.find (\<lambda>s. sub_id s = ''A'') (subs (?st 3 4)) = None" by (simp add: booted_def)
  obtain st where st: "step ?e (?st 3 4) = Running st" "sv_fds st = [0, 3, 4, 5]"
    using new_connection [OF room none, of 5 from0] by (auto simp: NUL_def)
  from st(1) have st1: "step (Connecting 5 from0 (CONNECT_ACTION, [CHR ''A'', NUL])) (?st 3 4) = Running st" by simp
  have calls: "listening_calls 3 4 8080 = [Socket True, Set_option 3 Nodelay, Bind 3 \<lparr>sin_port = 8080, sin_addr = [0, 0, 0, 0]\<rparr>,
      Socket False, Set_option 4 Reuse_address, Bind 4 \<lparr>sin_port = 8080, sin_addr = [0, 0, 0, 0]\<rparr>, Listen 3 BACKLOG_MAX]"
    by (simp add: listening_calls_def BACKLOG_MAX_def Let_def)
  have main: "broker_main sys0 [''8080''] [?e] = (Running st, listening_calls 3 4 8080)"
    by (simp add: broker_main_def port0 create_sv_tcp_sock_def create_sv_udp_sock_def and_do_def call_or_die_def give_def
        sys0_def basic_fds st1 and_then_def calls get_basic_sock_addr_in_template_def INADDR_ANY_def)
  have "fst (broker_main sys0 [''8080''] []) = Running (?st 3 4)"
    by (simp add: broker_main_def port0 create_sv_tcp_sock_def create_sv_udp_sock_def and_do_def call_or_die_def give_def
        sys0_def basic_fds)
  moreover have "every_event fresh [?e] (?st 3 4)" "every_event accept_ok [?e] (?st 3 4)"
    using st by (simp_all add: fresh_def accept_ok_def booted_def)
  moreover have "new_descriptors sys0" by (simp add: new_descriptors_def sys0_def)
  ultimately have "broker_inv st" using broker_program_states [OF main] by blast
  with main st show ?thesis by simp
qed

theorem started_subscriber_is_registered_witness:
  "\<exists>q c1 st'. fst (subscriber_main sys0 (\<lambda>_. [127, 0, 0, 1]) [''B'', ''127.0.0.1'', ''8080''] [] (client0 [])) = Goes c1 \<and>
    cl_sent c1 = [q] \<and> step (Connecting 9 from0 q) broker0 = Running st' \<and>
    registry st' ''B'' = Some ([], Some 9)"
proof -
  have b: "registry broker0 ''B'' = Some ([], None)"
    by (simp add: registry_def view_def broker0_def alice_def bob_def)
  have sys: "\<forall>h c. 0 \<le> sys0 h c" by (simp add: sys0_def split: sock_call.split)
  have id: "NUL \<notin> set ''B''" "length ''B'' \<le> 3" by (simp_all add: NUL_def)
  from started_subscriber_is_registered [OF sys port0 id broker0_inv,
      of "\<lambda>_. [127, 0, 0, 1]" "''127.0.0.1''" "client0 []" 9 from0]
  show ?thesis by (auto simp: b client0_def)
qed

section \<open>Packets of a whole session\<close>


end
