(* ===== verification/Spec2Isabelle.thy ===== *)
theory Spec2Isabelle
  imports Udp_Examples Cli_Examples Checker_Examples Broker_Examples
begin

text \<open>
  A verification development for the message broker repository: a TCP/UDP broker in C++
  (\<open>server.cpp\<close>, \<open>common.cpp\<close>), its client (\<open>subscriber.cpp\<close>), the load generator
  \<open>pcom_hw2_udp_client/udp_client.py\<close> that sends it datagrams, and the checker \<open>test.py\<close> that builds
  the broker, runs it with subscribers and the load generator as child processes and judges their output.

  \<^bold>\<open>How the parts interact.\<close> The load generator decodes the payloads of a JSON file and sends each as
  a datagram: a topic name in fifty bytes, a type code, a value. The broker turns it into a
  notification and sends that in a packet to every subscriber online whose patterns cover the topic.
  A subscriber turns typed lines into packets for the broker and notifications into printed lines.
  The checker compares these lines with its topic tables.

  \<^bold>\<open>Conventions.\<close> A Python statement is a function from a state to an outcome and a state (\<open>py\<close> in
  \<open>Prelude\<close>): normal end, exception, or no return at all (\<open>None\<close>). Exceptions keep the effects
  made before them. Operating system, network, files and random source are arguments: records of
  functions, about which nothing is assumed but what a theorem states. A C++ function yields a
  value or state, the exit of the program, or \<open>Undefined\<close> / \<open>Broken\<close> / \<open>Client_broken\<close> where the
  code has undefined behaviour (an access outside an array or buffer, a null pointer, an
  uninitialised value), with one exception: the byte that \<open>parse_udp_packet\<close> writes behind the
  allocation of a string packet is taken to be in the space allocators round up to, or no string
  could be sent at all. What the network delivers (descriptors, packets, datagrams, the results of
  each \<open>recv\<close> and \<open>send\<close>) is the input of these functions.

  \<^bold>\<open>The load generator.\<close>
  \<^item> \<open>Prelude\<close>: statements, sequencing, loops, the judgements \<open>keeps\<close> and \<open>returns\<close>, the locale
    \<open>codec\<close>. \<open>Py_Str\<close>, \<open>Base64\<close>: the library functions on text that the programs use, and the
    decoder of the payloads; both give interpretations of \<open>codec\<close>.
  \<^item> \<open>Unpriv_Port\<close>: \<open>utils/unpriv_port.py\<close>.
  \<^item> \<open>Udp_Client\<close>: \<open>udp_client.py\<close> from the parsed arguments on; the locale \<open>datagram_client\<close> states
    what a mode of operation may do to the network and is interpreted on the three modes and on
    \<open>main\<close>. \<open>Udp_Modes\<close>: what each mode does. \<open>Samples\<close>: the two payload files of the checker and
    what they decode to. \<open>Udp_Props\<close>: the whole program, on any file and on the samples.
  \<^item> \<open>Json\<close>, \<open>Input_File\<close>: \<open>json.load\<close>, and files of messages. \<open>Cli\<close>: the parser that \<open>setup_parser\<close>
    declares, \<open>argparse\<close> on it, and the program from its argument list on. \<open>Cli_Props\<close>: the types of
    all parsed arguments, and that every setting can be written as a command line. \<open>Sample_Files\<close>:
    the texts of the payload files and the command the checker runs.

  \<^bold>\<open>The broker and its subscribers.\<close>
  \<^item> \<open>Packets\<close>: \<open>send_tcp_packet\<close> and \<open>recv_tcp_packet\<close> over calls that move any number of bytes.
  \<^item> \<open>Topic_Match\<close>: \<open>matches_topic\<close>, which rewrites a pattern into a regular expression, against the
    reference relation \<open>covers\<close>.
  \<^item> \<open>Notification\<close>, \<open>Delivery\<close>, \<open>Readings\<close>: from a datagram (\<open>parse_udp_packet\<close>) to the printed line
    (\<open>parse_notification\<close>), for every reading and for the checker's payloads.
  \<^item> \<open>Server\<close>: the database, the array of descriptors, every handler and one turn of the loop.
    \<open>Broker_Props\<close>: the invariant \<open>database_inv\<close> of all reachable states, the stronger \<open>broker_inv\<close>
    that holds while no descriptor is reused, and the abstract database
    \<open>registry\<close> (identifier to subscriptions and descriptor) on which the handlers are refined.
    \<open>Broker_Delivery\<close>: connections and datagrams, the limit of the array, reused descriptors.
  \<^item> \<open>Subscriber\<close>: every command and every packet of the server. \<open>Client_Packets\<close>: the locale
    \<open>packet_source\<close>, the contract between a client and the broker, interpreted on the subscriber.
    \<open>Startup\<close>: both \<open>main\<close> functions, from the arguments and the set-up of the sockets into the loops.
    \<open>End_To_End\<close>: a typed line, its packet, the database, a datagram and the line printed, composed.

  \<^bold>\<open>The checker.\<close>
  \<^item> \<open>Topics\<close>, \<open>Harness\<close>, \<open>Harness_Helpers\<close>, \<open>Harness_Tests\<close>, \<open>Wildcard_Tests\<close>: \<open>test.py\<close> in the
    order of the file: topic tables, result table, child processes, helpers, tests, driver.
    The locales \<open>checker_invariant\<close> and \<open>checker_files\<close> are the interface between a predicate on
    the checker's state and its statements.
  \<^item> \<open>Checker_Facts\<close>: every test keeps every such predicate and returns; the interpretations on the
    result table, on the mark of a test and on the files written. \<open>Checker_Props\<close>, \<open>Procfs_Props\<close>,
    \<open>Star_Wildcard\<close>: the properties of the checker. \<open>Checker_Delivery\<close>: a test of the checker on the
    lines of the broker's and the subscriber's models.

  \<open>Udp_Examples\<close>, \<open>Cli_Examples\<close>, \<open>Broker_Examples\<close>, \<open>Checker_Examples\<close> hold every property with
  hypotheses at a concrete input.

  \<^bold>\<open>Bounds, fuel, partiality.\<close> The loops of the modes \<open>manual\<close> and \<open>random\<close> are partial functions;
  the first is proved to return on every finite input, the second to return with a count and not
  to return without one. So are the loops of the packet transfer: \<open>recv_loop\<close> is proved not to
  return at the end of a connection, and to return on whole packets. The JSON parser recurses on
  fuel, two more than twice the length of the text, which is proved never to run out
  (\<open>json_loads_fuel\<close>). A plain read, a write to a pipe and a command of \<open>make\<close> may never return;
  every read of the checker is under an alarm, so the checker is proved to return when the other
  two do. Sizes of buffers and fields are those of \<open>common.h\<close> and \<open>strucs.h\<close>; numbers of datagrams
  and packet headers are kept at their width, with conversions written out.

  \<^bold>\<open>Assumptions on the environment.\<close> \<open>reachable\<close> takes the descriptor of a new connection to be
  one that is not open, as \<open>accept\<close> guarantees; \<open>fresh\<close> moreover excludes the descriptors of
  subscribers that have left, and what happens with these is \<open>reused_descriptor_misroutes\<close>. The
  kernel's parameter files are taken as documented (\<open>sysctl_file\<close>) where a theorem says so.
  Patterns are taken without special characters other than the wildcards and the dot where a
  theorem says \<open>plain_pattern\<close>; \<open>matches_topic\<close> gives \<open>None\<close> on others, whose regular expressions
  are outside the model.

  \<^bold>\<open>Not modelled.\<close> Signal races of the alarm in \<open>timeout\<close>, which \<open>os_readline_within\<close> takes as one
  atomic read; regular expressions with other special characters; failures of allocation; the
  messages of \<open>DIE\<close>; a \<open>send\<close> of the broker that blocks, fails or raises \<open>SIGPIPE\<close>, but for the
  loop of \<open>send_tcp_packet\<close> itself; waits too long for the clock (\<open>OverflowError\<close>, from about
  three centuries on). Of the load generator: what its modes do with an input file that is JSON
  but no list of objects of strings (\<open>Other_input\<close>; \<open>parse_args\<close> accepts it). Of the command line:
  the printed help and usage texts, the bare argument \<open>--\<close>, letters directly after \<open>-h\<close>, escapes
  above code point 255 in the input file, limits on recursion and on the digits of a number. The
  third payload file, which no program names, and the build rules.
\<close>

end
